(* ===== verification/Prelude.thy ===== *)
theory Prelude
  imports Complex_Main
begin

text \<open>
  Shared vocabulary of the development. The components of the guide are React function
  components written in TypeScript; their numbers are JavaScript numbers and their
  arrays JavaScript arrays. This theory fixes how the few JavaScript library functions
  the components call are read in HOL, and proves the facts about them that every
  component proof needs:
  \<^item> \<open>js_slice\<close> is \<open>Array.prototype.slice(start, end)\<close> with integer arguments,
    negative positions counting from the end, both ends clipped;
  \<^item> \<open>ceil_div n k\<close> is \<open>Math.ceil(n / k)\<close> for a length \<open>n\<close> and a positive page size;
  \<^item> \<open>random_index r n\<close> is \<open>Math.floor(Math.random() * n)\<close>, where the value of
    \<open>Math.random()\<close> is the parameter \<open>r\<close>, a real with \<open>0 \<le> r < 1\<close>;
  \<^item> \<open>js_at xs i\<close> is the element access \<open>xs[i]\<close>, \<open>None\<close> for \<open>undefined\<close> past the end;
  \<^item> \<open>js_split\<close>, \<open>js_join\<close>, \<open>js_replace\<close> and \<open>js_template\<close> are
    \<open>split\<close>, \<open>join\<close> and \<open>replace\<close> with literal arguments and the text of a template
    literal's \<open>${v}\<close>; splitting and joining at one separator is the identity;
  \<^item> \<open>js_blank s\<close> is \<open>!s.trim()\<close>: the string has only white space (the ASCII white
    space characters; strings are lists of 8-bit characters, non-ASCII text as its UTF-8
    bytes).
  JavaScript numbers that are page and list indices are modelled as \<open>int\<close>: the values
  involved are small integers, which a double represents exactly, and some of them can
  become negative (\<open>totalPages - 1\<close> with no pages).
\<close>

named_theorems handler_simps "equations of the UI event handlers of the components"
named_theorems js_simps "evaluation rules of the JavaScript library functions"

type_synonym js_index = int

definition js_slice :: "'a list \<Rightarrow> int \<Rightarrow> int \<Rightarrow> 'a list" where
  "js_slice xs s e =
     (let len = int (length xs);
          lo = (if s < 0 then max (len + s) 0 else min s len);
          hi = (if e < 0 then max (len + e) 0 else min e len)
      in take (nat (hi - lo)) (drop (nat lo) xs))"

text \<open>\<open>drop_at i xs\<close>: the list without its \<open>i\<close>-th element; the pending promises of a
  component once the \<open>i\<close>-th has settled.\<close>

definition drop_at :: "nat \<Rightarrow> 'a list \<Rightarrow> 'a list" where
  "drop_at i xs = take i xs @ drop (Suc i) xs"

definition ceil_div :: "nat \<Rightarrow> nat \<Rightarrow> nat" where
  "ceil_div n k = (n + k - 1) div k"

definition random_index :: "real \<Rightarrow> nat \<Rightarrow> int" where
  "random_index r n = \<lfloor>r * real n\<rfloor>"

definition is_random :: "real \<Rightarrow> bool" where
  "is_random r \<longleftrightarrow> 0 \<le> r \<and> r < 1"

text \<open>
  \<open>js_nat_string n\<close> is the decimal text JavaScript produces for a non-negative
  integer in a template literal (\<open>`${n}`\<close>); \<open>parse_nat_string\<close> reads such a
  text back, and is used only to prove that the rendering loses nothing.
\<close>

definition digit_char :: "nat \<Rightarrow> char" where
  "digit_char d = char_of (48 + d)"

fun js_nat_string :: "nat \<Rightarrow> string" where
  "js_nat_string n =
     (if n < 10 then [digit_char n] else js_nat_string (n div 10) @ [digit_char (n mod 10)])"

definition is_dec_digit :: "char \<Rightarrow> bool" where
  "is_dec_digit c \<longleftrightarrow> (48::nat) \<le> of_char c \<and> of_char c < (58::nat)"

definition digit_value :: "char \<Rightarrow> nat" where
  "digit_value c = of_char c - (48::nat)"

definition parse_nat_string :: "string \<Rightarrow> nat option" where
  "parse_nat_string s =
     (if s \<noteq> [] \<and> list_all is_dec_digit s
      then Some (foldl (\<lambda>acc c. 10 * acc + digit_value c) 0 s) else None)"

text \<open>The exceptions the components can raise: reading a property of \<open>undefined\<close> or
  \<open>null\<close> throws a \<open>TypeError\<close>.\<close>

datatype js_error = TypeError

definition js_at :: "'a list \<Rightarrow> nat \<Rightarrow> 'a option" where
  "js_at xs i = (if i < length xs then Some (xs ! i) else None)"

definition js_is_space :: "char \<Rightarrow> bool" where
  "js_is_space c = (c \<in> set [CHR 0x09, CHR 0x0A, CHR 0x0B, CHR 0x0C, CHR 0x0D, CHR 0x20])"

definition js_blank :: "string \<Rightarrow> bool" where
  "js_blank s = list_all js_is_space s"

text \<open>String methods with a literal argument: \<open>s.split(c)\<close> for a one-character separator,
  \<open>parts.join(c)\<close>, and \<open>s.replace(pat, rep)\<close>, which replaces the first occurrence
  only (an empty pattern occurs at the start). \<open>js_template v\<close> is the text of
  \<open>${v}\<close> for a string or \<open>undefined\<close>.\<close>

fun js_split :: "char \<Rightarrow> string \<Rightarrow> string list" where
  "js_split c [] = [[]]"
| "js_split c (x # xs) =
     (if x = c then [] # js_split c xs
      else (case js_split c xs of [] \<Rightarrow> [[x]] | w # ws \<Rightarrow> (x # w) # ws))"

fun js_join :: "char \<Rightarrow> string list \<Rightarrow> string" where
  "js_join c [] = []"
| "js_join c [w] = w"
| "js_join c (w # ws) = w @ c # js_join c ws"

fun js_replace :: "string \<Rightarrow> string \<Rightarrow> string \<Rightarrow> string" where
  "js_replace pat rep [] = (if pat = [] then rep else [])"
| "js_replace pat rep (x # xs) =
     (if take (length pat) (x # xs) = pat then rep @ drop (length pat) (x # xs)
      else x # js_replace pat rep xs)"

definition js_template :: "string option \<Rightarrow> string" where
  "js_template v = (case v of None \<Rightarrow> ''undefined'' | Some t \<Rightarrow> t)"

text \<open>\<open>s.length\<close> counts UTF-16 code units. Over the UTF-8 bytes of the model a
  continuation byte (\<open>10xxxxxx\<close>) counts nothing, the lead byte of a four-byte sequence
  (a character outside the basic plane, a surrogate pair in JavaScript) counts two, and
  every other byte one.\<close>

definition utf16_units :: "char \<Rightarrow> nat" where
  "utf16_units c =
     (if of_char c div 64 = (2::nat) then 0 else if 240 \<le> (of_char c :: nat) then 2 else 1)"

definition js_length :: "string \<Rightarrow> nat" where
  "js_length s = sum_list (map utf16_units s)"

text \<open>\<open>s.toLowerCase()\<close> on the ASCII letters. JavaScript also maps the letters
  outside ASCII, which the UTF-8 bytes of the model leave as they are; the names the model
  applies it to are ASCII.\<close>

definition js_lower_char :: "char \<Rightarrow> char" where
  "js_lower_char c = (let n = (of_char c :: nat) in if 65 \<le> n \<and> n \<le> 90 then char_of (n + 32) else c)"

definition js_lower :: "string \<Rightarrow> string" where
  "js_lower s = map js_lower_char s"

text \<open>\<open>s.replace\<close> with the global regular expression of white-space runs: every
  maximal run of white space is replaced by \<open>rep\<close>. White space is read as the ASCII white
  space of \<open>js_is_space\<close>; the strings the model applies it to are ASCII.\<close>

function js_replace_space_runs :: "string \<Rightarrow> string \<Rightarrow> string" where
  "js_replace_space_runs rep [] = []"
| "js_replace_space_runs rep (c # cs) =
     (if js_is_space c then rep @ js_replace_space_runs rep (dropWhile js_is_space cs)
      else c # js_replace_space_runs rep cs)"
  by pat_completeness auto
termination
  by (relation "measure (\<lambda>(_, s). length s)") (auto simp: le_imp_less_Suc length_dropWhile_le)

text \<open>A list item written \<open>\<bullet> {x}\<close> in the JSX: the bullet as its UTF-8 bytes, a
  space and the item.\<close>

abbreviation bullet_line :: "string \<Rightarrow> string" where
  "bullet_line x \<equiv> [CHR 0xE2, CHR 0x80, CHR 0xA2, CHR 0x20] @ x"

text \<open>The value of a hexadecimal literal such as \<open>0x0A\<close>, as the stat cards of the
  landing section display their numbers.\<close>

definition hex_digit_value :: "char \<Rightarrow> nat option" where
  "hex_digit_value c = (let n = (of_char c :: nat) in
     if 48 \<le> n \<and> n \<le> 57 then Some (n - 48)
     else if 97 \<le> n \<and> n \<le> 102 then Some (n - 87)
     else if 65 \<le> n \<and> n \<le> 70 then Some (n - 55) else None)"

fun hex_digits_value :: "nat \<Rightarrow> string \<Rightarrow> nat option" where
  "hex_digits_value a [] = Some a"
| "hex_digits_value a (c # cs) =
     (case hex_digit_value c of None \<Rightarrow> None | Some d \<Rightarrow> hex_digits_value (16 * a + d) cs)"

definition parse_hex :: "string \<Rightarrow> nat option" where
  "parse_hex s = (case s of
     c0 # c1 # ds \<Rightarrow> if c0 = CHR ''0'' \<and> c1 = CHR ''x'' \<and> ds \<noteq> [] then hex_digits_value 0 ds else None
   | _ \<Rightarrow> None)"

subsection \<open>Array slices\<close>

lemma js_slice_nonneg [js_simps]:
  assumes "0 \<le> s" and "s \<le> e"
  shows "js_slice xs s e = take (nat (e - s)) (drop (nat s) xs)"
proof (cases "int (length xs) \<le> s")
  case True
  then show ?thesis using assms by (simp add: js_slice_def)
next
  case False
  then have "take (nat (min e (int (length xs)) - s)) (drop (nat s) xs)
             = take (nat (e - s)) (drop (nat s) xs)"
    by (simp add: min_def nat_diff_distrib' take_all_iff)
  with False assms show ?thesis by (simp add: js_slice_def)
qed

lemma js_slice_length_le: "length (js_slice xs s e) \<le> length xs"
  by (simp add: js_slice_def Let_def min_le_iff_disj)

lemma js_slice_length_bound:
  assumes "s \<le> e"
  shows "length (js_slice xs s e) \<le> nat (e - s)"
  using assms by (auto simp: js_slice_def Let_def min_def max_def)

lemma js_slice_set: "set (js_slice xs s e) \<subseteq> set xs"
  by (auto simp: js_slice_def Let_def dest: in_set_takeD in_set_dropD)

lemma distinct_map_js_slice: "distinct (map f xs) \<Longrightarrow> distinct (map f (js_slice xs s e))"
  by (simp add: js_slice_def Let_def take_map [symmetric] drop_map [symmetric] distinct_take
                distinct_drop)

lemma js_slice_past_end [js_simps]:
  "int (length xs) \<le> s \<Longrightarrow> js_slice xs s e = []"
  by (simp add: js_slice_def Let_def)

lemma js_slice_empty_range [js_simps]:
  "0 \<le> e \<Longrightarrow> e \<le> s \<Longrightarrow> js_slice xs s e = []"
  by (auto simp: js_slice_def Let_def)

subsection \<open>Decimal rendering of naturals\<close>

declare js_nat_string.simps [simp del]

lemma digit_char_props:
  assumes "d < 10"
  shows "is_dec_digit (digit_char d)" and "digit_value (digit_char d) = d"
  using assms by (simp_all add: digit_char_def is_dec_digit_def digit_value_def)

lemma digit_char_values [js_simps]:
  "digit_char 0 = CHR ''0''" "digit_char 1 = CHR ''1''" "digit_char 2 = CHR ''2''"
  "digit_char 3 = CHR ''3''" "digit_char 4 = CHR ''4''" "digit_char 5 = CHR ''5''"
  "digit_char 6 = CHR ''6''" "digit_char 7 = CHR ''7''" "digit_char 8 = CHR ''8''"
  "digit_char 9 = CHR ''9''"
  by (simp_all add: digit_char_def) code_simp+

lemma js_nat_string_digits: "js_nat_string n \<noteq> [] \<and> list_all is_dec_digit (js_nat_string n)"
proof (induction n rule: js_nat_string.induct)
  case (1 n)
  then show ?case
    by (simp add: js_nat_string.simps [of n] digit_char_props)
qed

lemma js_nat_string_value:
  "foldl (\<lambda>acc c. 10 * acc + digit_value c) 0 (js_nat_string n) = n"
proof (induction n rule: js_nat_string.induct)
  case (1 n)
  then show ?case
    by (subst js_nat_string.simps) (simp add: digit_char_props)
qed

lemma parse_js_nat_string: "parse_nat_string (js_nat_string n) = Some n"
  using js_nat_string_digits [of n] js_nat_string_value [of n]
  by (simp add: parse_nat_string_def)

lemma js_nat_string_inj: "js_nat_string a = js_nat_string b \<longleftrightarrow> a = b"
  by (metis option.inject parse_js_nat_string)

lemma js_nat_string_no_char:
  "\<not> is_dec_digit c \<Longrightarrow> c \<notin> set (js_nat_string n)"
  using js_nat_string_digits [of n] by (auto simp: list_all_iff)

subsection \<open>Ceiling division\<close>

lemma ceil_div_covers:
  assumes "0 < k"
  shows "n \<le> ceil_div n k * k"
proof -
  let ?m = "n + k - 1"
  have "?m div k * k + ?m mod k = ?m" by (rule div_mult_mod_eq)
  moreover have "?m mod k < k" using assms by simp
  ultimately show ?thesis using assms unfolding ceil_div_def by linarith
qed

lemma ceil_div_tight:
  assumes "0 < k" and "p < ceil_div n k"
  shows "p * k < n"
proof -
  let ?m = "n + k - 1"
  from assms(2) have "Suc p * k \<le> ?m div k * k"
    by (simp add: ceil_div_def mult_le_mono1 del: mult_Suc)
  also have "\<dots> \<le> ?m" by (rule div_times_less_eq_dividend)
  finally show ?thesis using assms(1) by simp
qed

lemma ceil_div_above:
  assumes "0 < k" and "p * k < n"
  shows "p < ceil_div n k"
proof -
  from assms have "Suc p * k \<le> n + k - 1" by simp
  with assms(1) have "Suc p \<le> (n + k - 1) div k"
    by (simp only: less_eq_div_iff_mult_less_eq)
  then show ?thesis by (simp add: ceil_div_def)
qed

lemma ceil_div_zero_iff: "0 < k \<Longrightarrow> ceil_div n k = 0 \<longleftrightarrow> n = 0"
  by (auto simp: ceil_div_def Euclidean_Rings.div_eq_0_iff)

text \<open>\<open>ceil_div\<close> is the ceiling of the real quotient, as \<open>Math.ceil\<close> computes it.\<close>

lemma ceil_div_real:
  assumes k: "0 < k"
  shows "\<lceil>real n / real k\<rceil> = int (ceil_div n k)"
proof (cases "ceil_div n k")
  case 0
  with k have "n = 0" by (simp add: ceil_div_zero_iff)
  with 0 show ?thesis by simp
next
  case (Suc c)
  from k have up: "real n \<le> real (ceil_div n k) * real k"
    using ceil_div_covers [OF k, of n] by (simp flip: of_nat_mult)
  from k Suc have "c * k < n" by (intro ceil_div_tight) simp_all
  then have lo: "real c * real k < real n" by (simp flip: of_nat_mult)
  show ?thesis
  proof (rule ceiling_unique)
    show "real_of_int (int (ceil_div n k)) - 1 < real n / real k"
      using lo k Suc by (simp add: field_simps)
    show "real n / real k \<le> real_of_int (int (ceil_div n k))"
      using up k by (simp add: field_simps)
  qed
qed

subsection \<open>Random indices\<close>

lemma random_index_bounds:
  assumes "is_random r" and "0 < n"
  shows "0 \<le> random_index r n \<and> random_index r n < int n"
proof -
  from assms have "0 \<le> r * real n" and "r * real n < real n"
    by (auto simp: is_random_def)
  then show ?thesis by (simp add: random_index_def floor_less_iff)
qed

lemma random_index_zero [js_simps]: "random_index r 0 = 0"
  by (simp add: random_index_def)

lemma random_index_hits: "k < n \<Longrightarrow> random_index (real k / real n) n = int k"
  by (simp add: random_index_def)

lemma random_index_nonneg: "is_random r \<Longrightarrow> 0 \<le> random_index r n"
  by (simp add: random_index_def is_random_def)

subsection \<open>Pages of a list\<close>

text \<open>Consecutive pages of size \<open>k\<close> put back together give the list's prefix.\<close>

lemma concat_pages:
  "concat (map (\<lambda>p. take k (drop (p * k) xs)) [0..<m]) = take (m * k) xs"
proof (induction m)
  case 0
  then show ?case by simp
next
  case (Suc m)
  let ?f = "\<lambda>p. take k (drop (p * k) xs)"
  have "concat (map ?f [0..<Suc m]) = concat (map ?f [0..<m]) @ ?f m" by simp
  also have "\<dots> = take (m * k) xs @ take k (drop (m * k) xs)" using Suc.IH by simp
  also have "\<dots> = take (Suc m * k) xs" by (metis take_add mult_Suc add.commute)
  finally show ?case .
qed

text \<open>The first element of a page, when there is one.\<close>

lemma first_of_take_drop:
  "(case take k (drop n xs) of [] \<Rightarrow> None | e # _ \<Rightarrow> Some e)
   = (if 0 < k \<and> n < length xs then Some (xs ! n) else None)"
proof (cases "n < length xs")
  case True
  then have "drop n xs = xs ! n # drop (Suc n) xs" by (rule Cons_nth_drop_Suc [symmetric])
  then show ?thesis using True by (cases k) simp_all
next
  case False
  then show ?thesis by simp
qed

text \<open>In a list whose keys are distinct, a key occurs once or not at all.\<close>

lemma length_filter_distinct_key:
  "distinct (map f xs) \<Longrightarrow>
   length (filter (\<lambda>a. f a = q) xs) = (if q \<in> set (map f xs) then 1 else 0)"
  by (induction xs) auto

text \<open>\<open>Array.prototype.find\<close> returns an element of the array.\<close>

lemma find_Some_set: "find P xs = Some x \<Longrightarrow> x \<in> set xs"
  by (auto simp: find_Some_iff)

subsection \<open>Strings\<close>

lemma js_split_not_Nil: "js_split c s \<noteq> []"
  by (induction s) (auto split: list.splits)

lemma js_split_no_sep: "c \<notin> set u \<Longrightarrow> js_split c u = [u]"
  by (induction u) auto

lemma js_split_sep: "c \<notin> set u \<Longrightarrow> js_split c (u @ c # v) = u # js_split c v"
  by (induction u) auto

lemma js_split_pieces: "w \<in> set (js_split c s) \<Longrightarrow> c \<notin> set w"
proof (induction s arbitrary: w)
  case Nil
  then show ?case by simp
next
  case (Cons x xs)
  then show ?case by (auto split: if_splits list.splits)
qed

text \<open>Splitting and joining at the same separator is the identity.\<close>

lemma js_join_split: "js_join c (js_split c s) = s"
proof (induction s)
  case Nil
  then show ?case by simp
next
  case (Cons x xs)
  obtain w ws where sp: "js_split c xs = w # ws"
    using js_split_not_Nil by (cases "js_split c xs") auto
  show ?case
  proof (cases "x = c")
    case True
    with Cons sp show ?thesis by simp
  next
    case False
    with Cons sp show ?thesis by (cases ws) simp_all
  qed
qed

lemma js_replace_prefix: "js_replace pat rep (pat @ v) = rep @ v"
proof (cases "pat @ v")
  case Nil
  then show ?thesis by simp
next
  case (Cons x xs)
  then have "take (length pat) (x # xs) = pat" and "drop (length pat) (x # xs) = v"
    by (metis append_eq_conv_conj)+
  with Cons show ?thesis by simp
qed

text \<open>Text before the first character of the pattern is kept.\<close>

lemma js_replace_skip:
  "pat \<noteq> [] \<Longrightarrow> hd pat \<notin> set u \<Longrightarrow> js_replace pat rep (u @ w) = u @ js_replace pat rep w"
proof (induction u)
  case Nil
  then show ?case by simp
next
  case (Cons x u)
  then have "take (length pat) (x # u @ w) \<noteq> pat" by (cases pat) auto
  with Cons show ?case by simp
qed

text \<open>A value listed once in a list of distinct values is found once.\<close>

lemma js_replace_space_runs_no_space:
  "\<not> list_ex js_is_space rep \<Longrightarrow> \<not> list_ex js_is_space (js_replace_space_runs rep s)"
  by (induction rep s rule: js_replace_space_runs.induct) auto

lemma js_replace_space_runs_id:
  "\<not> list_ex js_is_space s \<Longrightarrow> js_replace_space_runs rep s = s"
  by (induction s) auto

lemma js_replace_space_runs_word:
  assumes "\<not> list_ex js_is_space u" and "js_is_space c"
  shows "js_replace_space_runs rep (u @ c # v) = u @ rep @ js_replace_space_runs rep (dropWhile js_is_space v)"
  using assms by (induction u) auto

lemma js_is_space_code: "js_is_space c \<Longrightarrow> of_char c \<in> {9, 10, 11, 12, 13, 32::nat}"
  by (auto simp: js_is_space_def)

lemma js_lower_char_space [simp]: "js_is_space (js_lower_char c) = js_is_space c"
proof (cases "65 \<le> (of_char c :: nat) \<and> (of_char c :: nat) \<le> 90")
  case True
  then have "of_char (js_lower_char c) = (of_char c + 32 :: nat)"
    by (simp add: js_lower_char_def)
  with True have "\<not> js_is_space (js_lower_char c)" and "\<not> js_is_space c"
    using js_is_space_code [of c] js_is_space_code [of "js_lower_char c"] by auto
  then show ?thesis by simp
next
  case False
  then show ?thesis by (auto simp: js_lower_char_def Let_def)
qed

lemma js_lower_space [simp]: "list_ex js_is_space (js_lower s) = list_ex js_is_space s"
  by (simp add: js_lower_def list_ex_iff)

lemma filter_eq_distinct: "distinct xs \<Longrightarrow> x \<in> set xs \<Longrightarrow> filter ((=) x) xs = [x]"
  by (induction xs) (auto intro: filter_False)

subsection \<open>Element access\<close>

lemma length_drop_at [simp]: "i < length xs \<Longrightarrow> length (drop_at i xs) = length xs - 1"
  by (simp add: drop_at_def)

lemma set_drop_at: "set (drop_at i xs) \<subseteq> set xs"
  by (auto simp: drop_at_def dest: in_set_takeD in_set_dropD)

text \<open>A list rendered with \<open>.map((x, index) => ...)\<close> and an element highlighted
  while \<open>index\<close> equals a state field: the labels are those of the elements, and exactly the
  one at that index is highlighted.\<close>

lemma highlighted_buttons:
  assumes "k < length xs"
  shows "map fst (filter snd (map (\<lambda>(j, x). (f j x, k = j)) (enumerate 0 xs))) = [f k (xs ! k)]"
proof -
  have "enumerate 0 xs = map (\<lambda>j. (j, xs ! j)) [0..<length xs]"
    using enumerate_map_upt [of 0 "(!) xs" "length xs"] by (simp add: map_nth)
  moreover have "filter ((=) k) [0..<length xs] = [k]"
    using assms by (intro filter_eq_distinct) simp_all
  ultimately show ?thesis
    by (simp add: filter_map comp_def)
qed

lemma button_titles: "map fst (map (\<lambda>(j, x). (f x, P j)) (enumerate n xs)) = map f xs"
  by (induction xs arbitrary: n) simp_all

lemma button_index_labels:
  "map fst (map (\<lambda>(j, x). (f j, P j)) (enumerate n xs)) = map f [n..<n + length xs]"
  by (induction xs arbitrary: n) (simp_all add: upt_conv_Cons del: upt_Suc)

lemma numbered_items:
  "map (\<lambda>(j, x). (f j, x)) (enumerate n xs) = zip (map f [n..<n + length xs]) xs"
  by (induction xs arbitrary: n) (simp_all add: upt_conv_Cons del: upt_Suc)

lemma in_map_filter: "x \<in> set (List.map_filter f xs) \<longleftrightarrow> (\<exists>y \<in> set xs. f y = Some x)"
  by (induction xs) (auto simp: map_filter_simps split: option.splits)

lemma js_at_None [simp]: "(js_at xs i = None) = (length xs \<le> i)"
  by (simp add: js_at_def)

lemma js_at_Some: "js_at xs i = Some x \<Longrightarrow> i < length xs \<and> x = xs ! i"
  by (simp add: js_at_def split: if_splits)

end
