(* ===== verification/Router.thy ===== *)
theory Router
  imports Prelude
begin

text \<open>
  The view router of the application (\<open>src/src/App.tsx\<close>, function \<open>App\<close>) with the
  sidebar that drives it (\<open>src/src/components/Sidebar.tsx\<close>), the two callbacks the hero
  section receives (\<open>src/src/components/Hero.tsx\<close>) and the unmounted top bar
  \<open>src/src/components/Navigation.tsx\<close>. The state of \<open>App\<close> is the string
  \<open>activeSection\<close> and the flag \<open>sidebarCollapsed\<close>; the sidebar's own state is
  \<open>internalCollapsed\<close>. The window's scroll offset is kept beside them because the
  effect of \<open>App\<close> on \<open>[activeSection]\<close> writes it: the effect runs after a render in
  which \<open>activeSection\<close> changed, and only then.
\<close>

subsection \<open>Sidebar items and the rendered view\<close>

record nav_item =
  navId :: string
  navLabel :: string
  navDescription :: string

definition navItems :: "nav_item list" where
  "navItems = [
     \<lparr>navId = ''hero'', navLabel = ''Home'', navDescription = ''Welcome & Overview''\<rparr>,
     \<lparr>navId = ''executive-summary'', navLabel = ''Summary'', navDescription = ''Key Insights''\<rparr>,
     \<lparr>navId = ''introduction'', navLabel = ''Introduction'', navDescription = ''Why It Matters''\<rparr>,
     \<lparr>navId = ''fundamentals'', navLabel = ''Fundamentals'', navDescription = ''Core Principles''\<rparr>,
     \<lparr>navId = ''prompting-methods'', navLabel = ''Methods'', navDescription = ''Advanced Techniques''\<rparr>,
     \<lparr>navId = ''psychological-framing'', navLabel = ''Psychology'',
      navDescription = ''Psychological Techniques''\<rparr>,
     \<lparr>navId = ''task-specific'', navLabel = ''Tasks'', navDescription = ''Practical Applications''\<rparr>,
     \<lparr>navId = ''evaluation'', navLabel = ''Evaluation'', navDescription = ''Testing & Metrics''\<rparr>,
     \<lparr>navId = ''tools'', navLabel = ''Tools'', navDescription = ''Frameworks & Platforms''\<rparr>,
     \<lparr>navId = ''examples'', navLabel = ''Examples'', navDescription = ''Real-world Examples''\<rparr>,
     \<lparr>navId = ''takeaway-template'', navLabel = ''Template'', navDescription = ''Chatbot Template''\<rparr>]"

datatype section_view =
    HeroView | ExecutiveSummaryView | IntroductionView | FundamentalsView
  | PromptingMethodsView | PsychologicalFramingView | TaskSpecificView | EvaluationView
  | ToolsView | ExamplesView | TakeawayTemplateView

text \<open>The \<open>switch\<close> of \<open>renderContent\<close>: strict comparisons in order, \<open>default\<close> the hero.\<close>

definition renderContent :: "string \<Rightarrow> section_view" where
  "renderContent a =
     (if a = ''hero'' then HeroView
      else if a = ''executive-summary'' then ExecutiveSummaryView
      else if a = ''introduction'' then IntroductionView
      else if a = ''fundamentals'' then FundamentalsView
      else if a = ''prompting-methods'' then PromptingMethodsView
      else if a = ''psychological-framing'' then PsychologicalFramingView
      else if a = ''task-specific'' then TaskSpecificView
      else if a = ''evaluation'' then EvaluationView
      else if a = ''tools'' then ToolsView
      else if a = ''examples'' then ExamplesView
      else if a = ''takeaway-template'' then TakeawayTemplateView
      else HeroView)"

text \<open>The items the sidebar highlights: those with \<open>activeSection === item.id\<close>.\<close>

definition sidebar_active :: "string \<Rightarrow> nav_item list" where
  "sidebar_active a = filter (\<lambda>i. navId i = a) navItems"

text \<open>The section ids of the two button pairs of the introduction (results panel and call to
  action; exactly one of the two pairs is rendered, and both name the same sections).\<close>

definition intro_nav_targets :: "string list" where
  "intro_nav_targets = [''fundamentals'', ''prompting-methods'']"

subsection \<open>The sidebar's collapse state\<close>

record sidebar_state =
  internalCollapsed :: bool

definition sidebar_init :: sidebar_state where
  "sidebar_init = \<lparr>internalCollapsed = False\<rparr>"

text \<open>\<open>collapsed = onToggleCollapse ? isCollapsed : internalCollapsed\<close>; the flag
  \<open>hasToggle\<close> says whether the parent passed \<open>onToggleCollapse\<close>.\<close>

definition sidebar_collapsed :: "bool \<Rightarrow> bool \<Rightarrow> sidebar_state \<Rightarrow> bool" where
  "sidebar_collapsed hasToggle isCollapsed st =
     (if hasToggle then isCollapsed else internalCollapsed st)"

text \<open>The toggle button calls \<open>toggleCollapsed(!collapsed)\<close>, where \<open>toggleCollapsed\<close> is
  the parent's callback when there is one (its argument is returned as \<open>Some\<close>) and
  \<open>setInternalCollapsed\<close> otherwise.\<close>

definition sidebar_toggle_click ::
  "bool \<Rightarrow> bool \<Rightarrow> sidebar_state \<Rightarrow> bool option \<times> sidebar_state" where
  "sidebar_toggle_click hasToggle isCollapsed st =
     (let v = \<not> sidebar_collapsed hasToggle isCollapsed st
      in if hasToggle then (Some v, st) else (None, st\<lparr>internalCollapsed := v\<rparr>))"

subsection \<open>The application state and its events\<close>

record app_state =
  activeSection :: string
  sidebarCollapsed :: bool
  sidebar :: sidebar_state
  scrollY :: nat

definition app_init :: app_state where
  "app_init = \<lparr>activeSection = ''hero'', sidebarCollapsed = False, sidebar = sidebar_init,
               scrollY = 0\<rparr>"

definition handleResize :: "nat \<Rightarrow> app_state \<Rightarrow> app_state" where
  "handleResize innerWidth s =
     (if innerWidth < 1024 then s\<lparr>sidebarCollapsed := True\<rparr>
      else s\<lparr>sidebarCollapsed := False\<rparr>)"

definition setActiveSection :: "string \<Rightarrow> app_state \<Rightarrow> app_state" where
  "setActiveSection a s = s\<lparr>activeSection := a\<rparr>"

datatype app_event =
    SidebarClick string | SidebarToggle | Resize nat | UserScroll nat
  | GetStarted | ExploreMethod | IntroNavigate string

text \<open>What the rendered page offers: a button per sidebar item, the toggle, the hero's two
  buttons while the hero is rendered, the introduction's two targets while it is rendered.
  \<open>Resize\<close> also stands for the call \<open>handleResize()\<close> of the mount effect.\<close>

fun app_enabled :: "app_state \<Rightarrow> app_event \<Rightarrow> bool" where
  "app_enabled s (SidebarClick i) = (i \<in> set (map navId navItems))"
| "app_enabled s SidebarToggle = True"
| "app_enabled s (Resize w) = True"
| "app_enabled s (UserScroll y) = True"
| "app_enabled s GetStarted = (renderContent (activeSection s) = HeroView)"
| "app_enabled s ExploreMethod = (renderContent (activeSection s) = HeroView)"
| "app_enabled s (IntroNavigate t) =
     (renderContent (activeSection s) = IntroductionView \<and> t \<in> set intro_nav_targets)"

fun app_handle :: "app_event \<Rightarrow> app_state \<Rightarrow> app_state" where
  "app_handle (SidebarClick i) s = setActiveSection i s"
| "app_handle SidebarToggle s =
     (case sidebar_toggle_click True (sidebarCollapsed s) (sidebar s) of
        (Some v, st) \<Rightarrow> s\<lparr>sidebarCollapsed := v, sidebar := st\<rparr>
      | (None, st) \<Rightarrow> s\<lparr>sidebar := st\<rparr>)"
| "app_handle (Resize w) s = handleResize w s"
| "app_handle (UserScroll y) s = s\<lparr>scrollY := y\<rparr>"
| "app_handle GetStarted s = setActiveSection ''executive-summary'' s"
| "app_handle ExploreMethod s = setActiveSection ''prompting-methods'' s"
| "app_handle (IntroNavigate t) s = setActiveSection t s"

text \<open>One event: the handler, then the effect on \<open>[activeSection]\<close>, which runs only when
  the committed value differs from the previous one (React compares with \<open>Object.is\<close>,
  which on strings is equality).\<close>

definition app_step :: "app_event \<Rightarrow> app_state \<Rightarrow> app_state" where
  "app_step ev s =
     (let s' = app_handle ev s
      in if activeSection s' \<noteq> activeSection s then s'\<lparr>scrollY := 0\<rparr> else s')"

inductive app_reachable :: "app_state \<Rightarrow> bool" where
  init: "app_reachable app_init"
| step: "app_reachable s \<Longrightarrow> app_enabled s ev \<Longrightarrow> app_reachable (app_step ev s)"

subsection \<open>The unmounted top bar\<close>

record navigation_state =
  isMenuOpen :: bool
  isScrolled :: bool

definition navigation_init :: navigation_state where
  "navigation_init = \<lparr>isMenuOpen = False, isScrolled = False\<rparr>"

definition navSections :: "(string \<times> string) list" where
  "navSections = [(''hero'', ''Home''), (''executive-summary'', ''Summary''),
     (''introduction'', ''Introduction''), (''fundamentals'', ''Fundamentals''),
     (''prompting-methods'', ''Methods''), (''task-specific'', ''Tasks''),
     (''evaluation'', ''Evaluation''), (''tools'', ''Tools''), (''takeaway-template'', ''Template'')]"

definition navigation_handleScroll :: "nat \<Rightarrow> navigation_state \<Rightarrow> navigation_state" where
  "navigation_handleScroll y st = st\<lparr>isScrolled := 50 < y\<rparr>"

text \<open>\<open>handleSectionClick\<close>: the id passed to \<open>onSectionClick\<close>, and the menu closed.\<close>

definition navigation_handleSectionClick ::
  "string \<Rightarrow> navigation_state \<Rightarrow> string \<times> navigation_state" where
  "navigation_handleSectionClick sid st = (sid, st\<lparr>isMenuOpen := False\<rparr>)"

definition navigation_toggleMenu :: "navigation_state \<Rightarrow> navigation_state" where
  "navigation_toggleMenu st = st\<lparr>isMenuOpen := \<not> isMenuOpen st\<rparr>"

subsection \<open>Lemmas\<close>

lemma nav_ids: "map navId navItems =
  [''hero'', ''executive-summary'', ''introduction'', ''fundamentals'', ''prompting-methods'',
   ''psychological-framing'', ''task-specific'', ''evaluation'', ''tools'', ''examples'',
   ''takeaway-template'']"
  by (simp add: navItems_def)

lemma distinct_nav_ids: "distinct (map navId navItems)"
  by (simp add: nav_ids)

lemma intro_targets_listed: "set intro_nav_targets \<subseteq> set (map navId navItems)"
  by (simp add: nav_ids intro_nav_targets_def)

lemma activeSection_app_step [simp]:
  "activeSection (app_step ev s) = activeSection (app_handle ev s)"
  by (simp add: app_step_def Let_def)

lemma app_handle_section:
  assumes "app_enabled s ev"
  shows "activeSection (app_handle ev s) = activeSection s
         \<or> activeSection (app_handle ev s) \<in> set (map navId navItems)"
proof (cases ev)
  case (IntroNavigate t)
  then have "t \<in> set intro_nav_targets" using assms by simp
  then show ?thesis
    using IntroNavigate intro_targets_listed by (auto simp: setActiveSection_def)
qed (use assms in \<open>simp_all add: setActiveSection_def handleResize_def
       sidebar_toggle_click_def sidebar_collapsed_def nav_ids\<close>)

lemma app_reachable_section: "app_reachable s \<Longrightarrow> activeSection s \<in> set (map navId navItems)"
proof (induction rule: app_reachable.induct)
  case init
  then show ?case by (simp add: app_init_def nav_ids)
next
  case (step s ev)
  then show ?case using app_handle_section [of s ev] by auto
qed

lemma app_reachable_click:
  assumes "i \<in> set (map navId navItems)"
  shows "app_reachable (app_step (SidebarClick i) app_init)"
  using app_reachable.step [OF app_reachable.init, of "SidebarClick i"] assms by simp


lemma sidebar_active_length:
  "length (sidebar_active a) = (if a \<in> set (map navId navItems) then 1 else 0)"
  unfolding sidebar_active_def using length_filter_distinct_key [OF distinct_nav_ids] .

lemma app_step_click_section [simp]:
  "activeSection (app_step (SidebarClick i) s) = i"
  by (simp add: setActiveSection_def)

subsection \<open>Properties\<close>

text \<open>In every reachable state exactly one sidebar item is highlighted.\<close>

lemma reachable_one_highlighted:
  "app_reachable s \<Longrightarrow> length (sidebar_active (activeSection s)) = 1"
  using app_reachable_section sidebar_active_length by simp

text \<open>The sections the router can reach are exactly the ids of the sidebar items, and in
  every reachable state exactly one sidebar item is highlighted.\<close>

lemma reachable_sections_exact:
  "{activeSection s |s. app_reachable s} = set (map navId navItems) \<and>
   (\<forall>s. app_reachable s \<longrightarrow> length (sidebar_active (activeSection s)) = 1)"
proof (intro conjI allI impI)
  show "{activeSection s |s. app_reachable s} = set (map navId navItems)"
  proof
    show "{activeSection s |s. app_reachable s} \<subseteq> set (map navId navItems)"
      using app_reachable_section by blast
    show "set (map navId navItems) \<subseteq> {activeSection s |s. app_reachable s}"
    proof
      fix i assume "i \<in> set (map navId navItems)"
      then have "app_reachable (app_step (SidebarClick i) app_init)" by (rule app_reachable_click)
      moreover have "activeSection (app_step (SidebarClick i) app_init) = i"
        by (rule app_step_click_section)
      ultimately show "i \<in> {activeSection s |s. app_reachable s}"
        unfolding mem_Collect_eq by metis
    qed
  qed
  fix s assume "app_reachable s"
  then show "length (sidebar_active (activeSection s)) = 1" by (rule reachable_one_highlighted)
qed

lemma reachable_sections_exact_example:
  "app_reachable (app_step (SidebarClick ''examples'') app_init)
   \<and> length (sidebar_active (activeSection (app_step (SidebarClick ''examples'') app_init))) = 1"
proof -
  have r: "app_reachable (app_step (SidebarClick ''examples'') app_init)"
    by (rule app_reachable_click) (simp add: nav_ids)
  show ?thesis using reachable_sections_exact r by blast
qed

text \<open>In a reachable state the hero is rendered only for the section hero: the default branch
  of renderContent is never taken.\<close>

lemma render_default_unreachable:
  "app_reachable s \<Longrightarrow> (renderContent (activeSection s) = HeroView) = (activeSection s = ''hero'')"
  using app_reachable_section [of s] by (auto simp: nav_ids renderContent_def)

lemma render_default_unreachable_example:
  "app_reachable (app_step GetStarted app_init)
   \<and> (renderContent (activeSection (app_step GetStarted app_init)) = HeroView)
      = (activeSection (app_step GetStarted app_init) = ''hero'')"
proof -
  have r: "app_reachable (app_step GetStarted app_init)"
    using app_reachable.step [OF app_reachable.init, of GetStarted]
    by (simp add: app_init_def renderContent_def)
  show ?thesis using render_default_unreachable [OF r] r by simp
qed

text \<open>Each of the eleven sidebar items renders a different section component.\<close>

lemma sidebar_views_distinct:
  "length navItems = 11 \<and> distinct (map (\<lambda>i. renderContent (navId i)) navItems)"
  by (simp add: navItems_def renderContent_def)

text \<open>Clicking the item of the section already shown does not scroll back to the top:
  the effect on activeSection runs only when the section changes.\<close>

lemma same_section_keeps_scroll:
  "scrollY (app_step (SidebarClick (activeSection s)) s) = scrollY s"
  by (simp add: app_step_def setActiveSection_def)

text \<open>The top bar of Navigation.tsx lists every sidebar section but two.\<close>

lemma navigation_missing_sections:
  "set (map fst navSections) \<subseteq> set (map navId navItems)
   \<and> set (map navId navItems) - set (map fst navSections) = {''psychological-framing'', ''examples''}"
  by (simp add: nav_ids navSections_def) auto

end
