(* ===== verification/Registry.thy ===== *)
theory Registry
  imports Prelude
begin

text \<open>
  The content registry of the examples page (\<open>src/src/components/Examples.tsx\<close>,
  function \<open>Examples\<close>): the constant array \<open>exampleCategories\<close> of categories, each
  with its examples, the array \<open>allMethods\<close> of method names the guessing game offers as
  answers, and \<open>allExamples\<close>, the registry flattened with \<open>flatMap\<close> into one list in
  which every example carries its category title, the category's accent and a key
  \<open>`${categoryIndex}-${exampleIndex}`\<close>.

  Of each example the model keeps the fields the program computes with: \<open>name\<close>,
  \<open>methodUsed\<close> (the answer of the guessing game) and \<open>psychologyUsed\<close>. The long
  display texts (\<open>prompt\<close>, \<open>output\<close>, \<open>notes\<close>, \<open>analysisDetails\<close>) and the
  category descriptions are only rendered, never compared or computed with, and are left
  out.
\<close>

record example =
  name :: string
  methodUsed :: string
  psychologyUsed :: string

record example_category =
  title :: string
  accent :: string
  examples :: "example list"

record flat_example =
  base :: example
  category :: string
  categoryAccent :: string
  key :: string

definition example_key :: "nat \<Rightarrow> nat \<Rightarrow> string" where
  "example_key categoryIndex exampleIndex =
     js_nat_string categoryIndex @ ''-'' @ js_nat_string exampleIndex"

definition flatten_row :: "nat \<Rightarrow> example_category \<Rightarrow> flat_example list" where
  "flatten_row categoryIndex c =
     map (\<lambda>(exampleIndex, e).
            \<lparr>base = e, category = title c, categoryAccent = accent c,
             key = example_key categoryIndex exampleIndex\<rparr>)
         (enumerate 0 (examples c))"

definition flatten_examples :: "example_category list \<Rightarrow> flat_example list" where
  "flatten_examples cats = concat (map (\<lambda>(ci, c). flatten_row ci c) (enumerate 0 cats))"

definition classification_examples :: example_category where
  "classification_examples =
    \<lparr>title = ''classification_examples'', accent = ''text-cyan-400'',
     examples = [
       \<lparr>name = ''sentiment_analysis'',
        methodUsed = ''Zero-Shot Prompting'',
        psychologyUsed = ''Structured Output Framing''\<rparr>,
       \<lparr>name = ''email_categorization'',
        methodUsed = ''Zero-Shot Prompting'',
        psychologyUsed = ''Authority & Expertise Framing''\<rparr>,
       \<lparr>name = ''resume_screening'',
        methodUsed = ''Few-Shot Prompting'',
        psychologyUsed = ''Pattern Recognition & Anchoring''\<rparr>,
       \<lparr>name = ''content_moderation'',
        methodUsed = ''Chain-of-Thought Prompting'',
        psychologyUsed = ''Systematic Analysis & Transparency''\<rparr>]\<rparr>"

definition data_extraction_examples :: example_category where
  "data_extraction_examples =
    \<lparr>title = ''data_extraction_examples'', accent = ''text-green-400'',
     examples = [
       \<lparr>name = ''job_posting_extraction'',
        methodUsed = ''Few-Shot Prompting'',
        psychologyUsed = ''Pattern Recognition & Anchoring''\<rparr>,
       \<lparr>name = ''contact_info_extraction'',
        methodUsed = ''Few-Shot Prompting'',
        psychologyUsed = ''Structured Thinking & Completeness Framing''\<rparr>,
       \<lparr>name = ''invoice_parsing'',
        methodUsed = ''Self-Consistency Prompting'',
        psychologyUsed = ''Validation & Confidence Building''\<rparr>,
       \<lparr>name = ''medical_record_extraction'',
        methodUsed = ''Chain-of-Thought Prompting'',
        psychologyUsed = ''Medical Precision & Completeness''\<rparr>]\<rparr>"

definition reasoning_examples :: example_category where
  "reasoning_examples =
    \<lparr>title = ''reasoning_examples'', accent = ''text-blue-400'',
     examples = [
       \<lparr>name = ''math_word_problem'',
        methodUsed = ''Chain-of-Thought Prompting'',
        psychologyUsed = ''Sequential Processing & Verification''\<rparr>,
       \<lparr>name = ''logical_reasoning'',
        methodUsed = ''Chain-of-Thought Prompting'',
        psychologyUsed = ''Systematic Analysis & Logical Framing''\<rparr>,
       \<lparr>name = ''business_decision_analysis'',
        methodUsed = ''Tree-of-Thoughts Prompting'',
        psychologyUsed = ''Strategic Planning & Risk Assessment''\<rparr>,
       \<lparr>name = ''debugging_systematic_approach'',
        methodUsed = ''Self-Consistency Prompting'',
        psychologyUsed = ''Engineering Rigor & Validation''\<rparr>]\<rparr>"

definition creative_examples :: example_category where
  "creative_examples =
    \<lparr>title = ''creative_examples'', accent = ''text-purple-400'',
     examples = [
       \<lparr>name = ''product_description'',
        methodUsed = ''Role & Persona Prompting'',
        psychologyUsed = ''Audience Adaptation & Emotional Appeal''\<rparr>,
       \<lparr>name = ''social_media_campaign'',
        methodUsed = ''Tree-of-Thoughts Prompting'',
        psychologyUsed = ''Creative Exploration & Strategic Thinking''\<rparr>,
       \<lparr>name = ''brand_story_development'',
        methodUsed = ''ReAct (Reasoning + Acting)'',
        psychologyUsed = ''Authentic Storytelling & Emotional Connection''\<rparr>,
       \<lparr>name = ''video_script_writing'',
        methodUsed = ''Meta-Prompting'',
        psychologyUsed = ''Performance Optimization & Emotional Hooks''\<rparr>]\<rparr>"

definition conversational_examples :: example_category where
  "conversational_examples =
    \<lparr>title = ''conversational_examples'', accent = ''text-yellow-400'',
     examples = [
       \<lparr>name = ''customer_service_bot'',
        methodUsed = ''Role & Persona Prompting'',
        psychologyUsed = ''Empathy & Solution-Oriented Framing''\<rparr>,
       \<lparr>name = ''sales_qualification_bot'',
        methodUsed = ''Chain-of-Thought Prompting'',
        psychologyUsed = ''Systematic Sales Process & Trust Building''\<rparr>,
       \<lparr>name = ''technical_support_chatbot'',
        methodUsed = ''Tree-of-Thoughts Prompting'',
        psychologyUsed = ''Technical Problem-Solving & User Confidence''\<rparr>,
       \<lparr>name = ''onboarding_chatbot'',
        methodUsed = ''Few-Shot Prompting'',
        psychologyUsed = ''Personalization & User Comfort''\<rparr>]\<rparr>"

definition analysis_examples :: example_category where
  "analysis_examples =
    \<lparr>title = ''analysis_examples'', accent = ''text-red-400'',
     examples = [
       \<lparr>name = ''market_research_analysis'',
        methodUsed = ''Self-Consistency Prompting'',
        psychologyUsed = ''Data Validation & Confidence Building''\<rparr>,
       \<lparr>name = ''competitive_analysis_framework'',
        methodUsed = ''ReAct (Reasoning + Acting)'',
        psychologyUsed = ''Strategic Intelligence & Positioning''\<rparr>]\<rparr>"

definition exampleCategories :: "example_category list" where
  "exampleCategories =
     [classification_examples, data_extraction_examples, reasoning_examples,
      creative_examples, conversational_examples, analysis_examples]"

definition allMethods :: "string list" where
  "allMethods = [
    ''Zero-Shot Prompting'',
    ''Few-Shot Prompting'',
    ''Chain-of-Thought Prompting'',
    ''Self-Consistency Prompting'',
    ''Meta-Prompting'',
    ''Tree-of-Thoughts Prompting'',
    ''ReAct (Reasoning + Acting)'']"

definition allExamples :: "flat_example list" where
  "allExamples = flatten_examples exampleCategories"

text \<open>
  Decoding a key: the inverse of \<open>example_key\<close>, used to show that keys are unique.
  The code never parses keys; it uses them as React keys and as property names of the
  \<open>revealedAnalysis\<close> object, where two examples with one key would share a toggle.
\<close>

definition parse_example_key :: "string \<Rightarrow> (nat \<times> nat) option" where
  "parse_example_key s =
     (case (parse_nat_string (takeWhile (\<lambda>c. c \<noteq> CHR ''-'') s),
            parse_nat_string (tl (dropWhile (\<lambda>c. c \<noteq> CHR ''-'') s))) of
        (Some a, Some b) \<Rightarrow> Some (a, b)
      | _ \<Rightarrow> None)"

subsection \<open>The flattened registry\<close>

lemma flatten_row_bases: "map base (flatten_row ci c) = examples c"
proof -
  have "map base (flatten_row ci c) = map snd (enumerate 0 (examples c))"
    by (simp add: flatten_row_def case_prod_beta comp_def)
  then show ?thesis by (simp add: enumerate_eq_zip)
qed

lemma flatten_row_keys:
  "map key (flatten_row ci c) = map (example_key ci) [0..<length (examples c)]"
proof -
  let ?z = "zip [0..<length (examples c)] (examples c)"
  have "map key (flatten_row ci c) = map (\<lambda>p. example_key ci (fst p)) ?z"
    by (simp add: flatten_row_def enumerate_eq_zip case_prod_beta)
  also have "\<dots> = map (example_key ci) (map fst ?z)"
    by (simp only: map_map comp_def)
  finally show ?thesis by simp
qed

lemma flatten_row_category: "fx \<in> set (flatten_row ci c) \<Longrightarrow> category fx = title c"
  by (auto simp: flatten_row_def)

text \<open>
  The flattening keeps the registry's order: categories in their order, examples in
  their order within a category. This order is the tie-break of every later view.
\<close>

lemma flatten_examples_bases:
  "map base (flatten_examples cats) = concat (map examples cats)"
proof -
  have "map base (flatten_examples cats)
        = concat (map (\<lambda>p. examples (snd p)) (enumerate 0 cats))"
    by (simp add: flatten_examples_def map_concat case_prod_beta flatten_row_bases comp_def)
  also have "\<dots> = concat (map examples (map snd (enumerate 0 cats)))"
    by (simp only: map_map comp_def)
  finally show ?thesis by (simp add: enumerate_eq_zip)
qed

lemma length_flatten_examples:
  "length (flatten_examples cats) = sum_list (map (\<lambda>c. length (examples c)) cats)"
  using arg_cong [OF flatten_examples_bases, of length, of cats]
  by (simp add: length_concat comp_def)

lemma flatten_examples_category:
  assumes "fx \<in> set (flatten_examples cats)"
  shows "\<exists>c \<in> set cats. category fx = title c \<and> base fx \<in> set (examples c)"
proof -
  from assms obtain ci c where ic: "(ci, c) \<in> set (enumerate 0 cats)"
      and fx: "fx \<in> set (flatten_row ci c)"
    by (auto simp: flatten_examples_def)
  from ic have "c \<in> set cats" by (auto simp: in_set_enumerate_eq)
  moreover from fx have "category fx = title c" by (rule flatten_row_category)
  moreover from fx have "base fx \<in> set (examples c)"
    using flatten_row_bases [of ci c] by (metis image_eqI list.set_map)
  ultimately show ?thesis by blast
qed

subsection \<open>Keys\<close>

lemma parse_example_key_inverse:
  "parse_example_key (example_key a b) = Some (a, b)"
proof -
  have nd: "CHR ''-'' \<notin> set (js_nat_string n)" for n
    by (rule js_nat_string_no_char) (simp add: is_dec_digit_def)
  then have "\<forall>c \<in> set (js_nat_string a). c \<noteq> CHR ''-''" by blast
  then have "takeWhile (\<lambda>c. c \<noteq> CHR ''-'') (example_key a b) = js_nat_string a"
       and "dropWhile (\<lambda>c. c \<noteq> CHR ''-'') (example_key a b) = CHR ''-'' # js_nat_string b"
    by (simp_all add: example_key_def takeWhile_append2 dropWhile_append2)
  then show ?thesis by (simp add: parse_example_key_def parse_js_nat_string)
qed

lemma example_key_inj: "example_key a b = example_key c d \<longleftrightarrow> a = c \<and> b = d"
  by (metis parse_example_key_inverse option.inject prod.inject)

lemma flatten_from_keys:
  "k \<in> set (map key (concat (map (\<lambda>(ci, c). flatten_row ci c) (enumerate n cats))))
   \<Longrightarrow> \<exists>ci ei. n \<le> ci \<and> k = example_key ci ei"
  by (fastforce simp: in_set_enumerate_eq flatten_row_def)

lemma distinct_flatten_from:
  "distinct (map key (concat (map (\<lambda>(ci, c). flatten_row ci c) (enumerate n cats))))"
proof (induction cats arbitrary: n)
  case Nil
  then show ?case by simp
next
  case (Cons c cats)
  have row: "distinct (map key (flatten_row n c))"
    by (simp add: flatten_row_keys distinct_map inj_on_def example_key_inj)
  have disj: "set (map key (flatten_row n c))
      \<inter> set (map key (concat (map (\<lambda>(ci, c). flatten_row ci c) (enumerate (Suc n) cats)))) = {}"
    using flatten_from_keys [of _ "Suc n" cats]
    by (fastforce simp: flatten_row_keys example_key_inj)
  from row disj Cons.IH [of "Suc n"] show ?case by simp
qed

text \<open>Every example of the flattened registry has its own key.\<close>

lemma distinct_example_keys: "distinct (map key (flatten_examples cats))"
  unfolding flatten_examples_def by (rule distinct_flatten_from)

subsection \<open>The registry of the page\<close>

lemmas registry_defs = allExamples_def flatten_examples_def flatten_row_def exampleCategories_def
  classification_examples_def data_extraction_examples_def reasoning_examples_def
  creative_examples_def conversational_examples_def analysis_examples_def

lemma length_allExamples: "length allExamples = 22"
  by (simp add: registry_defs)

lemma flatten_examples_has_category:
  assumes "c \<in> set cats" and "examples c \<noteq> []"
  shows "\<exists>fx \<in> set (flatten_examples cats). category fx = title c"
proof -
  from assms(1) obtain i where "i < length cats" and "cats ! i = c"
    by (auto simp: in_set_conv_nth)
  then have ic: "(i, c) \<in> set (enumerate 0 cats)"
    by (simp add: in_set_enumerate_eq)
  from assms(2) have "flatten_row i c \<noteq> []"
    using flatten_row_bases [of i c] by auto
  then obtain fx where fx: "fx \<in> set (flatten_row i c)"
    by (metis list.set_intros(1) neq_Nil_conv)
  with ic have "fx \<in> set (flatten_examples cats)"
    by (force simp: flatten_examples_def)
  with fx show ?thesis by (blast dest: flatten_row_category)
qed

lemma flatten_examples_nonempty:
  "c \<in> set cats \<Longrightarrow> examples c \<noteq> [] \<Longrightarrow> flatten_examples cats \<noteq> []"
  using flatten_examples_has_category by fastforce

text \<open>
  The registry breaks the rule that every example's method is one the guessing
  game offers: two examples use \<open>Role & Persona Prompting\<close>, which is not in
  \<open>allMethods\<close>.
\<close>

lemma examples_outside_allMethods:
  "map name (filter (\<lambda>e. methodUsed e \<notin> set allMethods) (concat (map examples exampleCategories)))
   = [''product_description'', ''customer_service_bot'']"
  by (simp add: registry_defs allMethods_def)

end
