(* ===== verification/Browse.thy ===== *)
theory Browse
  imports Registry
begin

text \<open>
  The browse mode of the examples page (\<open>src/src/components/Examples.tsx\<close>). The
  component's state is its six \<open>useState\<close> hooks, here the record
  \<open>examples_state\<close>; what it renders is derived from the state on every render:
  \<open>filteredExamples\<close> (the registry restricted to the selected category),
  \<open>totalPages\<close> and \<open>currentExamples\<close> (the slice of the current page). The
  handlers of browse mode change the filter, the page and the revealed analyses.
  The functions take the flattened registry as their argument \<open>all\<close>, so that the
  lemmas hold for any registry; the page itself uses \<open>allExamples\<close>.
\<close>

definition EXAMPLES_PER_PAGE :: nat where
  "EXAMPLES_PER_PAGE = 4"

record examples_state =
  revealedAnalysis :: "string \<Rightarrow> bool"
  currentPage :: int
  selectedCategory :: "string option"
  guessMode :: bool
  selectedGuess :: string
  showResult :: bool

text \<open>
  The initial values of the hooks. \<open>revealedAnalysis\<close> starts as \<open>{}\<close>: a key that
  is not there reads \<open>undefined\<close>, which the code treats as false.
\<close>

definition examples_init :: examples_state where
  "examples_init =
     \<lparr>revealedAnalysis = (\<lambda>_. False), currentPage = 0, selectedCategory = None,
      guessMode = False, selectedGuess = [], showResult = False\<rparr>"

text \<open>
  \<open>!selectedCategory || example.category === selectedCategory\<close>: no selection, and
  also the empty string (which JavaScript treats as false), keeps every example.
\<close>

definition category_matches :: "string option \<Rightarrow> flat_example \<Rightarrow> bool" where
  "category_matches sc e = (case sc of None \<Rightarrow> True | Some c \<Rightarrow> c = [] \<or> category e = c)"

definition filteredExamples :: "flat_example list \<Rightarrow> string option \<Rightarrow> flat_example list" where
  "filteredExamples all sc = filter (category_matches sc) all"

definition totalPages :: "flat_example list \<Rightarrow> nat" where
  "totalPages fs = ceil_div (length fs) EXAMPLES_PER_PAGE"

definition currentExamples :: "flat_example list \<Rightarrow> int \<Rightarrow> flat_example list" where
  "currentExamples fs page =
     js_slice fs (page * int EXAMPLES_PER_PAGE) ((page + 1) * int EXAMPLES_PER_PAGE)"

text \<open>The values one render derives from the state.\<close>

definition filtered_of :: "flat_example list \<Rightarrow> examples_state \<Rightarrow> flat_example list" where
  "filtered_of all s = filteredExamples all (selectedCategory s)"

definition pages_of :: "flat_example list \<Rightarrow> examples_state \<Rightarrow> nat" where
  "pages_of all s = totalPages (filtered_of all s)"

definition current_of :: "flat_example list \<Rightarrow> examples_state \<Rightarrow> flat_example list" where
  "current_of all s = currentExamples (filtered_of all s) (currentPage s)"

subsection \<open>Handlers of browse mode\<close>

definition toggleAnalysis :: "string \<Rightarrow> examples_state \<Rightarrow> examples_state" where
  "toggleAnalysis exampleKey s =
     s\<lparr>revealedAnalysis := (revealedAnalysis s)(exampleKey := \<not> revealedAnalysis s exampleKey)\<rparr>"

definition handleCategoryFilter :: "string option \<Rightarrow> examples_state \<Rightarrow> examples_state" where
  "handleCategoryFilter c s = s\<lparr>selectedCategory := c, currentPage := 0\<rparr>"

text \<open>The \<open>prev\<close> and \<open>next\<close> buttons (the same code above and below the grid).\<close>

definition prevPage :: "examples_state \<Rightarrow> examples_state" where
  "prevPage s = s\<lparr>currentPage := max 0 (currentPage s - 1)\<rparr>"

definition nextPage :: "flat_example list \<Rightarrow> examples_state \<Rightarrow> examples_state" where
  "nextPage all s = s\<lparr>currentPage := min (int (pages_of all s) - 1) (currentPage s + 1)\<rparr>"

definition gotoPage :: "int \<Rightarrow> examples_state \<Rightarrow> examples_state" where
  "gotoPage i s = s\<lparr>currentPage := i\<rparr>"

declare toggleAnalysis_def [handler_simps] handleCategoryFilter_def [handler_simps]
  prevPage_def [handler_simps] nextPage_def [handler_simps] gotoPage_def [handler_simps]

subsection \<open>Filtering\<close>

lemma filteredExamples_None: "filteredExamples all None = all"
  by (simp add: filteredExamples_def category_matches_def)

lemma filteredExamples_Some:
  "c \<noteq> [] \<Longrightarrow> filteredExamples all (Some c) = filter (\<lambda>e. category e = c) all"
  by (simp add: filteredExamples_def category_matches_def [abs_def])

lemma filteredExamples_subseq: "set (filteredExamples all sc) \<subseteq> set all"
  by (auto simp: filteredExamples_def)

subsection \<open>Pages\<close>

lemma currentExamples_take_drop:
  "0 \<le> p \<Longrightarrow> currentExamples fs p = take EXAMPLES_PER_PAGE (drop (nat p * EXAMPLES_PER_PAGE) fs)"
  by (simp add: currentExamples_def js_slice_nonneg algebra_simps nat_mult_distrib)

lemma currentExamples_length: "length (currentExamples fs p) \<le> EXAMPLES_PER_PAGE"
  using js_slice_length_bound [of "p * 4" "(p + 1) * 4" fs]
  by (simp add: currentExamples_def EXAMPLES_PER_PAGE_def algebra_simps)

lemma totalPages_pos: "0 < totalPages fs \<longleftrightarrow> fs \<noteq> []"
  using ceil_div_zero_iff [of 4 "length fs"]
  by (auto simp: totalPages_def EXAMPLES_PER_PAGE_def)

subsection \<open>The contract of filtering and paging\<close>

text \<open>
  What the page promises of its derived views, as functions on lists: filtering by a
  category, or by none, keeping the order; and the slice
  \<open>[pageIndex * pageSize, pageIndex * pageSize + pageSize)\<close> of a list, clipped.
\<close>

definition filterByCategory :: "flat_example list \<Rightarrow> string option \<Rightarrow> flat_example list" where
  "filterByCategory items c =
     (case c of None \<Rightarrow> items | Some t \<Rightarrow> filter (\<lambda>e. category e = t) items)"

definition paginate :: "'a list \<Rightarrow> nat \<Rightarrow> nat \<Rightarrow> 'a list" where
  "paginate items pageIndex pageSize = take pageSize (drop (pageIndex * pageSize) items)"

lemmas page_simps = currentExamples_take_drop paginate_def EXAMPLES_PER_PAGE_def

lemma currentExamples_paginate:
  "currentExamples fs (int p) = paginate fs p EXAMPLES_PER_PAGE"
  by (simp add: page_simps)

lemma totalPages_covers: "length fs \<le> totalPages fs * EXAMPLES_PER_PAGE"
  by (simp add: totalPages_def EXAMPLES_PER_PAGE_def ceil_div_covers)

lemma totalPages_tight: "p < totalPages fs \<Longrightarrow> p * EXAMPLES_PER_PAGE < length fs"
  by (simp add: totalPages_def EXAMPLES_PER_PAGE_def ceil_div_tight)

subsection \<open>Properties of filtering and paging\<close>

text \<open>
  C2. Pagination is complete: the pages \<open>0 .. totalPages - 1\<close> of a list, put back
  together in order, give the list itself, with no example lost or repeated.
\<close>

theorem pagination_complete:
  "concat (map (\<lambda>p. currentExamples fs (int p)) [0..<totalPages fs]) = fs"
proof -
  have "concat (map (\<lambda>p. currentExamples fs (int p)) [0..<totalPages fs])
        = take (totalPages fs * EXAMPLES_PER_PAGE) fs"
    by (simp add: currentExamples_paginate paginate_def concat_pages)
  also have "\<dots> = fs" using totalPages_covers [of fs] by simp
  finally show ?thesis .
qed

text \<open>The page just past the last one is empty.\<close>

lemma pagination_boundary: "currentExamples fs (int (totalPages fs)) = []"
  using totalPages_covers [of fs] by (simp add: currentExamples_paginate paginate_def)

lemma page_has_examples:
  assumes "0 \<le> p" and "p < int (totalPages fs)"
  shows "currentExamples fs p \<noteq> []"
proof -
  from assms have "nat p < totalPages fs" by simp
  then have "nat p * EXAMPLES_PER_PAGE < length fs" by (rule totalPages_tight)
  with assms(1) show ?thesis by (simp add: currentExamples_take_drop EXAMPLES_PER_PAGE_def)
qed

lemma totalPages_allExamples: "totalPages allExamples = 6"
  by (simp add: totalPages_def EXAMPLES_PER_PAGE_def ceil_div_def length_allExamples)

text \<open>\<open>totalPages\<close> is \<open>Math.ceil(filteredExamples.length / EXAMPLES_PER_PAGE)\<close>
  computed on reals.\<close>

lemma totalPages_ceiling: "int (totalPages fs) = \<lceil>real (length fs) / 4\<rceil>"
  using ceil_div_real [of 4 "length fs"] by (simp add: totalPages_def EXAMPLES_PER_PAGE_def)

text \<open>
  C3. \<open>totalPages\<close> counts exactly the pages with examples: it is
  \<open>Math.ceil(filteredExamples.length / EXAMPLES_PER_PAGE)\<close> computed on reals (with no
  examples it is \<open>0\<close>, not \<open>1\<close>), and every page from \<open>0\<close> to \<open>totalPages - 1\<close>
  shows at least one and at most \<open>EXAMPLES_PER_PAGE\<close> examples.
\<close>

theorem page_size_bounds:
  "int (totalPages fs) = \<lceil>real (length fs) / 4\<rceil> \<and>
   (\<forall>p. 0 \<le> p \<and> p < int (totalPages fs) \<longrightarrow>
      1 \<le> length (currentExamples fs p) \<and> length (currentExamples fs p) \<le> EXAMPLES_PER_PAGE)"
  using totalPages_ceiling [of fs] page_has_examples [of _ fs] currentExamples_length [of fs]
  by (simp add: Suc_le_eq)

theorem page_size_bounds_witness:
  "0 \<le> (5::int) \<and> 5 < int (totalPages allExamples) \<and>
   int (totalPages allExamples) = \<lceil>real (length allExamples) / 4\<rceil> \<and>
   1 \<le> length (currentExamples allExamples 5) \<and>
   length (currentExamples allExamples 5) \<le> EXAMPLES_PER_PAGE"
  using page_size_bounds [of allExamples] by (simp add: totalPages_allExamples)

text \<open>
  C4. The category filter implements the contract \<open>filterByCategory\<close>: no category
  keeps every example, a category keeps exactly its examples in their order. The one
  exception is the empty string, which JavaScript's \<open>!selectedCategory\<close> treats as no
  selection (\<open>filter_empty_string\<close>); the page never selects it.
\<close>

theorem filteredExamples_refines:
  "sc \<noteq> Some [] \<Longrightarrow> filteredExamples all sc = filterByCategory all sc"
  by (cases sc) (simp_all add: filteredExamples_None filteredExamples_Some filterByCategory_def)

theorem filteredExamples_refines_witness:
  "Some ''analysis_examples'' \<noteq> Some [] \<and>
   filteredExamples allExamples (Some ''analysis_examples'')
     = filterByCategory allExamples (Some ''analysis_examples'')"
  using filteredExamples_refines [of "Some ''analysis_examples''" allExamples] by simp

text \<open>Filtering the flattened registry by the title of one of its categories keeps that
  category's row, when the titles are distinct.\<close>

lemma filter_flatten_row:
  "filter (\<lambda>e. category e = t) (flatten_row ci c) = (if title c = t then flatten_row ci c else [])"
  using flatten_row_category [of _ ci c] by (auto intro: filter_True filter_False)

lemma flatten_three: "flatten_examples [c0, c1, c2] = flatten_row 0 c0 @ flatten_row 1 c1 @ flatten_row 2 c2"
  by (simp add: flatten_examples_def eval_nat_numeral)

lemma length_flatten_row: "length (flatten_row ci c) = length (examples c)"
  using arg_cong [OF flatten_row_bases, of length] by simp

text \<open>
  C5. Scenario A of the specification, for every registry of three categories with 4, 2
  and 4 examples and distinct non-empty titles: the registry has 10 examples, filtering to
  the category with two examples and showing page 0 gives exactly those two examples, and
  the filtered list has one page.
\<close>

theorem scenario_a:
  assumes len: "map (\<lambda>c. length (examples c)) cats = [4, 2, 4]"
    and dist: "distinct (map title cats)" and nonempty: "title (cats ! 1) \<noteq> []"
  shows "length (flatten_examples cats) = 10 \<and>
         map base (currentExamples (filteredExamples (flatten_examples cats) (Some (title (cats ! 1)))) 0)
           = examples (cats ! 1) \<and>
         totalPages (filteredExamples (flatten_examples cats) (Some (title (cats ! 1)))) = 1"
proof -
  have "length cats = 3" using arg_cong [OF len, of length] by simp
  then obtain c0 c1 c2 where cats: "cats = [c0, c1, c2]"
    by (auto simp: numeral_3_eq_3 length_Suc_conv)
  with len dist have l: "length (examples c0) = 4" "length (examples c1) = 2" "length (examples c2) = 4"
    and d: "title c0 \<noteq> title c1" "title c2 \<noteq> title c1" by auto
  from nonempty cats have ne: "title c1 \<noteq> []" by simp
  have f: "filteredExamples (flatten_examples cats) (Some (title (cats ! 1))) = flatten_row 1 c1"
    using d ne by (simp add: cats flatten_three filteredExamples_Some filter_flatten_row)
  show ?thesis
    using l unfolding f
    by (simp add: cats flatten_three length_flatten_row currentExamples_take_drop flatten_row_bases
                  totalPages_def ceil_div_def EXAMPLES_PER_PAGE_def)
qed

definition scenario_a_registry :: "example_category list" where
  "scenario_a_registry = [
     \<lparr>title = ''a'', accent = ''text-cyan-400'', examples = replicate 4 \<lparr>name = ''x'', methodUsed = ''m'', psychologyUsed = ''p''\<rparr>\<rparr>,
     \<lparr>title = ''b'', accent = ''text-green-400'', examples = [\<lparr>name = ''b1'', methodUsed = ''m'', psychologyUsed = ''p''\<rparr>,
                                                          \<lparr>name = ''b2'', methodUsed = ''m'', psychologyUsed = ''p''\<rparr>]\<rparr>,
     \<lparr>title = ''c'', accent = ''text-blue-400'', examples = replicate 4 \<lparr>name = ''y'', methodUsed = ''m'', psychologyUsed = ''p''\<rparr>\<rparr>]"

theorem scenario_a_witness:
  "map (\<lambda>c. length (examples c)) scenario_a_registry = [4, 2, 4] \<and>
   distinct (map title scenario_a_registry) \<and> title (scenario_a_registry ! 1) \<noteq> [] \<and>
   length (flatten_examples scenario_a_registry) = 10 \<and>
   map base (currentExamples (filteredExamples (flatten_examples scenario_a_registry) (Some ''b'')) 0)
     = [\<lparr>name = ''b1'', methodUsed = ''m'', psychologyUsed = ''p''\<rparr>,
        \<lparr>name = ''b2'', methodUsed = ''m'', psychologyUsed = ''p''\<rparr>] \<and>
   totalPages (filteredExamples (flatten_examples scenario_a_registry) (Some ''b'')) = 1"
proof -
  have h: "map (\<lambda>c. length (examples c)) scenario_a_registry = [4, 2, 4]"
    "distinct (map title scenario_a_registry)" "title (scenario_a_registry ! 1) \<noteq> []"
    by (simp_all add: scenario_a_registry_def)
  from scenario_a [OF h] h show ?thesis by (simp add: scenario_a_registry_def)
qed

lemma filter_empty_string: "filteredExamples all (Some []) = all"
  by (simp add: filteredExamples_def category_matches_def)

end
