(* ===== verification/GuessGame.thy ===== *)
theory GuessGame
  imports Browse
begin

text \<open>
  The guessing game of the examples page (\<open>src/src/components/Examples.tsx\<close>). It
  shares the page's state: \<open>guessMode\<close> switches it on, \<open>currentPage\<close> is also the
  round (the round shows the first example of that page of \<open>filteredExamples\<close>),
  \<open>selectedGuess\<close> is the method the user picked and \<open>showResult\<close> says whether the
  answer is revealed. The random page of \<open>startGuessGame\<close> and \<open>nextRound\<close> is
  \<open>random_index r n\<close>, with \<open>r\<close> the value \<open>Math.random()\<close> returned.
\<close>

definition startGuessGame :: "flat_example list \<Rightarrow> real \<Rightarrow> examples_state \<Rightarrow> examples_state" where
  "startGuessGame all r s =
     s\<lparr>guessMode := True, currentPage := random_index r (pages_of all s),
       selectedGuess := [], showResult := False\<rparr>"

definition submitGuess :: "examples_state \<Rightarrow> examples_state" where
  "submitGuess s = s\<lparr>showResult := True\<rparr>"

definition nextRound :: "flat_example list \<Rightarrow> real \<Rightarrow> examples_state \<Rightarrow> examples_state" where
  "nextRound all r s =
     (let availablePages = (if 0 < pages_of all s then pages_of all s else 1)
      in s\<lparr>currentPage := random_index r availablePages, selectedGuess := [],
           showResult := False\<rparr>)"

text \<open>The method buttons (\<open>setSelectedGuess(method)\<close>) and \<open>browse_all\<close>.\<close>

definition selectGuess :: "string \<Rightarrow> examples_state \<Rightarrow> examples_state" where
  "selectGuess method s = s\<lparr>selectedGuess := method\<rparr>"

definition browseAll :: "examples_state \<Rightarrow> examples_state" where
  "browseAll s = s\<lparr>guessMode := False\<rparr>"

declare startGuessGame_def [handler_simps] submitGuess_def [handler_simps]
  nextRound_def [handler_simps] selectGuess_def [handler_simps] browseAll_def [handler_simps]

subsection \<open>What a round shows\<close>

text \<open>
  The round renders \<open>currentExamples[0]\<close> when \<open>currentExamples.length > 0\<close>, and
  nothing otherwise. Once the result is shown it compares the guess with the example's
  \<open>methodUsed\<close>: \<open>Correct!\<close> or \<open>Not quite!\<close>.
\<close>

definition guess_target :: "flat_example list \<Rightarrow> examples_state \<Rightarrow> flat_example option" where
  "guess_target all s = (case current_of all s of [] \<Rightarrow> None | e # _ \<Rightarrow> Some e)"

datatype guess_feedback = Correct | NotQuite

definition guess_result :: "flat_example list \<Rightarrow> examples_state \<Rightarrow> guess_feedback option" where
  "guess_result all s =
     (if guessMode s \<and> showResult s
      then map_option (\<lambda>e. if selectedGuess s = methodUsed (base e) then Correct else NotQuite)
             (guess_target all s)
      else None)"

subsection \<open>Basic facts\<close>

lemma guess_target_page:
  assumes "0 \<le> currentPage s"
  shows "guess_target all s =
           (if nat (currentPage s) * EXAMPLES_PER_PAGE < length (filtered_of all s)
            then Some (filtered_of all s ! (nat (currentPage s) * EXAMPLES_PER_PAGE)) else None)"
  using assms
  by (simp add: guess_target_def current_of_def currentExamples_take_drop EXAMPLES_PER_PAGE_def
      first_of_take_drop)

lemma startGuessGame_page:
  "0 < pages_of all s \<Longrightarrow> is_random r \<Longrightarrow>
   0 \<le> currentPage (startGuessGame all r s) \<and> currentPage (startGuessGame all r s) < int (pages_of all s)"
  by (simp add: startGuessGame_def random_index_bounds)

end
