(* ===== verification/ExamplesPage.thy ===== *)
theory ExamplesPage
  imports GuessGame
begin

text \<open>
  The examples page as a state machine. Each UI event is a button of the rendered page,
  and it can fire only when the page renders that button enabled: browse-mode buttons
  only in browse mode, \<open>prev\<close> unless \<open>currentPage === 0\<close>, \<open>next\<close> unless
  \<open>currentPage === totalPages - 1\<close>, the method buttons and \<open>submit_guess\<close> only in an
  unrevealed round with an example (\<open>submit_guess\<close> is disabled while
  \<open>!selectedGuess\<close>), \<open>next_round\<close> only in a revealed round. The page's registry is a
  parameter (\<open>cats\<close>, flattened as \<open>flatten_examples cats\<close>), and so is the list of
  method buttons (\<open>methods\<close>); the page itself uses \<open>exampleCategories\<close> and
  \<open>allMethods\<close>.
\<close>

datatype examples_event =
    ToggleAnalysis string
  | CategoryFilter "string option"
  | PrevPage
  | NextPage
  | GotoPage int
  | StartGame real
  | BrowseAll
  | SelectGuess string
  | SubmitGuess
  | NextRound real

definition category_buttons :: "example_category list \<Rightarrow> string option list" where
  "category_buttons cats = None # map (\<lambda>c. Some (title c)) cats"

fun examples_enabled ::
  "example_category list \<Rightarrow> string list \<Rightarrow> examples_state \<Rightarrow> examples_event \<Rightarrow> bool" where
  "examples_enabled cats methods s (ToggleAnalysis k) =
     (\<not> guessMode s \<and> k \<in> set (map key (current_of (flatten_examples cats) s)))"
| "examples_enabled cats methods s (CategoryFilter c) =
     (\<not> guessMode s \<and> c \<in> set (category_buttons cats))"
| "examples_enabled cats methods s PrevPage = (\<not> guessMode s \<and> currentPage s \<noteq> 0)"
| "examples_enabled cats methods s NextPage =
     (\<not> guessMode s \<and> currentPage s \<noteq> int (pages_of (flatten_examples cats) s) - 1)"
| "examples_enabled cats methods s (GotoPage i) =
     (\<not> guessMode s \<and> 0 \<le> i \<and> i < int (pages_of (flatten_examples cats) s))"
| "examples_enabled cats methods s (StartGame r) = is_random r"
| "examples_enabled cats methods s BrowseAll = True"
| "examples_enabled cats methods s (SelectGuess m) =
     (guessMode s \<and> current_of (flatten_examples cats) s \<noteq> [] \<and> \<not> showResult s \<and> m \<in> set methods)"
| "examples_enabled cats methods s SubmitGuess =
     (guessMode s \<and> current_of (flatten_examples cats) s \<noteq> [] \<and> \<not> showResult s \<and> selectedGuess s \<noteq> [])"
| "examples_enabled cats methods s (NextRound r) =
     (guessMode s \<and> current_of (flatten_examples cats) s \<noteq> [] \<and> showResult s \<and> is_random r)"

fun examples_handle :: "example_category list \<Rightarrow> examples_state \<Rightarrow> examples_event \<Rightarrow> examples_state" where
  "examples_handle cats s (ToggleAnalysis k) = toggleAnalysis k s"
| "examples_handle cats s (CategoryFilter c) = handleCategoryFilter c s"
| "examples_handle cats s PrevPage = prevPage s"
| "examples_handle cats s NextPage = nextPage (flatten_examples cats) s"
| "examples_handle cats s (GotoPage i) = gotoPage i s"
| "examples_handle cats s (StartGame r) = startGuessGame (flatten_examples cats) r s"
| "examples_handle cats s BrowseAll = browseAll s"
| "examples_handle cats s (SelectGuess m) = selectGuess m s"
| "examples_handle cats s SubmitGuess = submitGuess s"
| "examples_handle cats s (NextRound r) = nextRound (flatten_examples cats) r s"

inductive examples_reachable ::
  "example_category list \<Rightarrow> string list \<Rightarrow> examples_state \<Rightarrow> bool" for cats methods where
  init: "examples_reachable cats methods examples_init"
| step: "examples_reachable cats methods s \<Longrightarrow> examples_enabled cats methods s ev \<Longrightarrow>
         examples_reachable cats methods (examples_handle cats s ev)"

subsection \<open>The invariant\<close>

text \<open>
  The page keeps four facts true. The selected category is one the buttons offer. The
  page index is a page of the filtered list: \<open>0 \<le> currentPage < totalPages\<close> when
  there are pages, and \<open>-1\<close> or \<open>0\<close> when there are none (the \<open>next\<close> button is
  then enabled, and sets the page to \<open>totalPages - 1 = -1\<close>). The guess is empty or one
  of the method buttons, and it is not empty once the result is shown.
\<close>

definition page_ok :: "nat \<Rightarrow> int \<Rightarrow> bool" where
  "page_ok n p \<longleftrightarrow> (if 0 < n then 0 \<le> p \<and> p < int n else -1 \<le> p \<and> p \<le> 0)"

definition examples_inv :: "example_category list \<Rightarrow> string list \<Rightarrow> examples_state \<Rightarrow> bool" where
  "examples_inv cats methods s \<longleftrightarrow>
     selectedCategory s \<in> set (category_buttons cats) \<and>
     page_ok (pages_of (flatten_examples cats) s) (currentPage s) \<and>
     (selectedGuess s = [] \<or> selectedGuess s \<in> set methods) \<and>
     (showResult s \<longrightarrow> selectedGuess s \<noteq> [])"

lemma page_ok_random:
  "is_random r \<Longrightarrow> page_ok n (random_index r n)"
  by (cases "n = 0") (simp_all add: page_ok_def random_index_bounds js_simps)

lemma page_ok_round:
  "is_random r \<Longrightarrow> page_ok 0 (random_index r (Suc 0))"
  using random_index_bounds [of r 1] by (simp add: page_ok_def)

lemma page_ok_prev: "page_ok n p \<Longrightarrow> page_ok n (max 0 (p - 1))"
  by (auto simp: page_ok_def)

lemma page_ok_next: "page_ok n p \<Longrightarrow> page_ok n (min (int n - 1) (p + 1))"
  by (auto simp: page_ok_def)

lemma page_ok_zero: "page_ok n 0"
  by (simp add: page_ok_def)

lemma examples_inv_init: "examples_inv cats methods examples_init"
  by (simp add: examples_inv_def examples_init_def category_buttons_def page_ok_zero)

lemma pages_of_same_category:
  "selectedCategory t = selectedCategory s \<Longrightarrow> pages_of all t = pages_of all s"
  by (simp add: pages_of_def filtered_of_def)

lemmas examples_views = pages_of_def filtered_of_def current_of_def

lemma examples_inv_step:
  assumes inv: "examples_inv cats methods s"
    and en: "examples_enabled cats methods s ev"
  shows "examples_inv cats methods (examples_handle cats s ev)"
  using assms
proof (cases ev)
  case (CategoryFilter c)
  with inv en show ?thesis
    by (simp add: examples_inv_def handler_simps examples_views page_ok_zero)
next
  case PrevPage
  with inv en show ?thesis
    by (simp add: examples_inv_def handler_simps examples_views page_ok_prev)
next
  case NextPage
  with inv en show ?thesis
    by (simp add: examples_inv_def handler_simps examples_views page_ok_next)
next
  case (GotoPage i)
  with inv en show ?thesis
    by (simp add: examples_inv_def handler_simps examples_views page_ok_def)
next
  case (StartGame r)
  with inv en show ?thesis
    by (simp add: examples_inv_def handler_simps examples_views page_ok_random)
next
  case (NextRound r)
  with inv en show ?thesis
    by (simp add: examples_inv_def handler_simps examples_views page_ok_random page_ok_round
        Let_def)
qed (auto simp: examples_inv_def handler_simps examples_views)

lemma examples_reachable_inv:
  "examples_reachable cats methods s \<Longrightarrow> examples_inv cats methods s"
proof (induction rule: examples_reachable.induct)
  case init
  show ?case by (rule examples_inv_init)
next
  case (step s ev)
  from step.IH step.hyps(2) show ?case by (rule examples_inv_step)
qed

subsection \<open>Registries the page can browse\<close>

text \<open>
  A registry with at least one category and no empty category: then every filter the
  buttons offer keeps at least one example, so there is always a page.
\<close>

definition registry_browsable :: "example_category list \<Rightarrow> bool" where
  "registry_browsable cats \<longleftrightarrow> cats \<noteq> [] \<and> list_all (\<lambda>c. examples c \<noteq> []) cats"

lemma exampleCategories_browsable: "registry_browsable exampleCategories"
  by (simp add: registry_browsable_def registry_defs)

lemma button_filter_nonempty:
  assumes br: "registry_browsable cats" and c: "c \<in> set (category_buttons cats)"
  shows "filteredExamples (flatten_examples cats) c \<noteq> []"
proof -
  from br obtain c0 where "c0 \<in> set cats" and "examples c0 \<noteq> []"
    by (cases cats) (auto simp: registry_browsable_def)
  then have all: "flatten_examples cats \<noteq> []" by (rule flatten_examples_nonempty)
  show ?thesis
  proof (cases c)
    case None
    with all show ?thesis by (simp add: filteredExamples_None)
  next
    case (Some t)
    with c obtain cat where cat: "cat \<in> set cats" and t: "t = title cat"
      by (auto simp: category_buttons_def)
    with br have "examples cat \<noteq> []" by (simp add: registry_browsable_def list_all_iff)
    with cat obtain fx where "fx \<in> set (flatten_examples cats)" and "category fx = t"
      using t flatten_examples_has_category by blast
    with Some all show ?thesis
      by (cases "t = []") (auto simp: filter_empty_string filteredExamples_Some filter_empty_conv)
  qed
qed

lemma reachable_pages_pos:
  assumes "registry_browsable cats" and "examples_reachable cats methods s"
  shows "0 < pages_of (flatten_examples cats) s"
proof -
  from assms(2) have "examples_inv cats methods s" by (rule examples_reachable_inv)
  then have "selectedCategory s \<in> set (category_buttons cats)" by (simp add: examples_inv_def)
  with assms(1) show ?thesis
    by (simp add: pages_of_def filtered_of_def totalPages_pos button_filter_nonempty)
qed

lemma reachable_page_ok:
  "examples_reachable cats methods s \<Longrightarrow>
   page_ok (pages_of (flatten_examples cats) s) (currentPage s)"
  by (drule examples_reachable_inv) (simp add: examples_inv_def)

text \<open>
  C1. On a registry with no empty category, the page index of every reachable state is
  a page: \<open>0 \<le> currentPage < totalPages\<close>, whatever the user clicked, in browse
  mode and in the game.
\<close>

theorem page_in_range:
  assumes "registry_browsable cats" and "examples_reachable cats methods s"
  shows "0 \<le> currentPage s \<and> currentPage s < int (pages_of (flatten_examples cats) s)"
  using reachable_pages_pos [OF assms] reachable_page_ok [OF assms(2)]
  by (simp add: page_ok_def)

theorem page_in_range_witness:
  "registry_browsable exampleCategories \<and>
   examples_reachable exampleCategories allMethods examples_init \<and>
   0 \<le> currentPage examples_init \<and>
   currentPage examples_init < int (pages_of (flatten_examples exampleCategories) examples_init)"
  using page_in_range [OF exampleCategories_browsable examples_reachable.init [of exampleCategories allMethods]]
  by (simp add: exampleCategories_browsable examples_reachable.init)

subsection \<open>The guessing game in reachable states\<close>

lemma reachable_shown_guess:
  "examples_reachable cats methods s \<Longrightarrow> showResult s \<Longrightarrow> selectedGuess s \<in> set methods"
  by (drule examples_reachable_inv) (auto simp: examples_inv_def)

lemma reachable_page_nonneg:
  "registry_browsable cats \<Longrightarrow> examples_reachable cats methods s \<Longrightarrow> 0 \<le> currentPage s"
  using reachable_pages_pos reachable_page_ok by (fastforce simp: page_ok_def)

text \<open>
  C6. On a registry with no empty category, every round of the game has an example to
  show: in guess mode \<open>currentExamples[0]\<close> always exists.
\<close>

theorem round_has_target:
  assumes "registry_browsable cats" and "examples_reachable cats methods s"
  shows "guess_target (flatten_examples cats) s \<noteq> None"
proof -
  from assms have "0 < pages_of (flatten_examples cats) s"
    by (rule reachable_pages_pos)
  with reachable_page_ok [OF assms(2)]
  have "0 \<le> currentPage s" and "currentPage s < int (pages_of (flatten_examples cats) s)"
    by (simp_all add: page_ok_def)
  then have "current_of (flatten_examples cats) s \<noteq> []"
    by (simp add: current_of_def pages_of_def page_has_examples)
  then show ?thesis by (simp add: guess_target_def split: list.split)
qed

subsubsection \<open>A run of the page\<close>

text \<open>
  Start the game when \<open>Math.random()\<close> returns \<open>1/2\<close> (page
  \<open>\<lfloor>1/2 * 6\<rfloor> = 3\<close>, whose first example is \<open>product_description\<close>), pick
  \<open>Zero-Shot Prompting\<close>, submit.
\<close>

definition product_description_item :: flat_example where
  "product_description_item =
     \<lparr>base = \<lparr>name = ''product_description'', methodUsed = ''Role & Persona Prompting'',
        psychologyUsed = ''Audience Adaptation & Emotional Appeal''\<rparr>,
      category = ''creative_examples'', categoryAccent = ''text-purple-400'', key = ''3-0''\<rparr>"

definition run_round :: "string \<Rightarrow> bool \<Rightarrow> examples_state" where
  "run_round g b = examples_init\<lparr>guessMode := True, currentPage := 3, selectedGuess := g,
                                  showResult := b\<rparr>"

lemma pages_run_init: "pages_of (flatten_examples exampleCategories) examples_init = 6"
  using totalPages_allExamples
  by (simp add: examples_views examples_init_def filteredExamples_None allExamples_def)

lemma pages_run_round: "pages_of (flatten_examples exampleCategories) (run_round g b) = 6"
  using pages_run_init by (simp add: run_round_def examples_views examples_init_def)

lemma target_run_round:
  "guess_target (flatten_examples exampleCategories) (run_round g b) = Some product_description_item"
  unfolding run_round_def by code_simp

lemma run_round_reachable:
  "examples_reachable exampleCategories allMethods (run_round ''Zero-Shot Prompting'' True)"
proof -
  have start: "examples_handle exampleCategories examples_init (StartGame (1/2)) = run_round [] False"
    unfolding examples_handle.simps startGuessGame_def pages_run_init
    by (simp add: random_index_def examples_init_def run_round_def)
  have "examples_reachable exampleCategories allMethods
          (examples_handle exampleCategories examples_init (StartGame (1/2)))"
    by (rule examples_reachable.step [OF examples_reachable.init]) (simp add: is_random_def)
  then have r1: "examples_reachable exampleCategories allMethods (run_round [] False)"
    by (simp only: start)
  have cur: "current_of (flatten_examples cats) s \<noteq> []"
    if "guess_target (flatten_examples cats) s \<noteq> None" for cats s
    using that by (auto simp: guess_target_def)
  have "examples_handle exampleCategories (run_round [] False) (SelectGuess ''Zero-Shot Prompting'')
        = run_round ''Zero-Shot Prompting'' False"
    by (simp add: handler_simps run_round_def)
  moreover have "examples_enabled exampleCategories allMethods (run_round [] False)
                   (SelectGuess ''Zero-Shot Prompting'')"
    using cur target_run_round by (simp add: run_round_def allMethods_def)
  ultimately have r2: "examples_reachable exampleCategories allMethods (run_round ''Zero-Shot Prompting'' False)"
    using r1 examples_reachable.step by metis
  have "examples_handle exampleCategories (run_round ''Zero-Shot Prompting'' False) SubmitGuess
        = run_round ''Zero-Shot Prompting'' True"
    by (simp add: handler_simps run_round_def)
  moreover have "examples_enabled exampleCategories allMethods (run_round ''Zero-Shot Prompting'' False)
                   SubmitGuess"
    using cur target_run_round by (simp add: run_round_def)
  ultimately show ?thesis using r2 examples_reachable.step by metis
qed

theorem round_has_target_witness:
  "registry_browsable exampleCategories \<and>
   examples_reachable exampleCategories allMethods (run_round ''Zero-Shot Prompting'' True) \<and>
   guess_target (flatten_examples exampleCategories) (run_round ''Zero-Shot Prompting'' True) \<noteq> None"
  using round_has_target [OF exampleCategories_browsable run_round_reachable]
  by (simp add: exampleCategories_browsable run_round_reachable)

text \<open>
  C7. A round whose example uses a method that is not among the method buttons can never
  be answered correctly: the revealed guess is always one of the buttons, so the page
  shows \<open>Not quite!\<close>.
\<close>

theorem unlisted_method_never_correct:
  assumes "examples_reachable cats methods s"
    and "guess_target (flatten_examples cats) s = Some e"
    and "methodUsed (base e) \<notin> set methods"
  shows "guess_result (flatten_examples cats) s \<noteq> Some Correct"
  using assms reachable_shown_guess [OF assms(1)] by (auto simp: guess_result_def)

lemma product_description_unlisted: "methodUsed (base product_description_item) \<notin> set allMethods"
  by (simp add: product_description_item_def allMethods_def)

theorem unlisted_method_never_correct_witness:
  "examples_reachable exampleCategories allMethods (run_round ''Zero-Shot Prompting'' True) \<and>
   guess_target (flatten_examples exampleCategories) (run_round ''Zero-Shot Prompting'' True)
     = Some product_description_item \<and>
   methodUsed (base product_description_item) \<notin> set allMethods \<and>
   guess_result (flatten_examples exampleCategories) (run_round ''Zero-Shot Prompting'' True)
     \<noteq> Some Correct"
  using unlisted_method_never_correct [OF run_round_reachable target_run_round
      product_description_unlisted]
  by (simp add: run_round_reachable target_run_round product_description_unlisted)

subsubsection \<open>Which examples the game can show\<close>

text \<open>
  A round shows the first example of a page, so the examples a filter can ever put in a
  round are those at the positions \<open>0, 4, 8, \<dots>\<close> of its filtered list.
\<close>

definition round_targets :: "flat_example list \<Rightarrow> string option \<Rightarrow> flat_example list" where
  "round_targets all c =
     map (\<lambda>p. filteredExamples all c ! (p * EXAMPLES_PER_PAGE))
       [0..<totalPages (filteredExamples all c)]"

lemma guess_target_in_round_targets:
  assumes "0 \<le> currentPage s" and "guess_target all s = Some e"
  shows "e \<in> set (round_targets all (selectedCategory s))"
proof -
  let ?fs = "filteredExamples all (selectedCategory s)" and ?p = "nat (currentPage s)"
  from assms have lt: "?p * EXAMPLES_PER_PAGE < length ?fs"
    and e: "e = ?fs ! (?p * EXAMPLES_PER_PAGE)"
    by (simp_all add: guess_target_page filtered_of_def split: if_splits)
  from lt have "?p < totalPages ?fs"
    by (simp add: totalPages_def EXAMPLES_PER_PAGE_def ceil_div_above)
  with e show ?thesis by (auto simp: round_targets_def)
qed

lemma allExamples_round_targets:
  "\<forall>c \<in> set (category_buttons exampleCategories).
     \<forall>e \<in> set (round_targets allExamples c).
       name (base e) \<in> {''sentiment_analysis'', ''job_posting_extraction'', ''math_word_problem'',
                        ''product_description'', ''customer_service_bot'', ''market_research_analysis''}"
  by code_simp

text \<open>
  C8. Of the 22 examples of the registry, only six can ever be the example of a round,
  whatever the filter and the random values: the first example of each category (each
  category fits on one page) and, unfiltered, the examples at positions 0, 4, 8, 12, 16
  and 20, which are the same six.
\<close>

theorem guess_targets_allExamples:
  assumes "examples_reachable exampleCategories allMethods s"
    and "guess_target allExamples s = Some e"
  shows "name (base e) \<in> {''sentiment_analysis'', ''job_posting_extraction'', ''math_word_problem'',
                         ''product_description'', ''customer_service_bot'', ''market_research_analysis''}"
proof -
  from assms(1) have "0 \<le> currentPage s"
    by (rule reachable_page_nonneg [OF exampleCategories_browsable])
  from this assms(2) have "e \<in> set (round_targets allExamples (selectedCategory s))"
    by (rule guess_target_in_round_targets)
  moreover from assms(1) have "selectedCategory s \<in> set (category_buttons exampleCategories)"
    by (auto dest: examples_reachable_inv simp: examples_inv_def)
  ultimately show ?thesis using allExamples_round_targets by blast
qed

lemma target_run_round_all:
  "guess_target allExamples (run_round g b) = Some product_description_item"
  using target_run_round by (simp add: allExamples_def)

theorem guess_targets_allExamples_witness:
  "examples_reachable exampleCategories allMethods (run_round ''Zero-Shot Prompting'' True) \<and>
   guess_target allExamples (run_round ''Zero-Shot Prompting'' True) = Some product_description_item \<and>
   name (base product_description_item) \<in>
     {''sentiment_analysis'', ''job_posting_extraction'', ''math_word_problem'',
      ''product_description'', ''customer_service_bot'', ''market_research_analysis''}"
  using guess_targets_allExamples [OF run_round_reachable target_run_round_all]
  by (simp add: run_round_reachable target_run_round_all)

subsection \<open>Analysis panels\<close>

text \<open>
  C9. The \<open>reveal_analysis\<close> button of an example flips that example's panel and no
  other: the keys of the flattened registry are all different.
\<close>

theorem toggleAnalysis_only_own:
  assumes "fx \<in> set (flatten_examples cats)" and "fy \<in> set (flatten_examples cats)"
  shows "revealedAnalysis (toggleAnalysis (key fx) s) (key fy)
         = (if fy = fx then \<not> revealedAnalysis s (key fy) else revealedAnalysis s (key fy))"
proof -
  have "inj_on key (set (flatten_examples cats))"
    using distinct_example_keys [of cats] by (simp add: distinct_map)
  with assms have "key fy = key fx \<longleftrightarrow> fy = fx" by (auto dest: inj_onD)
  then show ?thesis by (simp add: toggleAnalysis_def)
qed

theorem toggleAnalysis_only_own_witness:
  "allExamples ! 0 \<in> set (flatten_examples exampleCategories) \<and>
   allExamples ! 1 \<in> set (flatten_examples exampleCategories) \<and>
   revealedAnalysis (toggleAnalysis (key (allExamples ! 0)) examples_init) (key (allExamples ! 1))
     = False"
proof -
  have m: "allExamples ! i \<in> set (flatten_examples exampleCategories)" if "i < 22" for i
    using that length_allExamples by (simp add: allExamples_def)
  have d: "allExamples ! 1 \<noteq> allExamples ! 0" by code_simp
  show ?thesis
    using toggleAnalysis_only_own [OF m m, of 0 1 examples_init] d m
    by (simp add: examples_init_def)
qed

subsection \<open>Degenerate registries\<close>

text \<open>
  Starting the game on an empty pool raises nothing: the page enters guess mode at
  page \<open>0\<close> and renders no round (\<open>currentExamples.length > 0\<close> fails), where the
  contract asks for an \<open>EmptyPoolError\<close>. The page's own registry never has an empty
  pool (\<open>round_has_target\<close>).
\<close>

lemma startGuessGame_empty_pool:
  assumes "pages_of all s = 0"
  shows "guessMode (startGuessGame all r s) \<and> currentPage (startGuessGame all r s) = 0 \<and>
         guess_target all (startGuessGame all r s) = None"
proof -
  from assms have "filtered_of all s = []"
    using totalPages_pos [of "filtered_of all s"] by (simp add: pages_of_def)
  then show ?thesis using assms
    by (simp add: startGuessGame_def guess_target_def examples_views js_simps
        currentExamples_def js_slice_def)
qed

text \<open>
  With a category that has no examples, the \<open>next\<close> button is enabled on the
  empty listing (\<open>currentPage = 0 \<noteq> totalPages - 1 = -1\<close>) and moves the page to
  \<open>-1\<close>, outside \<open>[0, totalPages - 1]\<close>: the clamp of the contract cannot hold when
  there are no pages.
\<close>

definition empty_category :: example_category where
  "empty_category = \<lparr>title = ''empty_examples'', accent = ''text-gray-400'', examples = []\<rparr>"

lemma empty_category_page_minus_one:
  "examples_reachable [empty_category] allMethods
     (examples_init\<lparr>selectedCategory := Some ''empty_examples'', currentPage := -1\<rparr>)"
proof -
  let ?cats = "[empty_category]"
  let ?s1 = "examples_init\<lparr>selectedCategory := Some ''empty_examples'', currentPage := 0\<rparr>"
  have p: "pages_of (flatten_examples ?cats) s = 0" for s
    by (simp add: examples_views filteredExamples_def totalPages_def ceil_div_def
        EXAMPLES_PER_PAGE_def flatten_examples_def flatten_row_def empty_category_def)
  have "examples_reachable ?cats allMethods
          (examples_handle ?cats examples_init (CategoryFilter (Some ''empty_examples'')))"
    by (rule examples_reachable.step [OF examples_reachable.init])
      (simp add: examples_init_def category_buttons_def empty_category_def)
  then have r1: "examples_reachable ?cats allMethods ?s1"
    by (simp add: handler_simps examples_init_def)
  have "examples_reachable ?cats allMethods (examples_handle ?cats ?s1 NextPage)"
    by (rule examples_reachable.step [OF r1]) (simp add: p examples_init_def)
  then show ?thesis by (simp add: handler_simps p)
qed

end
