(* ===== verification/Quiz.thy ===== *)
theory Quiz
  imports Prelude
begin

text \<open>
  The quiz of the introduction section (\<open>src/src/components/Introduction.tsx\<close>,
  function \<open>Introduction\<close>). Its state is the list \<open>answers\<close> of
  \<open>{questionIndex, selectedOption}\<close> records and the flag \<open>showResults\<close>;
  \<open>handleAnswerClick\<close> replaces the answer of a question and, when every question is
  answered, schedules \<open>setShowResults(true)\<close> with \<open>setTimeout\<close>. The scheduled
  callbacks are the counter \<open>pendingTimers\<close>; the event \<open>TimerFires\<close> runs one.
  \<open>getPersonalityResult\<close> sums the score of every answer and classifies the sum.

  Each question keeps all four fields of the source: its text, options, insight and
  scores. JavaScript's reads out of range are written out: reading
  \<open>interactiveQuestions[i]\<close> past the end gives \<open>undefined\<close>, and \<open>.scores\<close> of it
  throws a \<open>TypeError\<close>; \<open>scores[j]\<close> past the end gives \<open>undefined\<close>, and adding it
  makes the sum \<open>NaN\<close>, which fails every comparison.
\<close>

record question =
  questionText :: string
  options :: "string list"
  insight :: string
  scores :: "int list"

definition interactiveQuestions :: "question list" where
  "interactiveQuestions = [
     \<lparr>questionText = ''Have you ever asked ChatGPT something and got a response that made you go '' @
        [CHR 0x27] @ ''wat?'' @ [CHR 0x27] @ '' '' @ [CHR 0xF0, CHR 0x9F, CHR 0xA4, CHR 0x94],
      options = [''Yes, all the time!'', ''Sometimes'', ''Rarely'',
                 ''Never (you'' @ [CHR 0x27] @ ''re lying)''],
      insight = ''You'' @ [CHR 0x27] @ ''re not alone! Even the smartest AI needs clear instructions.'',
      scores = [3, 2, 1, 0]\<rparr>,
     \<lparr>questionText = ''What'' @ [CHR 0x27] @ ''s your biggest AI frustration?'',
      options = [''Vague responses'', ''Wrong answers'', ''Expensive API calls'', ''All of the above''],
      insight = ''Plot twist: Most of these can be fixed with better prompting!'',
      scores = [2, 3, 1, 4]\<rparr>,
     \<lparr>questionText = ''How do you currently write prompts?'',
      options = [''Wing it and pray'', ''Copy from examples'', ''Trial and error'', ''I have a system''],
      insight = ''Time to level up your prompt game! '' @ [CHR 0xF0, CHR 0x9F, CHR 0x8E, CHR 0xAE],
      scores = [3, 1, 2, 0]\<rparr>]"

record question_answer =
  questionIndex :: nat
  selectedOption :: nat

record quiz_state =
  answers :: "question_answer list"
  showResults :: bool
  pendingTimers :: nat

definition quiz_init :: quiz_state where
  "quiz_init = \<lparr>answers = [], showResults = False, pendingTimers = 0\<rparr>"

definition handleAnswerClick :: "nat \<Rightarrow> nat \<Rightarrow> quiz_state \<Rightarrow> quiz_state" where
  "handleAnswerClick qi oi s =
     (let newAnswers = filter (\<lambda>a. questionIndex a \<noteq> qi) (answers s)
                       @ [\<lparr>questionIndex = qi, selectedOption = oi\<rparr>]
      in s\<lparr>answers := newAnswers,
           pendingTimers := (if length newAnswers = length interactiveQuestions
                             then Suc (pendingTimers s) else pendingTimers s)\<rparr>)"

definition timerFires :: "quiz_state \<Rightarrow> quiz_state" where
  "timerFires s = s\<lparr>showResults := True, pendingTimers := pendingTimers s - 1\<rparr>"

definition isAnswered :: "nat \<Rightarrow> quiz_state \<Rightarrow> bool" where
  "isAnswered qi s = list_ex (\<lambda>a. questionIndex a = qi) (answers s)"

definition getSelectedOption :: "nat \<Rightarrow> quiz_state \<Rightarrow> nat option" where
  "getSelectedOption qi s = map_option selectedOption (find (\<lambda>a. questionIndex a = qi) (answers s))"

subsection \<open>Scoring\<close>

datatype js_number = Num int | NaN

fun js_add :: "js_number \<Rightarrow> js_number \<Rightarrow> js_number" where
  "js_add (Num a) (Num b) = Num (a + b)"
| "js_add _ _ = NaN"

definition answer_score :: "question_answer \<Rightarrow> js_error + js_number" where
  "answer_score a =
     (if questionIndex a < length interactiveQuestions
      then (let sc = scores (interactiveQuestions ! questionIndex a)
            in Inr (if selectedOption a < length sc then Num (sc ! selectedOption a) else NaN))
      else Inl TypeError)"

text \<open>\<open>answers.reduce((sum, answer) => sum + \<dots>, 0)\<close>: a \<open>TypeError\<close> stops the fold.\<close>

fun score_from :: "js_number \<Rightarrow> question_answer list \<Rightarrow> js_error + js_number" where
  "score_from acc [] = Inr acc"
| "score_from acc (a # as) =
     (case answer_score a of Inl e \<Rightarrow> Inl e | Inr v \<Rightarrow> score_from (js_add acc v) as)"

definition totalScore :: "question_answer list \<Rightarrow> js_error + js_number" where
  "totalScore as = score_from (Num 0) as"

datatype personality = PromptNewbie | PromptExplorer | PromptWizard

definition personality_type :: "personality \<Rightarrow> string" where
  "personality_type p =
     (case p of PromptNewbie \<Rightarrow> ''prompt_newbie'' | PromptExplorer \<Rightarrow> ''prompt_explorer''
              | PromptWizard \<Rightarrow> ''prompt_wizard'')"

fun classify :: "js_number \<Rightarrow> personality" where
  "classify (Num n) = (if 8 \<le> n then PromptNewbie else if 5 \<le> n then PromptExplorer else PromptWizard)"
| "classify NaN = PromptWizard"

definition getPersonalityResult :: "quiz_state \<Rightarrow> js_error + personality" where
  "getPersonalityResult s = map_sum id classify (totalScore (answers s))"

declare handleAnswerClick_def [handler_simps] timerFires_def [handler_simps]

subsection \<open>The quiz as a state machine\<close>

text \<open>
  The option buttons of a question are rendered with \<open>disabled={isQuestionAnswered}\<close>:
  a question can be answered once. The timer callback runs some time after it was
  scheduled, in between other events.
\<close>

datatype quiz_event = AnswerClick nat nat | TimerFires

fun quiz_enabled :: "quiz_state \<Rightarrow> quiz_event \<Rightarrow> bool" where
  "quiz_enabled s (AnswerClick qi oi) =
     (qi < length interactiveQuestions \<and> oi < length (options (interactiveQuestions ! qi)) \<and>
      \<not> isAnswered qi s)"
| "quiz_enabled s TimerFires = (0 < pendingTimers s)"

fun quiz_handle :: "quiz_state \<Rightarrow> quiz_event \<Rightarrow> quiz_state" where
  "quiz_handle s (AnswerClick qi oi) = handleAnswerClick qi oi s"
| "quiz_handle s TimerFires = timerFires s"

inductive quiz_reachable :: "quiz_state \<Rightarrow> bool" where
  init: "quiz_reachable quiz_init"
| step: "quiz_reachable s \<Longrightarrow> quiz_enabled s ev \<Longrightarrow> quiz_reachable (quiz_handle s ev)"

definition valid_answer :: "question_answer \<Rightarrow> bool" where
  "valid_answer a \<longleftrightarrow>
     questionIndex a < length interactiveQuestions \<and>
     selectedOption a < length (options (interactiveQuestions ! questionIndex a))"

text \<open>
  The invariant: answers are valid and name distinct questions; one timer is pending or
  the results are shown exactly when every question is answered, never both.
\<close>

definition quiz_inv :: "quiz_state \<Rightarrow> bool" where
  "quiz_inv s \<longleftrightarrow>
     distinct (map questionIndex (answers s)) \<and> list_all valid_answer (answers s) \<and>
     pendingTimers s \<le> 1 \<and> (pendingTimers s = 1 \<longrightarrow> \<not> showResults s) \<and>
     (length (answers s) = length interactiveQuestions \<longleftrightarrow> pendingTimers s = 1 \<or> showResults s)"

lemma length_interactiveQuestions [simp]: "length interactiveQuestions = 3"
  by (simp add: interactiveQuestions_def)

lemma isAnswered_iff: "isAnswered qi s \<longleftrightarrow> qi \<in> set (map questionIndex (answers s))"
  by (auto simp: isAnswered_def list_ex_iff)

lemma unanswered_filter:
  "\<not> isAnswered qi s \<Longrightarrow> filter (\<lambda>a. questionIndex a \<noteq> qi) (answers s) = answers s"
  by (auto simp: isAnswered_def list_ex_iff intro: filter_True)

lemma answered_indices_range:
  "list_all valid_answer as \<Longrightarrow> set (map questionIndex as) \<subseteq> {0..<3}"
  by (auto simp: list_all_iff valid_answer_def)

lemma answered_count:
  "distinct (map questionIndex as) \<Longrightarrow> length as = card (set (map questionIndex as))"
  using distinct_card [of "map questionIndex as"] by simp

lemma unanswered_short:
  assumes "distinct (map questionIndex as)" and "list_all valid_answer as"
    and "qi < 3" and "qi \<notin> set (map questionIndex as)"
  shows "length as < 3"
proof -
  from assms have "set (map questionIndex as) \<subseteq> {0..<3} - {qi}"
    using answered_indices_range [OF assms(2)] by blast
  then have "card (set (map questionIndex as)) \<le> card ({0..<3::nat} - {qi})"
    by (rule card_mono [rotated]) simp
  with assms(3) answered_count [OF assms(1)] show ?thesis by simp
qed

lemma quiz_inv_init: "quiz_inv quiz_init"
  by (simp add: quiz_inv_def quiz_init_def)

text \<open>An enabled answer click in a state of the invariant: the quiz is not complete yet, no
  result is scheduled or shown, and the click appends the answer.\<close>

lemma answer_click_fresh:
  assumes inv: "quiz_inv s" and en: "quiz_enabled s (AnswerClick qi oi)"
  shows "length (answers s) < 3 \<and> pendingTimers s = 0 \<and> \<not> showResults s \<and>
         answers (handleAnswerClick qi oi s) = answers s @ [\<lparr>questionIndex = qi, selectedOption = oi\<rparr>]"
proof -
  from en have qi: "qi < 3" and new: "\<not> isAnswered qi s" by simp_all
  from inv new qi have short: "length (answers s) < 3"
    by (intro unanswered_short) (simp_all add: quiz_inv_def isAnswered_iff)
  with inv new show ?thesis
    by (auto simp: quiz_inv_def handler_simps unanswered_filter)
qed

lemma quiz_inv_step:
  assumes inv: "quiz_inv s" and en: "quiz_enabled s ev"
  shows "quiz_inv (quiz_handle s ev)"
proof (cases ev)
  case (AnswerClick qi oi)
  with en have qi: "qi < 3" and oi: "oi < length (options (interactiveQuestions ! qi))"
    and new: "\<not> isAnswered qi s" by simp_all
  from answer_click_fresh [OF inv] en AnswerClick
  have fresh: "length (answers s) < 3" "pendingTimers s = 0" "\<not> showResults s"
    and app: "answers (handleAnswerClick qi oi s) = answers s @ [\<lparr>questionIndex = qi, selectedOption = oi\<rparr>]"
    by simp_all
  from inv new qi oi fresh app show ?thesis
    by (auto simp: AnswerClick handler_simps quiz_inv_def isAnswered_iff valid_answer_def)
next
  case TimerFires
  with inv en show ?thesis by (auto simp: handler_simps quiz_inv_def)
qed

lemma quiz_reachable_inv: "quiz_reachable s \<Longrightarrow> quiz_inv s"
proof (induction rule: quiz_reachable.induct)
  case init
  show ?case by (rule quiz_inv_init)
next
  case (step s ev)
  from step.IH step.hyps(2) show ?case by (rule quiz_inv_step)
qed

subsection \<open>Runs\<close>

fun quiz_run :: "quiz_state \<Rightarrow> quiz_event list \<Rightarrow> quiz_state" where
  "quiz_run s [] = s"
| "quiz_run s (ev # evs) = quiz_run (quiz_handle s ev) evs"

fun quiz_valid_run :: "quiz_state \<Rightarrow> quiz_event list \<Rightarrow> bool" where
  "quiz_valid_run s [] = True"
| "quiz_valid_run s (ev # evs) = (quiz_enabled s ev \<and> quiz_valid_run (quiz_handle s ev) evs)"

lemma quiz_run_reachable:
  "quiz_reachable s \<Longrightarrow> quiz_valid_run s evs \<Longrightarrow> quiz_reachable (quiz_run s evs)"
  by (induction evs arbitrary: s) (auto intro: quiz_reachable.step)

definition scenario_b :: "quiz_event list" where
  "scenario_b = [AnswerClick 0 0, AnswerClick 1 0, AnswerClick 2 0, TimerFires]"

lemma scenario_b_valid: "quiz_valid_run quiz_init scenario_b"
  by code_simp

lemma scenario_b_state:
  "quiz_run quiz_init scenario_b =
     \<lparr>answers = [\<lparr>questionIndex = 0, selectedOption = 0\<rparr>, \<lparr>questionIndex = 1, selectedOption = 0\<rparr>,
                 \<lparr>questionIndex = 2, selectedOption = 0\<rparr>],
      showResults = True, pendingTimers = 0\<rparr>"
  by code_simp

lemma scenario_b_reachable: "quiz_reachable (quiz_run quiz_init scenario_b)"
  using quiz_run_reachable [OF quiz_reachable.init scenario_b_valid] .

subsection \<open>Properties of the quiz\<close>

lemma reachable_all_answered:
  assumes "quiz_reachable s"
  shows "length (answers s) = length interactiveQuestions \<longleftrightarrow>
         (\<forall>q < length interactiveQuestions. isAnswered q s)"
proof -
  from assms have inv: "quiz_inv s" by (rule quiz_reachable_inv)
  then have d: "distinct (map questionIndex (answers s))" by (simp add: quiz_inv_def)
  from inv have r: "set (map questionIndex (answers s)) \<subseteq> {0..<3}"
    by (intro answered_indices_range) (simp add: quiz_inv_def)
  have "length (answers s) = 3 \<longleftrightarrow> set (map questionIndex (answers s)) = {0..<3}"
  proof
    assume "length (answers s) = 3"
    with answered_count [OF d] have "card (set (map questionIndex (answers s))) = card {0..<3::nat}"
      by simp
    with r show "set (map questionIndex (answers s)) = {0..<3}"
      by (simp add: card_subset_eq)
  next
    assume "set (map questionIndex (answers s)) = {0..<3}"
    with answered_count [OF d] show "length (answers s) = 3" by simp
  qed
  with r show ?thesis by (auto simp: isAnswered_iff)
qed

subsubsection \<open>Scores\<close>

definition score_of :: "question_answer \<Rightarrow> int" where
  "score_of a = scores (interactiveQuestions ! questionIndex a) ! selectedOption a"

definition max_score :: "nat \<Rightarrow> int" where
  "max_score q = [3, 4, 3] ! q"

lemma less3_cases: "(q::nat) < 3 \<Longrightarrow> q = 0 \<or> q = 1 \<or> q = 2"
  by arith

lemma less4_cases: "(q::nat) < 4 \<Longrightarrow> q = 0 \<or> q = 1 \<or> q = 2 \<or> q = 3"
  by arith

lemma options_length: "q < 3 \<Longrightarrow> length (options (interactiveQuestions ! q)) = 4"
  by (drule less3_cases) (auto simp: interactiveQuestions_def)

lemma valid_answer_score:
  assumes "valid_answer a"
  shows "answer_score a = Inr (Num (score_of a)) \<and>
         0 \<le> score_of a \<and> score_of a \<le> max_score (questionIndex a)"
proof -
  from assms have q: "questionIndex a < 3" by (simp add: valid_answer_def)
  with assms have o: "selectedOption a < 4" by (simp add: valid_answer_def options_length)
  from less3_cases [OF q] less4_cases [OF o] show ?thesis
    by (elim disjE) (simp_all add: answer_score_def score_of_def max_score_def interactiveQuestions_def)
qed

lemma score_from_valid:
  "list_all valid_answer as \<Longrightarrow>
   score_from (Num acc) as = Inr (Num (acc + sum_list (map score_of as)))"
  by (induction as arbitrary: acc) (simp_all add: valid_answer_score algebra_simps)

lemma score_sum_bound:
  assumes "distinct (map questionIndex as)" and "list_all valid_answer as"
  shows "0 \<le> sum_list (map score_of as) \<and> sum_list (map score_of as) \<le> 10"
proof -
  from assms(2) have each: "\<forall>a \<in> set as. 0 \<le> score_of a \<and> score_of a \<le> max_score (questionIndex a)"
    by (simp add: list_all_iff valid_answer_score)
  then have "sum_list (map score_of as) \<le> sum_list (map (\<lambda>a. max_score (questionIndex a)) as)"
    by (intro sum_list_mono) simp
  also have "\<dots> = sum_list (map max_score (map questionIndex as))"
    by (simp add: comp_def)
  also have "\<dots> = sum max_score (set (map questionIndex as))"
    using assms(1) by (rule sum_list_distinct_conv_sum_set)
  also have "\<dots> \<le> sum max_score {0..<3}"
    using answered_indices_range [OF assms(2)]
    by (intro sum_mono2) (auto simp: max_score_def less_Suc_eq numeral_3_eq_3)
  also have "\<dots> = 10" by (simp add: max_score_def eval_nat_numeral)
  finally have "sum_list (map score_of as) \<le> 10" .
  moreover have "0 \<le> sum_list (map score_of as)"
    using each by (auto intro!: sum_list_nonneg)
  ultimately show ?thesis by simp
qed

lemma js_add_NaN [simp]: "js_add NaN v = NaN" "js_add v NaN = NaN"
  by (cases v; simp)+

lemma score_from_error:
  "score_from acc as = Inl TypeError \<longleftrightarrow> (\<exists>a \<in> set as. length interactiveQuestions \<le> questionIndex a)"
  by (induction as arbitrary: acc) (auto simp: answer_score_def Let_def)

lemma score_from_NaN:
  assumes "\<forall>a \<in> set as. questionIndex a < length interactiveQuestions"
    and "acc = NaN \<or> (\<exists>a \<in> set as. length (scores (interactiveQuestions ! questionIndex a)) \<le> selectedOption a)"
  shows "score_from acc as = Inr NaN"
  using assms
proof (induction as arbitrary: acc)
  case Nil
  then show ?case by simp
next
  case (Cons a as)
  then show ?case
    by (cases "selectedOption a < length (scores (interactiveQuestions ! questionIndex a))")
       (auto simp: answer_score_def Let_def)
qed

text \<open>
  C10. The score never fails and stays in range: in every reachable state the sum of
  the answers' scores is a number (no \<open>TypeError\<close>, no \<open>NaN\<close>) between \<open>0\<close> and
  \<open>3 + 4 + 3 = 10\<close>.
\<close>

theorem score_bounds:
  assumes "quiz_reachable s"
  shows "\<exists>n. totalScore (answers s) = Inr (Num n) \<and> 0 \<le> n \<and> n \<le> 10"
proof -
  from assms have "quiz_inv s" by (rule quiz_reachable_inv)
  then have "distinct (map questionIndex (answers s))" and v: "list_all valid_answer (answers s)"
    by (simp_all add: quiz_inv_def)
  with score_sum_bound show ?thesis
    by (simp add: totalScore_def score_from_valid)
qed

theorem score_bounds_witness:
  "quiz_reachable (quiz_run quiz_init scenario_b) \<and>
   (\<exists>n. totalScore (answers (quiz_run quiz_init scenario_b)) = Inr (Num n) \<and> 0 \<le> n \<and> n \<le> 10)"
  using score_bounds [OF scenario_b_reachable] scenario_b_reachable by simp

text \<open>
  Scenario B of the specification: answering the first option of each question and
  letting the timer fire shows the results, with score \<open>3 + 2 + 3 = 8\<close> and the result
  \<open>prompt_newbie\<close>.
\<close>

lemma scenario_b_result:
  "quiz_reachable (quiz_run quiz_init scenario_b) \<and> showResults (quiz_run quiz_init scenario_b) \<and>
   totalScore (answers (quiz_run quiz_init scenario_b)) = Inr (Num 8) \<and>
   map_sum id personality_type (getPersonalityResult (quiz_run quiz_init scenario_b))
     = Inr ''prompt_newbie''"
  using scenario_b_reachable
  by (simp add: scenario_b_state totalScore_def getPersonalityResult_def answer_score_def
      interactiveQuestions_def personality_type_def)

subsubsection \<open>The contract of classification\<close>

text \<open>
  The contract classifies by an ordered list of thresholds, the first that the score
  meets, and fails (\<open>None\<close>, the \<open>UnclassifiableScoreError\<close>) when none is met.
\<close>

fun classify_thresholds :: "(int \<times> 'c) list \<Rightarrow> int \<Rightarrow> 'c option" where
  "classify_thresholds [] n = None"
| "classify_thresholds ((t, c) # ts) n = (if t \<le> n then Some c else classify_thresholds ts n)"

text \<open>
  C13. For every score the quiz can produce (a number, at least \<open>0\<close>), the code's
  chain of \<open>if\<close>s is the contract's classification with the thresholds
  \<open>[(8, newbie), (5, explorer), (0, wizard)]\<close>. Below \<open>0\<close> the code answers
  \<open>prompt_wizard\<close> where the contract would fail.
\<close>

theorem classify_refines_thresholds:
  "0 \<le> n \<Longrightarrow>
   classify_thresholds [(8, PromptNewbie), (5, PromptExplorer), (0, PromptWizard)] n
     = Some (classify (Num n))"
  by simp

theorem classify_refines_thresholds_witness:
  "0 \<le> (8::int) \<and>
   classify_thresholds [(8, PromptNewbie), (5, PromptExplorer), (0, PromptWizard)] 8
     = Some (classify (Num 8))"
  using classify_refines_thresholds [of 8] by simp

subsubsection \<open>Answers\<close>

text \<open>
  C14. \<open>handleAnswerClick\<close> upserts: afterwards the clicked question has exactly one
  answer, the clicked option, and every other question keeps its answers. On the page the
  upsert never replaces anything: an answered question's buttons are disabled, so in every
  reachable state every enabled event leaves the earlier answers as they were and can only
  append one.
\<close>

theorem handleAnswerClick_upsert:
  "filter (\<lambda>a. questionIndex a = qi) (answers (handleAnswerClick qi oi s))
     = [\<lparr>questionIndex = qi, selectedOption = oi\<rparr>] \<and>
   (\<forall>q. q \<noteq> qi \<longrightarrow>
      filter (\<lambda>a. questionIndex a = q) (answers (handleAnswerClick qi oi s))
        = filter (\<lambda>a. questionIndex a = q) (answers s)) \<and>
   (\<forall>t ev. quiz_reachable t \<and> quiz_enabled t ev \<longrightarrow>
      (\<exists>xs. answers (quiz_handle t ev) = answers t @ xs))"
proof (intro conjI allI impI)
  show "filter (\<lambda>a. questionIndex a = qi) (answers (handleAnswerClick qi oi s))
          = [\<lparr>questionIndex = qi, selectedOption = oi\<rparr>]"
    by (simp add: handleAnswerClick_def Let_def filter_filter)
next
  fix q assume "q \<noteq> qi"
  then show "filter (\<lambda>a. questionIndex a = q) (answers (handleAnswerClick qi oi s))
               = filter (\<lambda>a. questionIndex a = q) (answers s)"
    by (auto simp: handleAnswerClick_def Let_def filter_filter intro: filter_cong)
next
  fix t ev assume "quiz_reachable t \<and> quiz_enabled t ev"
  then show "\<exists>xs. answers (quiz_handle t ev) = answers t @ xs"
    by (cases ev) (auto simp: handler_simps unanswered_filter)
qed

theorem handleAnswerClick_upsert_witness:
  "filter (\<lambda>a. questionIndex a = 0)
      (answers (handleAnswerClick 0 2 (handleAnswerClick 1 3 (handleAnswerClick 0 1 quiz_init))))
     = [\<lparr>questionIndex = 0, selectedOption = 2\<rparr>] \<and>
   filter (\<lambda>a. questionIndex a = 1)
      (answers (handleAnswerClick 0 2 (handleAnswerClick 1 3 (handleAnswerClick 0 1 quiz_init))))
     = [\<lparr>questionIndex = 1, selectedOption = 3\<rparr>] \<and>
   quiz_reachable quiz_init \<and> quiz_enabled quiz_init (AnswerClick 0 1) \<and>
   (\<exists>xs. answers (quiz_handle quiz_init (AnswerClick 0 1)) = answers quiz_init @ xs)"
proof -
  let ?s = "handleAnswerClick 1 3 (handleAnswerClick 0 1 quiz_init)"
  have "filter (\<lambda>a. questionIndex a = 1) (answers ?s) = [\<lparr>questionIndex = 1, selectedOption = 3\<rparr>]"
    by code_simp
  moreover note up = handleAnswerClick_upsert [of 0 2 ?s]
  ultimately have a1: "filter (\<lambda>a. questionIndex a = 1) (answers (handleAnswerClick 0 2 ?s))
                         = [\<lparr>questionIndex = 1, selectedOption = 3\<rparr>]"
    by simp
  have e: "quiz_enabled quiz_init (AnswerClick 0 1)"
    by (simp add: isAnswered_def quiz_init_def interactiveQuestions_def)
  with up quiz_reachable.init
  have g: "\<exists>xs. answers (quiz_handle quiz_init (AnswerClick 0 1)) = answers quiz_init @ xs"
    by blast
  from up have "filter (\<lambda>a. questionIndex a = 0) (answers (handleAnswerClick 0 2 ?s))
                  = [\<lparr>questionIndex = 0, selectedOption = 2\<rparr>]"
    by (rule conjunct1)
  with a1 e g quiz_reachable.init show ?thesis by (intro conjI)
qed

text \<open>
  The contract's completeness test: every question \<open>0 .. n - 1\<close> has exactly one
  answer.
\<close>

definition isComplete :: "quiz_state \<Rightarrow> nat \<Rightarrow> bool" where
  "isComplete s n \<longleftrightarrow> (\<forall>q < n. length (filter (\<lambda>a. questionIndex a = q) (answers s)) = 1)"

text \<open>
  C15. The results are shown only once every question has an answer, and the code's
  completion test is the contract's: in every reachable state with \<open>showResults\<close> each of
  the questions is answered and \<open>isComplete\<close> holds, and in every reachable state the
  test \<open>newAnswers.length === interactiveQuestions.length\<close> is \<open>isComplete\<close>.
\<close>

theorem completion_test_equiv:
  assumes "quiz_reachable s"
  shows "(showResults s \<longrightarrow> (\<forall>q < length interactiveQuestions. isAnswered q s) \<and>
            isComplete s (length interactiveQuestions)) \<and>
         (length (answers s) = length interactiveQuestions \<longleftrightarrow> isComplete s (length interactiveQuestions))"
proof -
  from assms have inv: "quiz_inv s" by (rule quiz_reachable_inv)
  then have "distinct (map questionIndex (answers s))"
    by (simp add: quiz_inv_def)
  then have "length (filter (\<lambda>a. questionIndex a = q) (answers s)) = 1 \<longleftrightarrow> isAnswered q s" for q
    by (simp add: isAnswered_iff length_filter_distinct_key)
  with reachable_all_answered [OF assms]
  have eq: "length (answers s) = length interactiveQuestions \<longleftrightarrow> isComplete s (length interactiveQuestions)"
    by (simp add: isComplete_def)
  moreover have "showResults s \<Longrightarrow> length (answers s) = length interactiveQuestions"
    using inv by (simp add: quiz_inv_def)
  ultimately show ?thesis
    using reachable_all_answered [OF assms] by auto
qed

theorem completion_test_equiv_witness:
  "quiz_reachable (quiz_run quiz_init scenario_b) \<and> showResults (quiz_run quiz_init scenario_b) \<and>
   isAnswered 0 (quiz_run quiz_init scenario_b) \<and> isAnswered 1 (quiz_run quiz_init scenario_b) \<and>
   isAnswered 2 (quiz_run quiz_init scenario_b) \<and>
   isComplete (quiz_run quiz_init scenario_b) (length interactiveQuestions)"
proof -
  have "showResults (quiz_run quiz_init scenario_b)" by (simp add: scenario_b_state)
  with completion_test_equiv [OF scenario_b_reachable] scenario_b_reachable
  show ?thesis by (simp add: interactiveQuestions_def)
qed


text \<open>
  Completing the quiz leads to the results: in a reachable state where every
  question is answered and the results are not shown yet, the scheduled timer is pending
  and firing it shows the results.
\<close>

lemma results_follow_completion:
  assumes "quiz_reachable s" and "length (answers s) = length interactiveQuestions"
    and "\<not> showResults s"
  shows "quiz_enabled s TimerFires \<and> showResults (quiz_handle s TimerFires)"
proof -
  from assms(1) have "quiz_inv s" by (rule quiz_reachable_inv)
  with assms(2,3) have "pendingTimers s = 1" by (simp add: quiz_inv_def)
  then show ?thesis by (simp add: handler_simps)
qed

definition three_answers :: "quiz_event list" where
  "three_answers = [AnswerClick 0 1, AnswerClick 1 3, AnswerClick 2 2]"

lemma results_follow_completion_scenario:
  "quiz_reachable (quiz_run quiz_init three_answers) \<and>
   length (answers (quiz_run quiz_init three_answers)) = length interactiveQuestions \<and>
   \<not> showResults (quiz_run quiz_init three_answers) \<and>
   quiz_enabled (quiz_run quiz_init three_answers) TimerFires \<and>
   showResults (quiz_handle (quiz_run quiz_init three_answers) TimerFires)"
proof -
  have v: "quiz_valid_run quiz_init three_answers" by code_simp
  have r: "quiz_reachable (quiz_run quiz_init three_answers)"
    by (rule quiz_run_reachable [OF quiz_reachable.init v])
  have l: "length (answers (quiz_run quiz_init three_answers)) = length interactiveQuestions"
    by code_simp
  have n: "\<not> showResults (quiz_run quiz_init three_answers)" by code_simp
  show ?thesis using results_follow_completion [OF r l n] r l n by simp
qed

text \<open>
  C18. The error paths of \<open>getPersonalityResult\<close>, for every list of answers, as
  JavaScript runs the reduce: it throws a \<open>TypeError\<close> exactly when some answer names a
  question that does not exist; and when every question exists but some option is past its
  question's scores, the sum is \<open>NaN\<close>, which fails both \<open>>=\<close> tests and yields
  \<open>prompt_wizard\<close>. The buttons never produce such answers (\<open>score_bounds\<close>).
\<close>

theorem personality_error_paths:
  "(getPersonalityResult s = Inl TypeError \<longleftrightarrow>
      (\<exists>a \<in> set (answers s). length interactiveQuestions \<le> questionIndex a)) \<and>
   ((\<forall>a \<in> set (answers s). questionIndex a < length interactiveQuestions) \<and>
    (\<exists>a \<in> set (answers s). length (scores (interactiveQuestions ! questionIndex a)) \<le> selectedOption a)
    \<longrightarrow> getPersonalityResult s = Inr PromptWizard)"
proof (intro conjI impI)
  have "getPersonalityResult s = Inl TypeError \<longleftrightarrow> totalScore (answers s) = Inl TypeError"
    by (cases "totalScore (answers s)") (simp_all add: getPersonalityResult_def)
  then show "getPersonalityResult s = Inl TypeError \<longleftrightarrow>
      (\<exists>a \<in> set (answers s). length interactiveQuestions \<le> questionIndex a)"
    by (simp add: totalScore_def score_from_error)
next
  assume "(\<forall>a \<in> set (answers s). questionIndex a < length interactiveQuestions) \<and>
    (\<exists>a \<in> set (answers s). length (scores (interactiveQuestions ! questionIndex a)) \<le> selectedOption a)"
  then have "totalScore (answers s) = Inr NaN"
    unfolding totalScore_def by (intro score_from_NaN) auto
  then show "getPersonalityResult s = Inr PromptWizard"
    by (simp add: getPersonalityResult_def)
qed

theorem personality_error_paths_witness:
  "getPersonalityResult \<lparr>answers = [\<lparr>questionIndex = 5, selectedOption = 0\<rparr>],
                         showResults = True, pendingTimers = 0\<rparr> = Inl TypeError \<and>
   getPersonalityResult \<lparr>answers = [\<lparr>questionIndex = 0, selectedOption = 7\<rparr>],
                         showResults = True, pendingTimers = 0\<rparr> = Inr PromptWizard"
proof -
  have "(\<forall>a \<in> set [\<lparr>questionIndex = 0, selectedOption = 7\<rparr>]. questionIndex a < length interactiveQuestions) \<and>
    (\<exists>a \<in> set [\<lparr>questionIndex = 0, selectedOption = 7::nat\<rparr>].
       length (scores (interactiveQuestions ! questionIndex a)) \<le> selectedOption a)"
    by (simp add: interactiveQuestions_def)
  then show ?thesis
    using personality_error_paths [of "\<lparr>answers = [\<lparr>questionIndex = 5, selectedOption = 0\<rparr>],
                         showResults = True, pendingTimers = 0\<rparr>"]
          personality_error_paths [of "\<lparr>answers = [\<lparr>questionIndex = 0, selectedOption = 7\<rparr>],
                         showResults = True, pendingTimers = 0\<rparr>"]
    by simp
qed

end
