(* ===== verification/Architecture.thy ===== *)
theory Architecture
  imports Prelude
begin

text \<open>
  The architecture diagram of the introduction (\<open>src/src/components/Introduction.tsx\<close>,
  function \<open>ArchitecturePlayground\<close>). Its data is the constant array
  \<open>architectureComponents\<close>: seven components, each with an id, a position in percent
  of the diagram and the ids it sends data to. Its state is \<open>selectedComponent\<close> (an id
  or \<open>null\<close>) and \<open>showDataFlow\<close>. \<open>renderDataFlowArrows\<close> draws, when the flow is
  shown, one quadratic Bezier arrow per connection whose target exists, and after them eight
  hardcoded \<open><line>\<close> elements.

  Of each component the model keeps the fields the code computes with: \<open>id\<close>,
  \<open>name\<close> (shown in the connection chips), \<open>position\<close> and
  \<open>connections\<close>; the texts of the details panel are only rendered. The Bezier
  coordinates are computed over the reals; JavaScript computes them in binary floating
  point, which differs only in the last bits of \<open>0.15\<close>.
\<close>

record arch_component =
  compId :: string
  compName :: string
  posX :: int
  posY :: int
  connections :: "string list"

definition architectureComponents :: "arch_component list" where
  "architectureComponents = [
     \<lparr>compId = ''user-input'', compName = ''User Input'',
      posX = 5, posY = 50, connections = [''system-prompt'', ''rag-retrieval'']\<rparr>,
     \<lparr>compId = ''system-prompt'', compName = ''System Prompt'',
      posX = 25, posY = 20, connections = [''prompt-engineering'']\<rparr>,
     \<lparr>compId = ''rag-retrieval'', compName = ''RAG Retrieval'',
      posX = 25, posY = 80, connections = [''prompt-engineering'']\<rparr>,
     \<lparr>compId = ''prompt-engineering'', compName = ''Prompt Engineering'',
      posX = 50, posY = 50, connections = [''llm-processing'']\<rparr>,
     \<lparr>compId = ''llm-processing'', compName = ''LLM Processing'',
      posX = 75, posY = 50, connections = [''tool-integration'', ''output-processing'']\<rparr>,
     \<lparr>compId = ''tool-integration'', compName = ''Tool Integration'',
      posX = 90, posY = 30, connections = [''output-processing'']\<rparr>,
     \<lparr>compId = ''output-processing'', compName = ''Output Processing'',
      posX = 90, posY = 70, connections = []\<rparr>]"

text \<open>\<open>architectureComponents.find(c => c.id === i)\<close>.\<close>

definition find_component :: "arch_component list \<Rightarrow> string \<Rightarrow> arch_component option" where
  "find_component cs i = find (\<lambda>c. compId c = i) cs"

record arch_state =
  selectedComponent :: "string option"
  showDataFlow :: bool

definition arch_init :: arch_state where
  "arch_init = \<lparr>selectedComponent = None, showDataFlow = True\<rparr>"

text \<open>\<open>find(c => c.id === selectedComponent)\<close>: no id is \<open>null\<close>.\<close>

definition selectedComponentData :: "arch_state \<Rightarrow> arch_component option" where
  "selectedComponentData s =
     (case selectedComponent s of None \<Rightarrow> None | Some i \<Rightarrow> find_component architectureComponents i)"

subsection \<open>The data-flow arrows\<close>

record flow_path =
  startX :: real
  startY :: real
  controlX :: real
  controlY :: real
  endX :: real
  endY :: real

definition flow_path_of :: "arch_component \<Rightarrow> arch_component \<Rightarrow> flow_path" where
  "flow_path_of c t =
     (let sx = of_int (posX c); sy = of_int (posY c); ex = of_int (posX t); ey = of_int (posY t);
          midX = (sx + ex) / 2; midY = (sy + ey) / 2
      in \<lparr>startX = sx, startY = sy,
          controlX = midX + (ey - sy) * 0.15, controlY = midY - (ex - sx) * 0.15,
          endX = ex, endY = ey\<rparr>)"

record flow_arrow =
  arrowKey :: string
  arrowPath :: flow_path

text \<open>The arrows of one component: a target that is not found renders \<open>null\<close>.\<close>

definition component_arrows :: "arch_component list \<Rightarrow> arch_component \<Rightarrow> flow_arrow list" where
  "component_arrows cs c =
     concat (map (\<lambda>t. case find_component cs t of
                          None \<Rightarrow> []
                        | Some tg \<Rightarrow> [\<lparr>arrowKey = compId c @ ''-'' @ t, arrowPath = flow_path_of c tg\<rparr>])
                 (connections c))"

record flow_line =
  x1 :: int
  y1 :: int
  x2 :: int
  y2 :: int

definition staticFlowLines :: "flow_line list" where
  "staticFlowLines = [
     \<lparr>x1 = 5, y1 = 50, x2 = 25, y2 = 20\<rparr>, \<lparr>x1 = 5, y1 = 50, x2 = 25, y2 = 80\<rparr>,
     \<lparr>x1 = 25, y1 = 20, x2 = 50, y2 = 50\<rparr>, \<lparr>x1 = 25, y1 = 80, x2 = 50, y2 = 50\<rparr>,
     \<lparr>x1 = 50, y1 = 50, x2 = 75, y2 = 50\<rparr>, \<lparr>x1 = 75, y1 = 50, x2 = 90, y2 = 30\<rparr>,
     \<lparr>x1 = 75, y1 = 50, x2 = 90, y2 = 70\<rparr>, \<lparr>x1 = 90, y1 = 30, x2 = 90, y2 = 70\<rparr>]"

text \<open>\<open>renderDataFlowArrows\<close>: \<open>null\<close> when the flow is hidden, otherwise the arrows of every
  component in order, then the static lines.\<close>

definition arrows_of :: "arch_component list \<Rightarrow> flow_arrow list" where
  "arrows_of cs = concat (map (component_arrows cs) cs)"

definition renderDataFlowArrows ::
  "bool \<Rightarrow> arch_component list \<Rightarrow> (flow_arrow list \<times> flow_line list) option" where
  "renderDataFlowArrows show cs = (if \<not> show then None else Some (arrows_of cs, staticFlowLines))"

text \<open>The connection graph: an edge from each component to each id it lists, in the order
  of the two nested \<open>map\<close>s.\<close>

definition edge_list :: "arch_component list \<Rightarrow> (string \<times> string) list" where
  "edge_list cs = concat (map (\<lambda>c. map (\<lambda>t. (compId c, t)) (connections c)) cs)"

definition arch_edges :: "arch_component list \<Rightarrow> (string \<times> string) set" where
  "arch_edges cs = set (edge_list cs)"

subsection \<open>The diagram as a state machine\<close>

datatype arch_event = ToggleDataFlow | ResetView | ClickComponent string | ClickConnection string

text \<open>Every component box is clickable; a connection chip is rendered for each connection
  of the selected component whose target is found.\<close>

fun arch_enabled :: "arch_state \<Rightarrow> arch_event \<Rightarrow> bool" where
  "arch_enabled s ToggleDataFlow = True"
| "arch_enabled s ResetView = True"
| "arch_enabled s (ClickComponent i) = (i \<in> set (map compId architectureComponents))"
| "arch_enabled s (ClickConnection i) =
     (case selectedComponentData s of
        None \<Rightarrow> False
      | Some c \<Rightarrow> i \<in> set (connections c) \<and> find_component architectureComponents i \<noteq> None)"

fun arch_handle :: "arch_state \<Rightarrow> arch_event \<Rightarrow> arch_state" where
  "arch_handle s ToggleDataFlow = s\<lparr>showDataFlow := \<not> showDataFlow s\<rparr>"
| "arch_handle s ResetView = s\<lparr>selectedComponent := None\<rparr>"
| "arch_handle s (ClickComponent i) = s\<lparr>selectedComponent := Some i\<rparr>"
| "arch_handle s (ClickConnection i) = s\<lparr>selectedComponent := Some i\<rparr>"

inductive arch_reachable :: "arch_state \<Rightarrow> bool" where
  init: "arch_reachable arch_init"
| step: "arch_reachable s \<Longrightarrow> arch_enabled s ev \<Longrightarrow> arch_reachable (arch_handle s ev)"

text \<open>The invariant: a selected id names a component.\<close>

definition arch_inv :: "arch_state \<Rightarrow> bool" where
  "arch_inv s = (case selectedComponent s of
                   None \<Rightarrow> True | Some i \<Rightarrow> i \<in> set (map compId architectureComponents))"

subsection \<open>Lemmas\<close>

lemma find_component_None:
  "(find_component cs i = None) = (i \<notin> set (map compId cs))"
  by (auto simp: find_component_def find_None_iff)

lemma acyclic_by_rank:
  fixes f :: "'a \<Rightarrow> 'b::linorder"
  assumes "\<forall>(a, b) \<in> E. f a < f b"
  shows "acyclic E"
proof -
  have "f a < f b" if "(a, b) \<in> E\<^sup>+" for a b
    using that by (induction rule: trancl_induct) (use assms in auto)
  then show ?thesis by (auto simp: acyclic_def)
qed

lemma arch_ids:
  "map compId architectureComponents =
     [''user-input'', ''system-prompt'', ''rag-retrieval'', ''prompt-engineering'',
      ''llm-processing'', ''tool-integration'', ''output-processing'']"
  by (simp add: architectureComponents_def)

lemma arch_edges_list:
  "arch_edges architectureComponents =
     {(''user-input'', ''system-prompt''), (''user-input'', ''rag-retrieval''),
      (''system-prompt'', ''prompt-engineering''), (''rag-retrieval'', ''prompt-engineering''),
      (''prompt-engineering'', ''llm-processing''), (''llm-processing'', ''tool-integration''),
      (''llm-processing'', ''output-processing''), (''tool-integration'', ''output-processing'')}"
  by (simp add: arch_edges_def edge_list_def architectureComponents_def)

text \<open>The offset of the control point from the midpoint, for any factor \<open>k\<close>.\<close>

lemma bezier_offset_orthogonal:
  fixes sx sy ex ey k :: real
  shows "((sx + ex) / 2 + (ey - sy) * k - (sx + ex) / 2) * (ex - sx)
         + ((sy + ey) / 2 - (ex - sx) * k - (sy + ey) / 2) * (ey - sy) = 0"
  by (simp add: algebra_simps)

lemma bezier_offset_length:
  fixes sx sy ex ey k :: real
  shows "((sx + ex) / 2 + (ey - sy) * k - (sx + ex) / 2)\<^sup>2
         + ((sy + ey) / 2 - (ex - sx) * k - (sy + ey) / 2)\<^sup>2
         = k\<^sup>2 * ((ex - sx)\<^sup>2 + (ey - sy)\<^sup>2)"
  by (simp add: power2_eq_square algebra_simps)

lemma arch_inv_step: "arch_inv s \<Longrightarrow> arch_enabled s ev \<Longrightarrow> arch_inv (arch_handle s ev)"
  by (cases ev) (auto simp: arch_inv_def find_component_None split: option.splits)

lemma arch_reachable_inv: "arch_reachable s \<Longrightarrow> arch_inv s"
  by (induction rule: arch_reachable.induct) (simp add: arch_inv_def arch_init_def, simp add: arch_inv_step)

lemma flow_rank_edges:
  "\<forall>(a, b) \<in> arch_edges architectureComponents.
     (case find_component architectureComponents a of None \<Rightarrow> 0 | Some c \<Rightarrow> 100 * posX c + posY c)
     < (case find_component architectureComponents b of None \<Rightarrow> 0 | Some c \<Rightarrow> 100 * posX c + posY c)"
  unfolding arch_edges_list by (simp add: find_component_def architectureComponents_def)

subsection \<open>Properties\<close>

text \<open>The eight hardcoded lines drawn after the arrows join exactly the endpoints of the
  computed arrows, in the same order: they add no connection.\<close>

lemma static_lines_duplicate_arrows:
  "map (\<lambda>a. (startX (arrowPath a), startY (arrowPath a), endX (arrowPath a), endY (arrowPath a)))
       (arrows_of architectureComponents)
   = map (\<lambda>l. (of_int (x1 l), of_int (y1 l), of_int (x2 l), of_int (y2 l))) staticFlowLines"
  by code_simp

text \<open>Every connection goes to a component further right, or lower in the same column.\<close>

lemma data_flow_acyclic: "acyclic (arch_edges architectureComponents)"
  by (rule acyclic_by_rank [OF flow_rank_edges])

text \<open>The data flow is one acyclic pipeline: it has no cycle, every other component is
  reached from the user input, and every other component reaches the output processing.\<close>

lemma pipeline_input_to_output:
  "acyclic (arch_edges architectureComponents) \<and>
   (arch_edges architectureComponents)\<^sup>+ `` {''user-input''}
     = set (map compId architectureComponents) - {''user-input''} \<and>
   ((arch_edges architectureComponents)\<inverse>)\<^sup>+ `` {''output-processing''}
     = set (map compId architectureComponents) - {''output-processing''}"
proof -
  have "(arch_edges architectureComponents)\<^sup>+ `` {''user-input''}
          = set (map compId architectureComponents) - {''user-input''} \<and>
        ((arch_edges architectureComponents)\<inverse>)\<^sup>+ `` {''output-processing''}
          = set (map compId architectureComponents) - {''output-processing''}"
    by code_simp
  with data_flow_acyclic show ?thesis by simp
qed

lemma find_component_Some: "find_component cs i = Some c \<Longrightarrow> i \<in> compId ` set cs"
  by (auto simp: find_component_def find_Some_iff)

lemma connection_arrow_keys:
  "map arrowKey (concat (map (\<lambda>t. case find_component cs t of
                                    None \<Rightarrow> []
                                  | Some tg \<Rightarrow> [\<lparr>arrowKey = compId c @ ''-'' @ t, arrowPath = flow_path_of c tg\<rparr>])
                             ts))
     = map (\<lambda>t. compId c @ ''-'' @ t) (filter (\<lambda>t. t \<in> set (map compId cs)) ts)"
  by (induction ts) (auto simp: find_component_None split: option.split dest: find_component_Some)

lemma arrow_keys_edges:
  "map arrowKey (concat (map (component_arrows cs) ds))
     = map (\<lambda>(a, b). a @ ''-'' @ b) (filter (\<lambda>(a, b). b \<in> set (map compId cs)) (edge_list ds))"
  by (induction ds) (simp_all add: edge_list_def component_arrows_def connection_arrow_keys filter_map comp_def)

text \<open>C23. \<open>renderDataFlowArrows\<close> draws, for every component list, one arrow per connection
  whose target is a component, in the order of the data, keyed \<open>{component.id}-{targetId}\<close>;
  a connection to a missing id is skipped. For the diagram's components every connection
  names a component, so every connection is drawn, and the keys are distinct.\<close>

theorem every_connection_drawn:
  "map arrowKey (arrows_of cs)
     = map (\<lambda>(a, b). a @ ''-'' @ b) (filter (\<lambda>(a, b). b \<in> set (map compId cs)) (edge_list cs)) \<and>
   snd ` arch_edges architectureComponents \<subseteq> set (map compId architectureComponents) \<and>
   distinct (map arrowKey (arrows_of architectureComponents))"
proof (intro conjI)
  show "map arrowKey (arrows_of cs)
     = map (\<lambda>(a, b). a @ ''-'' @ b) (filter (\<lambda>(a, b). b \<in> set (map compId cs)) (edge_list cs))"
    by (simp add: arrows_of_def arrow_keys_edges)
  show "snd ` arch_edges architectureComponents \<subseteq> set (map compId architectureComponents)"
    by (simp add: arch_edges_list arch_ids)
  show "distinct (map arrowKey (arrows_of architectureComponents))"
    by code_simp
qed

text \<open>C24. The control point of every arrow lies on the perpendicular bisector of the arrow,
  at a distance of 0.15 times the arrow's length from its midpoint.\<close>

theorem control_point_perpendicular:
  "let p = flow_path_of c t; mx = (startX p + endX p) / 2; my = (startY p + endY p) / 2 in
   (controlX p - mx) * (endX p - startX p) + (controlY p - my) * (endY p - startY p) = 0 \<and>
   (controlX p - mx)\<^sup>2 + (controlY p - my)\<^sup>2
     = 0.15\<^sup>2 * ((endX p - startX p)\<^sup>2 + (endY p - startY p)\<^sup>2)"
  unfolding flow_path_of_def Let_def flow_path.simps
  by (intro conjI bezier_offset_orthogonal bezier_offset_length)

text \<open>In every reachable state the details panel is shown exactly when a component is
  selected: a selected id always names a component.\<close>

lemma details_iff_selected:
  "arch_reachable s \<Longrightarrow> (selectedComponentData s \<noteq> None) = (selectedComponent s \<noteq> None)"
  by (drule arch_reachable_inv)
     (cases "selectedComponent s"; simp add: arch_inv_def selectedComponentData_def find_component_None)

lemma details_iff_selected_example:
  "arch_reachable (arch_handle arch_init (ClickComponent ''llm-processing'')) \<and>
   selectedComponentData (arch_handle arch_init (ClickComponent ''llm-processing'')) \<noteq> None"
proof -
  have r: "arch_reachable (arch_handle arch_init (ClickComponent ''llm-processing''))"
    by (rule arch_reachable.step [OF arch_reachable.init]) (simp add: arch_ids)
  show ?thesis using details_iff_selected [OF r] r by simp
qed

end
