(* ===== verification/Methods.thy ===== *)
theory Methods
  imports Prelude
begin

text \<open>
  The prompting-methods laboratory (\<open>src/src/components/PromptingMethods.tsx\<close>,
  function \<open>PromptingMethods\<close>). Its data is the constant array
  \<open>promptingMethods\<close>: seven methods with three practice examples each, and the table
  \<open>methodComparison\<close>. Its state is five hooks: the selected method id (or \<open>null\<close>),
  the index of the selected example, the text of the prompt editor, the flag
  \<open>showComparison\<close> and the text last copied to the clipboard. \<open>handleCopyPrompt\<close>
  waits for the clipboard write and then schedules \<open>setCopiedText('')\<close> two seconds
  after every successful copy; the scheduled
  callbacks are the counter \<open>copyTimers\<close>, and since all of them have the same delay
  they fire in the order they were scheduled.

  The clipboard writes that are started settle in any order. Of a method the model keeps
  its id, title, accent and examples; of an example its id, title and
  the two prompts, which the handlers copy into the editor and to the clipboard. The other
  fields (descriptions, tips, principles, icons) are only rendered. Strings are
  transcribed character by character, a non-ASCII character as its UTF-8 bytes. The
  focus call on the text area and the clipboard itself are host effects: the outcome of
  \<open>navigator.clipboard.writeText\<close> is a parameter of the event that settles it.
\<close>

record prompt_example =
  exampleId :: string
  exampleTitle :: string
  badPrompt :: string
  goodPrompt :: string

record method_data =
  methodId :: string
  methodTitle :: string
  methodAccent :: string
  methodExamples :: "prompt_example list"

record comparison_row =
  aspect :: string
  cells :: "(string \<times> string) list"

definition method_zero_shot :: method_data where
  "method_zero_shot = \<lparr>methodId = ''zero-shot'', methodTitle = ''Zero-Shot Prompting'', methodAccent = ''text-cyan-400'',
     methodExamples = [
       \<lparr>exampleId = ''email-classification'', exampleTitle = ''Email Priority Classification'',
        badPrompt = ''Is this email important?'',
        goodPrompt = ''Classify this customer support email as HIGH, MEDIUM, or LOW priority. Respond with only the priority level.'' @ [CHR 0x0A, CHR 0x0A] @ ''Email: '' @ [CHR 0x22] @ ''Hi, our entire production system is down and we'' @ [CHR 0x27] @ ''re losing $10k per hour. We need immediate assistance. This is affecting 50,000+ users.'' @ [CHR 0x22, CHR 0x0A, CHR 0x0A] @ ''Priority:''\<rparr>,
       \<lparr>exampleId = ''meeting-extraction'', exampleTitle = ''Meeting Notes Extraction'',
        badPrompt = ''What are the important things from this meeting?'',
        goodPrompt = ''Extract action items from this meeting transcript and format as JSON with fields: task, assignee, deadline, priority.'' @ [CHR 0x0A, CHR 0x0A] @ ''Transcript: '' @ [CHR 0x22] @ ''Sarah, can you finish the Q4 budget report by Friday? It'' @ [CHR 0x27] @ ''s critical for the board meeting. Also, Mike, please review the vendor contracts by next Tuesday - that'' @ [CHR 0x27] @ ''s lower priority.'' @ [CHR 0x22, CHR 0x0A, CHR 0x0A] @ ''JSON:''\<rparr>,
       \<lparr>exampleId = ''content-moderation'', exampleTitle = ''Social Media Content Moderation'',
        badPrompt = ''Is this post okay?'',
        goodPrompt = ''Review this social media post for policy violations. Respond with: APPROVED, FLAGGED, or REMOVED, followed by the reason.'' @ [CHR 0x0A, CHR 0x0A] @ ''Post: '' @ [CHR 0x22] @ ''Check out this amazing weight loss supplement! Lost 30 lbs in 2 weeks! DM me for the secret formula that doctors don'' @ [CHR 0x27] @ ''t want you to know!'' @ [CHR 0x22, CHR 0x0A, CHR 0x0A] @ ''Decision:''\<rparr>]\<rparr>"

definition method_few_shot :: method_data where
  "method_few_shot = \<lparr>methodId = ''few-shot'', methodTitle = ''Few-Shot Prompting'', methodAccent = ''text-green-400'',
     methodExamples = [
       \<lparr>exampleId = ''product-description'', exampleTitle = ''E-commerce Product Descriptions'',
        badPrompt = ''Write product descriptions like these examples:'' @ [CHR 0x0A] @ ''Example 1: '' @ [CHR 0x22] @ ''Good phone'' @ [CHR 0x22, CHR 0x0A] @ ''Example 2: '' @ [CHR 0x22] @ ''Nice laptop'' @ [CHR 0x22],
        goodPrompt = ''Write product descriptions following this format:'' @ [CHR 0x0A, CHR 0x0A] @ ''Example 1:'' @ [CHR 0x0A] @ ''Product: Wireless Bluetooth Headphones'' @ [CHR 0x0A] @ ''Description: '' @ [CHR 0x22] @ ''Experience crystal-clear audio freedom with these premium wireless headphones. 30-hour battery life keeps your music playing all day, while active noise cancellation blocks out distractions. Perfect for commuters, fitness enthusiasts, and audiophiles.'' @ [CHR 0x22, CHR 0x0A, CHR 0x0A] @ ''Example 2:'' @ [CHR 0x0A] @ ''Product: Ergonomic Office Chair'' @ [CHR 0x0A] @ ''Description: '' @ [CHR 0x22] @ ''Transform your workspace with this ergonomic office chair designed for all-day comfort. Adjustable lumbar support reduces back strain, while breathable mesh keeps you cool during long work sessions. Ideal for remote workers and office professionals.'' @ [CHR 0x22, CHR 0x0A, CHR 0x0A] @ ''Now write for:'' @ [CHR 0x0A] @ ''Product: Smart Fitness Watch'' @ [CHR 0x0A] @ ''Description:''\<rparr>,
       \<lparr>exampleId = ''customer-response'', exampleTitle = ''Customer Service Responses'',
        badPrompt = ''Respond to customer complaints professionally'',
        goodPrompt = ''Respond to customer complaints using this approach:'' @ [CHR 0x0A, CHR 0x0A] @ ''Example 1:'' @ [CHR 0x0A] @ ''Complaint: '' @ [CHR 0x22] @ ''My order arrived damaged and I need a refund immediately!'' @ [CHR 0x22, CHR 0x0A] @ ''Response: '' @ [CHR 0x22] @ ''I sincerely apologize for receiving a damaged item. I understand how frustrating this must be. I'' @ [CHR 0x27] @ ''ve immediately processed a full refund and expedited a replacement. You'' @ [CHR 0x27] @ ''ll receive tracking info within 2 hours. Is there anything else I can do to make this right?'' @ [CHR 0x22, CHR 0x0A, CHR 0x0A] @ ''Example 2:'' @ [CHR 0x0A] @ ''Complaint: '' @ [CHR 0x22] @ ''Your website is confusing and I can'' @ [CHR 0x27] @ ''t find what I need.'' @ [CHR 0x22, CHR 0x0A] @ ''Response: '' @ [CHR 0x22] @ ''Thank you for this feedback - it helps us improve. I'' @ [CHR 0x27] @ ''d be happy to personally help you find what you'' @ [CHR 0x27] @ ''re looking for right now. Could you tell me what specific product or information you need? I'' @ [CHR 0x27] @ ''ll also share your website feedback with our UX team.'' @ [CHR 0x22, CHR 0x0A, CHR 0x0A] @ ''Now respond to:'' @ [CHR 0x0A] @ ''Complaint: '' @ [CHR 0x22] @ ''I'' @ [CHR 0x27] @ ''ve been waiting 3 weeks for my order and no one responds to my emails!'' @ [CHR 0x22, CHR 0x0A] @ ''Response:''\<rparr>,
       \<lparr>exampleId = ''code-documentation'', exampleTitle = ''API Documentation Generation'',
        badPrompt = ''Document this function'',
        goodPrompt = ''Generate API documentation following this format:'' @ [CHR 0x0A, CHR 0x0A] @ ''Example 1:'' @ [CHR 0x0A] @ ''Function: calculateShippingCost(weight, distance, priority)'' @ [CHR 0x0A] @ ''Documentation:'' @ [CHR 0x0A] @ ''**Purpose**: Calculates shipping cost based on package weight, delivery distance, and priority level'' @ [CHR 0x0A] @ ''**Parameters**: '' @ [CHR 0x0A] @ ''- weight (number): Package weight in pounds'' @ [CHR 0x0A] @ ''- distance (number): Delivery distance in miles  '' @ [CHR 0x0A] @ ''- priority (string): '' @ [CHR 0x22] @ ''standard'' @ [CHR 0x22] @ '', '' @ [CHR 0x22] @ ''express'' @ [CHR 0x22] @ '', or '' @ [CHR 0x22] @ ''overnight'' @ [CHR 0x22, CHR 0x0A] @ ''**Returns**: number - Total shipping cost in USD'' @ [CHR 0x0A] @ ''**Example**: calculateShippingCost(5, 100, '' @ [CHR 0x22] @ ''express'' @ [CHR 0x22] @ '') '' @ [CHR 0xE2, CHR 0x80, CHR 0x9A, CHR 0xC3, CHR 0x9C, CHR 0xC3, CHR 0xAD] @ '' 24.99'' @ [CHR 0x0A, CHR 0x0A] @ ''Example 2:'' @ [CHR 0x0A] @ ''Function: validateEmail(emailAddress)'' @ [CHR 0x0A] @ ''Documentation:'' @ [CHR 0x0A] @ ''**Purpose**: Validates email address format and checks for common typos'' @ [CHR 0x0A] @ ''**Parameters**:'' @ [CHR 0x0A] @ ''- emailAddress (string): Email address to validate'' @ [CHR 0x0A] @ ''**Returns**: object - {isValid: boolean, suggestions: string[]}'' @ [CHR 0x0A] @ ''**Example**: validateEmail('' @ [CHR 0x22] @ ''user@gmial.com'' @ [CHR 0x22] @ '') '' @ [CHR 0xE2, CHR 0x80, CHR 0x9A, CHR 0xC3, CHR 0x9C, CHR 0xC3, CHR 0xAD] @ '' {isValid: false, suggestions: ['' @ [CHR 0x22] @ ''user@gmail.com'' @ [CHR 0x22] @ '']}'' @ [CHR 0x0A, CHR 0x0A] @ ''Now document:'' @ [CHR 0x0A] @ ''Function: generateInvoice(customerId, items, taxRate)'' @ [CHR 0x0A] @ ''Documentation:''\<rparr>]\<rparr>"

definition method_chain_of_thought :: method_data where
  "method_chain_of_thought = \<lparr>methodId = ''chain-of-thought'', methodTitle = ''Chain-of-Thought'', methodAccent = ''text-blue-400'',
     methodExamples = [
       \<lparr>exampleId = ''pricing-strategy'', exampleTitle = ''SaaS Pricing Strategy'',
        badPrompt = ''What should we price our project management software at?'',
        goodPrompt = ''Determine the optimal pricing for our new project management software. Let'' @ [CHR 0x27] @ ''s think through this step by step:'' @ [CHR 0x0A, CHR 0x0A] @ ''Step 1: Analyze our target market and customer segments'' @ [CHR 0x0A] @ ''Step 2: Research competitor pricing and positioning'' @ [CHR 0x0A] @ ''Step 3: Calculate our costs and desired profit margins'' @ [CHR 0x0A] @ ''Step 4: Consider value proposition and willingness to pay'' @ [CHR 0x0A] @ ''Step 5: Recommend pricing tiers and justification'' @ [CHR 0x0A, CHR 0x0A] @ ''Context: B2B SaaS for teams of 10-100 people, key features include task management, time tracking, reporting. Main competitors: Asana ($10.99/user), Monday.com ($8/user), Trello ($5/user).'' @ [CHR 0x0A, CHR 0x0A] @ ''Pricing Analysis:''\<rparr>,
       \<lparr>exampleId = ''bug-diagnosis'', exampleTitle = ''Software Bug Diagnosis'',
        badPrompt = ''Why is our website slow?'',
        goodPrompt = ''Diagnose this production performance issue step by step:'' @ [CHR 0x0A, CHR 0x0A] @ ''Problem: Website response time increased from 200ms to 3000ms over the past 2 hours. Users reporting timeouts.'' @ [CHR 0x0A, CHR 0x0A] @ ''Let'' @ [CHR 0x27] @ ''s systematically investigate:'' @ [CHR 0x0A] @ ''Step 1: Check server resource utilization (CPU, memory, disk)'' @ [CHR 0x0A] @ ''Step 2: Analyze database query performance and connections'' @ [CHR 0x0A] @ ''Step 3: Review recent deployments and configuration changes'' @ [CHR 0x0A] @ ''Step 4: Examine network and CDN performance'' @ [CHR 0x0A] @ ''Step 5: Check third-party service dependencies'' @ [CHR 0x0A] @ ''Step 6: Identify root cause and recommend immediate fixes'' @ [CHR 0x0A, CHR 0x0A] @ ''Additional context: E-commerce site, 10k concurrent users, recent deployment 3 hours ago.'' @ [CHR 0x0A, CHR 0x0A] @ ''Diagnosis:''\<rparr>,
       \<lparr>exampleId = ''investment-analysis'', exampleTitle = ''Investment Decision Analysis'',
        badPrompt = ''Should we invest in this startup?'',
        goodPrompt = ''Evaluate this investment opportunity using systematic analysis:'' @ [CHR 0x0A, CHR 0x0A] @ ''Opportunity: $500K investment for 20% equity in AI-powered recruiting platform'' @ [CHR 0x0A, CHR 0x0A] @ ''Let'' @ [CHR 0x27] @ ''s analyze step by step:'' @ [CHR 0x0A] @ ''Step 1: Market size and growth potential assessment'' @ [CHR 0x0A] @ ''Step 2: Competitive landscape and differentiation analysis'' @ [CHR 0x0A] @ ''Step 3: Team evaluation and execution capability'' @ [CHR 0x0A] @ ''Step 4: Financial projections and unit economics review'' @ [CHR 0x0A] @ ''Step 5: Risk assessment and mitigation strategies'' @ [CHR 0x0A] @ ''Step 6: Expected ROI and exit scenarios'' @ [CHR 0x0A] @ ''Step 7: Final recommendation with reasoning'' @ [CHR 0x0A, CHR 0x0A] @ ''Company details: 2-year-old startup, $2M ARR, 40% YoY growth, 15 employees, targeting $50B recruiting market.'' @ [CHR 0x0A, CHR 0x0A] @ ''Investment Analysis:''\<rparr>]\<rparr>"

definition method_self_consistency :: method_data where
  "method_self_consistency = \<lparr>methodId = ''self-consistency'', methodTitle = ''Self-Consistency'', methodAccent = ''text-purple-400'',
     methodExamples = [
       \<lparr>exampleId = ''market-sizing'', exampleTitle = ''Market Size Estimation'',
        badPrompt = ''What'' @ [CHR 0x27] @ ''s the market size for food delivery apps in NYC?'',
        goodPrompt = ''Estimate the NYC food delivery app market size using 3 different approaches, then determine the consensus:'' @ [CHR 0x0A, CHR 0x0A] @ ''Approach 1: Top-down analysis (total restaurant spending '' @ [CHR 0xE2, CHR 0x80, CHR 0x9A, CHR 0xC3, CHR 0x9C, CHR 0xC3, CHR 0xAD] @ '' delivery percentage)'' @ [CHR 0x0A] @ ''Approach 2: Bottom-up analysis (population '' @ [CHR 0xE2, CHR 0x80, CHR 0x9A, CHR 0xC3, CHR 0x9C, CHR 0xC3, CHR 0xAD] @ '' usage rate '' @ [CHR 0xE2, CHR 0x80, CHR 0x9A, CHR 0xC3, CHR 0x9C, CHR 0xC3, CHR 0xAD] @ '' average spend)'' @ [CHR 0x0A] @ ''Approach 3: Competitor analysis (known player revenues '' @ [CHR 0xE2, CHR 0x80, CHR 0x9A, CHR 0xC3, CHR 0x9C, CHR 0xC3, CHR 0xAD] @ '' market share estimation)'' @ [CHR 0x0A, CHR 0x0A] @ ''For each approach:'' @ [CHR 0x0A] @ ''- Show your calculation steps'' @ [CHR 0x0A] @ ''- State key assumptions'' @ [CHR 0x0A] @ ''- Provide market size estimate'' @ [CHR 0x0A, CHR 0x0A] @ ''Then compare all three estimates and provide the most reliable consensus figure.'' @ [CHR 0x0A, CHR 0x0A] @ ''Market Analysis:''\<rparr>,
       \<lparr>exampleId = ''hiring-decision'', exampleTitle = ''Candidate Evaluation'',
        badPrompt = ''Should we hire this candidate?'',
        goodPrompt = ''Evaluate this senior developer candidate using 3 different assessment frameworks:'' @ [CHR 0x0A, CHR 0x0A] @ ''Candidate: 8 years experience, strong React/Node.js skills, led 3 major projects, asking $140K, available immediately.'' @ [CHR 0x0A, CHR 0x0A] @ ''Framework 1: Technical competency assessment (skills match, experience level, growth potential)'' @ [CHR 0x0A] @ ''Framework 2: Cultural fit evaluation (team collaboration, communication, values alignment)'' @ [CHR 0x0A] @ ''Framework 3: Business impact analysis (time to productivity, project contribution, ROI)'' @ [CHR 0x0A, CHR 0x0A] @ ''For each framework, provide:'' @ [CHR 0x0A] @ ''- Detailed assessment'' @ [CHR 0x0A] @ ''- Score (1-10)'' @ [CHR 0x0A] @ ''- Key strengths/concerns'' @ [CHR 0x0A, CHR 0x0A] @ ''Then provide consensus hiring recommendation.'' @ [CHR 0x0A, CHR 0x0A] @ ''Candidate Evaluation:''\<rparr>,
       \<lparr>exampleId = ''feature-prioritization'', exampleTitle = ''Product Feature Prioritization'',
        badPrompt = ''Which features should we build first?'',
        goodPrompt = ''Prioritize these 5 product features using 3 different scoring methods:'' @ [CHR 0x0A, CHR 0x0A] @ ''Features: Advanced search, Mobile app, API integration, User analytics, Social sharing'' @ [CHR 0x0A, CHR 0x0A] @ ''Method 1: RICE scoring (Reach '' @ [CHR 0xE2, CHR 0x88, CHR 0x9A, CHR 0xC3, CHR 0xB3] @ '' Impact '' @ [CHR 0xE2, CHR 0x88, CHR 0x9A, CHR 0xC3, CHR 0xB3] @ '' Confidence '' @ [CHR 0xE2, CHR 0x88, CHR 0x9A, CHR 0xE2, CHR 0x88, CHR 0x91] @ '' Effort)'' @ [CHR 0x0A] @ ''Method 2: Value vs Effort matrix (Business value score vs Development effort)'' @ [CHR 0x0A] @ ''Method 3: Customer feedback weighting (Support requests + user votes + revenue impact)'' @ [CHR 0x0A, CHR 0x0A] @ ''For each method:'' @ [CHR 0x0A] @ ''- Score all 5 features'' @ [CHR 0x0A] @ ''- Rank them 1-5'' @ [CHR 0x0A] @ ''- Explain scoring rationale'' @ [CHR 0x0A, CHR 0x0A] @ ''Then provide consensus priority ranking.'' @ [CHR 0x0A, CHR 0x0A] @ ''Feature Prioritization:''\<rparr>]\<rparr>"

definition method_meta_prompting :: method_data where
  "method_meta_prompting = \<lparr>methodId = ''meta-prompting'', methodTitle = ''Meta-Prompting'', methodAccent = ''text-yellow-400'',
     methodExamples = [
       \<lparr>exampleId = ''customer-support-optimization'', exampleTitle = ''Customer Support Prompt Optimization'',
        badPrompt = ''Make this chatbot prompt better'',
        goodPrompt = ''You are a prompt optimization expert. Improve this customer support chatbot prompt based on performance data:'' @ [CHR 0x0A, CHR 0x0A] @ ''Current prompt: '' @ [CHR 0x22] @ ''Help the customer with their question'' @ [CHR 0x22, CHR 0x0A, CHR 0x0A] @ ''Performance issues:'' @ [CHR 0x0A] @ ''- 65% customer satisfaction (target: 85%)'' @ [CHR 0x0A] @ ''- Responses too generic and impersonal'' @ [CHR 0x0A] @ ''- Doesn'' @ [CHR 0x27] @ ''t gather enough context before responding'' @ [CHR 0x0A] @ ''- Fails to set proper expectations'' @ [CHR 0x0A, CHR 0x0A] @ ''Customer feedback: '' @ [CHR 0x22] @ ''Felt like talking to a robot'' @ [CHR 0x22] @ '', '' @ [CHR 0x22] @ ''Didn'' @ [CHR 0x27] @ ''t understand my specific situation'' @ [CHR 0x22] @ '', '' @ [CHR 0x22] @ ''No follow-up or next steps'' @ [CHR 0x22, CHR 0x0A, CHR 0x0A] @ ''Create an improved prompt that:'' @ [CHR 0x0A] @ ''1. Increases personalization'' @ [CHR 0x0A] @ ''2. Gathers relevant context'' @ [CHR 0x0A] @ ''3. Sets clear expectations'' @ [CHR 0x0A] @ ''4. Provides specific next steps'' @ [CHR 0x0A, CHR 0x0A] @ ''Optimized Prompt:''\<rparr>,
       \<lparr>exampleId = ''content-generation-refinement'', exampleTitle = ''Marketing Content Prompt Refinement'',
        badPrompt = ''Improve this content prompt'',
        goodPrompt = ''You are a content optimization specialist. Refine this social media content prompt based on engagement data:'' @ [CHR 0x0A, CHR 0x0A] @ ''Current prompt: '' @ [CHR 0x22] @ ''Write engaging social media posts about our products'' @ [CHR 0x22, CHR 0x0A, CHR 0x0A] @ ''Performance metrics:'' @ [CHR 0x0A] @ ''- Average engagement rate: 2.1% (industry average: 4.2%)'' @ [CHR 0x0A] @ ''- Click-through rate: 0.8% (target: 2.5%)'' @ [CHR 0x0A] @ ''- Comments mostly generic, few meaningful conversations'' @ [CHR 0x0A, CHR 0x0A] @ ''Successful posts analysis:'' @ [CHR 0x0A] @ ''- Posts with questions get 3x more comments'' @ [CHR 0x0A] @ ''- Behind-the-scenes content performs 40% better'' @ [CHR 0x0A] @ ''- Posts with clear CTAs have 2x higher click-through'' @ [CHR 0x0A, CHR 0x0A] @ ''Create an optimized prompt that:'' @ [CHR 0x0A] @ ''1. Incorporates high-performing content types'' @ [CHR 0x0A] @ ''2. Includes engagement-driving elements'' @ [CHR 0x0A] @ ''3. Specifies clear calls-to-action'' @ [CHR 0x0A] @ ''4. Encourages authentic brand voice'' @ [CHR 0x0A, CHR 0x0A] @ ''Refined Prompt:''\<rparr>,
       \<lparr>exampleId = ''sales-email-enhancement'', exampleTitle = ''Sales Email Prompt Enhancement'',
        badPrompt = ''Make sales emails more effective'',
        goodPrompt = ''You are a sales optimization expert. Enhance this sales outreach prompt based on A/B testing results:'' @ [CHR 0x0A, CHR 0x0A] @ ''Current prompt: '' @ [CHR 0x22] @ ''Write a sales email to potential customers'' @ [CHR 0x22, CHR 0x0A, CHR 0x0A] @ ''A/B test results (1000 emails each):'' @ [CHR 0x0A] @ ''- Version A (current): 12% open rate, 2% response rate'' @ [CHR 0x0A] @ ''- Version B (personalized): 28% open rate, 8% response rate'' @ [CHR 0x0A] @ ''- Version C (value-focused): 22% open rate, 6% response rate'' @ [CHR 0x0A, CHR 0x0A] @ ''High-performing elements:'' @ [CHR 0x0A] @ ''- Personalized subject lines (+15% open rate)'' @ [CHR 0x0A] @ ''- Specific value propositions (+4% response rate)'' @ [CHR 0x0A] @ ''- Social proof mentions (+3% response rate)'' @ [CHR 0x0A] @ ''- Clear, single call-to-action (+2% response rate)'' @ [CHR 0x0A, CHR 0x0A] @ ''Create an enhanced prompt that:'' @ [CHR 0x0A] @ ''1. Mandates personalization elements'' @ [CHR 0x0A] @ ''2. Focuses on specific value delivery'' @ [CHR 0x0A] @ ''3. Includes social proof integration'' @ [CHR 0x0A] @ ''4. Specifies optimal email structure'' @ [CHR 0x0A, CHR 0x0A] @ ''Enhanced Prompt:''\<rparr>]\<rparr>"

definition method_tree_of_thoughts :: method_data where
  "method_tree_of_thoughts = \<lparr>methodId = ''tree-of-thoughts'', methodTitle = ''Tree-of-Thoughts'', methodAccent = ''text-orange-400'',
     methodExamples = [
       \<lparr>exampleId = ''crisis-management'', exampleTitle = ''Crisis Management Planning'',
        badPrompt = ''How should we handle this PR crisis?'',
        goodPrompt = ''Develop a crisis management strategy using Tree-of-Thoughts for this scenario:'' @ [CHR 0x0A, CHR 0x0A] @ ''Crisis: Major data breach affecting 100K customers, media coverage starting, regulatory investigation likely.'' @ [CHR 0x0A, CHR 0x0A] @ ''Decision Tree:'' @ [CHR 0x0A] @ ''Level 1: Initial response approach'' @ [CHR 0x0A] @ ''- Branch A: Immediate full disclosure'' @ [CHR 0x0A] @ ''- Branch B: Controlled information release'' @ [CHR 0x0A] @ ''- Branch C: Minimal acknowledgment pending investigation'' @ [CHR 0x0A, CHR 0x0A] @ ''Level 2: For each approach, explore communication channels'' @ [CHR 0x0A] @ ''- Sub-branch 1: Press release + CEO statement'' @ [CHR 0x0A] @ ''- Sub-branch 2: Customer email + social media'' @ [CHR 0x0A] @ ''- Sub-branch 3: Regulatory filing + stakeholder calls'' @ [CHR 0x0A, CHR 0x0A] @ ''Level 3: Timeline and resource allocation'' @ [CHR 0x0A] @ ''Level 4: Contingency plans for different scenarios'' @ [CHR 0x0A, CHR 0x0A] @ ''Evaluate each complete path for:'' @ [CHR 0x0A] @ ''- Legal risk mitigation'' @ [CHR 0x0A] @ ''- Customer trust preservation'' @ [CHR 0x0A] @ ''- Regulatory compliance'' @ [CHR 0x0A] @ ''- Business continuity'' @ [CHR 0x0A, CHR 0x0A] @ ''Crisis Strategy Tree:''\<rparr>,
       \<lparr>exampleId = ''product-launch-strategy'', exampleTitle = ''Product Launch Strategy'',
        badPrompt = ''How should we launch our new product?'',
        goodPrompt = ''Plan our SaaS product launch using Tree-of-Thoughts approach:'' @ [CHR 0x0A, CHR 0x0A] @ ''Product: AI-powered project management tool for remote teams'' @ [CHR 0x0A, CHR 0x0A] @ ''Decision Tree:'' @ [CHR 0x0A] @ ''Level 1: Market entry strategy'' @ [CHR 0x0A] @ ''- Branch A: Freemium model launch'' @ [CHR 0x0A] @ ''- Branch B: Paid beta with early adopters'' @ [CHR 0x0A] @ ''- Branch C: Enterprise-first approach'' @ [CHR 0x0A, CHR 0x0A] @ ''Level 2: For each strategy, explore pricing tiers'' @ [CHR 0x0A] @ ''- Sub-branch 1: Single tier pricing'' @ [CHR 0x0A] @ ''- Sub-branch 2: Good-better-best tiers'' @ [CHR 0x0A] @ ''- Sub-branch 3: Usage-based pricing'' @ [CHR 0x0A, CHR 0x0A] @ ''Level 3: Marketing channel mix'' @ [CHR 0x0A] @ ''- Content marketing + SEO'' @ [CHR 0x0A] @ ''- Paid advertising + partnerships'' @ [CHR 0x0A] @ ''- Sales outreach + demos'' @ [CHR 0x0A, CHR 0x0A] @ ''Level 4: Launch timeline and milestones'' @ [CHR 0x0A, CHR 0x0A] @ ''Evaluate each complete path for:'' @ [CHR 0x0A] @ ''- Revenue potential (6-month projection)'' @ [CHR 0x0A] @ ''- Customer acquisition cost'' @ [CHR 0x0A] @ ''- Market penetration speed'' @ [CHR 0x0A] @ ''- Competitive positioning'' @ [CHR 0x0A, CHR 0x0A] @ ''Launch Strategy Tree:''\<rparr>,
       \<lparr>exampleId = ''technical-architecture'', exampleTitle = ''System Architecture Design'',
        badPrompt = ''Design our system architecture'',
        goodPrompt = ''Design a scalable e-commerce platform architecture using Tree-of-Thoughts:'' @ [CHR 0x0A, CHR 0x0A] @ ''Requirements: Handle 100K concurrent users, 1M products, global deployment, 99.9% uptime'' @ [CHR 0x0A, CHR 0x0A] @ ''Architecture Tree:'' @ [CHR 0x0A] @ ''Level 1: Core architecture pattern'' @ [CHR 0x0A] @ ''- Branch A: Microservices architecture'' @ [CHR 0x0A] @ ''- Branch B: Modular monolith'' @ [CHR 0x0A] @ ''- Branch C: Serverless-first approach'' @ [CHR 0x0A, CHR 0x0A] @ ''Level 2: For each pattern, explore data storage'' @ [CHR 0x0A] @ ''- Sub-branch 1: SQL database with read replicas'' @ [CHR 0x0A] @ ''- Sub-branch 2: NoSQL with eventual consistency'' @ [CHR 0x0A] @ ''- Sub-branch 3: Hybrid SQL/NoSQL approach'' @ [CHR 0x0A, CHR 0x0A] @ ''Level 3: Caching and CDN strategy'' @ [CHR 0x0A] @ ''Level 4: Deployment and scaling approach'' @ [CHR 0x0A, CHR 0x0A] @ ''Evaluate each complete path for:'' @ [CHR 0x0A] @ ''- Development complexity'' @ [CHR 0x0A] @ ''- Operational overhead'' @ [CHR 0x0A] @ ''- Scalability potential'' @ [CHR 0x0A] @ ''- Cost implications'' @ [CHR 0x0A] @ ''- Team expertise requirements'' @ [CHR 0x0A, CHR 0x0A] @ ''Architecture Decision Tree:''\<rparr>]\<rparr>"

definition method_react :: method_data where
  "method_react = \<lparr>methodId = ''react'', methodTitle = ''ReAct (Reasoning + Acting)'', methodAccent = ''text-red-400'',
     methodExamples = [
       \<lparr>exampleId = ''competitive-analysis'', exampleTitle = ''Competitive Market Analysis'',
        badPrompt = ''Analyze our competitors'',
        goodPrompt = ''Conduct competitive analysis for our project management SaaS using ReAct framework:'' @ [CHR 0x0A, CHR 0x0A] @ ''Goal: Understand competitive landscape, pricing, and market positioning'' @ [CHR 0x0A, CHR 0x0A] @ ''Thought 1: I need to identify our main competitors in the project management space'' @ [CHR 0x0A] @ ''Action 1: Search['' @ [CHR 0x22] @ ''project management software competitors 2024 market leaders'' @ [CHR 0x22] @ '']'' @ [CHR 0x0A] @ ''Observation 1: [Search results with competitor list]'' @ [CHR 0x0A, CHR 0x0A] @ ''Thought 2: I should analyze pricing strategies of top 3 competitors'' @ [CHR 0x0A] @ ''Action 2: WebScrape[competitor_pricing_pages]'' @ [CHR 0x0A] @ ''Observation 2: [Pricing data collected]'' @ [CHR 0x0A, CHR 0x0A] @ ''Thought 3: I need customer reviews to understand strengths/weaknesses'' @ [CHR 0x0A] @ ''Action 3: AnalyzeReviews['' @ [CHR 0x22] @ ''G2.com'' @ [CHR 0x22] @ '', '' @ [CHR 0x22] @ ''Capterra'' @ [CHR 0x22] @ '', '' @ [CHR 0x22] @ ''TrustPilot'' @ [CHR 0x22] @ '']'' @ [CHR 0x0A] @ ''Observation 3: [Review sentiment and feature feedback]'' @ [CHR 0x0A, CHR 0x0A] @ ''Thought 4: I should check their marketing strategies and positioning'' @ [CHR 0x0A] @ ''Action 4: AnalyzeSocialMedia[competitor_accounts, ad_campaigns]'' @ [CHR 0x0A] @ ''Observation 4: [Marketing strategy insights]'' @ [CHR 0x0A, CHR 0x0A] @ ''Final Analysis: [Comprehensive competitive report with actionable insights]'' @ [CHR 0x0A, CHR 0x0A] @ ''Competitive Research:''\<rparr>,
       \<lparr>exampleId = ''financial-planning'', exampleTitle = ''Business Financial Planning'',
        badPrompt = ''Create our financial projections'',
        goodPrompt = ''Create 3-year financial projections for our SaaS startup using ReAct framework:'' @ [CHR 0x0A, CHR 0x0A] @ ''Goal: Develop realistic revenue and expense projections for investor presentation'' @ [CHR 0x0A, CHR 0x0A] @ ''Thought 1: I need current market data for SaaS metrics and benchmarks'' @ [CHR 0x0A] @ ''Action 1: Research['' @ [CHR 0x22] @ ''SaaS industry benchmarks 2024 ARR growth churn rates'' @ [CHR 0x22] @ '']'' @ [CHR 0x0A] @ ''Observation 1: [Industry benchmark data]'' @ [CHR 0x0A, CHR 0x0A] @ ''Thought 2: I should calculate realistic customer acquisition costs for our market'' @ [CHR 0x0A] @ ''Action 2: Calculate[marketing_budget '' @ [CHR 0xE2, CHR 0x88, CHR 0x9A, CHR 0xE2, CHR 0x88, CHR 0x91] @ '' projected_customers, compare_to_benchmarks]'' @ [CHR 0x0A] @ ''Observation 2: [CAC calculations and comparisons]'' @ [CHR 0x0A, CHR 0x0A] @ ''Thought 3: I need to model different growth scenarios based on market conditions'' @ [CHR 0x0A] @ ''Action 3: ModelScenarios[conservative_15%, moderate_25%, aggressive_40%_growth]'' @ [CHR 0x0A] @ ''Observation 3: [Multiple growth scenario projections]'' @ [CHR 0x0A, CHR 0x0A] @ ''Thought 4: I should validate assumptions against similar company data'' @ [CHR 0x0A] @ ''Action 4: BenchmarkAnalysis[similar_stage_companies, public_SaaS_metrics]'' @ [CHR 0x0A] @ ''Observation 4: [Validation of assumptions]'' @ [CHR 0x0A, CHR 0x0A] @ ''Final Projections: [Detailed 3-year financial model with scenarios]'' @ [CHR 0x0A, CHR 0x0A] @ ''Financial Planning:''\<rparr>,
       \<lparr>exampleId = ''customer-research'', exampleTitle = ''Customer Discovery Research'',
        badPrompt = ''Research our target customers'',
        goodPrompt = ''Conduct customer discovery research for our B2B productivity app using ReAct framework:'' @ [CHR 0x0A, CHR 0x0A] @ ''Goal: Understand customer pain points, willingness to pay, and feature priorities'' @ [CHR 0x0A, CHR 0x0A] @ ''Thought 1: I need to identify and segment our target customer base'' @ [CHR 0x0A] @ ''Action 1: AnalyzeMarket[company_size, industry, role_demographics]'' @ [CHR 0x0A] @ ''Observation 1: [Customer segmentation data]'' @ [CHR 0x0A, CHR 0x0A] @ ''Thought 2: I should gather direct feedback through surveys and interviews'' @ [CHR 0x0A] @ ''Action 2: ConductSurvey[target_segments] + ScheduleInterviews[key_personas]'' @ [CHR 0x0A] @ ''Observation 2: [Primary research findings]'' @ [CHR 0x0A, CHR 0x0A] @ ''Thought 3: I need to analyze existing solutions and customer behavior'' @ [CHR 0x0A] @ ''Action 3: AnalyzeCompetitorReviews + TrackUserBehavior[current_tools]'' @ [CHR 0x0A] @ ''Observation 3: [Behavioral insights and pain points]'' @ [CHR 0x0A, CHR 0x0A] @ ''Thought 4: I should validate findings with market sizing and willingness to pay'' @ [CHR 0x0A] @ ''Action 4: PricingSurvey[target_segments] + MarketSizeValidation'' @ [CHR 0x0A] @ ''Observation 4: [Pricing insights and market validation]'' @ [CHR 0x0A, CHR 0x0A] @ ''Final Research Report: [Comprehensive customer insights with actionable recommendations]'' @ [CHR 0x0A, CHR 0x0A] @ ''Customer Research:''\<rparr>]\<rparr>"

definition promptingMethods :: "method_data list" where
  "promptingMethods = [method_zero_shot, method_few_shot, method_chain_of_thought, method_self_consistency, method_meta_prompting, method_tree_of_thoughts, method_react]"

definition methodComparison :: "comparison_row list" where
  "methodComparison = [
     \<lparr>aspect = ''Complexity'', cells = [(''zero-shot'', ''Simple''), (''few-shot'', ''Medium''), (''chain-of-thought'', ''High''), (''self-consistency'', ''Very High''), (''meta-prompting'', ''High''), (''tree-of-thoughts'', ''Very High''), (''react'', ''High'')]\<rparr>,
     \<lparr>aspect = ''Setup Time'', cells = [(''zero-shot'', ''Minimal''), (''few-shot'', ''Medium''), (''chain-of-thought'', ''Low''), (''self-consistency'', ''Medium''), (''meta-prompting'', ''High''), (''tree-of-thoughts'', ''High''), (''react'', ''High'')]\<rparr>,
     \<lparr>aspect = ''Accuracy'', cells = [(''zero-shot'', ''Good''), (''few-shot'', ''Very Good''), (''chain-of-thought'', ''Excellent''), (''self-consistency'', ''Excellent''), (''meta-prompting'', ''Very Good''), (''tree-of-thoughts'', ''Excellent''), (''react'', ''Very Good'')]\<rparr>,
     \<lparr>aspect = ''Token Usage'', cells = [(''zero-shot'', ''Low''), (''few-shot'', ''Medium''), (''chain-of-thought'', ''High''), (''self-consistency'', ''Very High''), (''meta-prompting'', ''Medium''), (''tree-of-thoughts'', ''Very High''), (''react'', ''High'')]\<rparr>,
     \<lparr>aspect = ''Best For'', cells = [(''zero-shot'', ''Simple tasks''), (''few-shot'', ''Consistent format''), (''chain-of-thought'', ''Complex reasoning''), (''self-consistency'', ''Critical decisions''), (''meta-prompting'', ''Optimization''), (''tree-of-thoughts'', ''Strategic planning''), (''react'', ''Tool integration'')]\<rparr>]"

text \<open>The columns of the comparison table, read as \<open>row['zero-shot']\<close> .. \<open>row['react']\<close>;
  a missing key reads \<open>undefined\<close> and renders an empty cell.\<close>

definition comparisonColumns :: "string list" where
  "comparisonColumns = [''zero-shot'', ''few-shot'', ''chain-of-thought'', ''self-consistency'',
     ''meta-prompting'', ''tree-of-thoughts'', ''react'']"

definition comparison_cell :: "comparison_row \<Rightarrow> string \<Rightarrow> string option" where
  "comparison_cell r k = map_of (cells r) k"

subsection \<open>State and handlers\<close>

record methods_state =
  selectedMethod :: "string option"
  selectedExample :: nat
  userPrompt :: string
  showComparison :: bool
  copiedText :: string
  pendingCopies :: "string list"
  copyTimers :: nat

definition methods_init :: methods_state where
  "methods_init = \<lparr>selectedMethod = None, selectedExample = 0, userPrompt = [],
                   showComparison = False, copiedText = [], pendingCopies = [],
                   copyTimers = 0\<rparr>"

text \<open>\<open>promptingMethods.find(m => m.id === selectedMethod)\<close>: no id is \<open>null\<close>.\<close>

definition find_method :: "method_data list \<Rightarrow> string option \<Rightarrow> method_data option" where
  "find_method ms sel = (case sel of None \<Rightarrow> None | Some i \<Rightarrow> find (\<lambda>m. methodId m = i) ms)"

definition selectedMethodData :: "methods_state \<Rightarrow> method_data option" where
  "selectedMethodData s = find_method promptingMethods (selectedMethod s)"

definition currentExample :: "methods_state \<Rightarrow> prompt_example option" where
  "currentExample s =
     (case selectedMethodData s of None \<Rightarrow> None | Some m \<Rightarrow> js_at (methodExamples m) (selectedExample s))"

definition handleMethodSelect :: "string \<Rightarrow> methods_state \<Rightarrow> methods_state" where
  "handleMethodSelect mid s =
     s\<lparr>selectedMethod := Some mid, selectedExample := 0, userPrompt := [], showComparison := False\<rparr>"

text \<open>\<open>method.examples[index].badPrompt\<close> throws a \<open>TypeError\<close> past the end of the
  examples: the result \<open>None\<close>.\<close>

definition handleExampleSelect :: "nat \<Rightarrow> methods_state \<Rightarrow> methods_state option" where
  "handleExampleSelect i s =
     (let s' = s\<lparr>selectedExample := i, showComparison := False\<rparr>
      in case find_method promptingMethods (selectedMethod s) of
           None \<Rightarrow> Some s'
         | Some m \<Rightarrow> (case js_at (methodExamples m) i of
                        None \<Rightarrow> None
                      | Some e \<Rightarrow> Some (s'\<lparr>userPrompt := badPrompt e\<rparr>)))"

text \<open>\<open>handleCopyPrompt\<close> is \<open>async\<close>: the click starts
  \<open>navigator.clipboard.writeText(text)\<close>, and the rest of the handler runs when that
  promise settles. The started writes are the list \<open>pendingCopies\<close>; the browser may
  settle them in any order, so the settling event names the position of the write that
  settles and its outcome \<open>ok\<close>.\<close>

definition handleCopyPrompt :: "string \<Rightarrow> methods_state \<Rightarrow> methods_state" where
  "handleCopyPrompt text s = s\<lparr>pendingCopies := pendingCopies s @ [text]\<rparr>"

definition clipboardSettles :: "nat \<Rightarrow> bool \<Rightarrow> methods_state \<Rightarrow> methods_state" where
  "clipboardSettles i ok s =
     (case js_at (pendingCopies s) i of
        None \<Rightarrow> s
      | Some text \<Rightarrow>
          if ok then s\<lparr>pendingCopies := drop_at i (pendingCopies s), copiedText := text,
                       copyTimers := Suc (copyTimers s)\<rparr>
          else s\<lparr>pendingCopies := drop_at i (pendingCopies s)\<rparr>)"

definition copyTimerFires :: "methods_state \<Rightarrow> methods_state" where
  "copyTimerFires s = s\<lparr>copiedText := [], copyTimers := copyTimers s - 1\<rparr>"

definition handleTryExample :: "string \<Rightarrow> methods_state \<Rightarrow> methods_state" where
  "handleTryExample text s = s\<lparr>userPrompt := text\<rparr>"

text \<open>The label of the copy button: \<open>copiedText === currentExample.goodPrompt\<close>.\<close>

definition copy_label :: "methods_state \<Rightarrow> string option" where
  "copy_label s = (case currentExample s of
                     None \<Rightarrow> None
                   | Some e \<Rightarrow> Some (if copiedText s = goodPrompt e then ''copied!'' else ''copy''))"

subsection \<open>The laboratory as a state machine\<close>

datatype methods_event =
    ToggleComparison | SelectMethod string | BackToMethods | SelectExample nat
  | TryBadPrompt | TryGoodPrompt | CopyGoodPrompt | EditPrompt string | ClearPrompt
  | AnalyzePrompt | ClipboardSettles nat bool | CopyTimerFires

text \<open>The overview (\<open>!selectedMethod\<close>) offers the comparison toggle and a card per method;
  the detail view offers the back button and an example button per example; the editor
  block is rendered while \<open>currentExample\<close> exists, its analyze button disabled while
  \<open>!userPrompt.trim()\<close>.\<close>

fun methods_enabled :: "methods_state \<Rightarrow> methods_event \<Rightarrow> bool" where
  "methods_enabled s ToggleComparison = (selectedMethod s = None)"
| "methods_enabled s (SelectMethod m) =
     (selectedMethod s = None \<and> m \<in> set (map methodId promptingMethods))"
| "methods_enabled s BackToMethods = (selectedMethod s \<noteq> None)"
| "methods_enabled s (SelectExample i) =
     (case selectedMethodData s of None \<Rightarrow> False | Some m \<Rightarrow> i < length (methodExamples m))"
| "methods_enabled s AnalyzePrompt = (currentExample s \<noteq> None \<and> \<not> js_blank (userPrompt s))"
| "methods_enabled s (ClipboardSettles i ok) = (i < length (pendingCopies s))"
| "methods_enabled s CopyTimerFires = (0 < copyTimers s)"
| "methods_enabled s ev = (currentExample s \<noteq> None)"

fun methods_handle :: "methods_state \<Rightarrow> methods_event \<Rightarrow> methods_state" where
  "methods_handle s ToggleComparison = s\<lparr>showComparison := \<not> showComparison s\<rparr>"
| "methods_handle s (SelectMethod m) = handleMethodSelect m s"
| "methods_handle s BackToMethods = s\<lparr>selectedMethod := None\<rparr>"
| "methods_handle s (SelectExample i) = (case handleExampleSelect i s of None \<Rightarrow> s | Some s' \<Rightarrow> s')"
| "methods_handle s TryBadPrompt =
     (case currentExample s of None \<Rightarrow> s | Some e \<Rightarrow> handleTryExample (badPrompt e) s)"
| "methods_handle s TryGoodPrompt =
     (case currentExample s of None \<Rightarrow> s | Some e \<Rightarrow> handleTryExample (goodPrompt e) s)"
| "methods_handle s CopyGoodPrompt =
     (case currentExample s of None \<Rightarrow> s | Some e \<Rightarrow> handleCopyPrompt (goodPrompt e) s)"
| "methods_handle s (EditPrompt v) = s\<lparr>userPrompt := v\<rparr>"
| "methods_handle s ClearPrompt = s\<lparr>userPrompt := []\<rparr>"
| "methods_handle s AnalyzePrompt = s\<lparr>showComparison := \<not> showComparison s\<rparr>"
| "methods_handle s (ClipboardSettles i ok) = clipboardSettles i ok s"
| "methods_handle s CopyTimerFires = copyTimerFires s"

inductive methods_reachable :: "methods_state \<Rightarrow> bool" where
  init: "methods_reachable methods_init"
| step: "methods_reachable s \<Longrightarrow> methods_enabled s ev \<Longrightarrow> methods_reachable (methods_handle s ev)"

text \<open>The invariant: a selected id names a method, and the example index is below three,
  the number of examples of every method.\<close>

definition methods_inv :: "methods_state \<Rightarrow> bool" where
  "methods_inv s \<longleftrightarrow>
     (case selectedMethod s of None \<Rightarrow> True | Some i \<Rightarrow> i \<in> set (map methodId promptingMethods)) \<and>
     selectedExample s < 3"

text \<open>Runs: a list of events from a state, and whether each event is enabled when it fires.\<close>

fun methods_run :: "methods_state \<Rightarrow> methods_event list \<Rightarrow> methods_state" where
  "methods_run s [] = s"
| "methods_run s (ev # evs) = methods_run (methods_handle s ev) evs"

fun methods_valid_run :: "methods_state \<Rightarrow> methods_event list \<Rightarrow> bool" where
  "methods_valid_run s [] = True"
| "methods_valid_run s (ev # evs) = (methods_enabled s ev \<and> methods_valid_run (methods_handle s ev) evs)"

text \<open>A run that copies the good prompts of two examples in a row.\<close>

definition copy_twice :: "methods_event list" where
  "copy_twice = [SelectMethod ''zero-shot'', CopyGoodPrompt, ClipboardSettles 0 True, SelectExample 1,
                 CopyGoodPrompt, ClipboardSettles 0 True]"

text \<open>A run that copies a good prompt, lets the write succeed, starts a second copy of it and
  switches to the next example while that write is pending.\<close>

definition copy_then_switch :: "methods_event list" where
  "copy_then_switch = [SelectMethod ''zero-shot'', CopyGoodPrompt, ClipboardSettles 0 True, CopyGoodPrompt,
                       SelectExample 1]"

text \<open>A run that analyzes a prompt and goes back to the overview.\<close>

definition analyze_then_back :: "methods_event list" where
  "analyze_then_back = [SelectMethod ''few-shot'', SelectExample 0, AnalyzePrompt, BackToMethods]"

subsection \<open>Lemmas\<close>

lemmas method_defs = promptingMethods_def method_zero_shot_def method_few_shot_def
  method_chain_of_thought_def method_self_consistency_def method_meta_prompting_def
  method_tree_of_thoughts_def method_react_def

lemma method_ids:
  "map methodId promptingMethods = [''zero-shot'', ''few-shot'', ''chain-of-thought'',
     ''self-consistency'', ''meta-prompting'', ''tree-of-thoughts'', ''react'']"
  by (simp add: method_defs)

lemma methods_three_examples: "list_all (\<lambda>m. length (methodExamples m) = 3) promptingMethods"
  by (simp add: method_defs)

lemma find_method_listed:
  assumes "i \<in> set (map methodId promptingMethods)"
  shows "\<exists>m. find_method promptingMethods (Some i) = Some m \<and> length (methodExamples m) = 3"
proof -
  obtain m where m: "find (\<lambda>m. methodId m = i) promptingMethods = Some m"
    using assms by (cases "find (\<lambda>m. methodId m = i) promptingMethods") (auto simp: find_None_iff)
  then have "m \<in> set promptingMethods" by (auto simp: find_Some_iff)
  with methods_three_examples have "length (methodExamples m) = 3"
    by (simp add: list_all_iff)
  with m show ?thesis by (simp add: find_method_def)
qed

lemma methods_inv_step:
  assumes "methods_inv s" and "methods_enabled s ev"
  shows "methods_inv (methods_handle s ev)"
proof (cases ev)
  case (SelectExample i)
  with assms obtain m where m: "selectedMethodData s = Some m" and i: "i < length (methodExamples m)"
    by (auto split: option.splits)
  from m obtain i0 where sel: "selectedMethod s = Some i0"
    by (cases "selectedMethod s") (auto simp: selectedMethodData_def find_method_def)
  with assms(1) have "i0 \<in> set (map methodId promptingMethods)" by (simp add: methods_inv_def)
  from find_method_listed [OF this] m sel have "length (methodExamples m) = 3"
    by (auto simp: selectedMethodData_def)
  with SelectExample m i assms(1) show ?thesis
    by (auto simp: methods_inv_def handleExampleSelect_def selectedMethodData_def Let_def
             split: option.splits)
next
  case CopyGoodPrompt
  with assms show ?thesis
    by (auto simp: methods_inv_def handleCopyPrompt_def split: option.splits)
next
  case (ClipboardSettles i ok)
  with assms show ?thesis
    by (auto simp: methods_inv_def clipboardSettles_def split: option.splits)
qed (use assms in \<open>auto simp: methods_inv_def handleMethodSelect_def handleTryExample_def
                        copyTimerFires_def split: option.splits\<close>)

lemma methods_reachable_inv: "methods_reachable s \<Longrightarrow> methods_inv s"
  by (induction rule: methods_reachable.induct)
     (simp add: methods_inv_def methods_init_def, simp add: methods_inv_step)

lemma methods_run_reachable:
  "methods_reachable s \<Longrightarrow> methods_valid_run s evs \<Longrightarrow> methods_reachable (methods_run s evs)"
  by (induction s evs rule: methods_run.induct) (auto intro: methods_reachable.step)

lemma comparison_table_complete:
  "comparisonColumns = map methodId promptingMethods \<and>
   list_all (\<lambda>r. list_all (\<lambda>k. comparison_cell r k \<noteq> None) comparisonColumns) methodComparison"
  by (simp add: method_ids) (simp add: comparisonColumns_def methodComparison_def comparison_cell_def)

lemma back_keeps_comparison_open:
  "methods_valid_run methods_init analyze_then_back \<and>
   selectedMethod (methods_run methods_init analyze_then_back) = None \<and>
   showComparison (methods_run methods_init analyze_then_back)"
  by code_simp

subsection \<open>Properties\<close>

text \<open>In every reachable state with a selected method the current example exists, so the
  example and the editor are rendered: the example index, which going back does not reset,
  is below the three examples every method has.\<close>

lemma current_example_defined:
  assumes "methods_reachable s" and "selectedMethod s \<noteq> None"
  shows "currentExample s \<noteq> None"
proof -
  from assms(1) have inv: "methods_inv s" by (rule methods_reachable_inv)
  from assms(2) obtain i0 where sel: "selectedMethod s = Some i0" by auto
  with inv have "i0 \<in> set (map methodId promptingMethods)" by (simp add: methods_inv_def)
  from find_method_listed [OF this] obtain m
    where "find_method promptingMethods (Some i0) = Some m" and "length (methodExamples m) = 3"
    by blast
  with sel inv show ?thesis
    by (simp add: currentExample_def selectedMethodData_def methods_inv_def js_at_def)
qed

lemma current_example_defined_example:
  "methods_reachable (methods_run methods_init copy_twice) \<and>
   selectedMethod (methods_run methods_init copy_twice) \<noteq> None \<and>
   currentExample (methods_run methods_init copy_twice) \<noteq> None"
proof -
  have v: "methods_valid_run methods_init copy_twice" by code_simp
  have r: "methods_reachable (methods_run methods_init copy_twice)"
    by (rule methods_run_reachable [OF methods_reachable.init v])
  have "selectedMethod (methods_run methods_init copy_twice) \<noteq> None" by code_simp
  with current_example_defined [OF r] r show ?thesis by simp
qed

lemma copy_label_same_example:
  fixes s t :: methods_state
  assumes "selectedMethod t = selectedMethod s"
    and "methods_state.selectedExample t = methods_state.selectedExample s"
    and "currentExample s = Some e"
  shows "copy_label t = Some (if copiedText t = goodPrompt e then ''copied!'' else ''copy'')"
proof -
  have "currentExample t = currentExample s"
    unfolding currentExample_def selectedMethodData_def assms(1,2) ..
  with assms(3) show ?thesis by (simp add: copy_label_def)
qed

lemma good_prompts_nonempty: "currentExample s = Some e \<Longrightarrow> goodPrompt e \<noteq> []"
proof -
  have all: "\<forall>m \<in> set promptingMethods. \<forall>x \<in> set (methodExamples m). goodPrompt x \<noteq> []"
    by code_simp
  assume "currentExample s = Some e"
  then obtain m where "m \<in> set promptingMethods" and "e \<in> set (methodExamples m)"
    by (auto simp: currentExample_def selectedMethodData_def find_method_def js_at_def
             split: option.splits if_splits dest: find_Some_set)
  with all show ?thesis by blast
qed

text \<open>C28. The copied label is tied to no copy, so it is lost early, from every state that
  shows an example. If a clear of an earlier copy is still pending, copying the example's
  good prompt shows copied! once the write succeeds, and the earlier clear then resets it to
  copy although the clear of this copy is still pending. If an earlier write of another text
  is pending, and the new write settles first, the older write then overwrites
  \<open>copiedText\<close>, and the button shows copy although both writes succeeded.\<close>

theorem copy_label_cleared_early:
  assumes "currentExample s = Some e"
  shows "(0 < copyTimers s \<longrightarrow>
           (let s1 = methods_handle s CopyGoodPrompt;
                s2 = methods_handle s1 (ClipboardSettles (length (pendingCopies s)) True);
                s3 = methods_handle s2 CopyTimerFires
            in methods_enabled s CopyGoodPrompt \<and>
               methods_enabled s1 (ClipboardSettles (length (pendingCopies s)) True) \<and>
               copy_label s2 = Some ''copied!'' \<and> methods_enabled s2 CopyTimerFires \<and>
               copy_label s3 = Some ''copy'' \<and> 0 < copyTimers s3)) \<and>
         (\<forall>i < length (pendingCopies s). pendingCopies s ! i \<noteq> goodPrompt e \<longrightarrow>
           (let s1 = methods_handle s CopyGoodPrompt;
                s2 = methods_handle s1 (ClipboardSettles (length (pendingCopies s)) True);
                s3 = methods_handle s2 (ClipboardSettles i True)
            in methods_enabled s1 (ClipboardSettles (length (pendingCopies s)) True) \<and>
               copy_label s2 = Some ''copied!'' \<and>
               methods_enabled s2 (ClipboardSettles i True) \<and> copy_label s3 = Some ''copy''))"
proof (intro conjI impI allI)
  from good_prompts_nonempty [OF assms] have ne: "goodPrompt e \<noteq> []" .
  let ?n = "length (pendingCopies s)"
  define s1 where "s1 = methods_handle s CopyGoodPrompt"
  define s2 where "s2 = methods_handle s1 (ClipboardSettles ?n True)"
  have s1: "s1 = s\<lparr>pendingCopies := pendingCopies s @ [goodPrompt e]\<rparr>"
    using assms by (simp add: s1_def handleCopyPrompt_def)
  have s2: "s2 = s1\<lparr>pendingCopies := pendingCopies s, copiedText := goodPrompt e,
                      copyTimers := Suc (copyTimers s)\<rparr>"
    by (simp add: s2_def s1 clipboardSettles_def js_at_def drop_at_def)
  have e1: "methods_enabled s1 (ClipboardSettles ?n True)" by (simp add: s1)
  have l2: "copy_label s2 = Some ''copied!''"
    using assms by (intro trans [OF copy_label_same_example]) (simp_all add: s2 s1)
  have en2: "methods_enabled s2 CopyTimerFires" by (simp add: s2 s1)
  have en0: "methods_enabled s CopyGoodPrompt" using assms by simp
  {
    assume t: "0 < copyTimers s"
    have l3: "copy_label (methods_handle s2 CopyTimerFires) = Some ''copy''"
      using assms not_sym [OF ne]
      by (intro trans [OF copy_label_same_example]) (simp_all add: s2 s1 copyTimerFires_def)
    have t3: "0 < copyTimers (methods_handle s2 CopyTimerFires)"
      using t by (simp add: s2 s1 copyTimerFires_def)
    show "let s1 = methods_handle s CopyGoodPrompt;
                s2 = methods_handle s1 (ClipboardSettles (length (pendingCopies s)) True);
                s3 = methods_handle s2 CopyTimerFires
            in methods_enabled s CopyGoodPrompt \<and>
               methods_enabled s1 (ClipboardSettles (length (pendingCopies s)) True) \<and>
               copy_label s2 = Some ''copied!'' \<and> methods_enabled s2 CopyTimerFires \<and>
               copy_label s3 = Some ''copy'' \<and> 0 < copyTimers s3"
      unfolding Let_def s1_def [symmetric] s2_def [symmetric]
      using en0 e1 l2 en2 l3 t3 by (intro conjI)
  }
  fix i assume i: "i < length (pendingCopies s)" and d: "pendingCopies s ! i \<noteq> goodPrompt e"
  have l3: "copy_label (methods_handle s2 (ClipboardSettles i True)) = Some ''copy''"
    using assms i d
    by (intro trans [OF copy_label_same_example]) (simp_all add: s2 s1 clipboardSettles_def js_at_def)
  have en3: "methods_enabled s2 (ClipboardSettles i True)" using i by (simp add: s2 s1)
  show "let s1 = methods_handle s CopyGoodPrompt;
                s2 = methods_handle s1 (ClipboardSettles (length (pendingCopies s)) True);
                s3 = methods_handle s2 (ClipboardSettles i True)
            in methods_enabled s1 (ClipboardSettles (length (pendingCopies s)) True) \<and>
               copy_label s2 = Some ''copied!'' \<and>
               methods_enabled s2 (ClipboardSettles i True) \<and> copy_label s3 = Some ''copy''"
    unfolding Let_def s1_def [symmetric] s2_def [symmetric]
    using e1 l2 en3 l3 by (intro conjI)
qed

theorem copy_label_cleared_early_witness:
  "currentExample (methods_run methods_init copy_then_switch) \<noteq> None \<and>
   0 < copyTimers (methods_run methods_init copy_then_switch) \<and>
   pendingCopies (methods_run methods_init copy_then_switch) ! 0
     \<noteq> goodPrompt (the (currentExample (methods_run methods_init copy_then_switch))) \<and>
   copy_label (methods_handle (methods_handle (methods_handle (methods_run methods_init copy_then_switch)
       CopyGoodPrompt) (ClipboardSettles 1 True)) CopyTimerFires) = Some ''copy'' \<and>
   copy_label (methods_handle (methods_handle (methods_handle (methods_run methods_init copy_then_switch)
       CopyGoodPrompt) (ClipboardSettles 1 True)) (ClipboardSettles 0 True)) = Some ''copy''"
proof -
  let ?s = "methods_run methods_init copy_then_switch"
  have c: "currentExample ?s \<noteq> None" and t: "0 < copyTimers ?s"
    and p: "pendingCopies ?s = [goodPrompt (methodExamples method_zero_shot ! 0)]"
    and d: "pendingCopies ?s ! 0 \<noteq> goodPrompt (the (currentExample ?s))"
    by code_simp+
  from c obtain e where e: "currentExample ?s = Some e" by blast
  from copy_label_cleared_early [OF e] t d p e c show ?thesis
    by (simp add: Let_def)
qed

end
