(* ===== verification/Framing.thy ===== *)
theory Framing
  imports Prelude
begin

text \<open>
  The psychological-framing section (\<open>src/src/components/PsychologicalFraming.tsx\<close>,
  function \<open>PsychologicalFraming\<close>). Its data is the constant array
  \<open>framingTechniques\<close> (four techniques with three examples each) and the array
  \<open>toneExperiments\<close> (two experiments, each one base prompt answered in four tones). Its
  state is four hooks: the selected technique id (or \<open>null\<close>), the index of the selected
  example, the id of the open tone experiment (or \<open>null\<close>) and the name of the selected
  tone (\<open>''''\<close> for none). The experiment is a modal dialog over the whole page: while it
  is open only its own buttons can be clicked.

  Of a technique the model keeps its id, title, accent and the scenarios of its examples; of an
  experiment its id, scenario, base prompt and, of each tone, the name and the response
  the preview shows. The other fields are only rendered. Strings are transcribed
  character by character, a non-ASCII character as its UTF-8 bytes.
\<close>

record framing_example =
  scenario :: string

record framing_technique =
  techniqueId :: string
  techniqueTitle :: string
  techniqueAccent :: string
  techniqueExamples :: "framing_example list"

record tone =
  toneName :: string
  toneResponse :: string

record tone_experiment =
  experimentId :: string
  experimentScenario :: string
  basePrompt :: string
  tones :: "tone list"

definition technique_tone_control :: framing_technique where
  "technique_tone_control = \<lparr>techniqueId = ''tone-control'', techniqueTitle = ''Tone & Style Control'', techniqueAccent = ''text-cyan-400'',
     techniqueExamples = [
       \<lparr>scenario = ''Customer service response to complaint''\<rparr>,
       \<lparr>scenario = ''Technical documentation''\<rparr>,
       \<lparr>scenario = ''Marketing copy''\<rparr>]\<rparr>"

definition technique_role_prompting :: framing_technique where
  "technique_role_prompting = \<lparr>techniqueId = ''role-prompting'', techniqueTitle = ''Role & Persona Prompting'', techniqueAccent = ''text-green-400'',
     techniqueExamples = [
       \<lparr>scenario = ''Explaining complex technical concepts''\<rparr>,
       \<lparr>scenario = ''Creative writing assistance''\<rparr>,
       \<lparr>scenario = ''Problem-solving guidance''\<rparr>]\<rparr>"

definition technique_audience_adaptation :: framing_technique where
  "technique_audience_adaptation = \<lparr>techniqueId = ''audience-adaptation'', techniqueTitle = ''Audience Adaptation'', techniqueAccent = ''text-blue-400'',
     techniqueExamples = [
       \<lparr>scenario = ''Explaining artificial intelligence''\<rparr>,
       \<lparr>scenario = ''Investment advice''\<rparr>,
       \<lparr>scenario = ''Health information''\<rparr>]\<rparr>"

definition technique_anchoring_framing :: framing_technique where
  "technique_anchoring_framing = \<lparr>techniqueId = ''anchoring-framing'', techniqueTitle = ''Anchoring & Contextual Framing'', techniqueAccent = ''text-purple-400'',
     techniqueExamples = [
       \<lparr>scenario = ''Product pricing discussion''\<rparr>,
       \<lparr>scenario = ''Performance feedback''\<rparr>,
       \<lparr>scenario = ''Change management''\<rparr>]\<rparr>"

definition framingTechniques :: "framing_technique list" where
  "framingTechniques = [technique_tone_control, technique_role_prompting, technique_audience_adaptation, technique_anchoring_framing]"

definition experiment_customer_support :: tone_experiment where
  "experiment_customer_support = \<lparr>experimentId = ''customer-support'',
     experimentScenario = ''Customer complaining about a bug in your software'',
     basePrompt = ''Respond to this customer complaint: '' @ [CHR 0x22] @ ''Your app crashed and I lost all my work. This is completely unacceptable!'' @ [CHR 0x22],
     tones = [
       \<lparr>toneName = ''Professional'',
        toneResponse = ''Dear Customer,'' @ [CHR 0x0A, CHR 0x0A] @ ''Thank you for bringing this issue to our attention. We understand the frustration of experiencing an application crash, particularly when it results in data loss.'' @ [CHR 0x0A, CHR 0x0A] @ ''We have immediately escalated this matter to our technical team for investigation. In the meantime, I would like to offer the following immediate assistance:'' @ [CHR 0x0A, CHR 0x0A] @ ''1. Our data recovery specialists will attempt to restore your lost work'' @ [CHR 0x0A] @ ''2. We are providing you with a complimentary premium account for 3 months'' @ [CHR 0x0A] @ ''3. A senior engineer will contact you within 24 hours with a detailed resolution plan'' @ [CHR 0x0A, CHR 0x0A] @ ''We take full responsibility for this incident and are committed to preventing future occurrences.'' @ [CHR 0x0A, CHR 0x0A] @ ''Best regards,'' @ [CHR 0x0A] @ ''Customer Success Team''\<rparr>,
       \<lparr>toneName = ''Empathetic'',
        toneResponse = ''I am so sorry this happened to you. Losing your work is incredibly frustrating and I can only imagine how upset you must be feeling right now.'' @ [CHR 0x0A, CHR 0x0A] @ ''Your frustration is completely valid - when you trust our app with your important work and it lets you down, that'' @ [CHR 0x27] @ ''s on us, not you. I know how hard it is to recreate lost work, and I want you to know that I personally care about making this right.'' @ [CHR 0x0A, CHR 0x0A] @ ''Here'' @ [CHR 0x27] @ ''s what I'' @ [CHR 0x27] @ ''m going to do for you right now:'' @ [CHR 0x0A, CHR 0xE2, CHR 0x80, CHR 0xA2] @ '' I'' @ [CHR 0x27] @ ''m personally assigning our best data recovery expert to your case'' @ [CHR 0x0A, CHR 0xE2, CHR 0x80, CHR 0xA2] @ '' I'' @ [CHR 0x27] @ ''m upgrading your account immediately so you have all our premium backup features'' @ [CHR 0x0A, CHR 0xE2, CHR 0x80, CHR 0xA2] @ '' I'' @ [CHR 0x27] @ ''m going to stay on this case until we'' @ [CHR 0x27] @ ''ve resolved everything'' @ [CHR 0x0A, CHR 0x0A] @ ''You shouldn'' @ [CHR 0x27] @ ''t have to worry about this happening again. We'' @ [CHR 0x27] @ ''ve learned from this mistake and we'' @ [CHR 0x27] @ ''re going to do better. Thank you for giving us the chance to fix this.''\<rparr>,
       \<lparr>toneName = ''Urgent'',
        toneResponse = ''IMMEDIATE ACTION TAKEN:'' @ [CHR 0x0A, CHR 0x0A, CHR 0xF0, CHR 0x9F, CHR 0x94, CHR 0xB4] @ '' Priority ticket #URGENT-001 created'' @ [CHR 0x0A, CHR 0xF0, CHR 0x9F, CHR 0x94, CHR 0xB4] @ '' Emergency data recovery initiated '' @ [CHR 0x0A, CHR 0xF0, CHR 0x9F, CHR 0x94, CHR 0xB4] @ '' Senior engineer assigned to your case'' @ [CHR 0x0A, CHR 0xF0, CHR 0x9F, CHR 0x94, CHR 0xB4] @ '' Premium account activated NOW'' @ [CHR 0x0A, CHR 0x0A] @ ''NEXT 30 MINUTES:'' @ [CHR 0x0A, CHR 0xE2, CHR 0x80, CHR 0xA2] @ '' Data recovery scan in progress'' @ [CHR 0x0A, CHR 0xE2, CHR 0x80, CHR 0xA2] @ '' Engineering team analyzing crash logs'' @ [CHR 0x0A, CHR 0xE2, CHR 0x80, CHR 0xA2] @ '' Personal account manager assigned'' @ [CHR 0x0A, CHR 0x0A] @ ''WITHIN 2 HOURS:'' @ [CHR 0x0A, CHR 0xE2, CHR 0x80, CHR 0xA2] @ '' Recovery status update'' @ [CHR 0x0A, CHR 0xE2, CHR 0x80, CHR 0xA2] @ '' Permanent fix deployed'' @ [CHR 0x0A, CHR 0xE2, CHR 0x80, CHR 0xA2] @ '' Prevention measures implemented'' @ [CHR 0x0A, CHR 0x0A] @ ''Your work matters. We'' @ [CHR 0x27] @ ''re treating this as our #1 priority. '' @ [CHR 0x0A, CHR 0x0A] @ ''Emergency contact: [Direct phone number]'' @ [CHR 0x0A] @ ''Live status updates: [Link to real-time tracker]'' @ [CHR 0x0A, CHR 0x0A] @ ''We will not stop until this is resolved.''\<rparr>,
       \<lparr>toneName = ''Casual'',
        toneResponse = ''Oh no! That'' @ [CHR 0x27] @ ''s super frustrating - I totally get why you'' @ [CHR 0x27] @ ''re upset. App crashes are the worst, especially when you lose your work. '' @ [CHR 0xF0, CHR 0x9F, CHR 0x98, CHR 0x94, CHR 0x0A, CHR 0x0A] @ ''So here'' @ [CHR 0x27] @ ''s the deal - this is definitely on us and we want to make it right. I'' @ [CHR 0x27] @ ''ve already pinged our tech team about this (they'' @ [CHR 0x27] @ ''re really good at data recovery magic), and I'' @ [CHR 0x27] @ ''m hooking you up with premium access so you get all the backup features.'' @ [CHR 0x0A, CHR 0x0A] @ ''The good news? We'' @ [CHR 0x27] @ ''ve actually been working on some crash prevention updates, and your experience is helping us make the app way more reliable. Silver lining, right?'' @ [CHR 0x0A, CHR 0x0A] @ ''I'' @ [CHR 0x27] @ ''ll keep you posted on what the team finds. In the meantime, if you need anything else or just want to vent about technology being annoying, I'' @ [CHR 0x27] @ ''m here!'' @ [CHR 0x0A, CHR 0x0A] @ ''Thanks for sticking with us through this hiccup. '' @ [CHR 0xF0, CHR 0x9F, CHR 0x99, CHR 0x8F]\<rparr>]\<rparr>"

definition experiment_technical_explanation :: tone_experiment where
  "experiment_technical_explanation = \<lparr>experimentId = ''technical-explanation'',
     experimentScenario = ''Explaining a complex technical concept'',
     basePrompt = ''Explain how blockchain technology works.'',
     tones = [
       \<lparr>toneName = ''Academic'',
        toneResponse = ''Blockchain Technology: A Distributed Ledger Framework'' @ [CHR 0x0A, CHR 0x0A] @ ''Abstract: Blockchain represents a paradigm shift in data architecture, implementing a decentralized, cryptographically secured ledger system that enables trustless peer-to-peer transactions.'' @ [CHR 0x0A, CHR 0x0A] @ ''Core Mechanism: The blockchain operates through a consensus-driven protocol where transaction data is aggregated into blocks using Merkle tree structures. Each block contains a cryptographic hash of the previous block, creating an immutable chain. The distributed network validates transactions through consensus algorithms (e.g., Proof of Work, Proof of Stake).'' @ [CHR 0x0A, CHR 0x0A] @ ''Technical Implementation: The system employs asymmetric cryptography for digital signatures, ensuring transaction authenticity. Smart contracts, implemented as self-executing code on platforms like Ethereum, enable automated execution of predefined conditions without intermediary oversight.'' @ [CHR 0x0A, CHR 0x0A] @ ''Implications: This architecture addresses the Byzantine Generals Problem, enabling coordination in distributed systems without central authority. The cryptographic immutability provides data integrity guarantees that have significant implications for financial systems, supply chain management, and digital identity verification.'' @ [CHR 0x0A, CHR 0x0A] @ ''Research continues into scalability solutions, including layer-2 protocols and sharding mechanisms to address throughput limitations inherent in current implementations.''\<rparr>,
       \<lparr>toneName = ''Enthusiastic'',
        toneResponse = [CHR 0xF0, CHR 0x9F, CHR 0x9A, CHR 0x80] @ '' BLOCKCHAIN IS ABSOLUTELY REVOLUTIONARY! '' @ [CHR 0xF0, CHR 0x9F, CHR 0x9A, CHR 0x80, CHR 0x0A, CHR 0x0A] @ ''Imagine a world where you don'' @ [CHR 0x27] @ ''t need banks, governments, or any middleman to trust someone across the globe - that'' @ [CHR 0x27] @ ''s the incredible power of blockchain!'' @ [CHR 0x0A, CHR 0x0A] @ ''Here'' @ [CHR 0x27] @ ''s how this AMAZING technology works:'' @ [CHR 0x0A, CHR 0x0A, CHR 0xF0, CHR 0x9F, CHR 0x94, CHR 0x97] @ '' THE MAGIC CHAIN: Every transaction gets bundled into a '' @ [CHR 0x22] @ ''block'' @ [CHR 0x22] @ '' and chained to the previous one using super-secure cryptography. It'' @ [CHR 0x27] @ ''s like an unbreakable digital DNA sequence!'' @ [CHR 0x0A, CHR 0x0A, CHR 0xE2, CHR 0x9A, CHR 0xA1] @ '' DISTRIBUTED POWER: Instead of one company controlling everything, thousands of computers around the world work together to verify transactions. No single point of failure - it'' @ [CHR 0x27] @ ''s unstoppable!'' @ [CHR 0x0A, CHR 0x0A, CHR 0xF0, CHR 0x9F, CHR 0x9B, CHR 0xA1, CHR 0xEF, CHR 0xB8, CHR 0x8F] @ '' CRYPTOGRAPHIC FORTRESS: Each transaction is protected by military-grade encryption. Trying to hack it would take longer than the age of the universe!'' @ [CHR 0x0A, CHR 0x0A, CHR 0xF0, CHR 0x9F, CHR 0xA4, CHR 0x96] @ '' SMART CONTRACTS: Self-executing code that automatically enforces agreements - no lawyers needed! The future is HERE!'' @ [CHR 0x0A, CHR 0x0A, CHR 0xF0, CHR 0x9F, CHR 0x92, CHR 0xAB] @ '' ENDLESS POSSIBILITIES: Digital currencies, NFTs, supply chain tracking, voting systems, identity verification - blockchain is transforming EVERYTHING!'' @ [CHR 0x0A, CHR 0x0A] @ ''We'' @ [CHR 0x27] @ ''re witnessing the birth of a trustless society where mathematics and code replace human intermediaries. This isn'' @ [CHR 0x27] @ ''t just technology - it'' @ [CHR 0x27] @ ''s a movement toward a more transparent, efficient, and equitable world! '' @ [CHR 0xF0, CHR 0x9F, CHR 0x8C, CHR 0x9F]\<rparr>,
       \<lparr>toneName = ''Simple'',
        toneResponse = ''What is Blockchain? Think of it Like This:'' @ [CHR 0x0A, CHR 0x0A, CHR 0xF0, CHR 0x9F, CHR 0x97, CHR 0x82, CHR 0xEF, CHR 0xB8, CHR 0x8F] @ '' THE NOTEBOOK ANALOGY:'' @ [CHR 0x0A] @ ''Imagine a notebook that everyone in your neighborhood has an identical copy of. When someone wants to send money to someone else, they write it in their notebook. But here'' @ [CHR 0x27] @ ''s the cool part - everyone else checks that transaction and writes it in their notebook too.'' @ [CHR 0x0A, CHR 0x0A, CHR 0xF0, CHR 0x9F, CHR 0x94, CHR 0x92] @ '' WHY IT'' @ [CHR 0x27] @ ''S SUPER SECURE:'' @ [CHR 0x0A] @ ''- If someone tries to cheat and change their notebook, everyone else'' @ [CHR 0x27] @ ''s notebooks won'' @ [CHR 0x27] @ ''t match'' @ [CHR 0x0A] @ ''- Since everyone has a copy, you can'' @ [CHR 0x27] @ ''t destroy or lose the records'' @ [CHR 0x0A] @ ''- Each page (block) references the previous page, so you can'' @ [CHR 0x27] @ ''t remove or change old entries'' @ [CHR 0x0A, CHR 0x0A, CHR 0xF0, CHR 0x9F, CHR 0x92, CHR 0xB0] @ '' REAL EXAMPLE:'' @ [CHR 0x0A, CHR 0x22] @ ''Sarah pays John $50'' @ [CHR 0x22] @ '' gets written down by thousands of people around the world. They all agree it happened, so it'' @ [CHR 0x27] @ ''s official. No bank needed!'' @ [CHR 0x0A, CHR 0x0A, CHR 0xF0, CHR 0x9F, CHR 0x8E, CHR 0xAF] @ '' WHY IT MATTERS:'' @ [CHR 0x0A] @ ''- No single company controls it'' @ [CHR 0x0A] @ ''- Transactions happen 24/7 worldwide'' @ [CHR 0x0A] @ ''- Lower fees than traditional banks'' @ [CHR 0x0A] @ ''- Perfect record keeping'' @ [CHR 0x0A, CHR 0x0A] @ ''Think of it as a global accounting system that everyone can see, verify, and trust - but no one single person or company controls. That'' @ [CHR 0x27] @ ''s blockchain in a nutshell!''\<rparr>,
       \<lparr>toneName = ''Skeptical'',
        toneResponse = ''Blockchain: Promise vs. Reality'' @ [CHR 0x0A, CHR 0x0A] @ ''While blockchain technology offers interesting possibilities, it'' @ [CHR 0x27] @ ''s important to understand both its capabilities and significant limitations.'' @ [CHR 0x0A, CHR 0x0A] @ ''THE CONCEPT:'' @ [CHR 0x0A] @ ''Blockchain is essentially a distributed database where records (blocks) are linked using cryptography. Multiple parties maintain copies, theoretically eliminating the need for central authorities.'' @ [CHR 0x0A, CHR 0x0A] @ ''REAL-WORLD CHALLENGES:'' @ [CHR 0x0A, CHR 0x0A, CHR 0xE2, CHR 0x9A, CHR 0xA0, CHR 0xEF, CHR 0xB8, CHR 0x8F] @ '' Energy Consumption: Bitcoin'' @ [CHR 0x27] @ ''s network consumes more electricity than entire countries - hardly sustainable.'' @ [CHR 0x0A, CHR 0x0A, CHR 0xE2, CHR 0x9A, CHR 0xA0, CHR 0xEF, CHR 0xB8, CHR 0x8F] @ '' Scalability Issues: Bitcoin processes ~7 transactions per second vs. Visa'' @ [CHR 0x27] @ ''s 24,000. Not exactly ready for mass adoption.'' @ [CHR 0x0A, CHR 0x0A, CHR 0xE2, CHR 0x9A, CHR 0xA0, CHR 0xEF, CHR 0xB8, CHR 0x8F] @ '' User Experience: Lost private keys = lost money forever. No password recovery, no customer service.'' @ [CHR 0x0A, CHR 0x0A, CHR 0xE2, CHR 0x9A, CHR 0xA0, CHR 0xEF, CHR 0xB8, CHR 0x8F] @ '' Regulatory Uncertainty: Governments worldwide are still figuring out how to regulate this technology.'' @ [CHR 0x0A, CHR 0x0A, CHR 0xE2, CHR 0x9A, CHR 0xA0, CHR 0xEF, CHR 0xB8, CHR 0x8F] @ '' Volatility: Cryptocurrency values swing wildly, making them impractical as stable currencies.'' @ [CHR 0x0A, CHR 0x0A, CHR 0xE2, CHR 0x9A, CHR 0xA0, CHR 0xEF, CHR 0xB8, CHR 0x8F] @ '' Technical Complexity: Most people don'' @ [CHR 0x27] @ ''t understand how it works, creating barriers to adoption.'' @ [CHR 0x0A, CHR 0x0A] @ ''HONEST ASSESSMENT:'' @ [CHR 0x0A] @ ''Blockchain has legitimate uses in supply chain tracking and certain financial applications. However, many '' @ [CHR 0x22] @ ''blockchain solutions'' @ [CHR 0x22] @ '' are solving problems that don'' @ [CHR 0x27] @ ''t actually exist or could be solved more efficiently with traditional databases.'' @ [CHR 0x0A, CHR 0x0A] @ ''The technology is interesting, but the hype often outpaces the practical reality. Approach with cautious optimism.''\<rparr>]\<rparr>"

definition toneExperiments :: "tone_experiment list" where
  "toneExperiments = [experiment_customer_support, experiment_technical_explanation]"

subsection \<open>State and views\<close>

record framing_state =
  selectedTechnique :: "string option"
  selectedExample :: nat
  activeToneExperiment :: "string option"
  selectedTone :: string

definition framing_init :: framing_state where
  "framing_init = \<lparr>selectedTechnique = None, selectedExample = 0, activeToneExperiment = None,
                   selectedTone = []\<rparr>"

definition selectedTechniqueData :: "framing_state \<Rightarrow> framing_technique option" where
  "selectedTechniqueData s =
     (case selectedTechnique s of
        None \<Rightarrow> None | Some i \<Rightarrow> find (\<lambda>t. techniqueId t = i) framingTechniques)"

text \<open>\<open>currentExample\<close> of the component.\<close>

definition currentFramingExample :: "framing_state \<Rightarrow> framing_example option" where
  "currentFramingExample s =
     (case selectedTechniqueData s of
        None \<Rightarrow> None | Some t \<Rightarrow> js_at (techniqueExamples t) (selectedExample s))"

definition currentExperiment :: "framing_state \<Rightarrow> tone_experiment option" where
  "currentExperiment s =
     (case activeToneExperiment s of
        None \<Rightarrow> None | Some i \<Rightarrow> find (\<lambda>e. experimentId e = i) toneExperiments)"

text \<open>The modal is rendered while \<open>activeToneExperiment && currentExperiment\<close>.\<close>

definition modal_open :: "framing_state \<Rightarrow> bool" where
  "modal_open s = (activeToneExperiment s \<noteq> None \<and> currentExperiment s \<noteq> None)"

text \<open>The response preview: shown in the modal while \<open>selectedTone\<close> is not empty, with
  the tone name and the text
  \<open>currentExperiment?.tones.find(t => t.name === selectedTone)?.response || "No response available"\<close>.\<close>

definition tone_preview :: "framing_state \<Rightarrow> (string \<times> string) option" where
  "tone_preview s =
     (case currentExperiment s of
        None \<Rightarrow> None
      | Some e \<Rightarrow>
          if activeToneExperiment s = None \<or> selectedTone s = [] then None
          else Some (selectedTone s,
                     case find (\<lambda>t. toneName t = selectedTone s) (tones e) of
                       None \<Rightarrow> ''No response available''
                     | Some t \<Rightarrow> if toneResponse t = [] then ''No response available''
                                 else toneResponse t))"

text \<open>\<open>setSelectedTone(selectedTone === tone.name ? '' : tone.name)\<close>.\<close>

definition clickTone :: "string \<Rightarrow> framing_state \<Rightarrow> framing_state" where
  "clickTone n s = s\<lparr>selectedTone := (if selectedTone s = n then [] else n)\<rparr>"

subsection \<open>The section as a state machine\<close>

datatype framing_event =
    SelectTechnique string | StartExperiment string | BackToTechniques
  | SelectFramingExample nat | CloseExperiment | ClickTone string

text \<open>Behind the open modal nothing can be clicked. The overview (\<open>!selectedTechnique\<close>)
  offers a card per technique and a button per experiment; the detail view offers the back
  button and a button per example; the modal offers close and a card per tone.\<close>

fun framing_enabled :: "framing_state \<Rightarrow> framing_event \<Rightarrow> bool" where
  "framing_enabled s (SelectTechnique i) =
     (\<not> modal_open s \<and> selectedTechnique s = None \<and> i \<in> set (map techniqueId framingTechniques))"
| "framing_enabled s (StartExperiment i) =
     (\<not> modal_open s \<and> selectedTechnique s = None \<and> i \<in> set (map experimentId toneExperiments))"
| "framing_enabled s BackToTechniques = (\<not> modal_open s \<and> selectedTechnique s \<noteq> None)"
| "framing_enabled s (SelectFramingExample i) =
     (\<not> modal_open s \<and>
      (case selectedTechniqueData s of None \<Rightarrow> False | Some t \<Rightarrow> i < length (techniqueExamples t)))"
| "framing_enabled s CloseExperiment = modal_open s"
| "framing_enabled s (ClickTone n) =
     (case currentExperiment s of
        None \<Rightarrow> False
      | Some e \<Rightarrow> activeToneExperiment s \<noteq> None \<and> n \<in> set (map toneName (tones e)))"

fun framing_handle :: "framing_state \<Rightarrow> framing_event \<Rightarrow> framing_state" where
  "framing_handle s (SelectTechnique i) = s\<lparr>selectedTechnique := Some i\<rparr>"
| "framing_handle s (StartExperiment i) = s\<lparr>activeToneExperiment := Some i\<rparr>"
| "framing_handle s BackToTechniques = s\<lparr>selectedTechnique := None\<rparr>"
| "framing_handle s (SelectFramingExample i) = s\<lparr>selectedExample := i\<rparr>"
| "framing_handle s CloseExperiment = s\<lparr>activeToneExperiment := None\<rparr>"
| "framing_handle s (ClickTone n) = clickTone n s"

inductive framing_reachable :: "framing_state \<Rightarrow> bool" where
  init: "framing_reachable framing_init"
| step: "framing_reachable s \<Longrightarrow> framing_enabled s ev \<Longrightarrow> framing_reachable (framing_handle s ev)"

fun framing_run :: "framing_state \<Rightarrow> framing_event list \<Rightarrow> framing_state" where
  "framing_run s [] = s"
| "framing_run s (ev # evs) = framing_run (framing_handle s ev) evs"

fun framing_valid_run :: "framing_state \<Rightarrow> framing_event list \<Rightarrow> bool" where
  "framing_valid_run s [] = True"
| "framing_valid_run s (ev # evs) = (framing_enabled s ev \<and> framing_valid_run (framing_handle s ev) evs)"

text \<open>The invariant: a selected id names a technique, and the example index is below three,
  the number of examples of every technique.\<close>

definition framing_inv :: "framing_state \<Rightarrow> bool" where
  "framing_inv s \<longleftrightarrow>
     (case selectedTechnique s of
        None \<Rightarrow> True | Some i \<Rightarrow> i \<in> set (map techniqueId framingTechniques)) \<and>
     selectedExample s < 3"

text \<open>A run: pick a tone in the first experiment, close it, open the second.\<close>

definition tone_then_switch :: "framing_event list" where
  "tone_then_switch = [StartExperiment ''customer-support'', ClickTone ''Professional'',
     CloseExperiment, StartExperiment ''technical-explanation'']"

subsection \<open>Lemmas\<close>

lemmas technique_defs = framingTechniques_def technique_tone_control_def
  technique_role_prompting_def technique_audience_adaptation_def technique_anchoring_framing_def

lemma techniques_three_examples:
  "list_all (\<lambda>t. length (techniqueExamples t) = 3) framingTechniques"
  by (simp add: technique_defs)

lemma find_technique_listed:
  assumes "i \<in> set (map techniqueId framingTechniques)"
  shows "\<exists>t. find (\<lambda>t. techniqueId t = i) framingTechniques = Some t \<and>
             length (techniqueExamples t) = 3"
proof -
  obtain t where t: "find (\<lambda>t. techniqueId t = i) framingTechniques = Some t"
    using assms by (cases "find (\<lambda>t. techniqueId t = i) framingTechniques")
                   (auto simp: find_None_iff)
  then have "t \<in> set framingTechniques" by (auto simp: find_Some_iff)
  with techniques_three_examples t show ?thesis by (simp add: list_all_iff)
qed

lemma framing_inv_step:
  assumes "framing_inv s" and "framing_enabled s ev"
  shows "framing_inv (framing_handle s ev)"
proof (cases ev)
  case (SelectFramingExample i)
  with assms obtain t where t: "selectedTechniqueData s = Some t"
    and i: "i < length (techniqueExamples t)"
    by (auto split: option.splits)
  from t obtain i0 where sel: "selectedTechnique s = Some i0"
    by (cases "selectedTechnique s") (auto simp: selectedTechniqueData_def)
  with assms(1) have "i0 \<in> set (map techniqueId framingTechniques)" by (simp add: framing_inv_def)
  from find_technique_listed [OF this] t sel have "length (techniqueExamples t) = 3"
    by (auto simp: selectedTechniqueData_def)
  with SelectFramingExample i assms(1) show ?thesis by (simp add: framing_inv_def)
qed (use assms in \<open>auto simp: framing_inv_def clickTone_def\<close>)

lemma framing_reachable_inv: "framing_reachable s \<Longrightarrow> framing_inv s"
  by (induction rule: framing_reachable.induct)
     (simp add: framing_inv_def framing_init_def, simp add: framing_inv_step)

lemma framing_run_reachable:
  "framing_reachable s \<Longrightarrow> framing_valid_run s evs \<Longrightarrow> framing_reachable (framing_run s evs)"
  by (induction s evs rule: framing_run.induct) (auto intro: framing_reachable.step)

subsection \<open>Properties\<close>

text \<open>In every reachable state with a selected technique the current example exists:
  the example index, which selecting another technique does not reset, is below the three
  examples every technique has.\<close>

lemma framing_example_defined:
  assumes "framing_reachable s" and "selectedTechnique s \<noteq> None"
  shows "currentFramingExample s \<noteq> None"
proof -
  from assms(1) have inv: "framing_inv s" by (rule framing_reachable_inv)
  from assms(2) obtain i0 where sel: "selectedTechnique s = Some i0" by auto
  with inv have "i0 \<in> set (map techniqueId framingTechniques)" by (simp add: framing_inv_def)
  from find_technique_listed [OF this] obtain t
    where "find (\<lambda>t. techniqueId t = i0) framingTechniques = Some t"
      and "length (techniqueExamples t) = 3"
    by blast
  with sel inv show ?thesis
    by (simp add: currentFramingExample_def selectedTechniqueData_def framing_inv_def js_at_def)
qed

lemma framing_example_defined_example:
  "framing_reachable (framing_run framing_init [SelectTechnique ''role-prompting'', SelectFramingExample 2]) \<and>
   selectedTechnique (framing_run framing_init [SelectTechnique ''role-prompting'', SelectFramingExample 2]) \<noteq> None \<and>
   currentFramingExample (framing_run framing_init [SelectTechnique ''role-prompting'', SelectFramingExample 2]) \<noteq> None"
proof -
  have v: "framing_valid_run framing_init [SelectTechnique ''role-prompting'', SelectFramingExample 2]"
    by code_simp
  have r: "framing_reachable (framing_run framing_init [SelectTechnique ''role-prompting'', SelectFramingExample 2])"
    by (rule framing_run_reachable [OF framing_reachable.init v])
  have "selectedTechnique (framing_run framing_init [SelectTechnique ''role-prompting'', SelectFramingExample 2]) \<noteq> None"
    by code_simp
  with framing_example_defined [OF r] r show ?thesis by simp
qed

end
