(* ===== verification/Page.thy ===== *)
theory Page
  imports Router ExamplesPage Quiz Architecture Methods Framing
begin

text \<open>
  The mounted application: \<open>App\<close> renders one section component at a time
  (\<open>renderContent\<close> in \<open>src/src/App.tsx\<close>), and React keeps the state of a component only
  while it stays mounted. The page state is the router's state beside the states of the
  section components with behaviour: \<open>Examples\<close>, the quiz of \<open>Introduction\<close>
  with the \<open>ArchitecturePlayground\<close> it renders, \<open>PromptingMethods\<close> and
  \<open>PsychologicalFraming\<close>.
  A router event that changes the rendered component unmounts the old one and mounts the
  new one, so the component states are back at their initial values; a scheduled
  \<open>setTimeout\<close> callback of an unmounted quiz updates nothing. A component's events are
  offered only while it is mounted.
\<close>

record page_state =
  app :: app_state
  examplesPage :: examples_state
  quizPage :: quiz_state
  archPage :: arch_state
  methodsPage :: methods_state
  framingPage :: framing_state

definition page_init :: page_state where
  "page_init = \<lparr>app = app_init, examplesPage = examples_init, quizPage = quiz_init,
                archPage = arch_init, methodsPage = methods_init, framingPage = framing_init\<rparr>"

datatype page_event =
    AppEv app_event | ExamplesEv examples_event | QuizEv quiz_event | ArchEv arch_event
  | MethodsEv methods_event | FramingEv framing_event

definition mounted :: "page_state \<Rightarrow> section_view" where
  "mounted p = renderContent (activeSection (app p))"

definition remount :: "section_view \<Rightarrow> page_state \<Rightarrow> page_state" where
  "remount old p =
     (if mounted p = old then p
      else p\<lparr>examplesPage := examples_init, quizPage := quiz_init, archPage := arch_init,
             methodsPage := methods_init, framingPage := framing_init\<rparr>)"

fun page_enabled :: "page_state \<Rightarrow> page_event \<Rightarrow> bool" where
  "page_enabled p (AppEv e) = app_enabled (app p) e"
| "page_enabled p (ExamplesEv e) =
     (mounted p = ExamplesView \<and> examples_enabled exampleCategories allMethods (examplesPage p) e)"
| "page_enabled p (QuizEv e) = (mounted p = IntroductionView \<and> quiz_enabled (quizPage p) e)"
| "page_enabled p (ArchEv e) = (mounted p = IntroductionView \<and> arch_enabled (archPage p) e)"
| "page_enabled p (MethodsEv e) =
     (mounted p = PromptingMethodsView \<and> methods_enabled (methodsPage p) e)"
| "page_enabled p (FramingEv e) =
     (mounted p = PsychologicalFramingView \<and> framing_enabled (framingPage p) e)"

fun page_step :: "page_event \<Rightarrow> page_state \<Rightarrow> page_state" where
  "page_step (AppEv e) p = remount (mounted p) (p\<lparr>app := app_step e (app p)\<rparr>)"
| "page_step (ExamplesEv e) p =
     p\<lparr>examplesPage := examples_handle exampleCategories (examplesPage p) e\<rparr>"
| "page_step (QuizEv e) p = p\<lparr>quizPage := quiz_handle (quizPage p) e\<rparr>"
| "page_step (ArchEv e) p = p\<lparr>archPage := arch_handle (archPage p) e\<rparr>"
| "page_step (MethodsEv e) p = p\<lparr>methodsPage := methods_handle (methodsPage p) e\<rparr>"
| "page_step (FramingEv e) p = p\<lparr>framingPage := framing_handle (framingPage p) e\<rparr>"

inductive page_reachable :: "page_state \<Rightarrow> bool" where
  init: "page_reachable page_init"
| step: "page_reachable p \<Longrightarrow> page_enabled p ev \<Longrightarrow> page_reachable (page_step ev p)"

fun page_run :: "page_state \<Rightarrow> page_event list \<Rightarrow> page_state" where
  "page_run p [] = p"
| "page_run p (ev # evs) = page_run (page_step ev p) evs"

fun page_valid_run :: "page_state \<Rightarrow> page_event list \<Rightarrow> bool" where
  "page_valid_run p [] = True"
| "page_valid_run p (ev # evs) = (page_enabled p ev \<and> page_valid_run (page_step ev p) evs)"

definition page_inv :: "page_state \<Rightarrow> bool" where
  "page_inv p \<longleftrightarrow>
     app_reachable (app p) \<and> examples_reachable exampleCategories allMethods (examplesPage p) \<and>
     quiz_reachable (quizPage p) \<and> arch_reachable (archPage p) \<and>
     methods_reachable (methodsPage p) \<and> framing_reachable (framingPage p) \<and>
     (mounted p \<noteq> ExamplesView \<longrightarrow> examplesPage p = examples_init) \<and>
     (mounted p \<noteq> IntroductionView \<longrightarrow> quizPage p = quiz_init \<and> archPage p = arch_init) \<and>
     (mounted p \<noteq> PromptingMethodsView \<longrightarrow> methodsPage p = methods_init) \<and>
     (mounted p \<noteq> PsychologicalFramingView \<longrightarrow> framingPage p = framing_init)"

text \<open>A run: open the introduction, answer the three questions, leave for the fundamentals
  before the scheduled callback fires, come back.\<close>

definition quiz_then_leave :: "page_event list" where
  "quiz_then_leave = [AppEv (SidebarClick ''introduction''), QuizEv (AnswerClick 0 1),
     QuizEv (AnswerClick 1 0), QuizEv (AnswerClick 2 3), AppEv (SidebarClick ''fundamentals''),
     AppEv (SidebarClick ''introduction'')]"

lemma page_inv_init: "page_inv page_init"
  by (simp add: page_inv_def page_init_def app_reachable.init examples_reachable.init
                quiz_reachable.init arch_reachable.init
                methods_reachable.init framing_reachable.init)

lemma page_inv_app_step:
  assumes "page_inv p" and "app_enabled (app p) e"
  shows "page_inv (page_step (AppEv e) p)"
proof (cases "mounted (p\<lparr>app := app_step e (app p)\<rparr>) = mounted p")
  case True
  with assms show ?thesis
    by (simp add: page_inv_def remount_def app_reachable.step)
next
  case False
  with assms show ?thesis
    by (simp add: page_inv_def remount_def app_reachable.step examples_reachable.init
                  quiz_reachable.init arch_reachable.init
                  methods_reachable.init framing_reachable.init)
qed

lemma page_inv_step: "page_inv p \<Longrightarrow> page_enabled p ev \<Longrightarrow> page_inv (page_step ev p)"
proof (cases ev)
  case (AppEv e)
  then show "page_inv p \<Longrightarrow> page_enabled p ev \<Longrightarrow> page_inv (page_step ev p)"
    using page_inv_app_step by simp
next
  case (ExamplesEv e)
  then show "page_inv p \<Longrightarrow> page_enabled p ev \<Longrightarrow> page_inv (page_step ev p)"
    by (auto simp: page_inv_def mounted_def intro: examples_reachable.step)
next
  case (QuizEv e)
  then show "page_inv p \<Longrightarrow> page_enabled p ev \<Longrightarrow> page_inv (page_step ev p)"
    by (auto simp: page_inv_def mounted_def intro: quiz_reachable.step)
next
  case (ArchEv e)
  then show "page_inv p \<Longrightarrow> page_enabled p ev \<Longrightarrow> page_inv (page_step ev p)"
    by (auto simp: page_inv_def mounted_def intro: arch_reachable.step)
next
  case (MethodsEv e)
  then show "page_inv p \<Longrightarrow> page_enabled p ev \<Longrightarrow> page_inv (page_step ev p)"
    by (auto simp: page_inv_def mounted_def intro: methods_reachable.step)
next
  case (FramingEv e)
  then show "page_inv p \<Longrightarrow> page_enabled p ev \<Longrightarrow> page_inv (page_step ev p)"
    by (auto simp: page_inv_def mounted_def intro: framing_reachable.step)
qed

lemma page_reachable_inv: "page_reachable p \<Longrightarrow> page_inv p"
  by (induction rule: page_reachable.induct) (auto intro: page_inv_init page_inv_step)

lemma page_run_reachable:
  "page_reachable p \<Longrightarrow> page_valid_run p evs \<Longrightarrow> page_reachable (page_run p evs)"
  by (induction p evs rule: page_run.induct) (auto intro: page_reachable.step)

lemma quiz_then_leave_valid: "page_valid_run page_init quiz_then_leave"
  by code_simp

lemma quiz_then_leave_reachable: "page_reachable (page_run page_init quiz_then_leave)"
  by (rule page_run_reachable [OF page_reachable.init quiz_then_leave_valid])

lemma quiz_then_leave_mounted: "mounted (page_run page_init quiz_then_leave) = IntroductionView"
  by code_simp

end
