(* ===== verification/IntroView.thy ===== *)
theory IntroView
  imports Quiz Router
begin

text \<open>
  What \<open>Introduction\<close> (\<open>src/src/components/Introduction.tsx\<close>) renders from the quiz's
  state, and how the quiz progresses. A card per question shows its label, text, option
  buttons and insight; the buttons are enabled exactly while the question is unanswered,
  which is the enabling condition of an answer click. The option buttons of a question take one of three
  looks, chosen by \<open>getSelectedOption(index) === optionIndex\<close> and
  \<open>isAnswered(index)\<close>; the results panel, rendered when \<open>showResults\<close> is set, shows the
  object \<open>getPersonalityResult\<close> returns and an icon chosen from its \<open>type\<close>. The motivation
  cards list \<open>motivationFactors\<close>, keyed by their titles (their other fields are only
  rendered). The quiz's events are finitely many in every run: a measure of the work left
  (questions to answer, a callback to schedule or to fire) drops by one with each enabled
  event, so the quiz always reaches its results and then offers no event.
\<close>

subsection \<open>The option buttons\<close>

datatype option_style = OptSelected | OptAnswered | OptOpen

definition option_look :: "nat \<Rightarrow> nat \<Rightarrow> quiz_state \<Rightarrow> option_style" where
  "option_look qi oi s =
     (if getSelectedOption qi s = Some oi then OptSelected
      else if isAnswered qi s then OptAnswered else OptOpen)"

definition option_marker :: "nat \<Rightarrow> nat \<Rightarrow> quiz_state \<Rightarrow> string" where
  "option_marker qi oi s =
     (if getSelectedOption qi s = Some oi then [CHR 0xE2, CHR 0x9C, CHR 0x93] @ '' '' else ''// '')"

subsection \<open>The question cards\<close>

text \<open>A question card, rendered by \<open>interactiveQuestions.map((q, index) => \<dots>)\<close>: the label
  \<open>Q{index + 1}:\<close>, the question, a button per option with its marker and option text, its
  look and whether it is enabled (\<open>disabled={isQuestionAnswered}\<close>), and the insight.\<close>

record question_card =
  questionLabel :: string
  questionLine :: string
  optionButtons :: "(string \<times> option_style \<times> bool) list"
  insightLine :: string

definition question_card_of :: "nat \<Rightarrow> question \<Rightarrow> quiz_state \<Rightarrow> question_card" where
  "question_card_of k q s =
     \<lparr>questionLabel = ''Q'' @ js_nat_string (k + 1) @ '':'', questionLine = questionText q,
      optionButtons = map (\<lambda>(oi, opt). (option_marker k oi s @ opt, option_look k oi s, \<not> isAnswered k s))
                        (enumerate 0 (options q)),
      insightLine = insight q\<rparr>"

definition question_cards :: "quiz_state \<Rightarrow> question_card list" where
  "question_cards s = map (\<lambda>(k, q). question_card_of k q s) (enumerate 0 interactiveQuestions)"

subsection \<open>The results panel\<close>

record personality_view =
  ptype :: string
  pdescription :: string
  precommendation :: string
  paccent :: string

definition personality_result :: "personality \<Rightarrow> personality_view" where
  "personality_result p = (case p of
     PromptNewbie \<Rightarrow>
       \<lparr>ptype = ''prompt_newbie'',
        pdescription = ''You'' @ [CHR 0x27] @ ''re just getting started with AI prompting! '' @
          [CHR 0xF0, CHR 0x9F, CHR 0x8C, CHR 0xB1],
        precommendation = ''Perfect timing to learn the fundamentals. Start with zero-shot and few-shot techniques.'',
        paccent = ''text-green-400''\<rparr>
   | PromptExplorer \<Rightarrow>
       \<lparr>ptype = ''prompt_explorer'',
        pdescription = ''You'' @ [CHR 0x27] @ ''ve got some experience but there'' @ [CHR 0x27] @
          ''s room to grow! '' @ [CHR 0xF0, CHR 0x9F, CHR 0x9A, CHR 0x80],
        precommendation = ''Ready for advanced methods like chain-of-thought and self-consistency.'',
        paccent = ''text-blue-400''\<rparr>
   | PromptWizard \<Rightarrow>
       \<lparr>ptype = ''prompt_wizard'',
        pdescription = ''You'' @ [CHR 0x27] @ ''re already pretty savvy with AI! '' @
          [CHR 0xF0, CHR 0x9F, CHR 0xA7, CHR 0x99, CHR 0xE2, CHR 0x80, CHR 0x8D, CHR 0xE2, CHR 0x99,
           CHR 0x82, CHR 0xEF, CHR 0xB8, CHR 0x8F],
        precommendation = ''Time to master tree-of-thoughts and ReAct for complex scenarios.'',
        paccent = ''text-purple-400''\<rparr>)"

text \<open>The icon: \<open>result.type === 'prompt_newbie' ? \<dots> : result.type === 'prompt_explorer' ?
  \<dots> : \<dots>\<close>.\<close>

definition result_icon :: "personality_view \<Rightarrow> string" where
  "result_icon r =
     (if ptype r = ''prompt_newbie'' then [CHR 0xF0, CHR 0x9F, CHR 0x8C, CHR 0xB1]
      else if ptype r = ''prompt_explorer'' then [CHR 0xF0, CHR 0x9F, CHR 0x9A, CHR 0x80]
      else [CHR 0xF0, CHR 0x9F, CHR 0xA7, CHR 0x99, CHR 0xE2, CHR 0x80, CHR 0x8D, CHR 0xE2, CHR 0x99,
            CHR 0x82, CHR 0xEF, CHR 0xB8, CHR 0x8F])"

text \<open>The panel: nothing unless \<open>showResults\<close>; a \<open>TypeError\<close> thrown while rendering it is
  the error value.\<close>

definition results_panel :: "quiz_state \<Rightarrow> (js_error + personality_view \<times> string) option" where
  "results_panel s =
     (if showResults s
      then Some (map_sum id (\<lambda>p. (personality_result p, result_icon (personality_result p)))
                   (getPersonalityResult s))
      else None)"

text \<open>The navigation buttons of the page: the results panel offers \<open>fundamentals\<close> and
  \<open>prompting-methods\<close>, and so does the call to action shown while there are no results.\<close>

definition intro_nav_buttons :: "quiz_state \<Rightarrow> string list" where
  "intro_nav_buttons s =
     (if showResults s then [''fundamentals'', ''prompting-methods'']
      else [''fundamentals'', ''prompting-methods''])"

subsection \<open>The motivation cards\<close>

record motivation_factor =
  factorTitle :: string
  factorAccent :: string

definition motivationFactors :: "motivation_factor list" where
  "motivationFactors = [
     \<lparr>factorTitle = ''performance_gap'', factorAccent = ''text-cyan-400''\<rparr>,
     \<lparr>factorTitle = ''cost_efficiency'', factorAccent = ''text-green-400''\<rparr>,
     \<lparr>factorTitle = ''speed_reliability'', factorAccent = ''text-yellow-400''\<rparr>,
     \<lparr>factorTitle = ''practical_implementation'', factorAccent = ''text-purple-400''\<rparr>]"

subsection \<open>Progress of the quiz\<close>

text \<open>One step of the quiz: an enabled event and its handler.\<close>

inductive quiz_step :: "quiz_state \<Rightarrow> quiz_state \<Rightarrow> bool" where
  "quiz_enabled s ev \<Longrightarrow> quiz_step s (quiz_handle s ev)"

text \<open>The work left: the questions still to answer, the callback still to schedule (one
  while the quiz is incomplete) and the callbacks pending.\<close>

definition quiz_remaining :: "quiz_state \<Rightarrow> nat" where
  "quiz_remaining s =
     (length interactiveQuestions - length (answers s)) + pendingTimers s +
     (if length (answers s) < length interactiveQuestions then 1 else 0)"

inductive_cases quiz_stepE: "quiz_step s t"

subsection \<open>The order of the results\<close>

text \<open>The results ranked by how much the quiz says the reader needs prompt engineering, the
  order of the score thresholds: \<open>prompt_wizard\<close> below \<open>prompt_explorer\<close> below
  \<open>prompt_newbie\<close>. With this order the library's monotonicity applies to
  \<open>classify\<close>.\<close>

definition personality_rank :: "personality \<Rightarrow> nat" where
  "personality_rank p = (case p of PromptWizard \<Rightarrow> 0 | PromptExplorer \<Rightarrow> 1 | PromptNewbie \<Rightarrow> 2)"

lemma personality_rank_inj: "personality_rank p = personality_rank q \<longleftrightarrow> p = q"
  by (cases p; cases q) (simp_all add: personality_rank_def)

instantiation personality :: linorder
begin

definition less_eq_personality :: "personality \<Rightarrow> personality \<Rightarrow> bool" where
  "less_eq_personality p q \<longleftrightarrow> personality_rank p \<le> personality_rank q"

definition less_personality :: "personality \<Rightarrow> personality \<Rightarrow> bool" where
  "less_personality p q \<longleftrightarrow> personality_rank p < personality_rank q"

instance
  by standard (auto simp: less_eq_personality_def less_personality_def personality_rank_inj [symmetric])

end

subsection \<open>Lemmas\<close>

lemma classify_mono: "mono (\<lambda>n. classify (Num n))"
  by (auto intro!: monoI simp: less_eq_personality_def personality_rank_def)

lemma classify_NaN_least: "classify NaN \<le> p"
  by (simp add: less_eq_personality_def personality_rank_def)

lemma getSelectedOption_Some:
  "getSelectedOption qi s = Some oi \<longleftrightarrow>
   (\<exists>a. find (\<lambda>a. questionIndex a = qi) (answers s) = Some a \<and> selectedOption a = oi)"
  by (auto simp: getSelectedOption_def)

lemma selected_in_answers:
  assumes "distinct (map questionIndex (answers s))"
  shows "getSelectedOption qi s = Some oi \<longleftrightarrow>
         \<lparr>questionIndex = qi, selectedOption = oi\<rparr> \<in> set (answers s)"
proof
  assume "getSelectedOption qi s = Some oi"
  then obtain a where f: "find (\<lambda>a. questionIndex a = qi) (answers s) = Some a"
    and o: "selectedOption a = oi" by (auto simp: getSelectedOption_Some)
  from f have "a \<in> set (answers s)" and "questionIndex a = qi"
    by (auto simp: find_Some_iff)
  with o show "\<lparr>questionIndex = qi, selectedOption = oi\<rparr> \<in> set (answers s)"
    by (cases a) simp
next
  assume mem: "\<lparr>questionIndex = qi, selectedOption = oi\<rparr> \<in> set (answers s)"
  then obtain i where i: "i < length (answers s)"
    and at: "answers s ! i = \<lparr>questionIndex = qi, selectedOption = oi\<rparr>"
    by (auto simp: in_set_conv_nth)
  have "questionIndex (answers s ! j) \<noteq> qi" if "j < i" for j
  proof
    assume "questionIndex (answers s ! j) = qi"
    with at that i have "map questionIndex (answers s) ! j = map questionIndex (answers s) ! i"
      by simp
    with nth_eq_iff_index_eq [OF assms, of j i] that i show False by simp
  qed
  with i at have "find (\<lambda>a. questionIndex a = qi) (answers s) = Some \<lparr>questionIndex = qi, selectedOption = oi\<rparr>"
    unfolding find_Some_iff by (intro exI [of _ i]) simp
  then show "getSelectedOption qi s = Some oi" by (simp add: getSelectedOption_def)
qed

lemma answered_selected:
  "isAnswered qi s \<longleftrightarrow> (\<exists>oi. getSelectedOption qi s = Some oi)"
proof -
  have "isAnswered qi s \<longleftrightarrow> find (\<lambda>a. questionIndex a = qi) (answers s) \<noteq> None"
    by (auto simp: isAnswered_def list_ex_iff find_None_iff)
  then show ?thesis by (cases "find (\<lambda>a. questionIndex a = qi) (answers s)") (simp_all add: getSelectedOption_def)
qed

lemma quiz_remaining_step:
  assumes inv: "quiz_inv s" and en: "quiz_enabled s ev"
  shows "Suc (quiz_remaining (quiz_handle s ev)) = quiz_remaining s"
proof (cases ev)
  case (AnswerClick qi oi)
  with answer_click_fresh [OF inv] en show ?thesis
    by (auto simp: quiz_remaining_def handler_simps)
next
  case TimerFires
  with inv en show ?thesis
    by (auto simp: quiz_remaining_def quiz_inv_def handler_simps)
qed

lemma quiz_progress:
  assumes "quiz_reachable s" and "\<not> showResults s"
  shows "\<exists>ev. quiz_enabled s ev"
proof (cases "0 < pendingTimers s")
  case True
  then show ?thesis by (metis quiz_enabled.simps(2))
next
  case False
  with assms have "length (answers s) \<noteq> length interactiveQuestions"
    using quiz_reachable_inv [OF assms(1)] by (auto simp: quiz_inv_def)
  with reachable_all_answered [OF assms(1)] obtain q where "q < 3" "\<not> isAnswered q s"
    by auto
  then have "quiz_enabled s (AnswerClick q 0)" by (simp add: options_length)
  then show ?thesis ..
qed

lemma quiz_completes:
  "quiz_reachable s \<Longrightarrow> \<exists>evs. quiz_valid_run s evs \<and> showResults (quiz_run s evs)"
proof (induction "quiz_remaining s" arbitrary: s rule: less_induct)
  case (less s)
  show ?case
  proof (cases "showResults s")
    case True
    then show ?thesis by (metis quiz_run.simps(1) quiz_valid_run.simps(1))
  next
    case False
    with quiz_progress [OF less.prems] obtain ev where en: "quiz_enabled s ev" by blast
    have "quiz_remaining (quiz_handle s ev) < quiz_remaining s"
      using quiz_remaining_step [OF quiz_reachable_inv [OF less.prems] en] by simp
    with less.hyps quiz_reachable.step [OF less.prems en]
    obtain evs where "quiz_valid_run (quiz_handle s ev) evs"
      and "showResults (quiz_run (quiz_handle s ev) evs)" by blast
    with en show ?thesis by (metis quiz_run.simps(2) quiz_valid_run.simps(2))
  qed
qed

lemma quiz_run_remaining:
  "quiz_reachable s \<Longrightarrow> quiz_valid_run s evs \<Longrightarrow> length evs + quiz_remaining (quiz_run s evs) = quiz_remaining s"
proof (induction s evs rule: quiz_run.induct)
  case (1 s)
  then show ?case by simp
next
  case (2 s ev evs)
  then have en: "quiz_enabled s ev" and rest: "quiz_valid_run (quiz_handle s ev) evs" by simp_all
  from 2 en rest have "length evs + quiz_remaining (quiz_run (quiz_handle s ev) evs) =
                       quiz_remaining (quiz_handle s ev)"
    by (blast intro: quiz_reachable.step)
  with quiz_remaining_step [OF quiz_reachable_inv [OF "2.prems"(1)] en] show ?case by simp
qed

lemma quiz_remaining_init: "quiz_remaining quiz_init = 4"
  by (simp add: quiz_remaining_def quiz_init_def)

lemma results_final:
  assumes "quiz_reachable s" and "showResults s"
  shows "\<not> quiz_enabled s ev"
proof -
  from assms have inv: "quiz_inv s" by (simp add: quiz_reachable_inv)
  with assms(2) have "length (answers s) = length interactiveQuestions" and "pendingTimers s = 0"
    by (auto simp: quiz_inv_def)
  with reachable_all_answered [OF assms(1)] show ?thesis by (cases ev) auto
qed

lemma option_looks:
  assumes "quiz_reachable s" and "qi < 3"
  shows "(isAnswered qi s \<longrightarrow>
            (\<exists>!oi. oi < 4 \<and> option_look qi oi s = OptSelected) \<and>
            (\<forall>oi < 4. option_look qi oi s \<noteq> OptOpen)) \<and>
         (\<not> isAnswered qi s \<longrightarrow> (\<forall>oi. option_look qi oi s = OptOpen))"
proof (cases "isAnswered qi s")
  case True
  then obtain k where k: "getSelectedOption qi s = Some k" by (auto simp: answered_selected)
  from assms(1) have inv: "quiz_inv s" by (rule quiz_reachable_inv)
  then have "\<lparr>questionIndex = qi, selectedOption = k\<rparr> \<in> set (answers s)"
    using k selected_in_answers by (simp add: quiz_inv_def)
  with inv have "k < 4"
    by (auto simp: quiz_inv_def list_all_iff valid_answer_def options_length)
  with k True show ?thesis by (auto simp: option_look_def)
next
  case False
  then have "getSelectedOption qi s = None" by (auto simp: answered_selected)
  with False show ?thesis by (simp add: option_look_def)
qed

text \<open>The buttons of a question card are its options in order, each with the look of
  \<open>option_look\<close>, and all of them enabled exactly while the question is unanswered.\<close>

lemma question_card_buttons:
  assumes "k < length interactiveQuestions"
  shows "optionButtons (question_cards s ! k) =
           map (\<lambda>oi. (option_marker k oi s @ options (interactiveQuestions ! k) ! oi, option_look k oi s,
                      \<not> isAnswered k s))
               [0..<length (options (interactiveQuestions ! k))]"
proof -
  have e: "enumerate 0 xs = map (\<lambda>j. (j, xs ! j)) [0..<length xs]" for xs :: "'a list"
    using enumerate_map_upt [of 0 "(!) xs" "length xs"] by (simp add: map_nth)
  have "question_cards s ! k = question_card_of k (interactiveQuestions ! k) s"
    using assms by (simp add: question_cards_def nth_enumerate_eq)
  then show ?thesis by (simp add: question_card_of_def e comp_def)
qed

lemma question_labels:
  "map questionLabel (question_cards s) = [''Q1:'', ''Q2:'', ''Q3:'']"
  by (simp add: question_cards_def question_card_of_def interactiveQuestions_def) code_simp

lemma icon_ends_description:
  "\<exists>d. pdescription (personality_result p) = d @ result_icon (personality_result p) \<and>
       ptype (personality_result p) = personality_type p"
  by (cases p) (simp_all add: personality_result_def result_icon_def personality_type_def)

lemma results_panel_shown:
  assumes "quiz_reachable s" and "showResults s"
  shows "\<exists>n. 0 \<le> n \<and> n \<le> 10 \<and>
     results_panel s = Some (Inr (personality_result (classify (Num n)),
                                  result_icon (personality_result (classify (Num n)))))"
proof -
  from assms(1) have inv: "quiz_inv s" by (rule quiz_reachable_inv)
  then have "distinct (map questionIndex (answers s))" and v: "list_all valid_answer (answers s)"
    by (simp_all add: quiz_inv_def)
  then have "0 \<le> sum_list (map score_of (answers s)) \<and> sum_list (map score_of (answers s)) \<le> 10"
    by (rule score_sum_bound)
  moreover from v assms(2) have "results_panel s =
     Some (Inr (personality_result (classify (Num (sum_list (map score_of (answers s))))),
                result_icon (personality_result (classify (Num (sum_list (map score_of (answers s))))))))"
    by (simp add: results_panel_def getPersonalityResult_def totalScore_def score_from_valid
             del: classify.simps)
  ultimately show ?thesis by blast
qed

text \<open>Whether or not the results are shown, the page offers the router's
  \<open>IntroNavigate\<close> targets, so the router's enabling condition does not depend on the
  quiz.\<close>

lemma intro_nav_buttons_targets: "intro_nav_buttons s = intro_nav_targets"
  by (simp add: intro_nav_buttons_def intro_nav_targets_def)

text \<open>The result can only rise while the quiz is taken: each answer adds a score of at
  least zero, and \<open>classify\<close> is monotone.\<close>

lemma result_rises:
  assumes "quiz_reachable s" and "quiz_enabled s ev"
  shows "\<exists>p q. getPersonalityResult s = Inr p \<and> getPersonalityResult (quiz_handle s ev) = Inr q \<and>
               p \<le> q"
proof -
  from assms(1) have inv: "quiz_inv s" by (rule quiz_reachable_inv)
  from quiz_reachable.step [OF assms] have inv': "quiz_inv (quiz_handle s ev)"
    by (rule quiz_reachable_inv)
  let ?S = "\<lambda>s. sum_list (map score_of (answers s))"
  have res: "getPersonalityResult t = Inr (classify (Num (?S t)))" if "quiz_inv t" for t
    using that by (simp add: quiz_inv_def getPersonalityResult_def totalScore_def score_from_valid
                        del: classify.simps)
  have "?S s \<le> ?S (quiz_handle s ev)"
  proof (cases ev)
    case (AnswerClick qi oi)
    with answer_click_fresh [OF inv] assms(2) inv' have
      "answers (quiz_handle s ev) = answers s @ [\<lparr>questionIndex = qi, selectedOption = oi\<rparr>]"
      and "valid_answer \<lparr>questionIndex = qi, selectedOption = oi\<rparr>"
      by (simp_all add: quiz_inv_def)
    then show ?thesis using valid_answer_score by fastforce
  next
    case TimerFires
    then show ?thesis by (simp add: handler_simps)
  qed
  with classify_mono have "classify (Num (?S s)) \<le> classify (Num (?S (quiz_handle s ev)))"
    by (simp add: mono_def)
  with res [OF inv] res [OF inv'] show ?thesis by blast
qed

lemma answered_options_sum:
  assumes "quiz_inv s" and "\<forall>q < length interactiveQuestions. isAnswered q s"
  shows "sum_list (map score_of (answers s)) =
         (\<Sum>q < length interactiveQuestions. scores (interactiveQuestions ! q) ! the (getSelectedOption q s))"
proof -
  let ?as = "answers s" and ?g = "\<lambda>q. scores (interactiveQuestions ! q) ! the (getSelectedOption q s)"
  from assms(1) have d: "distinct (map questionIndex ?as)" and v: "list_all valid_answer ?as"
    by (simp_all add: quiz_inv_def)
  from d have "sum_list (map score_of ?as) = sum score_of (set ?as)"
    by (simp add: distinct_map sum_list_distinct_conv_sum_set)
  also have "\<dots> = sum (?g \<circ> questionIndex) (set ?as)"
  proof (rule sum.cong [OF refl])
    fix a assume "a \<in> set ?as"
    with d have "getSelectedOption (questionIndex a) s = Some (selectedOption a)"
      by (cases a) (simp add: selected_in_answers)
    then show "score_of a = (?g \<circ> questionIndex) a" by (simp add: score_of_def)
  qed
  also have "\<dots> = sum ?g (questionIndex ` set ?as)"
    using d by (simp add: sum.reindex distinct_map)
  also have "questionIndex ` set ?as = {..<length interactiveQuestions}"
    using answered_indices_range [OF v] assms(2) by (auto simp: isAnswered_iff)
  finally show ?thesis .
qed

lemma selected_option_range:
  assumes "quiz_reachable s" and "getSelectedOption k s = Some j"
  shows "k < length interactiveQuestions \<and> j < length (options (interactiveQuestions ! k))"
proof -
  from assms(1) have inv: "quiz_inv s" by (rule quiz_reachable_inv)
  then have "\<lparr>questionIndex = k, selectedOption = j\<rparr> \<in> set (answers s)"
    using assms(2) selected_in_answers by (simp add: quiz_inv_def)
  with inv show ?thesis by (auto simp: quiz_inv_def list_all_iff valid_answer_def)
qed

subsection \<open>Properties\<close>

text \<open>
  C16. The quiz terminates: the steps from reachable states (an enabled event and its
  handler) form a well-founded relation, and a run from the initial state has at most four events, the three answers
  and the callback that shows the results.
\<close>

theorem quiz_terminates:
  "wf {(t, s). quiz_reachable s \<and> quiz_step s t} \<and>
   (\<forall>evs. quiz_valid_run quiz_init evs \<longrightarrow> length evs \<le> 4)"
proof
  show "wf {(t, s). quiz_reachable s \<and> quiz_step s t}"
  proof (rule wf_subset [OF wf_measure [of quiz_remaining]])
    show "{(t, s). quiz_reachable s \<and> quiz_step s t} \<subseteq> measure quiz_remaining"
      using quiz_remaining_step quiz_reachable_inv by (fastforce elim: quiz_stepE)
  qed
  show "\<forall>evs. quiz_valid_run quiz_init evs \<longrightarrow> length evs \<le> 4"
    using quiz_run_remaining [OF quiz_reachable.init] quiz_remaining_init by (metis le_add1)
qed

theorem quiz_terminates_witness:
  "quiz_valid_run quiz_init scenario_b \<and> length scenario_b \<le> 4 \<and> length scenario_b = 4"
  using quiz_terminates scenario_b_valid by (simp add: scenario_b_def)

text \<open>
  C17. The quiz can always be finished: from every reachable state some sequence of
  enabled events (answering the open questions, then the scheduled callback) shows the
  results, and after them no event is enabled.
\<close>

theorem quiz_completes_results:
  "quiz_reachable s \<Longrightarrow>
   \<exists>evs. quiz_valid_run s evs \<and> showResults (quiz_run s evs) \<and>
         (\<forall>ev. \<not> quiz_enabled (quiz_run s evs) ev)"
  using quiz_completes quiz_run_reachable results_final by metis

theorem quiz_completes_results_witness:
  "quiz_reachable quiz_init \<and>
   (\<exists>evs. quiz_valid_run quiz_init evs \<and> showResults (quiz_run quiz_init evs) \<and>
          (\<forall>ev. \<not> quiz_enabled (quiz_run quiz_init evs) ev))"
  using quiz_completes_results [OF quiz_reachable.init] quiz_reachable.init by simp

text \<open>
  C11. The result shown is the classification of the chosen options' scores, in whatever
  order the questions were answered: in every reachable state that shows the results,
  \<open>getPersonalityResult\<close> returns the class of the sum, over the questions, of the
  score of the option selected for each.
\<close>

theorem result_from_choices:
  assumes "quiz_reachable s" and "showResults s"
  shows "getPersonalityResult s =
           Inr (classify (Num (\<Sum>q < length interactiveQuestions.
                                  scores (interactiveQuestions ! q) ! the (getSelectedOption q s))))"
proof -
  from assms(1) have inv: "quiz_inv s" by (rule quiz_reachable_inv)
  with assms(2) have "length (answers s) = length interactiveQuestions" by (simp add: quiz_inv_def)
  with reachable_all_answered [OF assms(1)] have all: "\<forall>q < length interactiveQuestions. isAnswered q s"
    by simp
  from inv have "list_all valid_answer (answers s)" by (simp add: quiz_inv_def)
  then have "totalScore (answers s) = Inr (Num (sum_list (map score_of (answers s))))"
    by (simp add: totalScore_def score_from_valid)
  with answered_options_sum [OF inv all] show ?thesis
    by (simp add: getPersonalityResult_def)
qed

theorem result_from_choices_witness:
  "quiz_reachable (quiz_run quiz_init scenario_b) \<and> showResults (quiz_run quiz_init scenario_b) \<and>
   getPersonalityResult (quiz_run quiz_init scenario_b) =
     Inr (classify (Num (\<Sum>q < length interactiveQuestions.
       scores (interactiveQuestions ! q) ! the (getSelectedOption q (quiz_run quiz_init scenario_b)))))"
proof -
  have "showResults (quiz_run quiz_init scenario_b)" by (simp add: scenario_b_state)
  with result_from_choices [OF scenario_b_reachable] scenario_b_reachable show ?thesis by simp
qed

text \<open>
  C12. The question cards agree with the quiz: in every reachable state, the option buttons
  of a question are enabled exactly for the answer clicks the quiz accepts, and the buttons
  shown selected are exactly one, marked with a check mark, for an answered question (the
  option answered, disabled) and none for an unanswered one.
\<close>

theorem question_cards_consistent:
  assumes "quiz_reachable s" and "k < length interactiveQuestions"
  shows "map (\<lambda>(t, l, e). e) (optionButtons (question_cards s ! k))
           = map (\<lambda>oi. quiz_enabled s (AnswerClick k oi)) [0..<length (options (interactiveQuestions ! k))] \<and>
         filter (\<lambda>(t, l, e). l = OptSelected) (optionButtons (question_cards s ! k))
           = (case getSelectedOption k s of
                None \<Rightarrow> []
              | Some j \<Rightarrow> [([CHR 0xE2, CHR 0x9C, CHR 0x93] @ '' '' @ options (interactiveQuestions ! k) ! j,
                           OptSelected, False)])"
proof
  let ?n = "length (options (interactiveQuestions ! k))"
  let ?f = "\<lambda>oi. (option_marker k oi s @ options (interactiveQuestions ! k) ! oi, option_look k oi s,
                   \<not> isAnswered k s)"
  have b: "optionButtons (question_cards s ! k) = map ?f [0..<?n]"
    using assms(2) by (rule question_card_buttons)
  show "map (\<lambda>(t, l, e). e) (optionButtons (question_cards s ! k))
          = map (\<lambda>oi. quiz_enabled s (AnswerClick k oi)) [0..<?n]"
    using assms(2) by (simp add: b)
  have "filter (\<lambda>(t, l, e). l = OptSelected) (optionButtons (question_cards s ! k))
          = map ?f (filter (\<lambda>oi. getSelectedOption k s = Some oi) [0..<?n])"
    by (simp add: b filter_map comp_def option_look_def)
  also have "\<dots> = (case getSelectedOption k s of
                None \<Rightarrow> []
              | Some j \<Rightarrow> [([CHR 0xE2, CHR 0x9C, CHR 0x93] @ '' '' @ options (interactiveQuestions ! k) ! j,
                           OptSelected, False)])"
  proof (cases "getSelectedOption k s")
    case None
    then show ?thesis by simp
  next
    case (Some j)
    with selected_option_range [OF assms(1)] have j: "j < ?n" by blast
    from Some have "isAnswered k s" by (auto simp: answered_selected)
    moreover have "filter (\<lambda>oi. Some j = Some oi) [0..<?n] = [j]"
      using j filter_eq_distinct [of "[0..<?n]" j] by simp
    ultimately show ?thesis
      using Some by (simp add: option_marker_def option_look_def)
  qed
  finally show "filter (\<lambda>(t, l, e). l = OptSelected) (optionButtons (question_cards s ! k))
           = (case getSelectedOption k s of
                None \<Rightarrow> []
              | Some j \<Rightarrow> [([CHR 0xE2, CHR 0x9C, CHR 0x93] @ '' '' @ options (interactiveQuestions ! k) ! j,
                           OptSelected, False)])" .
qed

theorem question_cards_consistent_witness:
  "quiz_reachable (quiz_run quiz_init scenario_b) \<and> 0 < length interactiveQuestions \<and>
   map (\<lambda>(t, l, e). e) (optionButtons (question_cards (quiz_run quiz_init scenario_b) ! 0))
     = map (\<lambda>oi. quiz_enabled (quiz_run quiz_init scenario_b) (AnswerClick 0 oi))
           [0..<length (options (interactiveQuestions ! 0))] \<and>
   filter (\<lambda>(t, l, e). l = OptSelected) (optionButtons (question_cards (quiz_run quiz_init scenario_b) ! 0))
     = (case getSelectedOption 0 (quiz_run quiz_init scenario_b) of
          None \<Rightarrow> []
        | Some j \<Rightarrow> [([CHR 0xE2, CHR 0x9C, CHR 0x93] @ '' '' @ options (interactiveQuestions ! 0) ! j,
                     OptSelected, False)])"
proof -
  have k: "0 < length interactiveQuestions" by simp
  from question_cards_consistent [OF scenario_b_reachable k] scenario_b_reachable k show ?thesis
    by blast
qed

end
