(* ===== verification/ReactKeys.thy ===== *)
theory ReactKeys
  imports Page IntroView
begin

text \<open>
  React identifies the children of a list by their \<open>key\<close> props; keys that repeat among
  siblings make React reuse the wrong element (and warn). This theory lists every
  \<open>.map\<close> of the application whose key is not the array index, with the keys its
  expression yields in a given page state, and proves that the keys of each list are
  distinct in every state. Lists keyed by their index (the static sections, the quiz's
  questions and options, the hero's features and code rain, the template's sections) have
  distinct keys by construction and are not listed. A list that is not rendered in a state
  still has the keys its expression would give, so the statement is about every state.
\<close>

datatype examples_list = GuessMethodButtons | CategoryButtons | ExampleCards

datatype intro_list = ArrowGroup string | ComponentBoxes | ConnectionChips | MotivationCards

datatype methods_list = MethodCards | MethodExampleButtons

datatype framing_list = TechniqueCards | ExperimentCards | ExperimentToneChips string | ModalToneCards

text \<open>The keys of the lists of \<open>Examples\<close>: \<open>key={method}\<close>, \<open>key={category.title}\<close>,
  \<open>key={example.key}\<close> over \<open>currentExamples\<close>.\<close>

fun examples_keys :: "examples_state \<Rightarrow> examples_list \<Rightarrow> string list" where
  "examples_keys s GuessMethodButtons = allMethods"
| "examples_keys s CategoryButtons = map title exampleCategories"
| "examples_keys s ExampleCards = map key (current_of (flatten_examples exampleCategories) s)"

text \<open>The keys of the lists of \<open>Introduction\<close>. \<open>ArrowGroup c\<close> is the inner
  \<open>component.connections.map\<close> of the component with id \<open>c\<close>, whose children are the
  siblings; a connection chip whose component is not found renders \<open>null\<close>, which has no
  key.\<close>

fun intro_keys :: "arch_state \<Rightarrow> intro_list \<Rightarrow> string list" where
  "intro_keys s (ArrowGroup c) =
     (case find_component architectureComponents c of
        None \<Rightarrow> [] | Some cp \<Rightarrow> map arrowKey (component_arrows architectureComponents cp))"
| "intro_keys s ComponentBoxes = map compId architectureComponents"
| "intro_keys s ConnectionChips =
     (case selectedComponentData s of
        None \<Rightarrow> []
      | Some cp \<Rightarrow> filter (\<lambda>t. find_component architectureComponents t \<noteq> None) (connections cp))"
| "intro_keys s MotivationCards = map factorTitle motivationFactors"

text \<open>The keys of \<open>PromptingMethods\<close>: \<open>key={method.id}\<close> and, for the selected method,
  \<open>key={example.id}\<close>.\<close>

fun methods_keys :: "methods_state \<Rightarrow> methods_list \<Rightarrow> string list" where
  "methods_keys s MethodCards = map methodId promptingMethods"
| "methods_keys s MethodExampleButtons =
     (case selectedMethodData s of None \<Rightarrow> [] | Some m \<Rightarrow> map exampleId (methodExamples m))"

text \<open>The keys of \<open>PsychologicalFraming\<close>: \<open>key={technique.id}\<close>,
  \<open>key={experiment.id}\<close>, and \<open>key={tone.name}\<close> in each experiment card and in the
  modal of the current experiment.\<close>

fun framing_keys :: "framing_state \<Rightarrow> framing_list \<Rightarrow> string list" where
  "framing_keys s TechniqueCards = map techniqueId framingTechniques"
| "framing_keys s ExperimentCards = map experimentId toneExperiments"
| "framing_keys s (ExperimentToneChips e) =
     (case find (\<lambda>x. experimentId x = e) toneExperiments of
        None \<Rightarrow> [] | Some x \<Rightarrow> map toneName (tones x))"
| "framing_keys s ModalToneCards =
     (case currentExperiment s of None \<Rightarrow> [] | Some x \<Rightarrow> map toneName (tones x))"

text \<open>\<open>key={item.id}\<close> in \<open>Sidebar\<close>, \<open>key={section.id}\<close> in both menus of
  \<open>Navigation\<close>.\<close>

definition sidebar_keys :: "string list" where
  "sidebar_keys = map navId navItems"

definition navigation_keys :: "string list" where
  "navigation_keys = map fst navSections"

subsection \<open>Lemmas\<close>

text \<open>The data of each list, one fact per registry.\<close>

lemma distinct_component_connections:
  "c \<in> set architectureComponents \<Longrightarrow> distinct (connections c)"
  by (auto simp: architectureComponents_def)

lemma distinct_component_arrow_keys:
  "c \<in> set architectureComponents \<Longrightarrow>
   distinct (map arrowKey (component_arrows architectureComponents c))"
  by (auto simp: architectureComponents_def) code_simp+

lemma distinct_method_example_ids:
  "m \<in> set promptingMethods \<Longrightarrow> distinct (map exampleId (methodExamples m))"
  by (auto simp: method_defs)

lemma distinct_tone_names:
  "x \<in> set toneExperiments \<Longrightarrow> distinct (map toneName (tones x))"
  by (auto simp: toneExperiments_def experiment_customer_support_def
                 experiment_technical_explanation_def)

lemma distinct_current_example_keys:
  "distinct (map key (current_of (flatten_examples cats) s))"
  unfolding current_of_def currentExamples_def filtered_of_def filteredExamples_def
  by (intro distinct_map_js_slice) (simp add: distinct_map_filter distinct_example_keys)

lemma distinct_static_keys:
  "distinct allMethods" "distinct (map title exampleCategories)"
  "distinct (map compId architectureComponents)" "distinct (map factorTitle motivationFactors)"
  "distinct (map methodId promptingMethods)" "distinct (map techniqueId framingTechniques)"
  "distinct (map experimentId toneExperiments)" "distinct (map navId navItems)"
  "distinct (map fst navSections)"
  by code_simp+

subsection \<open>Properties\<close>

text \<open>
  C20. Every keyed list of the application has distinct keys among its siblings, in every
  page state: the method buttons of the guessing game, the category buttons and the page of
  example cards of \<open>Examples\<close>; the arrows of each component, the component boxes, the
  connection chips of the selected component and the motivation cards of
  \<open>Introduction\<close>; the method cards and the example buttons of the selected method of
  \<open>PromptingMethods\<close>; the technique cards, the experiment cards, their tone chips and the
  tone cards of the open modal of \<open>PsychologicalFraming\<close>; the buttons of the sidebar
  and of the navigation bar.
\<close>

theorem keys_distinct:
  "distinct (examples_keys (examplesPage p) el) \<and> distinct (intro_keys (archPage p) il) \<and>
   distinct (methods_keys (methodsPage p) ml) \<and> distinct (framing_keys (framingPage p) fl) \<and>
   distinct sidebar_keys \<and> distinct navigation_keys"
proof (intro conjI)
  show "distinct (examples_keys (examplesPage p) el)"
    by (cases el) (simp_all add: distinct_static_keys distinct_current_example_keys)
  show "distinct (intro_keys (archPage p) il)"
    by (cases il)
       (auto simp: distinct_static_keys find_component_def selectedComponentData_def
                   distinct_component_arrow_keys distinct_component_connections
             dest: find_Some_set split: option.splits)
  show "distinct (methods_keys (methodsPage p) ml)"
    by (cases ml)
       (auto simp: distinct_static_keys selectedMethodData_def find_method_def
                   distinct_method_example_ids dest: find_Some_set split: option.splits)
  show "distinct (framing_keys (framingPage p) fl)"
    by (cases fl)
       (auto simp: distinct_static_keys currentExperiment_def distinct_tone_names
             dest: find_Some_set split: option.splits)
  show "distinct sidebar_keys" "distinct navigation_keys"
    by (simp_all add: sidebar_keys_def navigation_keys_def distinct_static_keys)
qed

end
