(* ===== verification/Accents.thy ===== *)
theory Accents
  imports Browse Methods Framing
begin

text \<open>
  The class names the examples page and the two explorers compute from the accent of a
  category, method or technique (\<open>src/src/components/Examples.tsx\<close>,
  \<open>src/src/components/PromptingMethods.tsx\<close>, \<open>src/src/components/PsychologicalFraming.tsx\<close>).
  An accent is a Tailwind text class such as \<open>text-cyan-400\<close>; the colour is taken with
  \<open>accent.split('-')[1]\<close> and the shades are changed with \<open>accent.replace('400', \<dots>)\<close>,
  both written with the JavaScript string functions of the prelude. The detail view reads
  the accent of \<open>selectedMethodData\<close> (of \<open>selectedTechniqueData\<close>), which throws a
  \<open>TypeError\<close> when the selected id names no entry. The lemmas show that every accent of
  the data has the form \<open>text-c-400\<close> for a colour name \<open>c\<close>, so each computed class
  names that colour with the intended shade, and that in every reachable state of an
  explorer exactly the selected example button gets the highlighted classes.
\<close>

text \<open>\<open>${accent.split('-')[1]}\<close>.\<close>

definition accent_color :: "string \<Rightarrow> string" where
  "accent_color a = js_template (js_at (js_split CHR ''-'' a) 1)"

text \<open>\<open>accent.replace('text-', 'border-').replace('400', shade)\<close>.\<close>

definition border_class :: "string \<Rightarrow> string \<Rightarrow> string" where
  "border_class shade a = js_replace ''400'' shade (js_replace ''text-'' ''border-'' a)"

text \<open>The category filter buttons of the examples page: the selected one highlighted, the
  \<open>all_categories\<close> button in green while no category is selected.\<close>

definition all_categories_class :: "string option \<Rightarrow> string" where
  "all_categories_class sel =
     ''px-4 py-2 border rounded-lg font-mono text-sm transition-colors '' @
     (if sel = None then ''bg-green-900/30 border-green-500/50 text-green-400''
      else ''bg-black/50 border-gray-800/50 hover:border-gray-600/50 text-gray-300 hover:text-white'')"

definition category_button_class :: "string option \<Rightarrow> example_category \<Rightarrow> string" where
  "category_button_class sel c =
     ''px-4 py-2 border rounded-lg font-mono text-sm transition-colors '' @
     (if sel = Some (title c)
      then ''bg-'' @ accent_color (accent c) @ ''-900/30 border-'' @ accent_color (accent c) @ ''-500/50 '' @ accent c
      else ''bg-black/50 border-gray-800/50 hover:border-gray-600/50 text-gray-300 hover:text-white'')"

text \<open>The category badge of an example card: its class and its label
  \<open>example.category.replace('_examples', '')\<close>.\<close>

definition category_badge :: "flat_example \<Rightarrow> string \<times> string" where
  "category_badge e =
     (''px-2 py-1 rounded text-xs font-mono border '' @ border_class ''500/30'' (categoryAccent e) @ '' '' @
        categoryAccent e @ '' bg-gray-900/50'',
      js_replace ''_examples'' [] (category e))"

text \<open>The class of an example button: the highlighted classes for the selected one.\<close>

definition example_button_class :: "string \<Rightarrow> nat \<Rightarrow> nat \<Rightarrow> string" where
  "example_button_class a sel i =
     ''p-4 border rounded-lg text-left transition-all duration-300 font-mono '' @
     (if sel = i
      then ''bg-'' @ accent_color a @ ''-900/30 border-'' @ accent_color a @ ''-500/50 '' @ a
      else ''bg-black/50 border-gray-800/50 hover:border-gray-600/50 text-gray-300 hover:text-white'')"

text \<open>The hover classes of the button of a card in the overview.\<close>

definition card_hover_classes :: "string \<Rightarrow> string" where
  "card_hover_classes a =
     ''group-hover:'' @ border_class ''500/50'' a @
     '' group-hover:'' @ js_replace ''400'' ''300'' a"

text \<open>The framed version's panel and text in the technique detail view.\<close>

definition framed_panel_class :: "string \<Rightarrow> string" where
  "framed_panel_class a =
     ''bg-'' @ accent_color a @ ''-900/20 border border-'' @ accent_color a @ ''-500/30 rounded-lg p-4''"

definition framed_text_class :: "string \<Rightarrow> string" where
  "framed_text_class a = js_replace ''400'' ''200'' a @ '' text-sm font-mono leading-relaxed''"

text \<open>The example buttons of the two detail views, \<open>None\<close> outside them.\<close>

definition method_example_classes :: "methods_state \<Rightarrow> (js_error + string list) option" where
  "method_example_classes s =
     (case selectedMethod s of
        None \<Rightarrow> None
      | Some _ \<Rightarrow> Some (case selectedMethodData s of
                         None \<Rightarrow> Inl TypeError
                       | Some m \<Rightarrow> Inr (map (example_button_class (methodAccent m) (methods_state.selectedExample s))
                                           [0..<length (methodExamples m)])))"

definition technique_example_classes :: "framing_state \<Rightarrow> (js_error + string list) option" where
  "technique_example_classes s =
     (case selectedTechnique s of
        None \<Rightarrow> None
      | Some _ \<Rightarrow> Some (case selectedTechniqueData s of
                         None \<Rightarrow> Inl TypeError
                       | Some t \<Rightarrow> Inr (map (example_button_class (techniqueAccent t) (framing_state.selectedExample s))
                                           [0..<length (techniqueExamples t)])))"

text \<open>An accent of the form \<open>text-c-400\<close> with \<open>c\<close> a lower-case colour name.\<close>

definition color_name :: "string \<Rightarrow> bool" where
  "color_name c \<longleftrightarrow> c \<noteq> [] \<and> list_all (\<lambda>x. 97 \<le> (of_char x :: nat) \<and> of_char x \<le> (122 :: nat)) c"

subsection \<open>Lemmas\<close>

lemma color_name_no_sep: "color_name c \<Longrightarrow> CHR ''-'' \<notin> set c \<and> CHR ''4'' \<notin> set c"
  by (auto simp: color_name_def list_all_iff)

lemma accent_color_shape: "color_name c \<Longrightarrow> accent_color (''text-'' @ c @ ''-400'') = c"
  using color_name_no_sep [of c]
  by (simp add: accent_color_def js_template_def js_at_def js_split_sep js_split_no_sep)

lemma replace_shade:
  assumes "color_name c" and "CHR ''4'' \<notin> set pre"
  shows "js_replace ''400'' rep (pre @ c @ ''-400'') = pre @ c @ ''-'' @ rep"
proof -
  have "js_replace ''400'' rep ((pre @ c @ ''-'') @ ''400'') = (pre @ c @ ''-'') @ js_replace ''400'' rep ''400''"
    using assms color_name_no_sep [of c] by (intro js_replace_skip) auto
  also have "js_replace ''400'' rep ''400'' = rep"
    using js_replace_prefix [of "''400''" rep "[]"] by simp
  finally show ?thesis by simp
qed

lemma border_class_shape:
  assumes c: "color_name c"
  shows "border_class sh (''text-'' @ c @ ''-400'') = ''border-'' @ c @ ''-'' @ sh"
proof -
  have b: "js_replace ''text-'' ''border-'' (''text-'' @ c @ ''-400'') = ''border-'' @ c @ ''-400''"
    by (rule js_replace_prefix)
  have "js_replace ''400'' sh (''border-'' @ c @ ''-400'') = ''border-'' @ c @ ''-'' @ sh"
    by (rule replace_shade [OF c]) simp
  with b show ?thesis by (simp add: border_class_def)
qed

lemma card_hover_shape:
  assumes c: "color_name c"
  shows "card_hover_classes (''text-'' @ c @ ''-400'') =
           ''group-hover:border-'' @ c @ ''-500/50 group-hover:text-'' @ c @ ''-300''"
proof -
  have r: "js_replace ''400'' ''300'' (''text-'' @ c @ ''-400'') = ''text-'' @ c @ ''-'' @ ''300''"
    by (rule replace_shade [OF c]) simp
  show ?thesis unfolding card_hover_classes_def border_class_shape [OF c] r by simp
qed

lemma framed_shape:
  assumes c: "color_name c"
  shows "framed_panel_class (''text-'' @ c @ ''-400'') =
           ''bg-'' @ c @ ''-900/20 border border-'' @ c @ ''-500/30 rounded-lg p-4'' \<and>
         framed_text_class (''text-'' @ c @ ''-400'') =
           ''text-'' @ c @ ''-200 text-sm font-mono leading-relaxed''"
proof -
  have r: "js_replace ''400'' ''200'' (''text-'' @ c @ ''-400'') = ''text-'' @ c @ ''-'' @ ''200''"
    by (rule replace_shade [OF c]) simp
  show ?thesis
    unfolding framed_panel_class_def framed_text_class_def accent_color_shape [OF c] r by simp
qed

lemma method_accents:
  "map methodAccent promptingMethods =
     map (\<lambda>c. ''text-'' @ c @ ''-400'') [''cyan'', ''green'', ''blue'', ''purple'', ''yellow'', ''orange'', ''red'']"
  by (simp add: method_defs)

lemma technique_accents:
  "map techniqueAccent framingTechniques =
     map (\<lambda>c. ''text-'' @ c @ ''-400'') [''cyan'', ''green'', ''blue'', ''purple'']"
  by (simp add: technique_defs)

lemma category_accents:
  "map accent exampleCategories =
     map (\<lambda>c. ''text-'' @ c @ ''-400'') [''cyan'', ''green'', ''blue'', ''purple'', ''yellow'', ''red'']"
  by (simp add: exampleCategories_def classification_examples_def data_extraction_examples_def
                reasoning_examples_def creative_examples_def conversational_examples_def
                analysis_examples_def)

lemma listed_accent_shape:
  assumes "a \<in> set (map accent exampleCategories) \<union> set (map methodAccent promptingMethods) \<union>
               set (map techniqueAccent framingTechniques)"
  shows "\<exists>c. color_name c \<and> a = ''text-'' @ c @ ''-400''"
  using assms unfolding category_accents method_accents technique_accents
  by (auto simp: color_name_def)

lemma example_button_class_shape:
  assumes c: "color_name c"
  shows "example_button_class (''text-'' @ c @ ''-400'') sel i =
     ''p-4 border rounded-lg text-left transition-all duration-300 font-mono '' @
     (if sel = i then ''bg-'' @ c @ ''-900/30 border-'' @ c @ ''-500/50 text-'' @ c @ ''-400''
      else ''bg-black/50 border-gray-800/50 hover:border-gray-600/50 text-gray-300 hover:text-white'')"
  unfolding example_button_class_def accent_color_shape [OF c] by simp

text \<open>In the detail view of a reachable state the example buttons never throw: the selected
  entry exists, its accent is a colour, it has three examples and the selected index is
  one of them.\<close>

lemma method_example_highlight:
  assumes "methods_reachable s" and "selectedMethod s \<noteq> None"
  shows "\<exists>c. color_name c \<and> methods_state.selectedExample s < 3 \<and>
             method_example_classes s =
               Some (Inr (map (example_button_class (''text-'' @ c @ ''-400'')
                                 (methods_state.selectedExample s)) [0..<3]))"
proof -
  from assms(1) have inv: "methods_inv s" by (rule methods_reachable_inv)
  with assms(2) obtain i where i: "selectedMethod s = Some i"
    and listed: "i \<in> set (map methodId promptingMethods)"
    by (auto simp: methods_inv_def)
  from find_method_listed [OF listed] obtain m
    where m: "find_method promptingMethods (Some i) = Some m" and three: "length (methodExamples m) = 3"
    by blast
  from m have "m \<in> set promptingMethods" by (auto simp: find_method_def dest: find_Some_set)
  then have "methodAccent m \<in> set (map methodAccent promptingMethods)" by simp
  then obtain c where c: "color_name c" and acc: "methodAccent m = ''text-'' @ c @ ''-400''"
    using listed_accent_shape by blast
  from inv have "methods_state.selectedExample s < 3" by (simp add: methods_inv_def)
  with c acc i m three show ?thesis
    by (auto simp: method_example_classes_def selectedMethodData_def)
qed

lemma technique_example_highlight:
  assumes "framing_reachable s" and "selectedTechnique s \<noteq> None"
  shows "\<exists>c. color_name c \<and> framing_state.selectedExample s < 3 \<and>
             technique_example_classes s =
               Some (Inr (map (example_button_class (''text-'' @ c @ ''-400'')
                                 (framing_state.selectedExample s)) [0..<3]))"
proof -
  from assms(1) have inv: "framing_inv s" by (rule framing_reachable_inv)
  with assms(2) obtain i where i: "selectedTechnique s = Some i"
    and listed: "i \<in> set (map techniqueId framingTechniques)"
    by (auto simp: framing_inv_def)
  from find_technique_listed [OF listed] obtain t
    where t: "find (\<lambda>t. techniqueId t = i) framingTechniques = Some t"
      and three: "length (techniqueExamples t) = 3"
    by blast
  from t have "t \<in> set framingTechniques" by (rule find_Some_set)
  then have "techniqueAccent t \<in> set (map techniqueAccent framingTechniques)" by simp
  then obtain c where c: "color_name c" and acc: "techniqueAccent t = ''text-'' @ c @ ''-400''"
    using listed_accent_shape by blast
  from inv have "framing_state.selectedExample s < 3" by (simp add: framing_inv_def)
  with c acc i t three show ?thesis
    by (auto simp: technique_example_classes_def selectedTechniqueData_def)
qed

lemma category_badge_labels:
  "map (\<lambda>c. js_replace ''_examples'' [] (title c)) exampleCategories =
     [''classification'', ''data_extraction'', ''reasoning'', ''creative'', ''conversational'', ''analysis'']"
  by (simp add: exampleCategories_def classification_examples_def data_extraction_examples_def
                reasoning_examples_def creative_examples_def conversational_examples_def
                analysis_examples_def)

subsection \<open>Properties\<close>

text \<open>
  C22. The class names derived from accents by string manipulation are the intended ones:
  every accent of a category, a method or a technique is \<open>text-c-400\<close> for a colour
  name \<open>c\<close>; \<open>accent.split('-')[1]\<close> is \<open>c\<close>, the border classes of the cards and the
  badges are \<open>border-c-500/50\<close> and \<open>border-c-500/30\<close>, and the shade replacements give
  \<open>text-c-300\<close> and \<open>text-c-200\<close>.
\<close>

theorem accent_classes_consistent:
  assumes "a \<in> set (map accent exampleCategories) \<union> set (map methodAccent promptingMethods) \<union>
               set (map techniqueAccent framingTechniques)"
  shows "\<exists>c. color_name c \<and> a = ''text-'' @ c @ ''-400'' \<and> accent_color a = c \<and>
             border_class ''500/50'' a = ''border-'' @ c @ ''-500/50'' \<and>
             border_class ''500/30'' a = ''border-'' @ c @ ''-500/30'' \<and>
             js_replace ''400'' ''300'' a = ''text-'' @ c @ ''-300'' \<and>
             js_replace ''400'' ''200'' a = ''text-'' @ c @ ''-200''"
proof -
  from listed_accent_shape [OF assms] obtain c where c: "color_name c"
    and a: "a = ''text-'' @ c @ ''-400''" by blast
  have r: "js_replace ''400'' sh a = ''text-'' @ c @ ''-'' @ sh" for sh
    unfolding a by (rule replace_shade [OF c]) simp
  have e1: "accent_color a = c" unfolding a by (rule accent_color_shape [OF c])
  have e2: "border_class sh a = ''border-'' @ c @ ''-'' @ sh" for sh
    unfolding a by (rule border_class_shape [OF c])
  show ?thesis
    by (intro exI [of _ c] conjI c a e1) (simp_all only: e2 r append_assoc [symmetric], simp_all)
qed

theorem accent_classes_consistent_witness:
  "''text-cyan-400'' \<in> set (map accent exampleCategories) \<union> set (map methodAccent promptingMethods) \<union>
                       set (map techniqueAccent framingTechniques) \<and>
   (\<exists>c. color_name c \<and> ''text-cyan-400'' = ''text-'' @ c @ ''-400'' \<and> accent_color ''text-cyan-400'' = c \<and>
        border_class ''500/50'' ''text-cyan-400'' = ''border-'' @ c @ ''-500/50'' \<and>
        border_class ''500/30'' ''text-cyan-400'' = ''border-'' @ c @ ''-500/30'' \<and>
        js_replace ''400'' ''300'' ''text-cyan-400'' = ''text-'' @ c @ ''-300'' \<and>
        js_replace ''400'' ''200'' ''text-cyan-400'' = ''text-'' @ c @ ''-200'')"
proof -
  have m: "''text-cyan-400'' \<in> set (map accent exampleCategories) \<union> set (map methodAccent promptingMethods) \<union>
                                set (map techniqueAccent framingTechniques)"
    by (simp add: method_accents)
  from accent_classes_consistent [OF m] m show ?thesis by blast
qed

end
