(* ===== verification/ArchView.thy ===== *)
theory ArchView
  imports Architecture
begin

text \<open>
  What \<open>ArchitecturePlayground\<close> (\<open>src/src/components/Introduction.tsx\<close>) renders from its
  state: the label of the data-flow toggle, the arrows of \<open>renderDataFlowArrows\<close>, one box
  per component (highlighted when it is the selected one, its name broken into words with
  \<open>name.split(' ')\<close>), the legend and the indicator shown with the data flow, and the
  details panel of \<open>selectedComponentData\<close> with a chip per connection whose target
  exists. The lemmas show that the words of a box put back together give the component's
  name, and that in every reachable state the highlighted box and the details panel
  describe the same component, whose chips are all clickable.
\<close>

record box_view =
  boxId :: string
  boxSelected :: bool
  boxWords :: "string list"

definition component_box :: "arch_state \<Rightarrow> arch_component \<Rightarrow> box_view" where
  "component_box s c =
     \<lparr>boxId = compId c, boxSelected = (selectedComponent s = Some (compId c)),
      boxWords = js_split CHR '' '' (compName c)\<rparr>"

record chip_view =
  chipTarget :: string
  chipName :: string

record details_view =
  detailName :: string
  detailChips :: "chip_view list option"

text \<open>The details panel of a component: the chips section is rendered only when the
  component has connections (\<open>connections.length > 0 &&\<close>); a connection whose target is not
  found renders \<open>null\<close>.\<close>

definition details_of :: "arch_component \<Rightarrow> details_view" where
  "details_of c =
     \<lparr>detailName = compName c,
      detailChips =
        (if connections c = [] then None
         else Some (concat (map (\<lambda>i. case find_component architectureComponents i of
                                         None \<Rightarrow> []
                                       | Some t \<Rightarrow> [\<lparr>chipTarget = i, chipName = compName t\<rparr>])
                                (connections c))))\<rparr>"

record arch_view =
  toggleLabel :: string
  flowArrows :: "(flow_arrow list \<times> flow_line list) option"
  boxes :: "box_view list"
  legendShown :: bool
  indicatorShown :: bool
  detailsPanel :: "details_view option"

definition arch_render :: "arch_state \<Rightarrow> arch_view" where
  "arch_render s =
     \<lparr>toggleLabel = [CHR 0xF0, CHR 0x9F, CHR 0x94, CHR 0x97] @
                     (if showDataFlow s then '' hide_data_flow'' else '' show_data_flow''),
      flowArrows = renderDataFlowArrows (showDataFlow s) architectureComponents,
      boxes = map (component_box s) architectureComponents,
      legendShown = showDataFlow s,
      indicatorShown = showDataFlow s,
      detailsPanel = map_option details_of (selectedComponentData s)\<rparr>"

subsection \<open>Lemmas\<close>

text \<open>The words of every box, joined with a space, are the component's name.\<close>

lemma box_words_roundtrip:
  "map (\<lambda>b. js_join CHR '' '' (boxWords b)) (boxes (arch_render s)) = map compName architectureComponents"
  by (simp add: arch_render_def component_box_def js_join_split comp_def)

lemma selected_boxes:
  "map boxId (filter boxSelected (boxes (arch_render s))) =
     filter (\<lambda>x. selectedComponent s = Some x) (map compId architectureComponents)"
  by (simp add: arch_render_def component_box_def filter_map comp_def)

lemma distinct_arch_ids: "distinct (map compId architectureComponents)"
  by (simp add: arch_ids)

lemma chips_clickable:
  assumes "selectedComponentData s = Some c" and "detailChips (details_of c) = Some ch"
    and "x \<in> set ch"
  shows "arch_enabled s (ClickConnection (chipTarget x))"
  using assms by (auto simp: details_of_def split: if_splits option.splits) (metis option.exhaust option.distinct(1))

lemma selected_found:
  assumes "arch_reachable s" and "selectedComponent s = Some i"
  shows "\<exists>c. find_component architectureComponents i = Some c \<and> selectedComponentData s = Some c"
proof -
  from assms have "i \<in> set (map compId architectureComponents)"
    by (auto dest: arch_reachable_inv simp: arch_inv_def)
  then obtain c where "find_component architectureComponents i = Some c"
    by (cases "find_component architectureComponents i") (auto simp: find_component_None)
  with assms(2) show ?thesis by (simp add: selectedComponentData_def)
qed

subsection \<open>Properties\<close>

text \<open>
  C25. The rendered diagram shows one selection: in every reachable state with no selected
  component no box is highlighted and no details panel is shown; with a selected component
  exactly its box is highlighted and the details panel shows that component. Every chip of
  the details panel can be clicked.
\<close>

theorem arch_view_consistent:
  assumes "arch_reachable s"
  shows "(case selectedComponent s of
            None \<Rightarrow> filter boxSelected (boxes (arch_render s)) = [] \<and> detailsPanel (arch_render s) = None
          | Some i \<Rightarrow> map boxId (filter boxSelected (boxes (arch_render s))) = [i] \<and>
              (\<exists>c. find_component architectureComponents i = Some c \<and>
                   detailsPanel (arch_render s) = Some (details_of c))) \<and>
         (\<forall>d ch x. detailsPanel (arch_render s) = Some d \<longrightarrow> detailChips d = Some ch \<longrightarrow> x \<in> set ch \<longrightarrow>
            arch_enabled s (ClickConnection (chipTarget x)))"
proof (intro conjI)
  show "case selectedComponent s of
          None \<Rightarrow> filter boxSelected (boxes (arch_render s)) = [] \<and> detailsPanel (arch_render s) = None
        | Some i \<Rightarrow> map boxId (filter boxSelected (boxes (arch_render s))) = [i] \<and>
            (\<exists>c. find_component architectureComponents i = Some c \<and>
                 detailsPanel (arch_render s) = Some (details_of c))"
  proof (cases "selectedComponent s")
    case None
    with selected_boxes [of s] show ?thesis
      by (simp add: arch_render_def selectedComponentData_def)
  next
    case (Some i)
    with assms have "i \<in> set (map compId architectureComponents)"
      by (auto dest: arch_reachable_inv simp: arch_inv_def)
    then have "filter ((=) i) (map compId architectureComponents) = [i]"
      by (rule filter_eq_distinct [OF distinct_arch_ids])
    with Some selected_boxes [of s] selected_found [OF assms Some] show ?thesis
      by (auto simp: arch_render_def eq_commute [of "Some i"])
  qed
  show "\<forall>d ch x. detailsPanel (arch_render s) = Some d \<longrightarrow> detailChips d = Some ch \<longrightarrow> x \<in> set ch \<longrightarrow>
          arch_enabled s (ClickConnection (chipTarget x))"
    by (auto simp: arch_render_def simp del: arch_enabled.simps intro: chips_clickable)
qed

theorem arch_view_consistent_witness:
  "arch_reachable (arch_handle arch_init (ClickComponent ''llm-processing'')) \<and>
   map boxId (filter boxSelected (boxes (arch_render (arch_handle arch_init (ClickComponent ''llm-processing'')))))
     = [''llm-processing''] \<and>
   (\<exists>c. find_component architectureComponents ''llm-processing'' = Some c \<and>
        detailsPanel (arch_render (arch_handle arch_init (ClickComponent ''llm-processing''))) = Some (details_of c))"
proof -
  have r: "arch_reachable (arch_handle arch_init (ClickComponent ''llm-processing''))"
    by (rule arch_reachable.step [OF arch_reachable.init]) (simp add: arch_ids)
  from arch_view_consistent [OF r] r show ?thesis by (simp add: arch_init_def)
qed

end
