(* ===== verification/MethodsView.thy ===== *)
theory MethodsView
  imports Methods
begin

text \<open>
  What the prompting-methods laboratory renders (\<open>PromptingMethods.tsx\<close>, the JSX under
  \<open>return\<close>): the overview, with the comparison toggle, the comparison table and a card per
  method, while \<open>!selectedMethod\<close>; otherwise the detail view, with the method's title, a
  button per example and, while \<open>currentExample\<close> exists, the workspace: the two prompts,
  the copy button, the editor with its character count and analyze button, and the analysis
  panel. Icons, descriptions, tips and class names are left out. The lemmas show that every
  reachable detail view is complete, and that the analyze button and the comparison toggle
  share one flag, so leaving an open analysis opens the comparison table.
\<close>

text \<open>A cell \<open>{row['zero-shot']}\<close> of a key the row lacks renders \<open>undefined\<close>,
  which React shows as nothing.\<close>

definition comparison_table :: "(string \<times> string list) list" where
  "comparison_table =
     map (\<lambda>r. (aspect r, map (\<lambda>k. case comparison_cell r k of None \<Rightarrow> [] | Some v \<Rightarrow> v) comparisonColumns))
         methodComparison"

text \<open>A method card shows the title and \<open>{method.examples.length} interactive examples\<close>.\<close>

definition method_cards :: "(string \<times> nat) list" where
  "method_cards = map (\<lambda>m. (methodTitle m, length (methodExamples m))) promptingMethods"

record workspace_view =
  scenarioTitle :: string
  badText :: string
  goodText :: string
  copyButton :: string
  editorText :: string
  charCount :: nat
  analyzeEnabled :: bool
  analysisPanel :: "(string \<times> string option) option"

text \<open>The workspace of the current example \<open>e\<close>. The analysis panel shows the prompt and
  the title of \<open>selectedMethodData?.title\<close> while \<open>showComparison && userPrompt.trim()\<close>;
  the analyze button is \<open>disabled={!userPrompt.trim()}\<close>.\<close>

definition workspace_of :: "methods_state \<Rightarrow> prompt_example \<Rightarrow> workspace_view" where
  "workspace_of s e =
     \<lparr>scenarioTitle = exampleTitle e, badText = badPrompt e, goodText = goodPrompt e,
      copyButton = (if copiedText s = goodPrompt e then ''copied!'' else ''copy''),
      editorText = userPrompt s, charCount = js_length (userPrompt s),
      analyzeEnabled = (\<not> js_blank (userPrompt s)),
      analysisPanel = (if showComparison s \<and> \<not> js_blank (userPrompt s)
                       then Some (userPrompt s, map_option methodTitle (selectedMethodData s)) else None)\<rparr>"

datatype methods_view =
    MethodOverview (comparisonLabel: string) (comparisonRows: "(string \<times> string list) list option")
      (methodCards: "(string \<times> nat) list")
  | MethodDetail (detailTitle: "string option") (exampleButtons: "(string \<times> bool) list")
      (workspace: "workspace_view option")

text \<open>\<open>!selectedMethod\<close> holds for \<open>null\<close> and for the empty id. In the detail view
  \<open>selectedMethodData?.title\<close> and \<open>selectedMethodData?.examples.map\<close> render nothing
  for an id no method has; an example button is highlighted while
  \<open>selectedExample === index\<close>.\<close>

definition methods_render :: "methods_state \<Rightarrow> methods_view" where
  "methods_render s =
     (if selectedMethod s = None \<or> selectedMethod s = Some []
      then MethodOverview (if showComparison s then ''hide_comparison'' else ''show_comparison'')
             (if showComparison s then Some comparison_table else None) method_cards
      else MethodDetail (map_option methodTitle (selectedMethodData s))
             (case selectedMethodData s of
                None \<Rightarrow> []
              | Some m \<Rightarrow> map (\<lambda>(k, x). (exampleTitle x, methods_state.selectedExample s = k))
                                (enumerate 0 (methodExamples m)))
             (map_option (workspace_of s) (currentExample s)))"

subsection \<open>Lemmas\<close>

lemma listed_method_id_nonempty: "i \<in> set (map methodId promptingMethods) \<Longrightarrow> i \<noteq> []"
  by (auto simp: method_ids)

subsection \<open>Properties\<close>

text \<open>
  C26. In every reachable state with a selected method the detail view is complete: it shows
  the method's title, a button per example of the method, exactly one of them highlighted,
  that of the current example, and the workspace of the current example.
\<close>

theorem detail_view_complete:
  assumes "methods_reachable s" and "selectedMethod s = Some i"
  shows "\<exists>m e bs. find_method promptingMethods (Some i) = Some m \<and>
           js_at (methodExamples m) (methods_state.selectedExample s) = Some e \<and>
           methods_render s = MethodDetail (Some (methodTitle m)) bs (Some (workspace_of s e)) \<and>
           map fst bs = map exampleTitle (methodExamples m) \<and> map fst (filter snd bs) = [exampleTitle e]"
proof -
  from assms(1) have inv: "methods_inv s" by (rule methods_reachable_inv)
  with assms(2) have listed: "i \<in> set (map methodId promptingMethods)"
    and k: "methods_state.selectedExample s < 3"
    by (auto simp: methods_inv_def)
  from find_method_listed [OF listed] obtain m
    where m: "find_method promptingMethods (Some i) = Some m" and three: "length (methodExamples m) = 3"
    by blast
  from k three have e: "js_at (methodExamples m) (methods_state.selectedExample s)
      = Some (methodExamples m ! methods_state.selectedExample s)"
    by (simp add: js_at_def)
  let ?bs = "map (\<lambda>(j, x). (exampleTitle x, methods_state.selectedExample s = j)) (enumerate 0 (methodExamples m))"
  have "methods_render s = MethodDetail (Some (methodTitle m)) ?bs
          (Some (workspace_of s (methodExamples m ! methods_state.selectedExample s)))"
    using assms(2) listed_method_id_nonempty [OF listed] m e
    by (simp add: methods_render_def selectedMethodData_def currentExample_def)
  moreover have "map fst ?bs = map exampleTitle (methodExamples m)"
    by (rule button_titles)
  moreover have "map fst (filter snd ?bs) = [exampleTitle (methodExamples m ! methods_state.selectedExample s)]"
    using k three by (intro highlighted_buttons) simp
  ultimately show ?thesis using m e
    by (intro exI [of _ m] exI [of _ "methodExamples m ! methods_state.selectedExample s"] exI [of _ ?bs] conjI)
qed

theorem detail_view_complete_witness:
  "methods_reachable (methods_run methods_init copy_twice) \<and>
   selectedMethod (methods_run methods_init copy_twice) = Some ''zero-shot'' \<and>
   (\<exists>m e bs. find_method promptingMethods (Some ''zero-shot'') = Some m \<and>
      js_at (methodExamples m) (methods_state.selectedExample (methods_run methods_init copy_twice)) = Some e \<and>
      methods_render (methods_run methods_init copy_twice)
        = MethodDetail (Some (methodTitle m)) bs (Some (workspace_of (methods_run methods_init copy_twice) e)) \<and>
      map fst bs = map exampleTitle (methodExamples m) \<and> map fst (filter snd bs) = [exampleTitle e])"
proof -
  have v: "methods_valid_run methods_init copy_twice" by code_simp
  have r: "methods_reachable (methods_run methods_init copy_twice)"
    by (rule methods_run_reachable [OF methods_reachable.init v])
  have sel: "selectedMethod (methods_run methods_init copy_twice) = Some ''zero-shot''" by code_simp
  from detail_view_complete [OF r sel] r sel show ?thesis by blast
qed

text \<open>
  C27. The analyze button and the comparison toggle of the overview share the flag
  \<open>showComparison\<close>, and the back button does not reset it: leaving a detail view whose
  analysis panel is open shows the overview with the comparison table open and the toggle
  labelled hide_comparison, although the table was never asked for.
\<close>

theorem back_opens_comparison_table:
  assumes "methods_render s = MethodDetail t bs (Some w)" and "analysisPanel w \<noteq> None"
  shows "methods_enabled s BackToMethods \<and>
         methods_render (methods_handle s BackToMethods)
           = MethodOverview ''hide_comparison'' (Some comparison_table) method_cards"
proof -
  from assms(1) have sel: "selectedMethod s \<noteq> None"
    by (auto simp: methods_render_def split: if_splits)
  from assms(1) obtain e where "w = workspace_of s e"
    by (auto simp: methods_render_def split: if_splits)
  with assms(2) have "showComparison s" by (simp add: workspace_of_def split: if_splits)
  with sel show ?thesis by (simp add: methods_render_def)
qed

text \<open>A run that selects a method and an example and analyzes the loaded prompt.\<close>

theorem back_opens_comparison_table_witness:
  "(\<exists>t bs w. methods_render (methods_run methods_init (butlast analyze_then_back)) = MethodDetail t bs (Some w) \<and>
      analysisPanel w \<noteq> None) \<and>
   methods_enabled (methods_run methods_init (butlast analyze_then_back)) BackToMethods \<and>
   methods_render (methods_handle (methods_run methods_init (butlast analyze_then_back)) BackToMethods)
     = MethodOverview ''hide_comparison'' (Some comparison_table) method_cards"
proof -
  have sel: "selectedMethod (methods_run methods_init (butlast analyze_then_back)) = Some ''few-shot''"
    and cmp: "showComparison (methods_run methods_init (butlast analyze_then_back))"
    and up: "\<not> js_blank (userPrompt (methods_run methods_init (butlast analyze_then_back)))"
    and ex: "currentExample (methods_run methods_init (butlast analyze_then_back)) \<noteq> None"
    by code_simp+
  from ex obtain y where y: "currentExample (methods_run methods_init (butlast analyze_then_back)) = Some y"
    by blast
  with sel obtain t bs where v: "methods_render (methods_run methods_init (butlast analyze_then_back))
                  = MethodDetail t bs (Some (workspace_of (methods_run methods_init (butlast analyze_then_back)) y))"
    by (simp add: methods_render_def)
  moreover from cmp up
  have p: "analysisPanel (workspace_of (methods_run methods_init (butlast analyze_then_back)) y) \<noteq> None"
    by (simp add: workspace_of_def)
  ultimately show ?thesis using back_opens_comparison_table [OF v p] by blast
qed

end
