(* ===== verification/FramingView.thy ===== *)
theory FramingView
  imports Framing
begin

text \<open>
  What the psychological-framing section renders (\<open>PsychologicalFraming.tsx\<close>, the JSX
  under \<open>return\<close>): while \<open>!selectedTechnique\<close> the overview, with a card per technique
  and a card per tone experiment listing its tones; otherwise the detail view, with the
  technique's title, a button per example and, while \<open>currentExample\<close> exists, the
  comparison of the current example; and over either of them the modal of the open tone
  experiment, with its tone cards and the response preview. Of the comparison the model
  keeps the scenario, of a tone card its heading and highlight; the other texts are display
  text. The lemmas show that the modal only ever covers the overview, that every
  reachable detail view is complete, and that a tone selected in one experiment stays
  selected in the next, whose preview then shows the fallback text.
\<close>

datatype framing_page =
    TechniqueOverview (techniqueCards: "(string \<times> nat) list") (experimentCards: "(string \<times> string list) list")
  | TechniqueDetail (techniqueHeading: "string option") (framingButtons: "(string \<times> bool) list")
      (comparisonScenario: "string option")

record modal_view =
  modalTitle :: string
  modalBasePrompt :: string
  toneCards :: "(string \<times> bool) list"
  previewPanel :: "(string \<times> string) option"

record framing_view =
  pageView :: framing_page
  modalView :: "modal_view option"

text \<open>The modal of an experiment \<open>e\<close>: the tone cards are headed \<open>{tone.name} Tone\<close>
  and highlighted while \<open>selectedTone === tone.name\<close>; the preview is headed
  \<open>{selectedTone.toLowerCase()}_response_preview:\<close>.\<close>

definition modal_of :: "framing_state \<Rightarrow> tone_experiment \<Rightarrow> modal_view" where
  "modal_of s e =
     \<lparr>modalTitle = ''tone_experiment: '' @ experimentScenario e, modalBasePrompt = basePrompt e,
      toneCards = map (\<lambda>t. (toneName t @ '' Tone'', selectedTone s = toneName t)) (tones e),
      previewPanel = map_option (\<lambda>(n, r). (js_lower n @ ''_response_preview:'', r)) (tone_preview s)\<rparr>"

text \<open>\<open>!selectedTechnique\<close> holds for \<open>null\<close> and for the empty id. An example button
  is labelled \<open>Example {index + 1}\<close> and highlighted while \<open>selectedExample === index\<close>.
  The modal is rendered while \<open>activeToneExperiment && currentExperiment\<close>, that is while
  \<open>currentExperiment\<close> exists, since no experiment has the empty id.\<close>

definition framing_render :: "framing_state \<Rightarrow> framing_view" where
  "framing_render s =
     \<lparr>pageView =
        (if selectedTechnique s = None \<or> selectedTechnique s = Some []
         then TechniqueOverview (map (\<lambda>t. (techniqueTitle t, length (techniqueExamples t))) framingTechniques)
                (map (\<lambda>e. (experimentScenario e, map toneName (tones e))) toneExperiments)
         else TechniqueDetail (map_option techniqueTitle (selectedTechniqueData s))
                (case selectedTechniqueData s of
                   None \<Rightarrow> []
                 | Some t \<Rightarrow> map (\<lambda>(k, x). (''Example '' @ js_nat_string (k + 1), selectedExample s = k))
                                   (enumerate 0 (techniqueExamples t)))
                (map_option scenario (currentFramingExample s))),
      modalView = map_option (modal_of s) (currentExperiment s)\<rparr>"

subsection \<open>Lemmas\<close>

text \<open>The modal is opened from the overview only, and behind it nothing can be clicked.\<close>

lemma modal_over_overview:
  "framing_reachable s \<Longrightarrow> currentExperiment s \<noteq> None \<Longrightarrow> selectedTechnique s = None"
proof (induction rule: framing_reachable.induct)
  case init
  then show ?case by (simp add: framing_init_def currentExperiment_def)
next
  case (step s ev)
  then show ?case
    by (cases ev) (auto simp: modal_open_def currentExperiment_def clickTone_def)
qed

lemma listed_technique_id_nonempty: "i \<in> set (map techniqueId framingTechniques) \<Longrightarrow> i \<noteq> []"
  by (auto simp: technique_defs)

lemma find_distinct_key:
  "distinct (map f xs) \<Longrightarrow> x \<in> set xs \<Longrightarrow> find (\<lambda>y. f y = f x) xs = Some x"
  by (induction xs) (auto simp: find_None_iff)

lemma experiment_ids: "map experimentId toneExperiments = [''customer-support'', ''technical-explanation'']"
  by (simp add: toneExperiments_def experiment_customer_support_def experiment_technical_explanation_def)

lemma experiment_found: "e \<in> set toneExperiments \<Longrightarrow> find (\<lambda>x. experimentId x = experimentId e) toneExperiments = Some e"
  by (rule find_distinct_key) (simp_all add: experiment_ids)

subsection \<open>Properties\<close>

text \<open>
  C29. In every reachable state with a selected technique no tone experiment is open and
  the detail view is complete: it shows the technique's title, the buttons Example 1,
  Example 2 and Example 3, exactly the one of the current example highlighted, and the
  comparison of the current example.
\<close>

theorem framing_view_complete:
  assumes "framing_reachable s" and "selectedTechnique s = Some i"
  shows "modalView (framing_render s) = None \<and>
         (\<exists>t e bs. find (\<lambda>t. techniqueId t = i) framingTechniques = Some t \<and>
            js_at (techniqueExamples t) (selectedExample s) = Some e \<and>
            pageView (framing_render s) = TechniqueDetail (Some (techniqueTitle t)) bs (Some (scenario e)) \<and>
            map fst bs = [''Example 1'', ''Example 2'', ''Example 3''] \<and>
            map fst (filter snd bs) = [''Example '' @ js_nat_string (selectedExample s + 1)])"
proof
  show "modalView (framing_render s) = None"
    using modal_over_overview [OF assms(1)] assms(2)
    by (cases "currentExperiment s") (auto simp: framing_render_def)
  from assms(1) have inv: "framing_inv s" by (rule framing_reachable_inv)
  with assms(2) have listed: "i \<in> set (map techniqueId framingTechniques)"
    and k: "selectedExample s < 3"
    by (auto simp: framing_inv_def)
  from find_technique_listed [OF listed] obtain t
    where t: "find (\<lambda>t. techniqueId t = i) framingTechniques = Some t"
      and three: "length (techniqueExamples t) = 3"
    by blast
  from k three have e: "js_at (techniqueExamples t) (selectedExample s)
      = Some (techniqueExamples t ! selectedExample s)"
    by (simp add: js_at_def)
  let ?bs = "map (\<lambda>(k, x). (''Example '' @ js_nat_string (k + 1), selectedExample s = k))
                (enumerate 0 (techniqueExamples t))"
  have "pageView (framing_render s) = TechniqueDetail (Some (techniqueTitle t)) ?bs
          (Some (scenario (techniqueExamples t ! selectedExample s)))"
    using assms(2) listed_technique_id_nonempty [OF listed] t e
    by (simp add: framing_render_def selectedTechniqueData_def currentFramingExample_def)
  moreover have "map fst ?bs = [''Example 1'', ''Example 2'', ''Example 3'']"
  proof -
    have "map fst ?bs = map (\<lambda>k. ''Example '' @ js_nat_string (k + 1)) [0..<3]"
      using button_index_labels [of "\<lambda>k. ''Example '' @ js_nat_string (k + 1)"
                                    "\<lambda>k. selectedExample s = k" 0 "techniqueExamples t"] three
      by simp
    also have "\<dots> = [''Example 1'', ''Example 2'', ''Example 3'']" by code_simp
    finally show ?thesis .
  qed
  moreover have "map fst (filter snd ?bs) = [''Example '' @ js_nat_string (selectedExample s + 1)]"
    using k three by (subst highlighted_buttons) simp_all
  ultimately show "\<exists>t e bs. find (\<lambda>t. techniqueId t = i) framingTechniques = Some t \<and>
            js_at (techniqueExamples t) (selectedExample s) = Some e \<and>
            pageView (framing_render s) = TechniqueDetail (Some (techniqueTitle t)) bs (Some (scenario e)) \<and>
            map fst bs = [''Example 1'', ''Example 2'', ''Example 3''] \<and>
            map fst (filter snd bs) = [''Example '' @ js_nat_string (selectedExample s + 1)]"
    using t e
    by (intro exI [of _ t] exI [of _ "techniqueExamples t ! selectedExample s"] exI [of _ ?bs] conjI)
qed

theorem framing_view_complete_witness:
  "framing_reachable (framing_run framing_init [SelectTechnique ''role-prompting'', SelectFramingExample 2]) \<and>
   selectedTechnique (framing_run framing_init [SelectTechnique ''role-prompting'', SelectFramingExample 2])
     = Some ''role-prompting'' \<and>
   modalView (framing_render (framing_run framing_init [SelectTechnique ''role-prompting'', SelectFramingExample 2]))
     = None \<and>
   (\<exists>t e bs. find (\<lambda>t. techniqueId t = ''role-prompting'') framingTechniques = Some t \<and>
      js_at (techniqueExamples t) 2 = Some e \<and>
      pageView (framing_render (framing_run framing_init [SelectTechnique ''role-prompting'', SelectFramingExample 2]))
        = TechniqueDetail (Some (techniqueTitle t)) bs (Some (scenario e)) \<and>
      map fst bs = [''Example 1'', ''Example 2'', ''Example 3''] \<and>
      map fst (filter snd bs) = [''Example '' @ js_nat_string 3])"
proof -
  have v: "framing_valid_run framing_init [SelectTechnique ''role-prompting'', SelectFramingExample 2]"
    by code_simp
  have r: "framing_reachable (framing_run framing_init [SelectTechnique ''role-prompting'', SelectFramingExample 2])"
    by (rule framing_run_reachable [OF framing_reachable.init v])
  have sel: "selectedTechnique (framing_run framing_init [SelectTechnique ''role-prompting'', SelectFramingExample 2])
               = Some ''role-prompting''"
    and k: "selectedExample (framing_run framing_init [SelectTechnique ''role-prompting'', SelectFramingExample 2]) = 2"
    by code_simp+
  from framing_view_complete [OF r sel] r sel k show ?thesis by simp
qed

text \<open>
  C30. Closing a tone experiment does not reset the selected tone: from every reachable
  state in which the modal is open with a tone selected, closing it and opening an
  experiment that has no tone of that name is possible, keeps the tone selected, and shows a
  preview headed with that tone whose text is the fallback No response available.
\<close>

theorem stale_tone_preview:
  assumes "framing_reachable s" and "modal_open s" and "selectedTone s \<noteq> []"
    and "e \<in> set toneExperiments" and "selectedTone s \<notin> set (map toneName (tones e))"
  shows "let s1 = framing_handle s CloseExperiment;
             s2 = framing_handle s1 (StartExperiment (experimentId e))
         in framing_enabled s CloseExperiment \<and> framing_enabled s1 (StartExperiment (experimentId e)) \<and>
            selectedTone s2 = selectedTone s \<and> currentExperiment s2 = Some e \<and>
            tone_preview s2 = Some (selectedTone s, ''No response available'')"
proof -
  from assms(2) have "currentExperiment s \<noteq> None" by (simp add: modal_open_def)
  with modal_over_overview [OF assms(1)] have ov: "selectedTechnique s = None" .
  have found: "currentExperiment (s\<lparr>activeToneExperiment := Some (experimentId e)\<rparr>) = Some e"
    using experiment_found [OF assms(4)] by (simp add: currentExperiment_def)
  have "find (\<lambda>t. toneName t = selectedTone s) (tones e) = None"
    using assms(5) unfolding find_None_iff by force
  with found assms(2-4) ov show ?thesis
    by (simp add: Let_def modal_open_def currentExperiment_def tone_preview_def)
qed


theorem stale_tone_preview_witness:
  "framing_reachable (framing_run framing_init (take 2 tone_then_switch)) \<and>
   modal_open (framing_run framing_init (take 2 tone_then_switch)) \<and>
   selectedTone (framing_run framing_init (take 2 tone_then_switch)) = ''Professional'' \<and>
   experiment_technical_explanation \<in> set toneExperiments \<and>
   ''Professional'' \<notin> set (map toneName (tones experiment_technical_explanation)) \<and>
   tone_preview (framing_handle (framing_handle (framing_run framing_init (take 2 tone_then_switch))
       CloseExperiment) (StartExperiment ''technical-explanation''))
     = Some (''Professional'', ''No response available'')"
proof -
  let ?s = "framing_run framing_init (take 2 tone_then_switch)"
  have v: "framing_valid_run framing_init (take 2 tone_then_switch)" by code_simp
  have r: "framing_reachable ?s" by (rule framing_run_reachable [OF framing_reachable.init v])
  have m: "modal_open ?s" and t: "selectedTone ?s = ''Professional''" by code_simp+
  have e: "experiment_technical_explanation \<in> set toneExperiments"
    by (simp add: toneExperiments_def)
  have n: "''Professional'' \<notin> set (map toneName (tones experiment_technical_explanation))"
    and i: "experimentId experiment_technical_explanation = ''technical-explanation''"
    by (simp_all add: experiment_technical_explanation_def)
  have ne: "selectedTone ?s \<noteq> []" and n': "selectedTone ?s \<notin> set (map toneName (tones experiment_technical_explanation))"
    using t n by simp_all
  from stale_tone_preview [OF r m ne e n']
  have "tone_preview (framing_handle (framing_handle ?s CloseExperiment)
          (StartExperiment (experimentId experiment_technical_explanation)))
        = Some (selectedTone ?s, ''No response available'')"
    unfolding Let_def by (elim conjE)
  then have "tone_preview (framing_handle (framing_handle ?s CloseExperiment)
          (StartExperiment ''technical-explanation'')) = Some (''Professional'', ''No response available'')"
    by (simp only: i t)
  with r m t e n show ?thesis by (intro conjI)
qed

end
