(* ===== verification/Hero.thy ===== *)
theory Hero
  imports Prelude
begin

text \<open>
  The landing section (\<open>src/src/components/Hero.tsx\<close>, function \<open>Hero\<close>). Its two
  buttons call the callbacks \<open>onGetStarted\<close> and \<open>onExploreMethod\<close> that \<open>App\<close>
  passes; they are events of the router (theory \<open>Router\<close>). What the section computes
  itself is its background, a code rain of twenty columns, each placed and timed with
  \<open>Math.random()\<close> and showing one line of a constant array of 22 code lines, picked with
  \<open>Math.floor(Math.random() * 21)\<close>. The values \<open>Math.random()\<close> returns are
  parameters.
\<close>

definition codeRainLines :: "string list" where
  "codeRainLines = [
     ''def prompt_engineering():'',
     ''  return '' @ [CHR 0x22] @ ''optimized'' @ [CHR 0x22],
     ''if model.ready():'',
     ''  execute_prompt()'',
     ''class PromptEngine:'',
     ''  def __init__(self):'',
     ''import transformers'',
     ''from ai import llm'',
     ''response = llm.chat('',
     ''  prompt=user_input'',
     '')'',
     ''while True:'',
     ''  optimize()'',
     ''break'',
     ''continue'',
     ''# AI revolution'',
     ''// prompt as code'',
     ''const ai = new AI()'',
     ''ai.prompt(query)'',
     ''.then(response =>'',
     ''  console.log(data)'',
     ''}'']"

record rain_column =
  leftPercent :: real
  animationDelay :: real
  animationDuration :: real
  rainText :: string

text \<open>One column, from the four values of \<open>Math.random()\<close> its render draws, in order.\<close>

definition code_rain_column :: "real \<Rightarrow> real \<Rightarrow> real \<Rightarrow> real \<Rightarrow> rain_column" where
  "code_rain_column r1 r2 r3 r4 =
     \<lparr>leftPercent = r1 * 100, animationDelay = r2 * 5, animationDuration = 3 + r3 * 4,
      rainText = codeRainLines ! nat (random_index r4 21)\<rparr>"

text \<open>\<open>Array.from({ length: 20 }).map(...)\<close>: column \<open>i\<close> draws the values \<open>rnd i\<close>.\<close>

definition code_rain :: "(nat \<Rightarrow> real \<times> real \<times> real \<times> real) \<Rightarrow> rain_column list" where
  "code_rain rnd = map (\<lambda>i. case rnd i of (a, b, c, d) \<Rightarrow> code_rain_column a b c d) [0..<20]"

lemma length_codeRainLines [simp]: "length codeRainLines = 22"
  by (simp add: codeRainLines_def)

lemma code_rain_text_range:
  assumes "is_random r"
  shows "rainText (code_rain_column a b c r) \<in> set (take 21 codeRainLines)"
proof -
  from random_index_bounds [OF assms, of 21] have "nat (random_index r 21) < 21"
    by (simp add: nat_less_iff)
  then show ?thesis
    by (simp add: code_rain_column_def in_set_conv_nth) (metis nth_take)
qed

lemma code_rain_text_hit:
  assumes "k < 21"
  shows "rainText (code_rain_column a b c (real k / 21)) = codeRainLines ! k"
proof -
  from random_index_hits [of k 21] assms have "random_index (real k / 21) 21 = int k" by simp
  then show ?thesis by (simp add: code_rain_column_def)
qed

text \<open>C31. The code rain never shows the last of its 22 lines: the index
  \<open>Math.floor(Math.random() * 21)\<close> ranges over the first 21 lines, each of which some value
  of \<open>Math.random()\<close> picks, and the last line, \<open>}\<close>, is not among them.\<close>

theorem code_rain_never_last:
  "{rainText (code_rain_column a b c r) |a b c r. is_random r} = set (take 21 codeRainLines) \<and>
   last codeRainLines \<notin> set (take 21 codeRainLines)"
proof
  show "{rainText (code_rain_column a b c r) |a b c r. is_random r} = set (take 21 codeRainLines)"
  proof
    show "{rainText (code_rain_column a b c r) |a b c r. is_random r} \<subseteq> set (take 21 codeRainLines)"
      using code_rain_text_range by blast
    show "set (take 21 codeRainLines) \<subseteq> {rainText (code_rain_column a b c r) |a b c r. is_random r}"
    proof
      fix x assume "x \<in> set (take 21 codeRainLines)"
      then obtain k where k: "k < 21" and x: "x = codeRainLines ! k"
        by (auto simp: in_set_conv_nth)
      from k have "is_random (real k / 21)" by (simp add: is_random_def)
      moreover from code_rain_text_hit [OF k] x have "x = rainText (code_rain_column 0 0 0 (real k / 21))"
        by simp
      ultimately show "x \<in> {rainText (code_rain_column a b c r) |a b c r. is_random r}"
        unfolding mem_Collect_eq by metis
    qed
  qed
  show "last codeRainLines \<notin> set (take 21 codeRainLines)"
    by (simp add: codeRainLines_def)
qed

end
