(* ===== verification/HeroView.thy ===== *)
theory HeroView
  imports Hero Router
begin

text \<open>
  What the landing section renders (\<open>src/src/components/Hero.tsx\<close>, the JSX under
  \<open>return\<close>): the code rain of theory \<open>Hero\<close>, the two buttons that call the callbacks
  \<open>App\<close> passes, the four feature cards of the constant \<open>features\<close> and the three stat
  cards. Icons and class names are left out. The lemmas show that in every reachable state
  that shows the hero both buttons lead to another section, scrolled to the top.
\<close>

record hero_feature =
  featureTitle :: string
  featureDescription :: string
  featureAccent :: string

definition heroFeatures :: "hero_feature list" where
  "heroFeatures = [
     \<lparr>featureTitle = ''fundamentals'', featureDescription = ''core principles and architecture-aware design'',
      featureAccent = ''text-green-400''\<rparr>,
     \<lparr>featureTitle = ''methods'', featureDescription = ''chain-of-thought, self-consistency, tree-of-thoughts'',
      featureAccent = ''text-cyan-400''\<rparr>,
     \<lparr>featureTitle = ''tasks'', featureDescription = ''classification, summarization, data extraction'',
      featureAccent = ''text-blue-400''\<rparr>,
     \<lparr>featureTitle = ''evaluation'', featureDescription = ''testing frameworks and production monitoring'',
      featureAccent = ''text-purple-400''\<rparr>]"

text \<open>The stat cards, written inline in the JSX: the value, the label and the hint shown on
  hover.\<close>

record hero_stat =
  statValue :: string
  statLabel :: string
  statHint :: string

definition heroStats :: "hero_stat list" where
  "heroStats = [
     \<lparr>statValue = ''0x08'', statLabel = ''// advanced methods'',
      statHint = ''zero-shot, few-shot, cot, react, tree-of-thoughts...''\<rparr>,
     \<lparr>statValue = ''0x05'', statLabel = ''// task categories'',
      statHint = ''classification, summarization, extraction, reasoning...''\<rparr>,
     \<lparr>statValue = ''0x0A'', statLabel = ''// tools & frameworks'',
      statHint = ''langchain, dspy, guardrails, promptlayer...''\<rparr>]"

record hero_view =
  heroRain :: "rain_column list"
  heroButtons :: "(string \<times> app_event) list"
  heroFeatureCards :: "(string \<times> string) list"
  heroStatCards :: "hero_stat list"

text \<open>The hero for the values \<open>rnd\<close> of \<open>Math.random()\<close> its code rain draws. The buttons
  call \<open>onGetStarted\<close> and \<open>onExploreMethod\<close>, which are the router's events
  \<open>GetStarted\<close> and \<open>ExploreMethod\<close>; a feature card shows \<open>./{feature.title}\<close> and
  \<open>// {feature.description}\<close>.\<close>

definition hero_render :: "(nat \<Rightarrow> real \<times> real \<times> real \<times> real) \<Rightarrow> hero_view" where
  "hero_render rnd =
     \<lparr>heroRain = code_rain rnd,
      heroButtons = [(''$ ./start_guide.sh'', GetStarted), (''$ ./explore_methods.sh'', ExploreMethod)],
      heroFeatureCards = map (\<lambda>f. (''./'' @ featureTitle f, ''// '' @ featureDescription f)) heroFeatures,
      heroStatCards = heroStats\<rparr>"

subsection \<open>Lemmas\<close>

text \<open>In every reachable state that shows the hero, each button of the hero can be clicked
  and opens another section, the summary or the methods laboratory, scrolled to the top.\<close>

lemma hero_buttons_navigate:
  assumes "app_reachable s" and "renderContent (activeSection s) = HeroView"
  shows "map (\<lambda>(label, ev). (app_enabled s ev, activeSection (app_step ev s), scrollY (app_step ev s)))
           (heroButtons (hero_render rnd))
         = [(True, ''executive-summary'', 0), (True, ''prompting-methods'', 0)]"
proof -
  from render_default_unreachable [OF assms(1)] assms(2) have "activeSection s = ''hero''" by simp
  with assms(2) show ?thesis
    by (simp add: hero_render_def app_step_def setActiveSection_def Let_def)
qed

lemma hero_cards:
  "length (heroRain (hero_render rnd)) = 20 \<and> map fst (heroFeatureCards (hero_render rnd)) =
     [''./fundamentals'', ''./methods'', ''./tasks'', ''./evaluation'']"
  by (simp add: hero_render_def code_rain_def heroFeatures_def)

end
