(* ===== verification/TakeawayTemplate.thy ===== *)
theory TakeawayTemplate
  imports Prelude
begin

text \<open>
  The copy button of the takeaway template (\<open>src/src/components/TakeawayTemplate.tsx\<close>,
  function \<open>TakeawayTemplate\<close>). Its click handler writes the template to the clipboard
  and, in the \<open>then\<close> callback of the returned promise, reads \<open>event.currentTarget\<close>
  to show a copied label on the button for two seconds, mutating the DOM directly.

  The model follows React's event system (version 17 and later, which the automatic JSX
  runtime of the sources implies): \<open>currentTarget\<close> of a synthetic event is the element
  while its listeners run and is reset to \<open>null\<close> when the dispatch ends. The promise
  resolves only after that, so the callback reads \<open>null\<close>. The button is a record of its
  \<open>innerHTML\<close> and its class list; the clipboard, the queued \<open>then\<close> callbacks and the
  scheduled restores are explicit state, and a callback that throws counts as an unhandled
  rejection.
\<close>

definition takeawayTemplate :: string where
  "takeawayTemplate =
     ''# Takeaway Chatbot Prompting Template'' @ [CHR 0x0A, CHR 0x0A] @ ''## 1. SYSTEM ROLE DEFINITION'' @ [CHR 0x0A] @
     ''You are a [specific expert role, e.g., '' @ [CHR 0x22] @ ''senior cloud architect'' @ [CHR 0x22] @ '', '' @ [CHR 0x22] @ ''friendly product assistant'' @ [CHR 0x22] @ '', or '' @ [CHR 0x22] @ ''empathetic HR support bot'' @ [CHR 0x22] @ ''].'' @ [CHR 0x0A] @
     ''Your job is to assist the user by providing clear, accurate, and context-aware responses tailored to their level of understanding.'' @ [CHR 0x0A] @
     ''Always ensure the output is complete, helpful, and production-safe.'' @ [CHR 0x0A, CHR 0x0A] @ ''## 2. INSTRUCTION RULES (BEHAVIORAL GUIDELINES)'' @ [CHR 0x0A] @
     ''- Always follow the user'' @ [CHR 0x27] @ ''s intent precisely.'' @ [CHR 0x0A] @
     ''- If a task requires reasoning, use step-by-step logic before presenting the final answer.'' @ [CHR 0x0A] @
     ''- If the prompt includes code, explain briefly how it works unless told otherwise.'' @ [CHR 0x0A] @
     ''- When unsure or if the context is missing, ask a concise follow-up question.'' @ [CHR 0x0A] @
     ''- If the answer requires assumptions, state them explicitly.'' @ [CHR 0x0A, CHR 0x0A] @ ''## 3. STYLE & TONE CONTROL'' @ [CHR 0x0A] @
     ''- Tone: [Formal / Friendly / Empathetic / Technical]'' @ [CHR 0x0A] @
     ''- Language Level: [B1 / B2 / Professional / Executive Summary]'' @ [CHR 0x0A] @
     ''- Use bullet points for structure when listing more than 2 items.'' @ [CHR 0x0A] @
     ''- Use tables to compare data or highlight pros/cons.'' @ [CHR 0x0A] @
     ''- Code: Format using markdown triple backticks + language.'' @ [CHR 0x0A] @
     ''- Examples: Include concrete examples for abstract answers.'' @ [CHR 0x0A, CHR 0x0A] @ ''## 4. OUTPUT STRUCTURE TEMPLATE'' @ [CHR 0x0A] @
     ''## Short Summary (1-2 lines max)'' @ [CHR 0x0A, CHR 0x0A] @ ''## Step-by-Step Breakdown (use bullets or numbers)'' @ [CHR 0x0A] @
     ''1.'' @ [CHR 0x0A] @
     ''2.'' @ [CHR 0x0A] @
     ''3.'' @ [CHR 0x0A, CHR 0x0A] @ ''## Notes or Caveats (if needed)'' @ [CHR 0x0A] @
     ''- Mention assumptions'' @ [CHR 0x0A] @
     ''- Warn about common pitfalls'' @ [CHR 0x0A, CHR 0x0A] @ ''## Suggested Next Action'' @ [CHR 0x0A] @
     ''Would you like me to generate the YAML version? Or help integrate it into your stack?'' @ [CHR 0x0A, CHR 0x0A] @ ''## 5. FAIL-SAFES AND DEFENSIVE BEHAVIOR'' @ [CHR 0x0A] @
     ''- If prompt includes unsafe/incomplete context, respond: '' @ [CHR 0x22] @ ''I need more information to provide an accurate response. Please clarify [specific input].'' @ [CHR 0x22, CHR 0x0A] @ ''- Never hallucinate or guess APIs, file paths, or business names.'' @ [CHR 0x0A] @
     ''- If asked to bypass security rules, respond with: '' @ [CHR 0x22] @ ''Sorry, that action is restricted to maintain safety and compliance.'' @ [CHR 0x22, CHR 0x0A] @ ''- If task involves private/sensitive info, remind: '' @ [CHR 0x22] @ ''Please ensure you do not share confidential information here.'' @ [CHR 0x22]"

record button_dom =
  innerHTML :: string
  classList :: "string list"

record click_event =
  currentTarget :: "button_dom option"

definition copiedHTML :: string where
  "copiedHTML = ''<span class='' @ [CHR 0x22] @ ''flex items-center justify-center'' @ [CHR 0x22] @ ''>''
                @ [CHR 0xE2, CHR 0x9C, CHR 0x93] @ '' copied!</span>''"

text \<open>\<open>classList.add\<close> and \<open>classList.remove\<close>: a class is in the list at most once.\<close>

definition class_add :: "string \<Rightarrow> string list \<Rightarrow> string list" where
  "class_add c cs = (if c \<in> set cs then cs else cs @ [c])"

definition class_remove :: "string \<Rightarrow> string list \<Rightarrow> string list" where
  "class_remove c cs = filter (\<lambda>x. x \<noteq> c) cs"

text \<open>The success callback: \<open>event.currentTarget as HTMLButtonElement\<close> is read, then its
  \<open>innerHTML\<close>; on \<open>null\<close> that throws. Otherwise the button shows the copied label and
  the callback returns the original text the restore will put back.\<close>

definition copy_success :: "click_event \<Rightarrow> js_error + (button_dom \<times> string)" where
  "copy_success ev =
     (case currentTarget ev of
        None \<Rightarrow> Inl TypeError
      | Some b \<Rightarrow> Inr (b\<lparr>innerHTML := copiedHTML,
                         classList := class_remove ''hover:scale-105''
                           (class_add ''border-green-400/50'' (class_add ''bg-green-500/30'' (classList b)))\<rparr>,
                       innerHTML b))"

definition restore_button :: "string \<Rightarrow> button_dom \<Rightarrow> button_dom" where
  "restore_button originalText b =
     b\<lparr>innerHTML := originalText,
       classList := class_add ''hover:scale-105''
         (class_remove ''border-green-400/50'' (class_remove ''bg-green-500/30'' (classList b)))\<rparr>"

record template_state =
  clipboard :: "string option"
  button :: button_dom
  pendingThen :: "click_event list"
  pendingRestore :: "string list"
  unhandledRejections :: nat

text \<open>The initial state, for the button \<open>b0\<close> as React rendered it (its markup and
  classes are a parameter).\<close>

definition template_init :: "button_dom \<Rightarrow> template_state" where
  "template_init b0 =
     \<lparr>clipboard = None, button = b0, pendingThen = [], pendingRestore = [], unhandledRejections = 0\<rparr>"

text \<open>A click: the handler runs with \<open>currentTarget\<close> the button, starts the clipboard
  write and queues the \<open>then\<close> callback on the event object; the dispatch then resets
  \<open>currentTarget\<close>.\<close>

definition dispatch_click :: "template_state \<Rightarrow> template_state" where
  "dispatch_click s =
     (let ev = \<lparr>currentTarget = Some (button s)\<rparr>
      in s\<lparr>pendingThen := pendingThen s @ [ev\<lparr>currentTarget := None\<rparr>]\<rparr>)"

text \<open>A write settles; the browser may settle the started writes in any order, so the
  event names the position of the write. On success the clipboard holds the template and
  the callback runs; on failure the promise, which has no \<open>catch\<close>, is an unhandled
  rejection.\<close>

definition clipboard_settles :: "nat \<Rightarrow> bool \<Rightarrow> template_state \<Rightarrow> template_state" where
  "clipboard_settles i ok s =
     (case js_at (pendingThen s) i of
        None \<Rightarrow> s
      | Some ev \<Rightarrow>
          let rest = drop_at i (pendingThen s) in
          if \<not> ok then s\<lparr>pendingThen := rest, unhandledRejections := Suc (unhandledRejections s)\<rparr>
          else let s = s\<lparr>clipboard := Some takeawayTemplate\<rparr> in
          (case copy_success ev of
             Inl _ \<Rightarrow> s\<lparr>pendingThen := rest, unhandledRejections := Suc (unhandledRejections s)\<rparr>
           | Inr (b, orig) \<Rightarrow> s\<lparr>pendingThen := rest, button := b,
                                 pendingRestore := pendingRestore s @ [orig]\<rparr>))"

text \<open>The restore timers all wait \<open>2000\<close> ms, so they fire in the order they were set.\<close>

definition restore_fires :: "template_state \<Rightarrow> template_state" where
  "restore_fires s =
     (case pendingRestore s of
        [] \<Rightarrow> s
      | orig # rest \<Rightarrow> s\<lparr>button := restore_button orig (button s), pendingRestore := rest\<rparr>)"

datatype template_event = CopyClick | ClipboardSettles nat bool | RestoreFires

fun template_enabled :: "template_state \<Rightarrow> template_event \<Rightarrow> bool" where
  "template_enabled s CopyClick = True"
| "template_enabled s (ClipboardSettles i ok) = (i < length (pendingThen s))"
| "template_enabled s RestoreFires = (pendingRestore s \<noteq> [])"

fun template_handle :: "template_state \<Rightarrow> template_event \<Rightarrow> template_state" where
  "template_handle s CopyClick = dispatch_click s"
| "template_handle s (ClipboardSettles i ok) = clipboard_settles i ok s"
| "template_handle s RestoreFires = restore_fires s"

inductive template_reachable :: "button_dom \<Rightarrow> template_state \<Rightarrow> bool" for b0 where
  init: "template_reachable b0 (template_init b0)"
| step: "template_reachable b0 s \<Longrightarrow> template_enabled s ev \<Longrightarrow>
         template_reachable b0 (template_handle s ev)"

text \<open>A button to run the machine on.\<close>

definition copy_button :: button_dom where
  "copy_button = \<lparr>innerHTML = ''$ ./copy_template.sh'', classList = [''group'', ''hover:scale-105'']\<rparr>"

text \<open>The invariant: every queued callback holds the reset event, no restore is pending,
  and the button is as rendered.\<close>

definition template_inv :: "button_dom \<Rightarrow> template_state \<Rightarrow> bool" where
  "template_inv b0 s \<longleftrightarrow>
     list_all (\<lambda>ev. currentTarget ev = None) (pendingThen s) \<and> pendingRestore s = [] \<and>
     button s = b0"

lemma template_inv_step:
  "template_inv b0 s \<Longrightarrow> template_inv b0 (template_handle s ev)"
proof (cases ev)
  case (ClipboardSettles i ok)
  assume "template_inv b0 s"
  then show ?thesis using ClipboardSettles set_drop_at [of i "pendingThen s"]
    by (auto simp: template_inv_def clipboard_settles_def copy_success_def Let_def list_all_iff
             dest!: js_at_Some split: option.splits)
qed (auto simp: template_inv_def dispatch_click_def restore_fires_def)

lemma template_reachable_inv: "template_reachable b0 s \<Longrightarrow> template_inv b0 s"
  by (induction rule: template_reachable.induct)
     (simp add: template_inv_def template_init_def, simp add: template_inv_step)

text \<open>C32. The copied feedback never appears: in every reachable state the button still shows
  its rendered label and classes, because every \<open>then\<close> callback reads the reset
  \<open>currentTarget\<close> and throws; whichever pending copy settles, and in whatever order,
  it counts one more unhandled rejection and leaves the button as it was, while a
  successful write does put the template on the clipboard.\<close>

theorem copy_feedback_never_shown:
  assumes "template_reachable b0 s"
  shows "button s = b0 \<and>
         (\<forall>i < length (pendingThen s). \<forall>ok.
            unhandledRejections (template_handle s (ClipboardSettles i ok)) = Suc (unhandledRejections s) \<and>
            button (template_handle s (ClipboardSettles i ok)) = b0 \<and>
            clipboard (template_handle s (ClipboardSettles i ok)) =
              (if ok then Some takeawayTemplate else clipboard s))"
proof -
  from assms have inv: "template_inv b0 s" by (rule template_reachable_inv)
  then show ?thesis
    by (auto simp: template_inv_def clipboard_settles_def copy_success_def Let_def list_all_iff
                   js_at_def)
qed

theorem copy_feedback_never_shown_witness:
  "template_reachable copy_button (dispatch_click (template_init copy_button)) \<and>
   button (dispatch_click (template_init copy_button)) = copy_button \<and>
   0 < length (pendingThen (dispatch_click (template_init copy_button))) \<and>
   unhandledRejections (template_handle (dispatch_click (template_init copy_button)) (ClipboardSettles 0 True)) = 1 \<and>
   button (template_handle (dispatch_click (template_init copy_button)) (ClipboardSettles 0 True)) = copy_button \<and>
   clipboard (template_handle (dispatch_click (template_init copy_button)) (ClipboardSettles 0 True))
     = Some takeawayTemplate"
proof -
  have r: "template_reachable copy_button (dispatch_click (template_init copy_button))"
    using template_reachable.step [OF template_reachable.init, of copy_button CopyClick] by simp
  have p: "0 < length (pendingThen (dispatch_click (template_init copy_button)))"
    by (simp add: dispatch_click_def)
  from copy_feedback_never_shown [OF r] p r show ?thesis
    by (simp add: dispatch_click_def template_init_def)
qed

end
