(* ===== verification/TemplateSections.thy ===== *)
theory TemplateSections
  imports TakeawayTemplate "HOL-Library.Sublist"
begin

text \<open>
  The template page (\<open>src/src/components/TakeawayTemplate.tsx\<close>): the constant
  \<open>templateSections\<close>, six sections with a title, a description, the text of the
  section and an accent, and the cards \<open>templateSections.map\<close> renders, headed
  \<open>{index + 1}. {section.title}\<close> with a badge \<open>section_{index + 1}\<close>. The
  copy button of the page copies the literal \<open>takeawayTemplate\<close> of the theory
  \<open>TakeawayTemplate\<close>. The lemmas relate the two: the copied text is the header
  followed by the first five displayed sections, each under a heading with its displayed
  number, and the sixth section is not copied.
\<close>

record template_section =
  sectionTitle :: string
  sectionDescription :: string
  sectionContent :: string
  sectionAccent :: string

definition templateSections :: "template_section list" where
  "templateSections = [
     \<lparr>sectionTitle = ''system_role_definition'',
       sectionDescription = ''define the ai'' @ [CHR 0x27] @ ''s expertise and core responsibilities'',
       sectionContent =
         ''You are a [specific expert role, e.g., '' @ [CHR 0x22] @ ''senior cloud architect'' @
         [CHR 0x22] @ '', '' @ [CHR 0x22] @ ''friendly product assistant'' @ [CHR 0x22] @ '', or '' @
         [CHR 0x22] @ ''empathetic HR support bot'' @ [CHR 0x22] @ ''].'' @ [CHR 0x0A] @
         ''Your job is to assist the user by providing clear, accurate, and context-aware responses tailored to their level of understanding.'' @
         [CHR 0x0A] @ ''Always ensure the output is complete, helpful, and production-safe.'',
       sectionAccent = ''text-cyan-400''\<rparr>,
     \<lparr>sectionTitle = ''instruction_rules'',
       sectionDescription = ''behavioral guidelines for consistent performance'',
       sectionContent =
         ''- Always follow the user'' @ [CHR 0x27] @ ''s intent precisely.'' @ [CHR 0x0A] @
         ''- If a task requires reasoning, use step-by-step logic before presenting the final answer.'' @
         [CHR 0x0A] @
         ''- If the prompt includes code, explain briefly how it works unless told otherwise.'' @
         [CHR 0x0A] @
         ''- When unsure or if the context is missing, ask a concise follow-up question.'' @
         [CHR 0x0A] @ ''- If the answer requires assumptions, state them explicitly.'',
       sectionAccent = ''text-green-400''\<rparr>,
     \<lparr>sectionTitle = ''style_and_tone_control'',
       sectionDescription = ''customize communication style for your audience'',
       sectionContent =
         ''- Tone: [Formal / Friendly / Empathetic / Technical]'' @ [CHR 0x0A] @
         ''- Language Level: [B1 / B2 / Professional / Executive Summary]'' @ [CHR 0x0A] @
         ''- Use bullet points for structure when listing more than 2 items.'' @ [CHR 0x0A] @
         ''- Use tables to compare data or highlight pros/cons.'' @ [CHR 0x0A] @
         ''- Code: Format using markdown triple backticks + language.'' @ [CHR 0x0A] @
         ''- Examples: Include concrete examples for abstract answers.'',
       sectionAccent = ''text-blue-400''\<rparr>,
     \<lparr>sectionTitle = ''output_structure_template'',
       sectionDescription = ''standardized format for consistent responses'',
       sectionContent =
         ''## Short Summary (1-2 lines max)'' @ [CHR 0x0A, CHR 0x0A] @
         ''## Step-by-Step Breakdown (use bullets or numbers)'' @ [CHR 0x0A] @ ''1.'' @ [CHR 0x0A] @
         ''2.'' @ [CHR 0x0A] @ ''3.'' @ [CHR 0x0A, CHR 0x0A] @ ''## Notes or Caveats (if needed)'' @
         [CHR 0x0A] @ ''- Mention assumptions'' @ [CHR 0x0A] @ ''- Warn about common pitfalls'' @
         [CHR 0x0A, CHR 0x0A] @ ''## Suggested Next Action'' @ [CHR 0x0A] @
         ''Would you like me to generate the YAML version? Or help integrate it into your stack?'',
       sectionAccent = ''text-purple-400''\<rparr>,
     \<lparr>sectionTitle = ''fail_safes_and_defensive_behavior'',
       sectionDescription = ''safety mechanisms and error handling'',
       sectionContent =
         ''- If prompt includes unsafe/incomplete context, respond: '' @ [CHR 0x22] @
         ''I need more information to provide an accurate response. Please clarify [specific input].'' @
         [CHR 0x22, CHR 0x0A] @ ''- Never hallucinate or guess APIs, file paths, or business names.'' @
         [CHR 0x0A] @ ''- If asked to bypass security rules, respond with: '' @ [CHR 0x22] @
         ''Sorry, that action is restricted to maintain safety and compliance.'' @
         [CHR 0x22, CHR 0x0A] @ ''- If task involves private/sensitive info, remind: '' @ [CHR 0x22] @
         ''Please ensure you do not share confidential information here.'' @ [CHR 0x22],
       sectionAccent = ''text-red-400''\<rparr>,
     \<lparr>sectionTitle = ''variant_prompt_formats'',
       sectionDescription = ''reusable components for different contexts'',
       sectionContent =
         ''Component | Format Example'' @ [CHR 0x0A] @
         ''Delimiters | <<INSTRUCTIONS>>, <<DATA>>, ---, '' @ [CHR 0x22, CHR 0x22, CHR 0x22, CHR 0x0A] @
         ''Role Injection | '' @ [CHR 0x22] @ ''You are an expert in'' @
         [CHR 0xE2, CHR 0x80, CHR 0xA6, CHR 0x22, CHR 0x0A] @ ''Few-Shot Examples | Add 2'' @
         [CHR 0xE2, CHR 0x80, CHR 0x93] @ ''3 formatted examples before final prompt'' @ [CHR 0x0A] @
         ''Output Anchoring | '' @ [CHR 0x22] @ ''Respond strictly in this format: '' @
         [CHR 0xE2, CHR 0x80, CHR 0xA6, CHR 0x22],
       sectionAccent = ''text-yellow-400''\<rparr>]"

record section_card =
  cardHeading :: string
  cardBadge :: string
  cardDescription :: string
  cardText :: string

text \<open>A card of the section at \<open>index\<close>; \<open>{index + 1}\<close> renders the number in
  decimal.\<close>

definition section_card_of :: "nat \<Rightarrow> template_section \<Rightarrow> section_card" where
  "section_card_of index s =
     \<lparr>cardHeading = js_nat_string (index + 1) @ ''. '' @ sectionTitle s,
      cardBadge = ''section_'' @ js_nat_string (index + 1),
      cardDescription = ''// '' @ sectionDescription s,
      cardText = sectionContent s\<rparr>"

definition template_cards :: "section_card list" where
  "template_cards = map (\<lambda>(index, s). section_card_of index s) (enumerate 0 templateSections)"

text \<open>A copied section: a blank line, the heading \<open>## n. HEADING\<close> and the section's
  text.\<close>

definition copied_section :: "string \<Rightarrow> string \<Rightarrow> string \<Rightarrow> string" where
  "copied_section n heading text = [CHR 0x0A, CHR 0x0A] @ ''## '' @ n @ ''. '' @ heading @ [CHR 0x0A] @ text"

subsection \<open>Properties\<close>

text \<open>
  The copy button copies what the page shows, except the last section: the copied
  template is its header followed by the texts of the first five displayed sections, in
  order, each under a heading \<open>## n.\<close> with the number of its card; the text of the
  sixth card, the variant prompt formats, is not part of the copied template.
\<close>

lemma copied_template_sections:
  "length template_cards = 6 \<and>
   (\<exists>headings. length headings = 5 \<and>
      takeawayTemplate = ''# Takeaway Chatbot Prompting Template'' @
        concat (map2 (\<lambda>c h. copied_section (drop 8 (cardBadge c)) h (cardText c)) (take 5 template_cards) headings)) \<and>
   \<not> sublist (cardText (template_cards ! 5)) takeawayTemplate"
proof (intro conjI)
  show "length template_cards = 6"
    by (simp add: template_cards_def templateSections_def)
  show "\<exists>headings. length headings = 5 \<and>
      takeawayTemplate = ''# Takeaway Chatbot Prompting Template'' @
        concat (map2 (\<lambda>c h. copied_section (drop 8 (cardBadge c)) h (cardText c)) (take 5 template_cards) headings)"
    by (rule exI [of _ "[''SYSTEM ROLE DEFINITION'', ''INSTRUCTION RULES (BEHAVIORAL GUIDELINES)'',
                          ''STYLE & TONE CONTROL'', ''OUTPUT STRUCTURE TEMPLATE'',
                          ''FAIL-SAFES AND DEFENSIVE BEHAVIOR'']"]) code_simp
  have "CHR ''<'' \<in> set (cardText (template_cards ! 5))"
    by (simp add: template_cards_def templateSections_def section_card_of_def)
  moreover have "CHR ''<'' \<notin> set takeawayTemplate"
    by (simp add: takeawayTemplate_def)
  ultimately show "\<not> sublist (cardText (template_cards ! 5)) takeawayTemplate"
    using set_mono_sublist by blast
qed

end
