(* ===== verification/Shell.thy ===== *)
theory Shell
  imports Router
begin

text \<open>
  The frame of the application as \<open>App\<close> renders it (\<open>src/src/App.tsx\<close>): the sidebar
  (\<open>src/src/components/Sidebar.tsx\<close>, its JSX under \<open>return\<close>) and the \<open>main\<close>
  element whose left margin makes room for it, and the unmounted top bar
  (\<open>src/src/components/Navigation.tsx\<close>). Both widths are Tailwind classes; their sizes
  are read with Tailwind's default spacing scale and breakpoints, since no configuration
  is part of \<open>src/\<close>, and no stylesheet of \<open>src/\<close> sizes these elements. The lemmas
  show that the sidebar highlights the item of the section on screen, and relate the margin
  of the content to the width of the sidebar at every viewport width.
\<close>

subsection \<open>Tailwind sizes\<close>

text \<open>A spacing class \<open>w-n\<close> or \<open>ml-n\<close> sets a width or a left margin of \<open>n\<close> units of
  \<open>0.25rem\<close>, that is \<open>4n\<close> pixels at the default root font size. A class prefixed
  \<open>lg:\<close> applies only while the viewport is at least 1024 pixels wide.\<close>

definition tw_spacing :: "string \<Rightarrow> string \<Rightarrow> nat option" where
  "tw_spacing prefix cls =
     (if take (length prefix) cls = prefix
      then map_option (\<lambda>n. 4 * n) (parse_nat_string (drop (length prefix) cls)) else None)"

definition tw_applies :: "nat \<Rightarrow> string \<Rightarrow> string option" where
  "tw_applies viewport cls =
     (if take 3 cls = ''lg:'' then (if 1024 \<le> viewport then Some (drop 3 cls) else None) else Some cls)"

text \<open>The pixels a \<open>className\<close> gives to a property: the first of its classes (the
  pieces between spaces) that applies and has the prefix, none if there is none.\<close>

fun tw_size :: "nat \<Rightarrow> string \<Rightarrow> string list \<Rightarrow> nat" where
  "tw_size viewport prefix [] = 0"
| "tw_size viewport prefix (c # cs) =
     (case tw_applies viewport c of
        None \<Rightarrow> tw_size viewport prefix cs
      | Some c' \<Rightarrow> (case tw_spacing prefix c' of None \<Rightarrow> tw_size viewport prefix cs | Some n \<Rightarrow> n))"

subsection \<open>The sidebar\<close>

record sidebar_item_view =
  itemId :: string
  itemHighlighted :: bool
  itemText :: "(string \<times> string) option"

record sidebar_view =
  sidebarClassName :: string
  sidebarHeader :: bool
  sidebarItems :: "sidebar_item_view list"
  sidebarFooterMark :: bool

text \<open>The sidebar for the active section and the value of \<open>collapsed\<close>: the width class
  \<open>w-16\<close> or \<open>w-64\<close>, the title only while expanded, a button per item, highlighted
  (with its active indicator) while \<open>activeSection === item.id\<close> and showing label and
  description only while expanded, and the footer's \<open>&gt;\<close> while collapsed.\<close>

definition sidebar_render :: "string \<Rightarrow> bool \<Rightarrow> sidebar_view" where
  "sidebar_render active collapsed =
     \<lparr>sidebarClassName = ''fixed left-0 top-0 h-full bg-black/95 border-r border-gray-800/50 backdrop-blur-xl transition-all duration-300 z-40 ''
                         @ (if collapsed then ''w-16'' else ''w-64''),
      sidebarHeader = (\<not> collapsed),
      sidebarItems = map (\<lambda>i. \<lparr>itemId = navId i, itemHighlighted = (active = navId i),
                                itemText = (if collapsed then None else Some (navLabel i, navDescription i))\<rparr>)
                       navItems,
      sidebarFooterMark = collapsed\<rparr>"

subsection \<open>The frame of \<open>App\<close>\<close>

record app_view =
  appSidebar :: sidebar_view
  mainClassName :: string
  mainContent :: section_view

text \<open>\<open>App\<close> passes \<open>isCollapsed={sidebarCollapsed}\<close> and an \<open>onToggleCollapse\<close>, so
  the sidebar is controlled; \<open>main\<close> has the class \<open>lg:ml-16\<close> or \<open>lg:ml-64\<close>.\<close>

definition app_render :: "app_state \<Rightarrow> app_view" where
  "app_render s =
     \<lparr>appSidebar = sidebar_render (activeSection s) (sidebar_collapsed True (sidebarCollapsed s) (sidebar s)),
      mainClassName = ''min-h-screen transition-all duration-300 '' @ (if sidebarCollapsed s then ''lg:ml-16'' else ''lg:ml-64''),
      mainContent = renderContent (activeSection s)\<rparr>"

text \<open>The width of the sidebar and the left margin of the content, in pixels, at a viewport
  width.\<close>

definition sidebar_width :: "nat \<Rightarrow> app_view \<Rightarrow> nat" where
  "sidebar_width viewport v = tw_size viewport ''w-'' (js_split CHR '' '' (sidebarClassName (appSidebar v)))"

definition content_margin :: "nat \<Rightarrow> app_view \<Rightarrow> nat" where
  "content_margin viewport v = tw_size viewport ''ml-'' (js_split CHR '' '' (mainClassName v))"

subsection \<open>The unmounted top bar\<close>

record navigation_view =
  navBackdrop :: bool
  desktopButtons :: "(string \<times> bool) list"
  menuIconOpen :: bool
  mobileMenuShown :: bool
  mobileButtons :: "(string \<times> bool) list"

text \<open>\<open>Navigation\<close> for the active section: the backdrop while \<open>isScrolled\<close>, a button per
  section in both menus, highlighted while \<open>activeSection === section.id\<close>, and the
  mobile menu expanded (\<open>max-h-96 opacity-100\<close>) while \<open>isMenuOpen\<close>.\<close>

definition navigation_render :: "string \<Rightarrow> navigation_state \<Rightarrow> navigation_view" where
  "navigation_render active st =
     \<lparr>navBackdrop = isScrolled st,
      desktopButtons = map (\<lambda>(sid, label). (label, active = sid)) navSections,
      menuIconOpen = isMenuOpen st,
      mobileMenuShown = isMenuOpen st,
      mobileButtons = map (\<lambda>(sid, label). (label, active = sid)) navSections\<rparr>"

subsection \<open>Lemmas\<close>

lemma sidebar_width_app_render:
  "sidebar_width viewport (app_render s) = (if sidebarCollapsed s then 64 else 256)"
  by (cases "sidebarCollapsed s")
     (simp_all add: sidebar_width_def app_render_def sidebar_render_def sidebar_collapsed_def, code_simp+)

lemma content_margin_app_render:
  "content_margin viewport (app_render s) =
     (if 1024 \<le> viewport then (if sidebarCollapsed s then 64 else 256) else 0)"
  by (cases "sidebarCollapsed s"; cases "1024 \<le> viewport")
     (simp_all add: content_margin_def app_render_def tw_applies_def tw_spacing_def, code_simp+)

text \<open>The top bar highlights no button for a section it does not list (the framing section
  and the examples page).\<close>

lemma navigation_no_highlight:
  "a \<notin> set (map fst navSections) \<Longrightarrow>
   filter snd (desktopButtons (navigation_render a st)) = [] \<and>
   filter snd (mobileButtons (navigation_render a st)) = []"
  by (force simp: navigation_render_def filter_empty_conv)

lemma highlighted_items:
  "map itemId (filter itemHighlighted (sidebarItems (sidebar_render a c))) = filter ((=) a) (map navId navItems)"
  by (simp add: sidebar_render_def filter_map comp_def)

lemma renderContent_nav_inj:
  assumes "i \<in> set navItems" and "j \<in> set navItems"
  shows "(renderContent (navId i) = renderContent (navId j)) = (navId i = navId j)"
proof -
  have "inj_on (\<lambda>i. renderContent (navId i)) (set navItems)"
    using sidebar_views_distinct by (simp add: distinct_map)
  with assms show ?thesis by (auto dest: inj_onD)
qed

subsection \<open>Properties\<close>

text \<open>
  C21. What the sidebar highlights is what is on screen: the sections the router can reach
  are exactly the ids of the sidebar items, and in every reachable state the rendered
  sidebar highlights exactly the item of the active section, whose section component is
  the one \<open>main\<close> renders, and no other item's component is.
\<close>

theorem sidebar_shows_mounted_section:
  "{activeSection s |s. app_reachable s} = set (map navId navItems) \<and>
   (\<forall>s. app_reachable s \<longrightarrow>
      map itemId (filter itemHighlighted (sidebarItems (appSidebar (app_render s)))) = [activeSection s] \<and>
      (\<forall>i \<in> set navItems. (renderContent (navId i) = mainContent (app_render s)) = (navId i = activeSection s)))"
proof (intro conjI allI impI ballI)
  show "{activeSection s |s. app_reachable s} = set (map navId navItems)"
    using reachable_sections_exact by blast
next
  fix s assume r: "app_reachable s"
  then have act: "activeSection s \<in> set (map navId navItems)" by (rule app_reachable_section)
  then show "map itemId (filter itemHighlighted (sidebarItems (appSidebar (app_render s)))) = [activeSection s]"
    by (simp add: app_render_def highlighted_items filter_eq_distinct distinct_nav_ids)
  fix i assume i: "i \<in> set navItems"
  from act obtain j where j: "j \<in> set navItems" "activeSection s = navId j" by auto
  show "(renderContent (navId i) = mainContent (app_render s)) = (navId i = activeSection s)"
    using renderContent_nav_inj [OF i j(1)] j(2) by (simp add: app_render_def)
qed

theorem sidebar_shows_mounted_section_witness:
  "app_reachable (app_step (SidebarClick ''examples'') app_init) \<and>
   map itemId (filter itemHighlighted (sidebarItems (appSidebar (app_render (app_step (SidebarClick ''examples'') app_init)))))
     = [''examples''] \<and>
   mainContent (app_render (app_step (SidebarClick ''examples'') app_init)) = ExamplesView"
proof -
  have r: "app_reachable (app_step (SidebarClick ''examples'') app_init)"
    by (rule app_reachable_click) (simp add: nav_ids)
  have i: "\<lparr>navId = ''examples'', navLabel = ''Examples'', navDescription = ''Real-world Examples''\<rparr> \<in> set navItems"
    by (simp add: navItems_def)
  have a: "activeSection (app_step (SidebarClick ''examples'') app_init) = ''examples''"
    by (rule app_step_click_section)
  from sidebar_shows_mounted_section r i
  have "map itemId (filter itemHighlighted (sidebarItems (appSidebar (app_render (app_step (SidebarClick ''examples'') app_init)))))
          = [activeSection (app_step (SidebarClick ''examples'') app_init)]"
    and "(renderContent ''examples'' = mainContent (app_render (app_step (SidebarClick ''examples'') app_init)))
          = (''examples'' = activeSection (app_step (SidebarClick ''examples'') app_init))"
    by fastforce+
  with r a show ?thesis by (simp add: renderContent_def)
qed

text \<open>
  C19. The content makes room for the sidebar only on wide viewports: from 1024 pixels on,
  the left margin of \<open>main\<close> equals the width of the sidebar, collapsed or not; below,
  \<open>main\<close> has no left margin while the fixed sidebar is at least 64 pixels wide, and the
  resize handler collapses it to exactly 64 pixels there.
\<close>

theorem content_clears_sidebar:
  "(1024 \<le> viewport \<longrightarrow> content_margin viewport (app_render s) = sidebar_width viewport (app_render s)) \<and>
   (viewport < 1024 \<longrightarrow>
      content_margin viewport (app_render s) = 0 \<and> 64 \<le> sidebar_width viewport (app_render s) \<and>
      sidebar_width viewport (app_render (app_step (Resize viewport) s)) = 64)"
  by (simp add: content_margin_app_render sidebar_width_app_render app_step_def handleResize_def Let_def)

theorem content_clears_sidebar_witness:
  "(800::nat) < 1024 \<and> content_margin 800 (app_render app_init) = 0 \<and>
   sidebar_width 800 (app_render app_init) = 256 \<and>
   sidebar_width 800 (app_render (app_step (Resize 800) app_init)) = 64 \<and>
   1024 \<le> (1280::nat) \<and> content_margin 1280 (app_render app_init) = sidebar_width 1280 (app_render app_init)"
  using content_clears_sidebar [of 800 app_init] content_clears_sidebar [of 1280 app_init]
  by (simp add: sidebar_width_app_render app_init_def)

end
