(* ===== verification/SummarySection.thy ===== *)
theory SummarySection
  imports Prelude
begin

text \<open>
  The executive summary (\<open>src/src/components/ExecutiveSummary.tsx\<close>, function
  \<open>ExecutiveSummary\<close>): a section without state or handlers. Its data is the constant
  array \<open>keyThemes\<close> and the inline array of key takeaways; its render maps each theme to
  a card and each takeaway to a line. The model keeps the texts the cards show and the
  accent class; icons and the surrounding static markup are left out.
\<close>

record key_theme =
  themeTitle :: string
  themeDescription :: string
  themeAccent :: string

definition keyThemes :: "key_theme list" where
  "keyThemes = [
     \<lparr>themeTitle = ''fundamentals'',
       themeDescription = ''understanding prompt objectives, types, and architecture-aware design principles for effective AI interaction'',
       themeAccent = ''text-green-400''\<rparr>,
     \<lparr>themeTitle = ''strategies'',
       themeDescription = ''advanced techniques like chain-of-thought, self-consistency, and tree-of-thoughts for complex reasoning'',
       themeAccent = ''text-cyan-400''\<rparr>,
     \<lparr>themeTitle = ''psychology'',
       themeDescription = ''psychological framing, tone and style, role playing, and emotional intelligence'',
       themeAccent = ''text-blue-400''\<rparr>,
     \<lparr>themeTitle = ''examples'',
       themeDescription = ''real-world examples of prompts and their applications, methods and techniques used to create them'',
       themeAccent = ''text-red-400''\<rparr>,
     \<lparr>themeTitle = ''design_principles'',
       themeDescription = ''best practices for clarity, specificity, iterative refinement, and systematic evaluation'',
       themeAccent = ''text-purple-400''\<rparr>,
     \<lparr>themeTitle = ''evaluation'',
       themeDescription = ''comprehensive assessment methods from human evaluation to automated testing frameworks'',
       themeAccent = ''text-yellow-400''\<rparr>]"

text \<open>The array literal the key takeaways are mapped from.\<close>

definition keyTakeaways :: "string list" where
  "keyTakeaways = [''effective prompting requires understanding both the task and the model'' @ [CHR 0x27] @
      ''s capabilities'',
      ''advanced techniques like CoT and self-consistency significantly improve performance'',
      ''systematic evaluation is crucial for production deployment'',
      ''modern tools and frameworks enable scalable prompt engineering workflows'']"

record summary_view =
  themeCards :: "(string \<times> string \<times> string) list"
  takeawayLines :: "string list"

text \<open>A theme card: the accent class, \<open>./{theme.title}\<close> and \<open>// {theme.description}\<close>;
  a takeaway line: \<open>// {takeaway}\<close>.\<close>

definition summary_render :: summary_view where
  "summary_render =
     \<lparr>themeCards = map (\<lambda>t. (themeAccent t, ''./'' @ themeTitle t, ''// '' @ themeDescription t)) keyThemes,
      takeawayLines = map (\<lambda>x. ''// '' @ x) keyTakeaways\<rparr>"

end
