(* ===== verification/FundamentalsSection.thy ===== *)
theory FundamentalsSection
  imports Prelude
begin

text \<open>
  The fundamentals section (\<open>src/src/components/Fundamentals.tsx\<close>, function
  \<open>Fundamentals\<close>): a section without state or handlers. Its data is three constant
  arrays, the core objectives, the prompt types and the architecture-aware principles;
  its render maps each to a grid of cards. The model keeps the texts the cards show and
  the accent class; icons and the static headings are left out.
\<close>

record objective =
  objTitle :: string
  objDescription :: string
  objExample :: string
  objAccent :: string

definition objectives :: "objective list" where
  "objectives = [
     \<lparr>objTitle = ''clarity'',
       objDescription = ''make your intent crystal clear to the model'',
       objExample = ''instead of '' @ [CHR 0x27] @ ''analyze this'' @ [CHR 0x27] @ '', use '' @ [CHR 0x27] @
         ''identify the main themes and sentiment in this customer review'' @ [CHR 0x27],
       objAccent = ''text-cyan-400''\<rparr>,
     \<lparr>objTitle = ''specificity'',
       objDescription = ''provide precise instructions and constraints'',
       objExample = ''generate a 150-word summary focusing on technical features and pricing'',
       objAccent = ''text-green-400''\<rparr>,
     \<lparr>objTitle = ''context'',
       objDescription = ''give the model relevant background information'',
       objExample = ''you are a financial advisor helping a 30-year-old plan for retirement'',
       objAccent = ''text-blue-400''\<rparr>,
     \<lparr>objTitle = ''role_definition'',
       objDescription = ''establish the model'' @ [CHR 0x27] @ ''s persona and expertise'',
       objExample = ''act as a senior software engineer reviewing code for security vulnerabilities'',
       objAccent = ''text-purple-400''\<rparr>]"

record prompt_type =
  ptType :: string
  ptDescription :: string
  ptExample :: string
  ptBestPractice :: string
  ptAccent :: string

definition promptTypes :: "prompt_type list" where
  "promptTypes = [
     \<lparr>ptType = ''zero_shot'',
       ptDescription = ''direct instruction without examples'',
       ptExample = ''translate the following english text to french: '' @ [CHR 0x27] @ ''hello, how are you?'' @
         [CHR 0x27],
       ptBestPractice = ''use clear, specific instructions with well-defined output format'',
       ptAccent = ''text-cyan-400''\<rparr>,
     \<lparr>ptType = ''few_shot'',
       ptDescription = ''provide examples to guide the model'',
       ptExample = ''classify sentiment:'' @ [CHR 0x0A] @ ''text: '' @ [CHR 0x27] @ ''i love this product!'' @
         [CHR 0x27] @ '' '' @ [CHR 0xE2, CHR 0x86, CHR 0x92] @ '' positive'' @ [CHR 0x0A] @
         ''text: '' @ [CHR 0x27] @ ''this is terrible'' @ [CHR 0x27] @ '' '' @
         [CHR 0xE2, CHR 0x86, CHR 0x92] @ '' negative'' @ [CHR 0x0A] @ ''text: '' @ [CHR 0x27] @
         ''it'' @ [CHR 0x27] @ ''s okay'' @ [CHR 0x27] @ '' '' @ [CHR 0xE2, CHR 0x86, CHR 0x92] @
         '' ?'',
       ptBestPractice = ''use diverse, high-quality examples that cover edge cases'',
       ptAccent = ''text-green-400''\<rparr>,
     \<lparr>ptType = ''chain_of_thought'',
       ptDescription = ''guide the model through step-by-step reasoning'',
       ptExample = ''let'' @ [CHR 0x27] @ ''s solve this step by step:'' @ [CHR 0x0A] @
         ''1. first, identify the key variables'' @ [CHR 0x0A] @ ''2. then, apply the formula'' @
         [CHR 0x0A] @ ''3. finally, verify the result'',
       ptBestPractice = ''break complex problems into logical, sequential steps'',
       ptAccent = ''text-blue-400''\<rparr>,
     \<lparr>ptType = ''system_prompts'',
       ptDescription = ''set persistent behavior and constraints'',
       ptExample = ''you are a helpful assistant that always responds in json format with '' @ [CHR 0x27] @
         ''response'' @ [CHR 0x27] @ '' and '' @ [CHR 0x27] @ ''confidence'' @ [CHR 0x27] @
         '' fields'',
       ptBestPractice = ''define clear boundaries and consistent behavior patterns'',
       ptAccent = ''text-purple-400''\<rparr>]"

record arch_principle =
  apPrinciple :: string
  apDescription :: string
  apTips :: "string list"
  apAccent :: string

definition architecturePrinciples :: "arch_principle list" where
  "architecturePrinciples = [
     \<lparr>apPrinciple = ''token_efficiency'',
       apDescription = ''optimize for context window usage'',
       apTips = [''use concise language'',
          ''prioritize essential information'',
          ''consider token costs''],
       apAccent = ''text-cyan-400''\<rparr>,
     \<lparr>apPrinciple = ''model_capabilities'',
       apDescription = ''align prompts with model strengths'',
       apTips = [''leverage model'' @ [CHR 0x27] @ ''s training data'',
          ''avoid tasks beyond model scope'',
          ''use appropriate complexity''],
       apAccent = ''text-green-400''\<rparr>,
     \<lparr>apPrinciple = ''error_handling'',
       apDescription = ''design for graceful failure modes'',
       apTips = [''specify fallback behaviors'',
          ''handle edge cases'',
          ''validate outputs''],
       apAccent = ''text-yellow-400''\<rparr>,
     \<lparr>apPrinciple = ''scalability'',
       apDescription = ''design for production deployment'',
       apTips = [''version control prompts'',
          ''enable a/b testing'',
          ''monitor performance''],
       apAccent = ''text-purple-400''\<rparr>]"

record fundamentals_view =
  objectiveCards :: "(string \<times> string \<times> string \<times> string) list"
  promptTypeCards :: "(string \<times> string \<times> string \<times> string \<times> string) list"
  principleCards :: "(string \<times> string \<times> string \<times> string list) list"

text \<open>An objective card: accent, \<open>./{title}\<close>, \<open>// {description}\<close> and the example; a
  prompt type card: accent, \<open>./{type}\<close>, \<open>// {description}\<close>, the example and the best
  practice; a principle card: accent, \<open>./{principle}\<close>, \<open>// {description}\<close> and a line
  \<open>// {tip}\<close> per tip.\<close>

definition fundamentals_render :: fundamentals_view where
  "fundamentals_render =
     \<lparr>objectiveCards = map (\<lambda>ob. (objAccent ob, ''./'' @ objTitle ob, ''// '' @ objDescription ob, objExample ob))
                        objectives,
      promptTypeCards = map (\<lambda>t. (ptAccent t, ''./'' @ ptType t, ''// '' @ ptDescription t, ptExample t,
                                    ptBestPractice t)) promptTypes,
      principleCards = map (\<lambda>p. (apAccent p, ''./'' @ apPrinciple p, ''// '' @ apDescription p,
                                   map (\<lambda>x. ''// '' @ x) (apTips p))) architecturePrinciples\<rparr>"

end
