(* ===== verification/TasksSection.thy ===== *)
theory TasksSection
  imports Prelude
begin

text \<open>
  The task-specific section (\<open>src/src/components/TaskSpecific.tsx\<close>, function
  \<open>TaskSpecific\<close>): a section without state or handlers. Its data is the constant array
  \<open>tasks\<close>; its render maps each task to a card headed with a name computed from the
  title, \<open>./{task.title.toLowerCase().replace(/\<dots>/g, '_')}\<close>, which lowercases the title
  and replaces each run of white space by an underscore. The model keeps the texts the
  cards show; icons and the static markup are left out.
\<close>

record task =
  taskTitle :: string
  taskDescription :: string
  taskTips :: "string list"
  taskPitfalls :: "string list"
  taskMitigation :: string
  taskExample :: string

definition tasks :: "task list" where
  "tasks = [
     \<lparr>taskTitle = ''Classification'',
       taskDescription = ''Categorize text into predefined classes'',
       taskTips = [''Provide clear class definitions'',
          ''Include edge case examples'',
          ''Ask for confidence scores'',
          ''Request reasoning for transparency''],
       taskPitfalls = [''Ambiguous class boundaries'',
          ''Insufficient examples'',
          ''Bias in training examples''],
       taskMitigation = ''Use balanced examples and clear criteria'',
       taskExample = ''Classify the following email as: spam, promotional, or personal'' @ [CHR 0x0A, CHR 0x0A] @
         ''Email: '' @ [CHR 0x22] @ ''Congratulations! You'' @ [CHR 0x27] @
         ''ve won $1000! Click here to claim your prize!'' @ [CHR 0x22, CHR 0x0A, CHR 0x0A] @
         ''Classification: spam'' @ [CHR 0x0A] @ ''Confidence: high'' @ [CHR 0x0A] @
         ''Reasoning: Contains typical spam indicators (fake prizes, urgency, suspicious links)''\<rparr>,
     \<lparr>taskTitle = ''Summarization'',
       taskDescription = ''Extract key information and create concise summaries'',
       taskTips = [''Specify desired length'',
          ''Define focus areas'',
          ''Request structured output'',
          ''Include key metrics''],
       taskPitfalls = [''Loss of important details'',
          ''Inconsistent length'',
          ''Missing context''],
       taskMitigation = ''Use hierarchical summaries and validation checks'',
       taskExample = ''Summarize the following article in 3 bullet points, focusing on key findings:'' @
         [CHR 0x0A, CHR 0x0A] @ ''[Article text...]'' @ [CHR 0x0A, CHR 0x0A] @ ''Summary:'' @
         [CHR 0x0A, CHR 0xE2, CHR 0x80, CHR 0xA2] @ '' Main finding 1 with supporting data'' @
         [CHR 0x0A, CHR 0xE2, CHR 0x80, CHR 0xA2] @ '' Key insight 2 with implications  '' @
         [CHR 0x0A, CHR 0xE2, CHR 0x80, CHR 0xA2] @ '' Important conclusion 3 with next steps''\<rparr>,
     \<lparr>taskTitle = ''Data Extraction'',
       taskDescription = ''Extract structured information from unstructured text'',
       taskTips = [''Define exact output schema'',
          ''Handle missing fields gracefully'',
          ''Validate extracted data'',
          ''Use consistent formatting''],
       taskPitfalls = [''Inconsistent field formats'',
          ''Missing required fields'',
          ''Hallucinated information''],
       taskMitigation = ''Strict schema validation and confidence scoring'',
       taskExample = ''Extract the following information from this job posting:'' @ [CHR 0x0A, CHR 0x0A] @
         ''Job Posting: '' @ [CHR 0x22] @
         ''Senior Software Engineer at TechCorp, $120k-150k, Remote, React/Node.js required'' @
         [CHR 0x22, CHR 0x0A, CHR 0x0A] @ ''{'' @ [CHR 0x0A] @ ''  '' @ [CHR 0x22] @ ''title'' @
         [CHR 0x22] @ '': '' @ [CHR 0x22] @ ''Senior Software Engineer'' @ [CHR 0x22] @ '','' @
         [CHR 0x0A] @ ''  '' @ [CHR 0x22] @ ''company'' @ [CHR 0x22] @ '': '' @ [CHR 0x22] @
         ''TechCorp'' @ [CHR 0x22] @ '','' @ [CHR 0x0A] @ ''  '' @ [CHR 0x22] @ ''salary_range'' @
         [CHR 0x22] @ '': '' @ [CHR 0x22] @ ''$120k-150k'' @ [CHR 0x22] @ '','' @ [CHR 0x0A] @
         ''  '' @ [CHR 0x22] @ ''location'' @ [CHR 0x22] @ '': '' @ [CHR 0x22] @ ''Remote'' @
         [CHR 0x22] @ '','' @ [CHR 0x0A] @ ''  '' @ [CHR 0x22] @ ''required_skills'' @ [CHR 0x22] @
         '': ['' @ [CHR 0x22] @ ''React'' @ [CHR 0x22] @ '', '' @ [CHR 0x22] @ ''Node.js'' @
         [CHR 0x22] @ '']'' @ [CHR 0x0A] @ ''}''\<rparr>,
     \<lparr>taskTitle = ''Multi-Step Reasoning'',
       taskDescription = ''Break down complex problems into logical steps'',
       taskTips = [''Break into clear steps'',
          ''Show intermediate calculations'',
          ''Verify final answer'',
          ''Explain reasoning''],
       taskPitfalls = [''Skipping crucial steps'',
          ''Calculation errors'',
          ''Logical inconsistencies''],
       taskMitigation = ''Self-verification and step-by-step validation'',
       taskExample = ''Solve this step-by-step:'' @ [CHR 0x0A, CHR 0x0A] @ ''Problem: A company'' @ [CHR 0x27] @
         ''s revenue grew 25% in Q1, then declined 10% in Q2. If Q2 revenue was $1.35M, what was the original revenue?'' @
         [CHR 0x0A, CHR 0x0A] @ ''Step 1: Let original revenue = X'' @ [CHR 0x0A] @
         ''Step 2: After Q1 growth: X '' @ [CHR 0xC3, CHR 0x97] @ '' 1.25 = 1.25X'' @ [CHR 0x0A] @
         ''Step 3: After Q2 decline: 1.25X '' @ [CHR 0xC3, CHR 0x97] @ '' 0.9 = 1.125X'' @
         [CHR 0x0A] @ ''Step 4: We know 1.125X = $1.35M'' @ [CHR 0x0A] @
         ''Step 5: Therefore X = $1.35M '' @ [CHR 0xC3, CHR 0xB7] @ '' 1.125 = $1.2M'' @
         [CHR 0x0A, CHR 0x0A] @ ''Answer: Original revenue was $1.2M''\<rparr>,
     \<lparr>taskTitle = ''Chat Agents'',
       taskDescription = ''Create conversational AI with consistent personality'',
       taskTips = [''Define clear personality'',
          ''Set behavioral boundaries'',
          ''Handle edge cases'',
          ''Maintain context''],
       taskPitfalls = [''Inconsistent personality'',
          ''Breaking character'',
          ''Inappropriate responses''],
       taskMitigation = ''Strong system prompts and safety guidelines'',
       taskExample = ''You are a helpful customer service agent for TechStore. You are friendly, knowledgeable, and solution-oriented.'' @
         [CHR 0x0A, CHR 0x0A] @ ''Customer: '' @ [CHR 0x22] @ ''My order hasn'' @ [CHR 0x27] @
         ''t arrived and it'' @ [CHR 0x27] @ ''s been 2 weeks!'' @ [CHR 0x22, CHR 0x0A, CHR 0x0A] @
         ''Agent: I understand your frustration, and I sincerely apologize for the delay. Let me help you track down your order right away. Could you please provide your order number so I can investigate what happened and find a solution for you?''\<rparr>]"

record task_card =
  taskHeading :: string
  taskDescriptionLine :: string
  taskTipLines :: "string list"
  taskPitfallLines :: "string list"
  taskMitigationText :: string
  taskExampleText :: string

definition task_heading :: "task \<Rightarrow> string" where
  "task_heading t = ''./'' @ js_replace_space_runs ''_'' (js_lower (taskTitle t))"

text \<open>A task card: the heading, \<open>// {task.description}\<close>, the tips, a line
  \<open>\<bullet> {pitfall}\<close> per pitfall (the bullet as its UTF-8 bytes), the mitigation and the
  example prompt.\<close>

definition task_card_of :: "task \<Rightarrow> task_card" where
  "task_card_of t =
     \<lparr>taskHeading = task_heading t, taskDescriptionLine = ''// '' @ taskDescription t,
      taskTipLines = taskTips t,
      taskPitfallLines = map bullet_line (taskPitfalls t),
      taskMitigationText = taskMitigation t, taskExampleText = taskExample t\<rparr>"

definition tasks_render :: "task_card list" where
  "tasks_render = map task_card_of tasks"

subsection \<open>Lemmas\<close>

lemma task_heading_shape:
  "take 2 (task_heading t) = ''./'' \<and> \<not> list_ex js_is_space (drop 2 (task_heading t))"
proof -
  have "\<not> list_ex js_is_space ''_''" by (simp add: js_is_space_def)
  then show ?thesis by (simp add: task_heading_def js_replace_space_runs_no_space)
qed

lemma task_headings_rendered: "map taskHeading tasks_render = map task_heading tasks"
  by (simp add: tasks_render_def task_card_of_def)

subsection \<open>Properties\<close>

text \<open>
  C35. The heading of every task card is \<open>./\<close> followed by a name without white space;
  the name of a title without white space is the lowercased title; and the five tasks are
  headed \<open>./classification\<close>, \<open>./summarization\<close>, \<open>./data_extraction\<close>,
  \<open>./multi-step_reasoning\<close> and \<open>./chat_agents\<close>, all distinct.
\<close>

theorem task_headings:
  "(\<forall>t. take 2 (task_heading t) = ''./'' \<and> \<not> list_ex js_is_space (drop 2 (task_heading t))) \<and>
   (\<forall>t. \<not> list_ex js_is_space (taskTitle t) \<longrightarrow> task_heading t = ''./'' @ js_lower (taskTitle t)) \<and>
   map taskHeading tasks_render =
     [''./classification'', ''./summarization'', ''./data_extraction'', ''./multi-step_reasoning'',
      ''./chat_agents''] \<and>
   distinct (map taskHeading tasks_render)"
proof (intro conjI allI impI)
  fix t :: task
  show "take 2 (task_heading t) = ''./''" and "\<not> list_ex js_is_space (drop 2 (task_heading t))"
    using task_heading_shape [of t] by simp_all
next
  fix t :: task
  assume "\<not> list_ex js_is_space (taskTitle t)"
  then show "task_heading t = ''./'' @ js_lower (taskTitle t)"
    by (simp add: task_heading_def js_replace_space_runs_id)
next
  have "map task_heading tasks =
     [''./classification'', ''./summarization'', ''./data_extraction'', ''./multi-step_reasoning'',
      ''./chat_agents'']"
    by code_simp
  then show "map taskHeading tasks_render =
     [''./classification'', ''./summarization'', ''./data_extraction'', ''./multi-step_reasoning'',
      ''./chat_agents'']"
    and "distinct (map taskHeading tasks_render)"
    by (simp_all add: task_headings_rendered)
qed

text \<open>The first task, \<open>Classification\<close>, has a title without white space.\<close>

theorem task_headings_witness:
  "\<not> list_ex js_is_space (taskTitle (hd tasks)) \<and> task_heading (hd tasks) = ''./classification''"
proof -
  have n: "\<not> list_ex js_is_space (taskTitle (hd tasks))" by code_simp
  have "js_lower (taskTitle (hd tasks)) = ''classification''" by code_simp
  with n task_headings show ?thesis by simp
qed

end
