(* ===== verification/EvaluationSection.thy ===== *)
theory EvaluationSection
  imports Prelude
begin

text \<open>
  The evaluation section (\<open>src/src/components/Evaluation.tsx\<close>, function
  \<open>Evaluation\<close>): a section without state or handlers. Its data is the constant arrays
  \<open>evaluationMethods\<close> and \<open>evaluationFramework\<close>; its render maps each method to a card
  with its criteria, pros, cons, best practices and numbered workflow, and each phase of the
  framework to a card with its tasks. Icons and the static markup are left out.
\<close>

record evaluation_method =
  evalTitle :: string
  evalDescription :: string
  evalCriteria :: "string list"
  evalPros :: "string list"
  evalCons :: "string list"
  evalBestPractices :: "string list"
  evalWorkflow :: "string list"

definition evaluationMethods :: "evaluation_method list" where
  "evaluationMethods = [
     \<lparr>evalTitle = ''human_evaluation'',
       evalDescription = ''expert reviewers assess prompt outputs for quality and accuracy'',
       evalCriteria = [''accuracy'',
          ''relevance'',
          ''clarity'',
          ''completeness'',
          ''safety''],
       evalPros = [''high_quality_assessment'',
          ''catches_nuanced_issues'',
          ''domain_expertise''],
       evalCons = [''expensive'',
          ''time_consuming'',
          ''subjective'',
          ''not_scalable''],
       evalBestPractices = [''use_multiple_reviewers'',
          ''provide_clear_rubrics'',
          ''include_diverse_perspectives'',
          ''regular_calibration_sessions''],
       evalWorkflow = [''define_evaluation_criteria'',
          ''train_evaluators'',
          ''conduct_blind_reviews'',
          ''aggregate_scores'',
          ''analyze_disagreements'']\<rparr>,
     \<lparr>evalTitle = ''llm_as_judge'',
       evalDescription = ''use another llm to evaluate prompt outputs automatically'',
       evalCriteria = [''coherence'',
          ''factuality'',
          ''helpfulness'',
          ''safety'',
          ''format_compliance''],
       evalPros = [''scalable'',
          ''consistent'',
          ''fast'',
          ''cost_effective''],
       evalCons = [''model_limitations'',
          ''potential_bias'',
          ''requires_good_judge_prompts''],
       evalBestPractices = [''use_stronger_models_as_judges'',
          ''craft_detailed_evaluation_prompts'',
          ''include_reference_examples'',
          ''validate_against_human_judgment''],
       evalWorkflow = [''design_judge_prompts'',
          ''select_evaluation_model'',
          ''run_automated_evaluation'',
          ''aggregate_scores'',
          ''spot_check_results'']\<rparr>,
     \<lparr>evalTitle = ''automated_testing'',
       evalDescription = ''systematic testing with predefined test cases and metrics'',
       evalCriteria = [''pass_rate'',
          ''response_time'',
          ''token_usage'',
          ''error_rate'',
          ''consistency''],
       evalPros = [''objective'',
          ''repeatable'',
          ''fast'',
          ''comprehensive_coverage''],
       evalCons = [''limited_to_measurable_aspects'',
          ''requires_good_test_design''],
       evalBestPractices = [''create_diverse_test_suites'',
          ''include_edge_cases'',
          ''monitor_regression'',
          ''automate_ci_cd_integration''],
       evalWorkflow = [''design_test_cases'',
          ''implement_test_framework'',
          ''run_automated_tests'',
          ''generate_reports'',
          ''track_metrics_over_time'']\<rparr>,
     \<lparr>evalTitle = ''ab_testing'',
       evalDescription = ''compare different prompt versions with real users'',
       evalCriteria = [''user_satisfaction'',
          ''task_completion'',
          ''engagement'',
          ''conversion'',
          ''retention''],
       evalPros = [''real_world_validation'',
          ''statistical_significance'',
          ''user_centric''],
       evalCons = [''requires_traffic'',
          ''longer_timeline'',
          ''complex_setup''],
       evalBestPractices = [''define_clear_hypotheses'',
          ''ensure_statistical_power'',
          ''monitor_for_negative_effects'',
          ''segment_user_groups''],
       evalWorkflow = [''formulate_hypothesis'',
          ''design_experiment'',
          ''implement_tracking'',
          ''run_test'',
          ''analyze_results'']\<rparr>]"

record framework_phase =
  framePhase :: string
  frameTasks :: "string list"

definition evaluationFramework :: "framework_phase list" where
  "evaluationFramework = [
     \<lparr>framePhase = ''planning'',
       frameTasks = [''define_success_metrics'',
          ''choose_evaluation_methods'',
          ''design_test_cases'',
          ''set_up_infrastructure'']\<rparr>,
     \<lparr>framePhase = ''execution'',
       frameTasks = [''run_evaluations'',
          ''collect_data'',
          ''monitor_for_issues'',
          ''document_findings'']\<rparr>,
     \<lparr>framePhase = ''analysis'',
       frameTasks = [''analyze_results'',
          ''identify_patterns'',
          ''compare_methods'',
          ''generate_insights'']\<rparr>,
     \<lparr>framePhase = ''iteration'',
       frameTasks = [''implement_improvements'',
          ''re_test_changes'',
          ''update_baselines'',
          ''plan_next_iteration'']\<rparr>]"

record method_card =
  methodHeading :: string
  methodDescriptionLine :: string
  criteriaChips :: "string list"
  proLines :: "string list"
  conLines :: "string list"
  practiceLines :: "string list"
  workflowSteps :: "(string \<times> string) list"

text \<open>A method card: \<open>./{method.title}\<close>, \<open>// {method.description}\<close>, a chip per
  criterion, \<open>\<bullet> {pro}\<close> and \<open>\<bullet> {con}\<close>, the best practices, and each workflow step
  after its number \<open>{stepIndex + 1}.\<close>.\<close>

definition method_card_of :: "evaluation_method \<Rightarrow> method_card" where
  "method_card_of m =
     \<lparr>methodHeading = ''./'' @ evalTitle m, methodDescriptionLine = ''// '' @ evalDescription m,
      criteriaChips = evalCriteria m, proLines = map bullet_line (evalPros m),
      conLines = map bullet_line (evalCons m), practiceLines = evalBestPractices m,
      workflowSteps = map (\<lambda>(k, x). (js_nat_string (k + 1) @ ''.'', x)) (enumerate 0 (evalWorkflow m))\<rparr>"

record evaluation_view =
  methodCards :: "method_card list"
  phaseCards :: "(string \<times> string list) list"

text \<open>The section: a card per method, and a card per phase with \<open>./{phase.phase}\<close> and
  a line \<open>\<bullet> {task}\<close> per task.\<close>

definition evaluation_render :: evaluation_view where
  "evaluation_render =
     \<lparr>methodCards = map method_card_of evaluationMethods,
      phaseCards = map (\<lambda>p. (''./'' @ framePhase p, map bullet_line (frameTasks p))) evaluationFramework\<rparr>"

subsection \<open>Lemmas\<close>

text \<open>With the section's data: four methods of five steps each.\<close>

lemma evaluation_workflows:
  "map (\<lambda>c. map fst (workflowSteps c)) (methodCards evaluation_render)
     = replicate 4 [''1.'', ''2.'', ''3.'', ''4.'', ''5.'']"
  by code_simp

subsection \<open>Properties\<close>


end
