(* ===== verification/ToolsSection.thy ===== *)
theory ToolsSection
  imports Prelude
begin

text \<open>
  The tools section (\<open>src/src/components/Tools.tsx\<close>, function \<open>Tools\<close>): a section
  without state or handlers. Its data is the constant arrays \<open>toolCategories\<close> (each with
  its tools), \<open>developmentWorkflow\<close> and \<open>promptOps\<close>; its render maps each category to
  a heading and a card per tool, each workflow phase and each PromptOps principle to a card.
  A tool with a demo link also gets the only external link of the application, an anchor
  opened in a new browsing context. Icons and the static markup are left out.
\<close>

text \<open>A tool of a category; the optional property \<open>demoLink\<close> is an option.\<close>

record tool =
  toolName :: string
  toolDescription :: string
  toolFeatures :: "string list"
  toolUseCase :: string
  toolDemoLink :: "string option"

record tool_category =
  category :: string
  categoryDescription :: string
  categoryTools :: "tool list"

definition toolCategories :: "tool_category list" where
  "toolCategories = [
     \<lparr>category = ''frameworks_libraries'', categoryDescription = ''comprehensive platforms for prompt engineering workflows'',
      categoryTools = [
        \<lparr>toolName = ''langchain'',
            toolDescription = ''popular framework for building llm applications with prompt templates and chains'',
            toolFeatures = [''prompt_templates'',
             ''chain_composition'',
             ''memory_management'',
             ''tool_integration''],
            toolUseCase = ''complex_llm_applications_with_multiple_components'',
            toolDemoLink = None\<rparr>,
        \<lparr>toolName = ''dspy'',
            toolDescription = ''programming model for algorithmically optimizing lm prompts and weights'',
            toolFeatures = [''automatic_optimization'',
             ''modular_design'',
             ''metric_driven'',
             ''research_focused''],
            toolUseCase = ''systematic_prompt_optimization_and_research'',
            toolDemoLink = None\<rparr>,
        \<lparr>toolName = ''textgrad'',
            toolDescription = ''automatic differentiation for text optimization using llms'',
            toolFeatures = [''gradient_based_optimization'',
             ''text_differentiation'',
             ''loss_functions'',
             ''backpropagation''],
            toolUseCase = ''advanced_prompt_optimization_with_gradient_methods'',
            toolDemoLink = Some ''https://colab.research.google.com/drive/1ssJ90UlmdK0UNf01Fh8frwtRuXo3QWFo?usp=sharing''\<rparr>]\<rparr>,
     \<lparr>category = ''evaluation_testing'', categoryDescription = ''tools for systematic prompt evaluation and testing'',
      categoryTools = [
        \<lparr>toolName = ''openai_evals'',
            toolDescription = ''framework for evaluating llms with standardized benchmarks'',
            toolFeatures = [''standard_benchmarks'',
             ''custom_evaluations'',
             ''automated_scoring'',
             ''comparison_tools''],
            toolUseCase = ''standardized_model_and_prompt_evaluation'',
            toolDemoLink = None\<rparr>,
        \<lparr>toolName = ''promptlayer'',
            toolDescription = ''platform for prompt engineering with logging and analytics'',
            toolFeatures = [''prompt_logging'',
             ''ab_testing'',
             ''analytics_dashboard'',
             ''version_control''],
            toolUseCase = ''production_prompt_monitoring_and_optimization'',
            toolDemoLink = None\<rparr>,
        \<lparr>toolName = ''guardrails_ai'',
            toolDescription = ''framework for reliable ai outputs with validation and correction'',
            toolFeatures = [''output_validation'',
             ''error_correction'',
             ''safety_checks'',
             ''schema_enforcement''],
            toolUseCase = ''ensuring_reliable_and_safe_ai_outputs'',
            toolDemoLink = None\<rparr>]\<rparr>]"

record workflow_phase =
  phaseName :: string
  phaseDescription :: string
  phaseActivities :: "string list"

definition developmentWorkflow :: "workflow_phase list" where
  "developmentWorkflow = [
     \<lparr>phaseName = ''design'',
       phaseDescription = ''plan and design your prompt strategy'',
       phaseActivities = [''define objectives and success criteria'',
          ''choose appropriate prompting methods'',
          ''design initial prompt templates'',
          ''plan evaluation strategy'']\<rparr>,
     \<lparr>phaseName = ''develop'',
       phaseDescription = ''build and iterate on your prompts'',
       phaseActivities = [''implement prompt templates'',
          ''create test cases and examples'',
          ''set up development environment'',
          ''build evaluation pipeline'']\<rparr>,
     \<lparr>phaseName = ''test'',
       phaseDescription = ''evaluate and validate prompt performance'',
       phaseActivities = [''run automated tests'',
          ''conduct human evaluation'',
          ''perform ab testing'',
          ''analyze performance metrics'']\<rparr>,
     \<lparr>phaseName = ''deploy'',
       phaseDescription = ''deploy to production with monitoring'',
       phaseActivities = [''set up production infrastructure'',
          ''implement monitoring and logging'',
          ''configure alerting systems'',
          ''plan rollback procedures'']\<rparr>,
     \<lparr>phaseName = ''monitor'',
       phaseDescription = ''track performance and iterate'',
       phaseActivities = [''monitor key metrics'',
          ''analyze user feedback'',
          ''identify improvement opportunities'',
          ''plan next iteration'']\<rparr>]"

record promptops_principle =
  principleName :: string
  principleDescription :: string
  principlePractices :: "string list"

definition promptOps :: "promptops_principle list" where
  "promptOps = [
     \<lparr>principleName = ''version_control'',
       principleDescription = ''treat prompts as code with proper versioning'',
       principlePractices = [''use_git_for_prompt_versioning'',
          ''maintain_prompt_changelogs'',
          ''tag_stable_releases'',
          ''branch_for_experiments'']\<rparr>,
     \<lparr>principleName = ''testing_ci_cd'',
       principleDescription = ''automated testing and deployment pipelines'',
       principlePractices = [''automated_prompt_testing'',
          ''continuous_integration'',
          ''staged_deployments'',
          ''rollback_capabilities'']\<rparr>,
     \<lparr>principleName = ''monitoring_observability'',
       principleDescription = ''comprehensive monitoring of prompt performance'',
       principlePractices = [''real_time_performance_tracking'',
          ''error_rate_monitoring'',
          ''cost_optimization_alerts'',
          ''user_satisfaction_metrics'']\<rparr>,
     \<lparr>principleName = ''collaboration'',
       principleDescription = ''team workflows for prompt development'',
       principlePractices = [''shared_prompt_repositories'',
          ''code_review_processes'',
          ''documentation_standards'',
          ''knowledge_sharing'']\<rparr>]"

text \<open>An anchor element: its \<open>href\<close>, \<open>target\<close> and \<open>rel\<close> attributes and its text.\<close>

record anchor =
  linkHref :: string
  linkTarget :: string
  linkRel :: string
  linkLabel :: string

record tool_card =
  toolHeading :: string
  toolDescriptionLine :: string
  featureLines :: "string list"
  useCaseText :: string
  demoAnchor :: "anchor option"

text \<open>A tool card: the name, \<open>// {tool.description}\<close>, the features, the use case and,
  under \<open>{tool.demoLink && \<dots>}\<close>, the anchor \<open>try_demo\<close>. The guard is JavaScript
  truthiness: an absent link and the empty string render no anchor.\<close>

definition tool_card_of :: "tool \<Rightarrow> tool_card" where
  "tool_card_of t =
     \<lparr>toolHeading = toolName t, toolDescriptionLine = ''// '' @ toolDescription t,
      featureLines = toolFeatures t, useCaseText = toolUseCase t,
      demoAnchor = (case toolDemoLink t of
                      None \<Rightarrow> None
                    | Some h \<Rightarrow> if h = [] then None
                                else Some \<lparr>linkHref = h, linkTarget = ''_blank'',
                                           linkRel = ''noopener noreferrer'', linkLabel = ''try_demo''\<rparr>)\<rparr>"

record category_view =
  categoryHeading :: string
  categoryDescriptionLine :: string
  toolCards :: "tool_card list"

text \<open>The tool categories of the section, for the category array \<open>cats\<close>:
  \<open>./{category.category}\<close>, \<open>// {category.description}\<close> and a card per tool.\<close>

definition category_views :: "tool_category list \<Rightarrow> category_view list" where
  "category_views cats =
     map (\<lambda>c. \<lparr>categoryHeading = ''./'' @ category c,
               categoryDescriptionLine = ''// '' @ categoryDescription c,
               toolCards = map tool_card_of (categoryTools c)\<rparr>) cats"

record tools_view =
  categoryViews :: "category_view list"
  workflowCards :: "(string \<times> string \<times> string list) list"
  principleCards :: "(string \<times> string \<times> string list) list"

text \<open>The section: the categories, a card per workflow phase with \<open>./{phase.phase}\<close>,
  \<open>// {phase.description}\<close> and \<open>\<bullet> {activity}\<close> lines, and a card per PromptOps
  principle with \<open>./{principle.principle}\<close>, its description and its practices.\<close>

definition tools_render :: tools_view where
  "tools_render =
     \<lparr>categoryViews = category_views toolCategories,
      workflowCards = map (\<lambda>p. (''./'' @ phaseName p, ''// '' @ phaseDescription p,
                                map bullet_line (phaseActivities p))) developmentWorkflow,
      principleCards = map (\<lambda>p. (''./'' @ principleName p, ''// '' @ principleDescription p,
                                 principlePractices p)) promptOps\<rparr>"

text \<open>The anchors the categories render, in document order.\<close>

definition rendered_anchors :: "category_view list \<Rightarrow> anchor list" where
  "rendered_anchors vs = concat (map (\<lambda>v. List.map_filter demoAnchor (toolCards v)) vs)"

subsection \<open>Lemmas\<close>

lemma tool_card_anchor:
  "demoAnchor (tool_card_of t) = Some l \<Longrightarrow>
     toolDemoLink t = Some (linkHref l) \<and> linkHref l \<noteq> [] \<and> linkTarget l = ''_blank'' \<and>
     linkRel l = ''noopener noreferrer'' \<and> linkLabel l = ''try_demo''"
  by (auto simp: tool_card_of_def split: option.splits if_splits)

lemma tool_anchor_hrefs:
  "map linkHref (List.map_filter demoAnchor (map tool_card_of ts))
     = filter (\<lambda>h. h \<noteq> []) (List.map_filter toolDemoLink ts)"
  by (induction ts) (simp_all add: map_filter_simps tool_card_of_def split: option.split)

lemma rendered_anchors_tools:
  "rendered_anchors (category_views cats) = List.map_filter demoAnchor (map tool_card_of (concat (map categoryTools cats)))"
  by (induction cats) (simp_all add: rendered_anchors_def category_views_def map_filter_def)

lemma rel_tokens: "js_split CHR '' '' ''noopener noreferrer'' = [''noopener'', ''noreferrer'']"
  by code_simp

subsection \<open>Properties\<close>

text \<open>
  C33. The demo links are safe external links: for every category array, every anchor the
  categories render opens in a new browsing context (target \<open>_blank\<close>) with the link
  types \<open>noopener\<close> and \<open>noreferrer\<close>, so the opened page gets no handle on the
  application's window and no referrer; and the anchors are exactly the non-empty demo links
  of the tools, in order.
\<close>

theorem demo_links_safe:
  "(\<forall>l \<in> set (rendered_anchors (category_views cats)).
      linkTarget l = ''_blank'' \<and> {''noopener'', ''noreferrer''} \<subseteq> set (js_split CHR '' '' (linkRel l)) \<and>
      linkLabel l = ''try_demo'') \<and>
   map linkHref (rendered_anchors (category_views cats))
     = filter (\<lambda>h. h \<noteq> []) (List.map_filter toolDemoLink (concat (map categoryTools cats)))"
proof
  show "\<forall>l \<in> set (rendered_anchors (category_views cats)).
      linkTarget l = ''_blank'' \<and> {''noopener'', ''noreferrer''} \<subseteq> set (js_split CHR '' '' (linkRel l)) \<and>
      linkLabel l = ''try_demo''"
    using tool_card_anchor by (auto simp: rendered_anchors_tools in_map_filter rel_tokens)
  show "map linkHref (rendered_anchors (category_views cats))
     = filter (\<lambda>h. h \<noteq> []) (List.map_filter toolDemoLink (concat (map categoryTools cats)))"
    by (simp add: rendered_anchors_tools tool_anchor_hrefs)
qed

text \<open>The application's categories render one anchor, the demo of \<open>textgrad\<close>.\<close>

theorem demo_links_safe_witness:
  "map linkHref (rendered_anchors (categoryViews tools_render))
     = [''https://colab.research.google.com/drive/1ssJ90UlmdK0UNf01Fh8frwtRuXo3QWFo?usp=sharing''] \<and>
   map linkTarget (rendered_anchors (categoryViews tools_render)) = [''_blank''] \<and>
   map linkLabel (rendered_anchors (categoryViews tools_render)) = [''try_demo'']"
proof -
  have "filter (\<lambda>h. h \<noteq> []) (List.map_filter toolDemoLink (concat (map categoryTools toolCategories)))
     = [''https://colab.research.google.com/drive/1ssJ90UlmdK0UNf01Fh8frwtRuXo3QWFo?usp=sharing'']"
    by code_simp
  with demo_links_safe [of toolCategories]
  have all: "\<forall>l \<in> set (rendered_anchors (categoryViews tools_render)).
               linkTarget l = ''_blank'' \<and> linkLabel l = ''try_demo''"
    and hrefs: "map linkHref (rendered_anchors (categoryViews tools_render))
     = [''https://colab.research.google.com/drive/1ssJ90UlmdK0UNf01Fh8frwtRuXo3QWFo?usp=sharing'']"
    by (simp_all add: tools_render_def)
  from hrefs obtain l where "rendered_anchors (categoryViews tools_render) = [l]"
    by (auto simp: map_eq_Cons_conv)
  with all hrefs show ?thesis by simp
qed

end
