(* ===== verification/Spec2Isabelle.thy ===== *)
theory Spec2Isabelle
  imports ReactKeys Accents ArchView MethodsView FramingView HeroView TemplateSections Shell
    SummarySection FundamentalsSection TasksSection EvaluationSection ToolsSection
begin

text \<open>
  Verification development for the Prompt Engineering guide (repository
  \<open>prompt-101\<close>), a single-page React application written in TypeScript.

  \<^bold>\<open>The program.\<close> \<open>src/src/App.tsx\<close> holds the active section and the sidebar
  state and renders one section component at a time; \<open>src/src/components/Sidebar.tsx\<close>
  lists the sections and changes the active one. Most sections only render text. The
  components with behaviour are:
  \<^item> \<open>Examples.tsx\<close>: a registry of example prompts in categories, a browser that
    filters them by category and pages through them four at a time, and a guessing game
    that shows the first example of a random page and asks which prompting method it
    uses;
  \<^item> \<open>Introduction.tsx\<close>: a three-question quiz whose answers are scored and
    classified, and an architecture diagram whose components can be selected;
  \<^item> \<open>PromptingMethods.tsx\<close> and \<open>PsychologicalFraming.tsx\<close>: explorers that select a
    method or technique and one of its examples, with a prompt editor and tone experiments;
  \<^item> \<open>Hero.tsx\<close>: the landing section, with two buttons that navigate and a
    randomised code rain;
  \<^item> \<open>TakeawayTemplate.tsx\<close>: six template sections shown as numbered cards, and a
    button that copies a prompt template to the clipboard and briefly relabels itself.
  All state is React component state; every handler runs to completion, and the
  \<open>setState\<close> calls of one handler take effect together, so a handler is a function
  from state to state. React effects that run after a render are part of the event that
  caused the render.

  \<^bold>\<open>The library.\<close>
  \<^item> \<open>Prelude\<close>: the JavaScript library functions the components call
    (\<open>Array.prototype.slice\<close>, \<open>Math.ceil\<close> of a quotient,
    \<open>Math.floor(Math.random() * n)\<close>, the decimal text of a number, \<open>split\<close>,
    \<open>join\<close>, \<open>replace\<close> of a string and of white-space runs, \<open>toLowerCase\<close> and
    \<open>length\<close> on strings) and their facts, the facts shared by every list rendered with
    a highlighted element or numbered items, and a reader of hexadecimal literals.
    \<open>Math.random()\<close> is a parameter \<open>r\<close> with \<open>0 \<le> r < 1\<close>.
  \<^item> \<open>Registry\<close>: \<open>exampleCategories\<close>, \<open>allMethods\<close> and the flattened
    \<open>allExamples\<close> of \<open>Examples.tsx\<close>, transcribed field by field; the flattening keeps
    the registry's order and gives every example its own key.
  \<^item> \<open>Browse\<close>: the state of \<open>Examples\<close> (its six hooks), \<open>filteredExamples\<close>,
    \<open>totalPages\<close>, \<open>currentExamples\<close> and the browse handlers, with their
    specification \<open>filterByCategory\<close>/\<open>paginate\<close>: the pages cover the filtered list
    in order, each page holds one to four examples, \<open>totalPages\<close> is the ceiling of the
    quotient, the filter refines the specification for every filter but \<open>''''\<close>, and
    the specification's scenario A holds of every registry of its shape.
  \<^item> \<open>GuessGame\<close>: \<open>startGuessGame\<close>, \<open>submitGuess\<close>, \<open>nextRound\<close>, the round's
    example and its verdict.
  \<^item> \<open>ExamplesPage\<close>: the page as a state machine: a datatype of UI events, the
    enabling conditions read from the rendered buttons, the reachable states as an
    inductive predicate, and an invariant proved by rule induction (the page index stays
    a page, a shown guess is one of the offered methods). The results: every round has an
    example; a round whose method is not among the buttons can never be won; only six of
    the 22 examples can ever be a round's example.
  \<^item> \<open>Quiz\<close>: the answers, the scheduled \<open>setTimeout\<close> callbacks as a counter, the
    scoring with JavaScript's \<open>undefined\<close>, \<open>NaN\<close> and \<open>TypeError\<close> as values, the
    classification; the quiz as a state machine with its invariant (results are shown only
    when every question is answered, the score is between 0 and 10). For every list of
    answers, the result throws exactly when an answer names a missing question, and is
    \<open>prompt_wizard\<close> when an option is past its scores.
  \<^item> \<open>IntroView\<close>: what \<open>Introduction\<close> renders from the quiz (the question cards,
    whose buttons are enabled exactly while their question is unanswered, the looks of the option
    buttons, the results panel with its result object and icon, the navigation
    buttons, the motivation cards) and the quiz's progress: a measure of the work left drops
    by one with every enabled event, so the quiz terminates after at most four events and
    can always be brought to its results, after which no event is enabled. The result shown
    is the class of the sum of the chosen options' scores, whatever the order of answering,
    and the cards' buttons agree with the quiz's enabled events and its answers.
  \<^item> \<open>Router\<close>: \<open>App\<close>'s \<open>activeSection\<close> and \<open>sidebarCollapsed\<close>, the sidebar's
    items and collapse logic, \<open>renderContent\<close>, the hero's and the introduction's
    navigation buttons, the scroll effect, and the unmounted \<open>Navigation.tsx\<close>.
  \<^item> \<open>Architecture\<close>: the diagram of \<open>ArchitecturePlayground\<close>: its components and
    their connections, the Bezier arrows of \<open>renderDataFlowArrows\<close> and the hardcoded
    lines, and the selection as a state machine. For every component list one arrow is drawn
    per connection whose target exists, in data order; with the diagram's data every
    connection is drawn (and once more by the hardcoded lines) and the connections form an
    acyclic pipeline from the user input to the output processing; each control point sits
    on the perpendicular bisector of its arrow.
  \<^item> \<open>ArchView\<close>: what \<open>ArchitecturePlayground\<close> renders (the toggle label, the
    arrows, the component boxes with the words of their names, the legend, the indicator
    and the details panel with its connection chips). The words of each box join back to
    the component's name; in every reachable state at most the selected box is highlighted,
    the panel shows exactly the selected component, and every chip can be clicked.
  \<^item> \<open>Methods\<close>: the prompting-methods laboratory of \<open>PromptingMethods.tsx\<close>: the
    seven methods with their practice prompts, the comparison table, the five hooks, every
    handler (the clipboard's outcome a parameter, the scheduled clears of the copied label
    a counter) and the section as a state machine. The current example always exists when
    a method is selected; from every state, a copy loses its label to an earlier copy's
    clear or write.
  \<^item> \<open>MethodsView\<close>: what the laboratory renders: the overview with the comparison
    table and the method cards, the detail view with its example buttons and the workspace
    (prompts, copy label, editor with its character count in UTF-16 code units, analyze
    button and analysis panel). Every reachable detail view is complete; the analysis panel
    and the comparison table share one flag, so leaving an analysis opens the table.
  \<^item> \<open>Framing\<close>: the psychological-framing section of \<open>PsychologicalFraming.tsx\<close>:
    techniques, tone experiments with their responses, the modal, the response preview
    and the section as a state machine.
  \<^item> \<open>FramingView\<close>: what the framing section renders: the overview, the detail view
    with its example buttons \<open>Example 1..3\<close> and the current example, and the modal with
    its tone cards and preview. The modal only ever covers the overview, every reachable
    detail view is complete, and a tone chosen in one experiment stays selected in the
    next, whose preview then has no response.
  \<^item> \<open>Accents\<close>: the class names both explorers compute from an accent with
    \<open>split\<close> and \<open>replace\<close>: every accent of the data is \<open>text-c-400\<close> for a colour
    \<open>c\<close>, so each derived class names that colour, and in every reachable state the
    example buttons of a detail view never throw and highlight the selected example.
  \<^item> \<open>Hero\<close>: the code rain of \<open>Hero.tsx\<close>; its last line is never drawn.
  \<^item> \<open>HeroView\<close>: what the hero renders (the code rain, the two buttons, the feature
    and stat cards); in every reachable state that shows it both buttons open another
    section scrolled to the top.
  \<^item> \<open>TakeawayTemplate\<close>: the copy button of \<open>TakeawayTemplate.tsx\<close> with the
    clipboard promise, the DOM mutation of its callback and React's reset of
    \<open>event.currentTarget\<close>; the copied feedback never appears.
  \<^item> \<open>TemplateSections\<close>: the six template sections and their numbered cards. The
    copied template is the first five of them under the cards' numbers; the sixth is
    never copied.
  \<^item> \<open>Shell\<close>: what \<open>App\<close> renders around the section: the sidebar (width
    class, header, highlighted items with their labels while expanded) and the \<open>main\<close>
    element with its responsive left margin, with Tailwind's spacing classes and \<open>lg:\<close>
    breakpoint read in pixels; and the render of the unmounted top bar. The sidebar
    highlights exactly the item whose section is on screen. From 1024 pixels on the
    content's margin equals the sidebar's width; below, the content has no margin while
    the collapsed sidebar is 64 pixels wide.
  \<^item> \<open>SummarySection\<close>, \<open>FundamentalsSection\<close>, \<open>TasksSection\<close>,
    \<open>EvaluationSection\<close>, \<open>ToolsSection\<close>: the sections without state
    (\<open>ExecutiveSummary.tsx\<close>, \<open>Fundamentals.tsx\<close>, \<open>TaskSpecific.tsx\<close>,
    \<open>Evaluation.tsx\<close>, \<open>Tools.tsx\<close>): their constant arrays, transcribed field by field
    from the source, and what their \<open>.map\<close> blocks render from them. A task card's
    heading is the lowercased title with every run of white space replaced by an underscore,
    so it has no white space and the five headings are distinct; the workflow of an
    evaluation method is numbered from 1 without gaps; every link of a tool card opens in a
    new browsing context with \<open>noopener noreferrer\<close>, and the links are exactly the
    non-empty demo links.
  \<^item> \<open>Page\<close>: the composition: the router with the states of the examples page, the
    quiz, the diagram and the two explorers, which React resets when their section is left.
  \<^item> \<open>ReactKeys\<close>: the \<open>key\<close> props of every list rendered with keys other than
    the array index, per component, as functions of the component's state; in every
    state the keys of each list are distinct.
  This theory relates the components: in the composition each component stays in a state
  its own machine reaches, an unmounted section holds its initial state, and the landing
  section's stat cards are compared with the sections they count (the task count is right,
  the counts of methods and tools are not).

  \<^bold>\<open>Parameters.\<close> The guessing game's registry and method list are parameters of the
  state machine, so its invariant holds for every registry; the claims about the page as
  shipped instantiate them with \<open>exampleCategories\<close> and \<open>allMethods\<close>. Window widths
  and scroll offsets are natural numbers; the value of \<open>Math.random()\<close> is any real in
  \<open>[0, 1)\<close>. No fuel is needed: every handler is a total function and the state machines
  are inductive predicates. The one process that must end, the quiz, is shown to end by a
  measure (\<open>quiz_remaining\<close>, four in the initial state) rather than by fuel.

  \<^bold>\<open>Not modelled.\<close> Markup, styling and icons; the static headings and paragraphs
  written inline in the JSX of every section; the data fields that are only rendered by
  the stateful components (descriptions, tips, the technical details of the diagram's
  components, the neutral and framed texts of the framing examples, the example prompt of
  the template), while the stateless sections keep every text field of their arrays;
  \<open>Footer.tsx\<close>, which is constant markup without data or computation; the focus call on
  the prompt editor and the smooth scrolling, which are host effects; \<open>main.tsx\<close>, which
  only mounts \<open>App\<close>. JavaScript strings are character lists, a non-ASCII character as
  its UTF-8 bytes, and \<open>length\<close> counts the UTF-16 code units those bytes encode; the
  white space of a regular expression is read as ASCII white space, which covers every
  string it is applied to; JavaScript's floating-point arithmetic is read over the reals
  where the values are not small integers (the arrow geometry).
\<close>

text \<open>
  In the mounted application the page index of the examples page is always a page
  of the filtered registry: \<open>0 \<le> currentPage < totalPages\<close>.
\<close>

lemma page_examples_in_range:
  "page_reachable p \<Longrightarrow>
   0 \<le> currentPage (examplesPage p) \<and>
   currentPage (examplesPage p) < int (pages_of (flatten_examples exampleCategories) (examplesPage p))"
  using reachable_pages_pos [OF exampleCategories_browsable] reachable_page_ok
  by (fastforce simp: page_ok_def page_inv_def dest: page_reachable_inv)

lemma page_examples_in_range_example:
  "page_reachable (page_run page_init quiz_then_leave) \<and>
   0 \<le> currentPage (examplesPage (page_run page_init quiz_then_leave)) \<and>
   currentPage (examplesPage (page_run page_init quiz_then_leave))
     < int (pages_of (flatten_examples exampleCategories) (examplesPage (page_run page_init quiz_then_leave)))"
  using page_examples_in_range [OF quiz_then_leave_reachable] quiz_then_leave_reachable by simp

text \<open>
  Composing the components preserves each of them: in every reachable state of the
  mounted application, the router, the examples page, the quiz, the architecture diagram,
  the prompting-methods laboratory and the framing section are each in a state their own
  state machine reaches, so every invariant proved of a component holds in the
  application; in particular the page index of the examples page is always a page of the
  filtered registry, \<open>0 \<le> currentPage < totalPages\<close>.
\<close>

lemma page_components_reachable:
  "page_reachable p \<Longrightarrow>
   app_reachable (app p) \<and> examples_reachable exampleCategories allMethods (examplesPage p) \<and>
   quiz_reachable (quizPage p) \<and> arch_reachable (archPage p) \<and>
   methods_reachable (methodsPage p) \<and> framing_reachable (framingPage p) \<and>
   0 \<le> currentPage (examplesPage p) \<and>
   currentPage (examplesPage p) < int (pages_of (flatten_examples exampleCategories) (examplesPage p))"
proof -
  assume r: "page_reachable p"
  from page_reachable_inv [OF r] page_examples_in_range [OF r] show ?thesis
    by (simp add: page_inv_def)
qed

text \<open>
  A section component that is not mounted holds its initial state: whenever the
  examples page is entered, its filter is \<open>null\<close> and its page 0, and whenever the
  introduction is entered, the quiz has no answer and no diagram component is selected;
  the two explorers start with nothing selected. So leaving the introduction loses the
  quiz: a user who answers the three questions, which schedules the results, and opens
  another section before the callback fires finds on coming back a quiz with no answers
  and no result pending.
\<close>

lemma unmounted_state_is_initial:
  "(\<forall>p. page_reachable p \<longrightarrow>
     (mounted p \<noteq> ExamplesView \<longrightarrow> examplesPage p = examples_init) \<and>
     (mounted p \<noteq> IntroductionView \<longrightarrow> quizPage p = quiz_init \<and> archPage p = arch_init) \<and>
     (mounted p \<noteq> PromptingMethodsView \<longrightarrow> methodsPage p = methods_init) \<and>
     (mounted p \<noteq> PsychologicalFramingView \<longrightarrow> framingPage p = framing_init)) \<and>
   page_valid_run page_init quiz_then_leave \<and>
   pendingTimers (quizPage (page_run page_init (take 4 quiz_then_leave))) = 1 \<and>
   quizPage (page_run page_init quiz_then_leave) = quiz_init"
  apply (intro conjI)
  subgoal by (auto dest!: page_reachable_inv simp: page_inv_def)
  subgoal by code_simp
  subgoal by code_simp
  subgoal by code_simp
  done

text \<open>
  The stat cards of the landing section count what the guide holds: its
  \<open>0x05\<close> task categories are the five tasks of the task section, but its \<open>0x08\<close>
  advanced methods are more than the seven methods of the laboratory and of the examples'
  method list, and its \<open>0x0A\<close> tools and frameworks are more than the six tools of the
  tools section.
\<close>

lemma hero_stats_vs_sections:
  "map (\<lambda>s. parse_hex (statValue s)) heroStats = [Some 8, Some 5, Some 10] \<and>
   length tasks = 5 \<and> length promptingMethods = 7 \<and> length allMethods = 7 \<and>
   length (concat (map categoryTools toolCategories)) = 6"
  apply (intro conjI)
  subgoal by code_simp
  subgoal by (simp add: tasks_def)
  subgoal by (simp add: promptingMethods_def)
  subgoal by (simp add: allMethods_def)
  subgoal by (simp add: toolCategories_def)
  done

end
